(* ===== verification/Prelude.thy ===== *)
theory Prelude
  imports Complex_Main "HOL-Library.Multiset" "HOL-Library.List_Lexorder" "HOL-Library.Char_ord"
begin

text \<open>
  Shared vocabulary of the development: the fact collections the component theories fill,
  Go-level helpers (signed 32-bit wrap-around, decimal rendering of integers, maps built by
  a loop over a slice, \<open>strings.Split\<close>), and the sorting interface. Go's \<open>sort.Sort\<close> and
  \<open>sort.Slice\<close> promise a permutation sorted by the given comparison; \<open>sort_by\<close> is a stable
  sort with that contract and the locale \<open>strict_order\<close> carries what every client of a
  comparison needs: the result is a sorted permutation, and it is the only one as soon as
  the comparison separates the elements, so the choice of algorithm does not matter.
\<close>

section \<open>Collections of facts\<close>

named_theorems go_simps \<open>unfolding rules for the Go-level helpers\<close>
named_theorems status_simps \<open>unfolding rules for plugin statuses\<close>
named_theorems meta_simps \<open>what the operations keep of the object metadata\<close>

section \<open>Machine integers and rendering\<close>

definition wrap32 :: "int \<Rightarrow> int" where
  "wrap32 x = (x + 2 ^ 31) mod 2 ^ 32 - 2 ^ 31"

lemma wrap32_id: "- (2 ^ 31) \<le> x \<Longrightarrow> x < 2 ^ 31 \<Longrightarrow> wrap32 x = x"
  by (simp add: wrap32_def)

lemma wrap32_range: "- (2 ^ 31) \<le> wrap32 x" "wrap32 x < 2 ^ 31"
  using pos_mod_bound [of "2 ^ 32" "x + 2 ^ 31"] pos_mod_sign [of "2 ^ 32" "x + 2 ^ 31"]
  by (simp_all add: wrap32_def)

lemma wrap32_wrap32_add: "wrap32 (wrap32 x + y) = wrap32 (x + y)"
  unfolding wrap32_def by (simp add: algebra_simps mod_simps)

fun nat_digits :: "nat \<Rightarrow> string" where
  "nat_digits n =
     (if n < 10 then [char_of (48 + n)] else nat_digits (n div 10) @ [char_of (48 + n mod 10)])"

declare nat_digits.simps [simp del]

definition itoa :: "int \<Rightarrow> string" where
  "itoa i = (if i < 0 then ''-'' @ nat_digits (nat (- i)) else nat_digits (nat i))"

section \<open>Maps built by a loop over a slice\<close>

text \<open>
  \<open>for _, x := range xs { m[k(x)] = v(x) }\<close>: a later element overwrites an earlier one.
\<close>

definition build_map :: "('a \<Rightarrow> 'k) \<Rightarrow> ('a \<Rightarrow> 'v) \<Rightarrow> 'a list \<Rightarrow> ('k \<rightharpoonup> 'v)" where
  "build_map k v xs = foldl (\<lambda>m x. m(k x \<mapsto> v x)) Map.empty xs"

lemma foldl_upd_lookup:
  "foldl (\<lambda>m x. m(k x \<mapsto> v x)) m xs c =
     (case find (\<lambda>x. k x = c) (rev xs) of Some x \<Rightarrow> Some (v x) | None \<Rightarrow> m c)"
proof (induction xs rule: rev_induct)
  case Nil
  then show ?case by simp
next
  case (snoc x xs)
  then show ?case by simp
qed

lemma build_map_lookup [go_simps]:
  "build_map k v xs c = map_option v (find (\<lambda>x. k x = c) (rev xs))"
  by (simp add: build_map_def foldl_upd_lookup split: option.splits)

lemma dom_build_map [simp]: "dom (build_map k v xs) = k ` set xs"
proof -
  have "build_map k v xs c \<noteq> None \<longleftrightarrow> c \<in> k ` set xs" for c
    by (auto simp: build_map_lookup find_None_iff image_iff)
  then show ?thesis by (auto simp: dom_def)
qed

lemma build_map_None_iff: "build_map k v xs c = None \<longleftrightarrow> c \<notin> k ` set xs"
  by (metis dom_build_map domIff)

lemma build_map_SomeD: "build_map k v xs c = Some y \<Longrightarrow> \<exists>x\<in>set xs. k x = c \<and> v x = y"
  by (auto simp: build_map_lookup find_Some_iff) (metis nth_mem set_rev length_rev)

lemma build_map_distinct:
  assumes "distinct (map k xs)" and "x \<in> set xs"
  shows "build_map k v xs (k x) = Some (v x)"
proof -
  have "k x \<in> k ` set xs" using assms(2) by simp
  then obtain y where y: "build_map k v xs (k x) = Some y"
    using build_map_None_iff by (metis not_Some_eq)
  then obtain x' where "x' \<in> set xs" "k x' = k x" "v x' = y"
    by (blast dest: build_map_SomeD)
  with assms have "x' = x" by (meson distinct_map inj_onD)
  with y \<open>v x' = y\<close> show ?thesis by simp
qed

section \<open>Strings\<close>

text \<open>\<open>strings.Split(s, sep)\<close> for a separator of one byte.\<close>

fun split_on :: "char \<Rightarrow> string \<Rightarrow> string list" where
  "split_on sep [] = [[]]"
| "split_on sep (c # cs) =
     (if c = sep then [] # split_on sep cs
      else (case split_on sep cs of [] \<Rightarrow> [[c]] | w # ws \<Rightarrow> (c # w) # ws))"

lemma split_on_not_Nil [simp]: "split_on sep s \<noteq> []"
  by (induction s) (auto split: list.splits)

lemma split_on_absent: "sep \<notin> set s \<Longrightarrow> split_on sep s = [s]"
  by (induction s) auto

lemma split_on_append:
  "sep \<notin> set a \<Longrightarrow> split_on sep (a @ sep # s) = a # split_on sep s"
  by (induction a) auto

lemma length_split_on: "length (split_on sep s) = Suc (count_list s sep)"
  by (induction s) (auto split: list.splits)

lemma split_on_pair:
  "split_on sep s = [a, b] \<Longrightarrow> s = a @ sep # b \<and> sep \<notin> set a \<and> sep \<notin> set b"
proof (induction s arbitrary: a)
  case Nil
  then show ?case by simp
next
  case (Cons c cs)
  show ?case
  proof (cases "c = sep")
    case True
    with Cons.prems have ab: "a = []" "split_on sep cs = [b]" by simp_all
    then have "count_list cs sep = 0" using length_split_on [of sep cs] by simp
    then have "sep \<notin> set cs" by (simp add: count_list_0_iff)
    with ab True show ?thesis using split_on_absent by fastforce
  next
    case False
    with Cons.prems obtain w where w: "split_on sep cs = [w, b]" "a = c # w"
      by (auto split: list.splits)
    from Cons.IH [OF w(1)] w(2) False show ?thesis by simp
  qed
qed

section \<open>Sorting with a comparison\<close>

fun insert_by :: "('a \<Rightarrow> 'a \<Rightarrow> bool) \<Rightarrow> 'a \<Rightarrow> 'a list \<Rightarrow> 'a list" where
  "insert_by lt x [] = [x]"
| "insert_by lt x (y # ys) =
     (if lt y x then y # insert_by lt x ys else x # y # ys)"

definition sort_by :: "('a \<Rightarrow> 'a \<Rightarrow> bool) \<Rightarrow> 'a list \<Rightarrow> 'a list" where
  "sort_by lt xs = foldr (insert_by lt) xs []"

lemma mset_insert_by [simp]: "mset (insert_by lt x ys) = add_mset x (mset ys)"
  by (induction ys) auto

lemma mset_sort_by [simp]: "mset (sort_by lt xs) = mset xs"
  by (induction xs) (auto simp: sort_by_def)

lemma set_sort_by [simp]: "set (sort_by lt xs) = set xs"
  by (metis mset_sort_by set_mset_mset)

lemma length_sort_by [simp]: "length (sort_by lt xs) = length xs"
  by (metis mset_sort_by size_mset)

lemma distinct_map_sort_by [simp]: "distinct (map f (sort_by lt xs)) = distinct (map f xs)"
  by (metis mset_sort_by mset_map mset_eq_imp_distinct_iff)

lemma sort_by_simps [simp]:
  "sort_by lt [] = []" "sort_by lt (x # xs) = insert_by lt x (sort_by lt xs)"
  by (simp_all add: sort_by_def)

abbreviation sorted_by :: "('a \<Rightarrow> 'a \<Rightarrow> bool) \<Rightarrow> 'a list \<Rightarrow> bool" where
  "sorted_by lt \<equiv> sorted_wrt (\<lambda>a b. \<not> lt b a)"

locale strict_order =
  fixes lt :: "'a \<Rightarrow> 'a \<Rightarrow> bool"
  assumes irrefl: "\<not> lt x x"
    and trans: "lt x y \<Longrightarrow> lt y z \<Longrightarrow> lt x z"
    and neg_trans: "\<not> lt x y \<Longrightarrow> \<not> lt y z \<Longrightarrow> \<not> lt x z"
begin

lemma asym: "lt x y \<Longrightarrow> \<not> lt y x"
  using irrefl trans by blast

lemma sorted_insert_by: "sorted_by lt ys \<Longrightarrow> sorted_by lt (insert_by lt x ys)"
proof (induction ys)
  case Nil
  then show ?case by simp
next
  case (Cons y ys)
  have set_ins: "set (insert_by lt x ys) = insert x (set ys)"
    by (metis mset_insert_by set_mset_mset set_mset_add_mset_insert)
  show ?case
  proof (cases "lt y x")
    case True
    with Cons set_ins show ?thesis by (auto dest: asym)
  next
    case False
    with Cons.prems show ?thesis by (auto dest: neg_trans)
  qed
qed

lemma sorted_sort_by: "sorted_by lt (sort_by lt xs)"
  by (induction xs) (simp_all add: sorted_insert_by)

text \<open>
  A sorted permutation is unique where the comparison separates the elements, so the result
  does not depend on the algorithm (Go's is not stable).
\<close>

lemma sorted_unique:
  assumes "mset ys = mset zs" and "sorted_by lt ys" and "sorted_by lt zs"
    and "\<And>a b. a \<in> set ys \<Longrightarrow> b \<in> set ys \<Longrightarrow> a \<noteq> b \<Longrightarrow> lt a b \<or> lt b a"
  shows "ys = zs"
  using assms
proof (induction ys arbitrary: zs)
  case Nil
  then show ?case by simp
next
  case (Cons y ys)
  from Cons.prems(1) obtain z zs' where zs: "zs = z # zs'" by (cases zs) auto
  have sets: "set (y # ys) = set (z # zs')"
    using Cons.prems(1) zs by (metis set_mset_mset)
  have "y = z"
  proof (rule ccontr)
    assume ne: "y \<noteq> z"
    with sets have "z \<in> set ys" "y \<in> set zs'" by auto
    then have "\<not> lt z y" "\<not> lt y z"
      using Cons.prems(2,3) zs by auto
    with Cons.prems(4) [of y z] ne \<open>z \<in> set ys\<close> show False by simp
  qed
  with Cons.prems zs have "ys = zs'" by (intro Cons.IH) auto
  with \<open>y = z\<close> zs show ?case by simp
qed

lemma sort_by_unique:
  assumes "mset ys = mset xs" and "sorted_by lt ys"
    and "\<And>a b. a \<in> set xs \<Longrightarrow> b \<in> set xs \<Longrightarrow> a \<noteq> b \<Longrightarrow> lt a b \<or> lt b a"
  shows "ys = sort_by lt xs"
proof (rule sorted_unique)
  show "mset ys = mset (sort_by lt xs)" using assms(1) by simp
  show "lt a b \<or> lt b a" if "a \<in> set ys" "b \<in> set ys" "a \<noteq> b" for a b
    using that assms(1,3) by (metis set_mset_mset)
qed (simp_all add: assms(2) sorted_sort_by)

text \<open>A prefix of the sorted list holds nothing larger than what is left behind.\<close>

lemma take_drop_sort_by:
  assumes "a \<in> set (take n (sort_by lt xs))" and "b \<in> set (drop n (sort_by lt xs))"
  shows "\<not> lt b a"
proof -
  have "sorted_by lt (take n (sort_by lt xs) @ drop n (sort_by lt xs))"
    using sorted_sort_by by simp
  with assms show ?thesis unfolding sorted_wrt_append by blast
qed

lemma pullback: "strict_order (\<lambda>x y. lt (f x) (f y))"
  by unfold_locales (use irrefl trans neg_trans in blast)+

lemma dual: "strict_order (\<lambda>x y. lt y x)"
proof
  show "\<not> lt x x" for x by (rule irrefl)
  show "lt z x" if "lt y x" "lt z y" for x y z using that trans by blast
  show "\<not> lt z x" if "\<not> lt y x" "\<not> lt z y" for x y z using that neg_trans by blast
qed

end

text \<open>Comparisons by a key of a linearly ordered type, and comparisons that refine another.\<close>

lemma strict_order_key: "strict_order (\<lambda>x y. (f x :: 'b :: linorder) < f y)"
  by unfold_locales auto

lemma strict_order_lex:
  assumes "strict_order l1" and "strict_order l2"
  shows "strict_order (\<lambda>x y. l1 x y \<or> (\<not> l1 y x \<and> l2 x y))"
proof
  fix x y z
  show "\<not> (l1 x x \<or> \<not> l1 x x \<and> l2 x x)"
    using strict_order.irrefl [OF assms(1)] strict_order.irrefl [OF assms(2)] by blast
  show "l1 x z \<or> \<not> l1 z x \<and> l2 x z"
    if xy: "l1 x y \<or> \<not> l1 y x \<and> l2 x y" and yz: "l1 y z \<or> \<not> l1 z y \<and> l2 y z"
  proof (cases "l1 x z")
    case False
    have zx: "\<not> l1 z x"
      using xy yz strict_order.neg_trans [OF assms(1), of z y x] strict_order.asym [OF assms(1)]
      by blast
    have "\<not> l1 x y" "\<not> l1 y z"
      using xy yz False zx strict_order.neg_trans [OF assms(1)] strict_order.trans [OF assms(1)]
      by blast+
    then show ?thesis using xy yz zx strict_order.trans [OF assms(2), of x y z] by blast
  qed simp
  show "\<not> (l1 x z \<or> \<not> l1 z x \<and> l2 x z)"
    if xy: "\<not> (l1 x y \<or> \<not> l1 y x \<and> l2 x y)" and yz: "\<not> (l1 y z \<or> \<not> l1 z y \<and> l2 y z)"
  proof -
    have xz: "\<not> l1 x z" using xy yz strict_order.neg_trans [OF assms(1), of x y z] by blast
    have "\<not> l2 x z" if "\<not> l1 z x"
    proof -
      have "\<not> l1 y x"
      proof
        assume "l1 y x"
        with yz that strict_order.trans [OF assms(1)] strict_order.neg_trans [OF assms(1), of y z x]
        show False by blast
      qed
      moreover have "\<not> l1 z y"
      proof
        assume "l1 z y"
        with xy that strict_order.neg_trans [OF assms(1), of z x y] show False by blast
      qed
      ultimately show ?thesis using xy yz strict_order.neg_trans [OF assms(2), of x y z] by blast
    qed
    with xz show ?thesis by blast
  qed
qed

end
