(* ===== verification/Api_Types.thy ===== *)
theory Api_Types
  imports Prelude
begin

text \<open>
  The API objects the controllers work on (\<open>apis/placement/v1beta1\<close>, \<open>apis/cluster/v1beta1\<close>),
  the condition helpers (\<open>pkg/utils/condition\<close>) and the error categories
  (\<open>pkg/utils/controller/controller.go\<close>). A Go struct that embeds \<open>ObjectMeta\<close> is a record
  extending it. String enumerations are datatypes with a last constructor for any other
  string. A pointer is an \<open>option\<close>; reading through a nil pointer is the error \<open>Panic\<close>. Lists
  declared with \<open>listType=map, listMapKey=type\<close> (conditions) are maps from the type to the
  condition. Times and durations are integers in nanoseconds. Of an error only its
  category, what \<open>errors.Is\<close> and the \<open>apierrors.IsX\<close> predicates can tell apart, is kept.
\<close>

section \<open>Object metadata and conditions\<close>

record ObjectMeta =
  Name :: string
  Namespace :: string
  Labels :: "string \<rightharpoonup> string"
  Annotations :: "string \<rightharpoonup> string"
  Finalizers :: "string list"
  Generation :: int
  ResourceVersion :: nat
  DeletionTimestamp :: "int option"

datatype ConditionStatus = ConditionTrue | ConditionFalse | ConditionUnknown

record Condition =
  cond_Type :: string
  cond_Status :: ConditionStatus
  cond_ObservedGeneration :: int
  cond_LastTransitionTime :: int
  cond_Reason :: string
  cond_Message :: string

type_synonym conditions = "string \<rightharpoonup> Condition"

definition EqualCondition :: "Condition option \<Rightarrow> Condition option \<Rightarrow> bool" where
  "EqualCondition current desired =
     (case (current, desired) of
        (None, None) \<Rightarrow> True
      | (Some c, Some d) \<Rightarrow>
          cond_Type c = cond_Type d \<and> cond_Status c = cond_Status d \<and>
          cond_Reason c = cond_Reason d \<and>
          cond_ObservedGeneration c \<ge> cond_ObservedGeneration d
      | _ \<Rightarrow> False)"

definition IsConditionStatusTrue :: "Condition option \<Rightarrow> int \<Rightarrow> bool" where
  "IsConditionStatusTrue cond latestGeneration =
     (case cond of None \<Rightarrow> False
      | Some c \<Rightarrow> cond_Status c = ConditionTrue \<and> cond_ObservedGeneration c = latestGeneration)"

definition IsConditionStatusFalse :: "Condition option \<Rightarrow> int \<Rightarrow> bool" where
  "IsConditionStatusFalse cond latestGeneration =
     (case cond of None \<Rightarrow> False
      | Some c \<Rightarrow> cond_Status c = ConditionFalse \<and> cond_ObservedGeneration c = latestGeneration)"

lemma condition_status_exclusive:
  "IsConditionStatusTrue c g \<Longrightarrow> \<not> IsConditionStatusFalse c g"
  by (auto simp: IsConditionStatusTrue_def IsConditionStatusFalse_def split: option.splits)

text \<open>
  The contract of \<open>meta.SetStatusCondition\<close> of apimachinery: the condition of that type is set,
  with a transition time of its choice, and the others are kept.
\<close>

definition setsCondition :: "(conditions \<Rightarrow> Condition \<Rightarrow> conditions) \<Rightarrow> bool" where
  "setsCondition f \<longleftrightarrow>
     (\<forall>cs c. \<exists>t. f cs c = cs(cond_Type c \<mapsto> c\<lparr>cond_LastTransitionTime := t\<rparr>))"

section \<open>Errors and results\<close>

datatype api_error =
    NotFound | AlreadyExists | Conflict | ServiceUnavailable | ServerTimeout
  | OtherStatusError | Canceled | DeadlineExceeded | NonStatusError

datatype go_error =
    ErrUnexpectedBehavior | ErrExpectedBehavior | ErrAPIServerError | ErrUserError
  | ErrNoLatestPolicySnapshot | ErrMultipleActivePolicySnapshots | ErrStagedUpdatedAborted
  | ErrAPI api_error | ErrPlain string | Panic

type_synonym 'a result = "go_error + 'a"

text \<open>Sequencing: the first error ends the computation.\<close>

definition bindR :: "'a result \<Rightarrow> ('a \<Rightarrow> 'b result) \<Rightarrow> 'b result" where
  "bindR r f = (case r of Inl e \<Rightarrow> Inl e | Inr x \<Rightarrow> f x)"

lemma bindR_simps [simp]: "bindR (Inl e) f = Inl e" "bindR (Inr x) f = f x"
  by (simp_all add: bindR_def)

lemma bindR_eq_Inr: "bindR r f = Inr y \<longleftrightarrow> (\<exists>x. r = Inr x \<and> f x = Inr y)"
  by (cases r) auto

lemma bindR_eq_Inl: "bindR r f = Inl e \<longleftrightarrow> r = Inl e \<or> (\<exists>x. r = Inr x \<and> f x = Inl e)"
  by (cases r) auto

text \<open>Returning another error in place of the one of a call.\<close>

definition wrapR :: "(go_error \<Rightarrow> go_error) \<Rightarrow> 'a result \<Rightarrow> 'a result" where
  "wrapR w r = (case r of Inl e \<Rightarrow> Inl (w e) | Inr x \<Rightarrow> Inr x)"

lemma wrapR_simps [simp]:
  "wrapR w (Inl e) = Inl (w e)" "wrapR w (Inr x) = Inr x" "wrapR w r = Inr x \<longleftrightarrow> r = Inr x"
  by (simp_all add: wrapR_def split: sum.splits)

text \<open>A loop over a slice whose body may return early with an error.\<close>

fun foldR :: "('a \<Rightarrow> 's \<Rightarrow> 's result) \<Rightarrow> 'a list \<Rightarrow> 's \<Rightarrow> 's result" where
  "foldR f [] s = Inr s"
| "foldR f (x # xs) s = bindR (f x s) (foldR f xs)"

lemma foldR_append: "foldR f (xs @ ys) s = bindR (foldR f xs s) (foldR f ys)"
  by (induction xs arbitrary: s) (auto simp: bindR_def split: sum.splits)

lemma foldR_total:
  assumes "\<And>x s. x \<in> set xs \<Longrightarrow> P s \<Longrightarrow> \<exists>s'. f x s = Inr s' \<and> P s'" and "P s"
  shows "\<exists>s'. foldR f xs s = Inr s' \<and> P s'"
  using assms
proof (induction xs arbitrary: s)
  case (Cons x xs)
  then obtain s' where "f x s = Inr s'" "P s'" by (meson list.set_intros(1))
  with Cons.IH[of s'] Cons.prems show ?case by simp
qed simp

definition NewUnexpectedBehaviorError :: "go_error option \<Rightarrow> go_error option" where
  "NewUnexpectedBehaviorError e = (case e of None \<Rightarrow> None | Some _ \<Rightarrow> Some ErrUnexpectedBehavior)"

definition NewExpectedBehaviorError :: "go_error option \<Rightarrow> go_error option" where
  "NewExpectedBehaviorError e = (case e of None \<Rightarrow> None | Some _ \<Rightarrow> Some ErrExpectedBehavior)"

definition isUnexpectedCacheError :: "go_error \<Rightarrow> bool" where
  "isUnexpectedCacheError e =
     (case e of ErrAPI a \<Rightarrow> a = NonStatusError | _ \<Rightarrow> True)"

definition NewAPIServerError :: "bool \<Rightarrow> go_error option \<Rightarrow> go_error option" where
  "NewAPIServerError fromCache e =
     (case e of None \<Rightarrow> None
      | Some err \<Rightarrow>
          if fromCache \<and> isUnexpectedCacheError err then NewUnexpectedBehaviorError e
          else Some ErrAPIServerError)"

definition IsConflict :: "go_error option \<Rightarrow> bool" where
  "IsConflict e = (e = Some (ErrAPI Conflict))"

definition IsNotFound :: "go_error option \<Rightarrow> bool" where
  "IsNotFound e = (e = Some (ErrAPI NotFound))"

definition NewUpdateIgnoreConflictError :: "go_error option \<Rightarrow> go_error option" where
  "NewUpdateIgnoreConflictError e =
     (if \<not> IsConflict e then NewAPIServerError False e else NewExpectedBehaviorError e)"

definition NewDeleteIgnoreNotFoundError :: "go_error option \<Rightarrow> go_error option" where
  "NewDeleteIgnoreNotFoundError e =
     (if \<not> IsNotFound e then NewAPIServerError False e else None)"

lemmas error_defs =
  NewUnexpectedBehaviorError_def NewExpectedBehaviorError_def NewAPIServerError_def
  NewUpdateIgnoreConflictError_def NewDeleteIgnoreNotFoundError_def IsConflict_def IsNotFound_def

lemma error_None_iff [simp]:
  "NewUnexpectedBehaviorError e = None \<longleftrightarrow> e = None"
  "NewExpectedBehaviorError e = None \<longleftrightarrow> e = None"
  "NewAPIServerError b e = None \<longleftrightarrow> e = None"
  "NewUpdateIgnoreConflictError e = None \<longleftrightarrow> e = None"
  by (auto simp: error_defs split: option.splits)

record Result =
  Requeue :: bool
  RequeueAfter :: int

abbreviation noRequeue :: Result where
  "noRequeue \<equiv> \<lparr>Requeue = False, RequeueAfter = 0\<rparr>"

section \<open>Scheduling decisions and bindings\<close>

record ApiClusterScore =
  AffinityScore :: "int option"
  TopologySpreadScore :: "int option"

record ClusterDecision =
  ClusterName :: string
  Selected :: bool
  ApiScore :: "ApiClusterScore option"
  Reason :: string

datatype BindingState =
  BindingStateScheduled | BindingStateBound | BindingStateUnscheduled | BindingStateOther string

definition BindingState_of_string :: "string \<Rightarrow> BindingState" where
  "BindingState_of_string s =
     (if s = ''Scheduled'' then BindingStateScheduled
      else if s = ''Bound'' then BindingStateBound
      else if s = ''Unscheduled'' then BindingStateUnscheduled
      else BindingStateOther s)"

fun string_of_BindingState :: "BindingState \<Rightarrow> string" where
  "string_of_BindingState BindingStateScheduled = ''Scheduled''"
| "string_of_BindingState BindingStateBound = ''Bound''"
| "string_of_BindingState BindingStateUnscheduled = ''Unscheduled''"
| "string_of_BindingState (BindingStateOther s) = s"

lemma BindingState_roundtrip:
  "s \<in> {BindingStateScheduled, BindingStateBound, BindingStateUnscheduled} \<Longrightarrow>
   BindingState_of_string (string_of_BindingState s) = s"
  by (auto simp: BindingState_of_string_def)

record NamespacedName =
  nn_Name :: string
  nn_Namespace :: string

record ApplyStrategy =
  as_Type :: string
  as_ComparisonOption :: string
  as_WhenToApply :: string
  as_WhenToTakeOver :: string
  as_AllowCoOwnership :: bool
  as_ServerSideApplyConfig :: "bool option"

record ResourceBindingSpec =
  State :: BindingState
  ResourceSnapshotName :: string
  ResourceOverrideSnapshots :: "NamespacedName list"
  ClusterResourceOverrideSnapshots :: "string list"
  SchedulingPolicySnapshotName :: string
  TargetCluster :: string
  Decision :: ClusterDecision
  BindingApplyStrategy :: "ApplyStrategy option"

record Binding = ObjectMeta +
  Spec :: ResourceBindingSpec
  BindingConditions :: conditions

definition FleetPrefix :: string where
  "FleetPrefix = ''kubernetes-fleet.io/''"

definition SchedulerBindingCleanupFinalizer :: string where
  "SchedulerBindingCleanupFinalizer = FleetPrefix @ ''scheduler-crb-cleanup''"

definition SchedulerCleanupFinalizer :: string where
  "SchedulerCleanupFinalizer = FleetPrefix @ ''scheduler-cleanup''"

definition PreviousBindingStateAnnotation :: string where
  "PreviousBindingStateAnnotation = FleetPrefix @ ''previous-binding-state''"

definition PlacementTrackingLabel :: string where
  "PlacementTrackingLabel = FleetPrefix @ ''parent-CRP''"

definition CRPGenerationAnnotation :: string where
  "CRPGenerationAnnotation = FleetPrefix @ ''CRP-generation''"

definition NumberOfClustersAnnotation :: string where
  "NumberOfClustersAnnotation = FleetPrefix @ ''number-of-clusters''"

definition IsLatestSnapshotLabel :: string where
  "IsLatestSnapshotLabel = FleetPrefix @ ''is-latest-snapshot''"

text \<open>The target of a binding, and the bindings that have not been marked for deletion.\<close>

abbreviation target :: "Binding \<Rightarrow> string" where
  "target b \<equiv> TargetCluster (Spec b)"

abbreviation live :: "('a ObjectMeta_scheme) \<Rightarrow> bool" where
  "live x \<equiv> DeletionTimestamp x = None"

section \<open>Member clusters\<close>

type_synonym quantity = rat

record Taint =
  taint_Key :: string
  taint_Value :: string
  taint_Effect :: string

record AgentStatus =
  agent_Type :: string
  agent_Conditions :: conditions
  LastReceivedHeartbeat :: int

record MemberCluster = ObjectMeta +
  Taints :: "Taint list"
  AgentStatuses :: "AgentStatus list"
  ClusterConditions :: conditions
  Properties :: "string \<rightharpoonup> string"
  Capacity :: "string \<rightharpoonup> quantity"
  Allocatable :: "string \<rightharpoonup> quantity"
  Available :: "string \<rightharpoonup> quantity"
  Namespaces :: "(string \<rightharpoonup> string) option"

definition GetAgentStatus :: "MemberCluster \<Rightarrow> string \<Rightarrow> AgentStatus option" where
  "GetAgentStatus m agentType = find (\<lambda>s. agent_Type s = agentType) (AgentStatuses m)"

definition GetAgentCondition :: "MemberCluster \<Rightarrow> string \<Rightarrow> string \<Rightarrow> Condition option" where
  "GetAgentCondition m agentType conditionType =
     (case GetAgentStatus m agentType of None \<Rightarrow> None
      | Some s \<Rightarrow> agent_Conditions s conditionType)"

section \<open>Placement policies and policy snapshots\<close>

datatype PlacementType =
  PickAllPlacementType | PickNPlacementType | PickFixedPlacementType | OtherPlacementType string

record LabelSelectorRequirement =
  lsr_Key :: string
  lsr_Operator :: string
  lsr_Values :: "string list"

record LabelSelector =
  MatchLabels :: "(string \<times> string) list"
  MatchExpressions :: "LabelSelectorRequirement list"

datatype PropertySelectorOperator =
    PropertySelectorGreaterThan | PropertySelectorGreaterThanOrEqualTo
  | PropertySelectorEqualTo | PropertySelectorNotEqualTo
  | PropertySelectorLessThan | PropertySelectorLessThanOrEqualTo
  | PropertySelectorOther string

record PropertySelectorRequirement =
  psr_Name :: string
  psr_Operator :: PropertySelectorOperator
  psr_Values :: "string list"

datatype PropertySortOrder = Descending | Ascending | OtherSortOrder string

record PropertySorter =
  sorter_Name :: string
  SortOrder :: PropertySortOrder

text \<open>A nil property selector and one with no expression are both the empty list.\<close>

record ClusterSelectorTerm =
  TermLabelSelector :: "LabelSelector option"
  PropertySelector :: "PropertySelectorRequirement list option"
  TermPropertySorter :: "PropertySorter option"

record PreferredClusterSelector =
  Weight :: int
  Preference :: ClusterSelectorTerm

record ClusterAffinity =
  RequiredTerms :: "ClusterSelectorTerm list option"
  PreferredTerms :: "PreferredClusterSelector list"

datatype UnsatisfiableConstraintAction = DoNotSchedule | ScheduleAnyway | OtherAction string

record TopologySpreadConstraint =
  MaxSkew :: "int option"
  TopologyKey :: string
  WhenUnsatisfiable :: UnsatisfiableConstraintAction

datatype TolerationOperator =
  TolerationOpExists | TolerationOpEqual | OtherTolerationOp string

record Toleration =
  tol_Key :: string
  tol_Operator :: TolerationOperator
  tol_Value :: string
  tol_Effect :: string

record PlacementPolicy =
  Type :: PlacementType
  ClusterNames :: "string list"
  NumberOfClusters :: "int option"
  Affinity :: "ClusterAffinity option option"
  TopologySpreadConstraints :: "TopologySpreadConstraint list"
  Tolerations :: "Toleration list"

record PolicySnapshot = ObjectMeta +
  Policy :: "PlacementPolicy option"
  PolicyHash :: string
  ObservedCRPGeneration :: int
  PolicyConditions :: conditions
  ClusterDecisions :: "ClusterDecision list"

definition Tolerations_of :: "PolicySnapshot \<Rightarrow> Toleration list" where
  "Tolerations_of ps = (case Policy ps of Some p \<Rightarrow> Tolerations p | None \<Rightarrow> [])"

text \<open>\<open>policy.Affinity.ClusterAffinity\<close>, or nothing where a pointer on the way is nil.\<close>

definition cluster_affinity :: "PolicySnapshot \<Rightarrow> ClusterAffinity option" where
  "cluster_affinity ps =
     (case Policy ps of None \<Rightarrow> None
      | Some p \<Rightarrow> (case Affinity p of None \<Rightarrow> None | Some ca \<Rightarrow> ca))"

end
