(* ===== verification/Framework_Base.thy ===== *)
theory Framework_Base
  imports Api_Types
begin

text \<open>
  The vocabulary of the scheduling framework (\<open>pkg/scheduler/framework\<close>): statuses
  (\<open>status.go\<close>), cluster scores and their order (\<open>score.go\<close>), the cycle state the plugins
  share (\<open>cyclestate.go\<close>, \<open>cyclestateutils.go\<close>) and the plugin interfaces
  (\<open>interface.go\<close>). A nil status pointer is \<open>None\<close> and means success. The state value a
  plugin may store is a datatype with one constructor per plugin that stores one, so that
  the type assertion of the code is a match that can fail.
\<close>

section \<open>Statuses\<close>

datatype StatusCode =
  Success | internalError | ClusterUnschedulable | ClusterAlreadySelected | Skip

record Status_fields =
  statusCode :: StatusCode
  reasons :: "string list"
  err :: "go_error option"
  sourcePlugin :: string

type_synonym Status = "Status_fields option"

definition code :: "Status \<Rightarrow> StatusCode" where
  "code s = (case s of None \<Rightarrow> Success | Some f \<Rightarrow> statusCode f)"

definition IsSuccess :: "Status \<Rightarrow> bool" where
  "IsSuccess s = (code s = Success)"

definition IsInteralError :: "Status \<Rightarrow> bool" where
  "IsInteralError s = (code s = internalError)"

definition IsSkip :: "Status \<Rightarrow> bool" where
  "IsSkip s = (code s = Skip)"

definition IsClusterUnschedulable :: "Status \<Rightarrow> bool" where
  "IsClusterUnschedulable s = (code s = ClusterUnschedulable)"

definition IsClusterAlreadySelected :: "Status \<Rightarrow> bool" where
  "IsClusterAlreadySelected s = (code s = ClusterAlreadySelected)"

definition Reasons :: "Status \<Rightarrow> string list" where
  "Reasons s = (case s of None \<Rightarrow> [] | Some f \<Rightarrow> reasons f)"

fun statusCodeName :: "StatusCode \<Rightarrow> string" where
  "statusCodeName Success = ''Success''"
| "statusCodeName internalError = ''InternalError''"
| "statusCodeName ClusterUnschedulable = ''ClusterUnschedulable''"
| "statusCodeName ClusterAlreadySelected = ''ClusterAlreadySelected''"
| "statusCodeName Skip = ''Skip''"

fun error_text :: "go_error \<Rightarrow> string" where
  "error_text (ErrPlain m) = m"
| "error_text _ = ''error''"

fun joinStrings :: "string \<Rightarrow> string list \<Rightarrow> string" where
  "joinStrings sep [] = []"
| "joinStrings sep [x] = x"
| "joinStrings sep (x # y # xs) = x @ sep @ joinStrings sep (y # xs)"

definition StatusString :: "Status \<Rightarrow> string" where
  "StatusString s =
     (case s of
        None \<Rightarrow> statusCodeName (code s)
      | Some f \<Rightarrow>
          joinStrings '', ''
            ([statusCodeName (code s)] @ (case err f of None \<Rightarrow> [] | Some e \<Rightarrow> [error_text e]) @
             reasons f))"

definition AsError :: "Status \<Rightarrow> go_error option" where
  "AsError s =
     (if \<not> IsInteralError s then None else Some (ErrPlain ''plugin returned an error''))"

definition NewNonErrorStatus :: "StatusCode \<Rightarrow> string \<Rightarrow> string list \<Rightarrow> Status" where
  "NewNonErrorStatus c plugin rs =
     Some \<lparr>statusCode = c, reasons = rs, err = None, sourcePlugin = plugin\<rparr>"

definition FromError :: "go_error \<Rightarrow> string \<Rightarrow> string list \<Rightarrow> Status" where
  "FromError e plugin rs =
     Some \<lparr>statusCode = internalError, reasons = rs, err = Some e, sourcePlugin = plugin\<rparr>"

lemma code_simps [simp]:
  "code None = Success"
  "code (NewNonErrorStatus c p rs) = c"
  "code (FromError e p rs) = internalError"
  by (simp_all add: code_def NewNonErrorStatus_def FromError_def)

lemmas status_defs [status_simps] =
  IsSuccess_def IsInteralError_def IsSkip_def IsClusterUnschedulable_def
  IsClusterAlreadySelected_def

lemma AsError_None_iff [simp]: "AsError s = None \<longleftrightarrow> code s \<noteq> internalError"
  by (simp add: AsError_def IsInteralError_def)

section \<open>Scores\<close>

record ClusterScore =
  cs_TopologySpreadScore :: int
  cs_AffinityScore :: int
  ObsoletePlacementAffinityScore :: int

definition zeroScore :: ClusterScore where
  "zeroScore = \<lparr>cs_TopologySpreadScore = 0, cs_AffinityScore = 0,
                ObsoletePlacementAffinityScore = 0\<rparr>"

definition Add :: "ClusterScore \<Rightarrow> ClusterScore \<Rightarrow> ClusterScore" where
  "Add s1 s2 =
     \<lparr>cs_TopologySpreadScore = wrap32 (cs_TopologySpreadScore s1 + cs_TopologySpreadScore s2),
      cs_AffinityScore = wrap32 (cs_AffinityScore s1 + cs_AffinityScore s2),
      ObsoletePlacementAffinityScore =
        ObsoletePlacementAffinityScore s1 + ObsoletePlacementAffinityScore s2\<rparr>"

definition ScoreLess :: "ClusterScore \<Rightarrow> ClusterScore \<Rightarrow> bool" where
  "ScoreLess s1 s2 =
     (if cs_TopologySpreadScore s1 \<noteq> cs_TopologySpreadScore s2
      then cs_TopologySpreadScore s1 < cs_TopologySpreadScore s2
      else if cs_AffinityScore s1 \<noteq> cs_AffinityScore s2
      then cs_AffinityScore s1 < cs_AffinityScore s2
      else ObsoletePlacementAffinityScore s1 < ObsoletePlacementAffinityScore s2)"

record ScoredCluster =
  sc_Cluster :: MemberCluster
  sc_Score :: ClusterScore

definition ScoredClustersLess :: "ScoredCluster \<Rightarrow> ScoredCluster \<Rightarrow> bool" where
  "ScoredClustersLess a b =
     (if sc_Score a = sc_Score b then Name (sc_Cluster a) < Name (sc_Cluster b)
      else ScoreLess (sc_Score a) (sc_Score b))"

text \<open>Both comparisons are lexicographic combinations of linear orders on keys.\<close>

lemma ScoreLess_irrefl [simp]: "\<not> ScoreLess s s"
  by (simp add: ScoreLess_def)

lemma ScoreLess_total: "\<not> ScoreLess a b \<Longrightarrow> \<not> ScoreLess b a \<Longrightarrow> a = b"
  by (cases a; cases b) (simp add: ScoreLess_def split: if_splits)

lemma ScoreLess_lex:
  "ScoreLess = (\<lambda>a b. cs_TopologySpreadScore a < cs_TopologySpreadScore b \<or>
     (\<not> cs_TopologySpreadScore b < cs_TopologySpreadScore a \<and>
      (cs_AffinityScore a < cs_AffinityScore b \<or>
       (\<not> cs_AffinityScore b < cs_AffinityScore a \<and>
        ObsoletePlacementAffinityScore a < ObsoletePlacementAffinityScore b))))"
  by (rule ext)+ (simp add: ScoreLess_def, linarith)

interpretation score_order: strict_order ScoreLess
  unfolding ScoreLess_lex
  by (intro strict_order_lex strict_order_key)

lemma ScoredClustersLess_lex:
  "ScoredClustersLess = (\<lambda>a b. ScoreLess (sc_Score a) (sc_Score b) \<or>
     (\<not> ScoreLess (sc_Score b) (sc_Score a) \<and> Name (sc_Cluster a) < Name (sc_Cluster b)))"
proof (rule ext, rule ext)
  fix a b
  show "ScoredClustersLess a b \<longleftrightarrow> ScoreLess (sc_Score a) (sc_Score b) \<or>
     (\<not> ScoreLess (sc_Score b) (sc_Score a) \<and> Name (sc_Cluster a) < Name (sc_Cluster b))"
    using ScoreLess_total[of "sc_Score a" "sc_Score b"]
    by (cases "sc_Score a = sc_Score b") (simp_all add: ScoredClustersLess_def, blast)
qed

interpretation scored_clusters: strict_order ScoredClustersLess
  unfolding ScoredClustersLess_lex
  by (intro strict_order_lex strict_order_key strict_order.pullback[OF score_order.strict_order_axioms])

lemma ScoredClustersLess_total:
  "Name (sc_Cluster a) \<noteq> Name (sc_Cluster b) \<Longrightarrow>
   ScoredClustersLess a b \<or> ScoredClustersLess b a"
  using ScoreLess_total[of "sc_Score a" "sc_Score b"]
  by (auto simp: ScoredClustersLess_lex)

text \<open>Without overflow \<open>Add\<close> is componentwise addition.\<close>

definition score_fits :: "ClusterScore \<Rightarrow> bool" where
  "score_fits s \<longleftrightarrow> - (2 ^ 31) \<le> cs_TopologySpreadScore s \<and> cs_TopologySpreadScore s < 2 ^ 31 \<and>
     - (2 ^ 31) \<le> cs_AffinityScore s \<and> cs_AffinityScore s < 2 ^ 31"

lemma Add_zero: "score_fits s \<Longrightarrow> Add zeroScore s = s"
  by (cases s) (auto simp: Add_def zeroScore_def score_fits_def wrap32_id)

lemma Add_fits: "score_fits (Add s t)"
  using wrap32_range by (auto simp: score_fits_def Add_def)

section \<open>Cycle state\<close>

record observedMinMaxValues =
  minQ :: "quantity option"
  maxQ :: "quantity option"

record topologyPluginState =
  doNotScheduleConstraints :: "TopologySpreadConstraint list"
  scheduleAnywayConstraints :: "TopologySpreadConstraint list"
  violations :: "string \<rightharpoonup> string list"
  scores :: "string \<rightharpoonup> int"

datatype StateValue =
    AffinityState "string \<rightharpoonup> observedMinMaxValues"
  | TopologyState topologyPluginState

record CycleState =
  store :: "string \<rightharpoonup> StateValue"
  clusters :: "MemberCluster list"
  scheduledOrBoundBindings :: "string \<rightharpoonup> bool"
  obsoleteBindings :: "string \<rightharpoonup> bool"
  skippedFilterPlugins :: "string set"
  skippedScorePlugins :: "string set"
  desiredBatchSize :: int
  batchSizeLimit :: int

definition Read :: "CycleState \<Rightarrow> string \<Rightarrow> StateValue result" where
  "Read c k = (case store c k of Some v \<Rightarrow> Inr v | None \<Rightarrow> Inl (ErrPlain ''key is not found''))"

definition Write :: "CycleState \<Rightarrow> string \<Rightarrow> StateValue \<Rightarrow> CycleState" where
  "Write c k v = c\<lparr>store := (store c)(k \<mapsto> v)\<rparr>"

definition Delete :: "CycleState \<Rightarrow> string \<Rightarrow> CycleState" where
  "Delete c k = c\<lparr>store := (store c)(k := None)\<rparr>"

definition ListClusters :: "CycleState \<Rightarrow> MemberCluster list" where
  "ListClusters c = clusters c"

definition HasScheduledOrBoundBindingFor :: "CycleState \<Rightarrow> string \<Rightarrow> bool" where
  "HasScheduledOrBoundBindingFor c n = (scheduledOrBoundBindings c n = Some True)"

definition HasObsoleteBindingFor :: "CycleState \<Rightarrow> string \<Rightarrow> bool" where
  "HasObsoleteBindingFor c n = (obsoleteBindings c n = Some True)"

definition prepareScheduledOrBoundBindingsMap :: "Binding list list \<Rightarrow> string \<rightharpoonup> bool" where
  "prepareScheduledOrBoundBindingsMap sets = build_map target (\<lambda>_. True) (concat sets)"

definition prepareObsoleteBindingsMap :: "Binding list \<Rightarrow> string \<rightharpoonup> bool" where
  "prepareObsoleteBindingsMap bs = build_map target (\<lambda>_. True) bs"

definition NewCycleState ::
  "MemberCluster list \<Rightarrow> Binding list \<Rightarrow> Binding list list \<Rightarrow> CycleState" where
  "NewCycleState cs obsolete sched =
     \<lparr>store = Map.empty, clusters = cs,
      scheduledOrBoundBindings = prepareScheduledOrBoundBindingsMap sched,
      obsoleteBindings = prepareObsoleteBindingsMap obsolete,
      skippedFilterPlugins = {}, skippedScorePlugins = {},
      desiredBatchSize = 0, batchSizeLimit = 0\<rparr>"

lemma build_map_True [simp]:
  "build_map k (\<lambda>_. True) xs n = Some True \<longleftrightarrow> n \<in> k ` set xs"
proof -
  have "build_map k (\<lambda>_. True) xs n = Some True \<longleftrightarrow> n \<in> dom (build_map k (\<lambda>_. True) xs)"
    unfolding dom_def using build_map_SomeD[of k "\<lambda>_. True" xs n] by blast
  then show ?thesis by (simp only: dom_build_map)
qed

lemma NewCycleState_lookup [simp]:
  "HasScheduledOrBoundBindingFor (NewCycleState cs ob sb) n \<longleftrightarrow> n \<in> target ` set (concat sb)"
  "HasObsoleteBindingFor (NewCycleState cs ob sb) n \<longleftrightarrow> n \<in> target ` set ob"
  by (simp_all add: HasScheduledOrBoundBindingFor_def HasObsoleteBindingFor_def NewCycleState_def
      prepareScheduledOrBoundBindingsMap_def prepareObsoleteBindingsMap_def del: set_concat)

lemma Read_Write [simp]:
  "Read (Write c k v) k' = (if k' = k then Inr v else Read c k')"
  "Read (Delete c k) k = Inl (ErrPlain ''key is not found'')"
  by (simp_all add: Read_def Write_def Delete_def)

section \<open>Plugin interfaces\<close>

text \<open>
  A plugin function returns its status (and its outputs) or, as \<open>Inl Panic\<close>, the crash of a
  nil dereference.
\<close>

type_synonym PostBatchPlugin =
  "string \<times> (CycleState \<Rightarrow> PolicySnapshot \<Rightarrow> (int \<times> Status) result)"

type_synonym PrePlugin =
  "string \<times> (CycleState \<Rightarrow> PolicySnapshot \<Rightarrow> (CycleState \<times> Status) result)"

type_synonym FilterPlugin =
  "string \<times> (CycleState \<Rightarrow> PolicySnapshot \<Rightarrow> MemberCluster \<Rightarrow> Status result)"

type_synonym ScorePlugin =
  "string \<times> (CycleState \<Rightarrow> PolicySnapshot \<Rightarrow> MemberCluster \<Rightarrow>
     (ClusterScore option \<times> Status) result)"

record Profile =
  postBatchPlugins :: "PostBatchPlugin list"
  preFilterPlugins :: "PrePlugin list"
  filterPlugins :: "FilterPlugin list"
  preScorePlugins :: "PrePlugin list"
  scorePlugins :: "ScorePlugin list"

text \<open>
  The contracts the framework relies on. A Filter plugin answers success, cluster
  unschedulable, cluster already selected or an internal error; the framework reports any
  other status as an unknown one. A Score plugin answers success with a score, or an
  internal error. A Pre plugin answers success, skip or an internal error, and writes to the
  store only.
\<close>

lemma store_frame [simp]:
  "\<exists>f. st = st\<lparr>store := f\<rparr>" "\<exists>f. Write st k v = st\<lparr>store := f\<rparr>"
  by (rule exI[of _ "store st"], simp) (auto simp: Write_def)

locale filter_contract =
  fixes F :: "CycleState \<Rightarrow> PolicySnapshot \<Rightarrow> MemberCluster \<Rightarrow> Status result"
  assumes code_range: "F st ps c = Inr s \<Longrightarrow> code s \<noteq> Skip"
begin

lemma cases4:
  "F st ps c = Inr s \<Longrightarrow>
   IsSuccess s \<or> IsInteralError s \<or> IsClusterUnschedulable s \<or> IsClusterAlreadySelected s"
  using code_range[of st ps c s] by (cases "code s") (auto simp: status_simps)

end

locale score_contract =
  fixes S :: "CycleState \<Rightarrow> PolicySnapshot \<Rightarrow> MemberCluster \<Rightarrow>
                (ClusterScore option \<times> Status) result"
  assumes code_range: "S st ps c = Inr (sc, s) \<Longrightarrow> code s \<in> {Success, internalError}"
    and score_present: "S st ps c = Inr (sc, s) \<Longrightarrow> code s = Success \<Longrightarrow> sc \<noteq> None"
begin

lemma score_or_error:
  "S st ps c = Inr (sc, s) \<Longrightarrow> (\<exists>v. sc = Some v \<and> IsSuccess s) \<or> IsInteralError s"
  using code_range[of st ps c sc s] score_present[of st ps c sc s] by (auto simp: status_simps)

end

locale pre_contract =
  fixes P :: "CycleState \<Rightarrow> PolicySnapshot \<Rightarrow> (CycleState \<times> Status) result"
  assumes code_range: "P st ps = Inr (st', s) \<Longrightarrow> code s \<in> {Success, Skip, internalError}"
    and frame: "P st ps = Inr (st', s) \<Longrightarrow> \<exists>f. st' = st\<lparr>store := f\<rparr>"
begin

lemma keeps_view:
  assumes "P st ps = Inr (st', s)"
  shows "ListClusters st' = ListClusters st"
    and "HasScheduledOrBoundBindingFor st' = HasScheduledOrBoundBindingFor st"
    and "HasObsoleteBindingFor st' = HasObsoleteBindingFor st"
    and "skippedFilterPlugins st' = skippedFilterPlugins st"
    and "skippedScorePlugins st' = skippedScorePlugins st"
    and "desiredBatchSize st' = desiredBatchSize st"
    and "batchSizeLimit st' = batchSizeLimit st"
  using frame[OF assms]
  by (auto simp: ListClusters_def HasScheduledOrBoundBindingFor_def HasObsoleteBindingFor_def)

end

end
