(* ===== verification/Example_Objects.thy ===== *)
theory Example_Objects
  imports Api_Types
begin

text \<open>
  Concrete API objects the witnesses of the component theories share: a cluster with no
  data, a binding in a given state, a policy snapshot with a given policy.
\<close>

definition exampleCluster :: "string \<Rightarrow> MemberCluster" where
  "exampleCluster n =
     \<lparr>Name = n, Namespace = '''', Labels = Map.empty, Annotations = Map.empty, Finalizers = [],
      Generation = 1, ResourceVersion = 1, DeletionTimestamp = None, Taints = [],
      AgentStatuses = [], ClusterConditions = Map.empty, Properties = Map.empty,
      Capacity = Map.empty, Allocatable = Map.empty, Available = Map.empty, Namespaces = None\<rparr>"

definition exampleDecision :: "string \<Rightarrow> ClusterDecision" where
  "exampleDecision c =
     \<lparr>ClusterName = c, Selected = True,
      ApiScore = Some \<lparr>AffinityScore = Some 0, TopologySpreadScore = Some 0\<rparr>,
      Reason = ''picked by scheduling policy''\<rparr>"

definition exampleBinding :: "string \<Rightarrow> string \<Rightarrow> BindingState \<Rightarrow> string \<Rightarrow> Binding" where
  "exampleBinding n c s policy =
     \<lparr>Name = n, Namespace = '''', Labels = Map.empty, Annotations = Map.empty,
      Finalizers = [SchedulerBindingCleanupFinalizer], Generation = 1, ResourceVersion = 1,
      DeletionTimestamp = None,
      Spec = \<lparr>State = s, ResourceSnapshotName = ''r-0'', ResourceOverrideSnapshots = [],
              ClusterResourceOverrideSnapshots = [], SchedulingPolicySnapshotName = policy,
              TargetCluster = c, Decision = exampleDecision c, BindingApplyStrategy = None\<rparr>,
      BindingConditions = Map.empty\<rparr>"

definition examplePolicySpec :: "PlacementType \<Rightarrow> PlacementPolicy" where
  "examplePolicySpec ty =
     \<lparr>Type = ty, ClusterNames = [], NumberOfClusters = Some 1, Affinity = None,
      TopologySpreadConstraints = [], Tolerations = []\<rparr>"

definition examplePolicy :: "PlacementPolicy option \<Rightarrow> PolicySnapshot" where
  "examplePolicy p =
     \<lparr>Name = ''p-1'', Namespace = '''', Labels = Map.empty, Annotations = Map.empty,
      Finalizers = [], Generation = 1, ResourceVersion = 1, DeletionTimestamp = None,
      Policy = p, PolicyHash = '''', ObservedCRPGeneration = 1, PolicyConditions = Map.empty,
      ClusterDecisions = []\<rparr>"

lemmas example_defs =
  exampleCluster_def exampleDecision_def exampleBinding_def examplePolicySpec_def examplePolicy_def

end
