(* ===== verification/Framework_Utils.thy ===== *)
theory Framework_Utils
  imports Framework_Base Example_Objects
begin

text \<open>
  The decision procedures of the scheduling framework that need no API call:
  \<open>pkg/scheduler/framework/frameworkutils.go\<close>, the unique binding names of
  \<open>uniquename/uniquename.go\<close> and the placement keys of
  \<open>pkg/utils/controller/placement_resolver.go\<close>. Loops that append to slices are written with
  \<open>filter\<close>, \<open>map\<close> and \<open>take\<close>, which keep the order of the appends.
\<close>

section \<open>Placement keys and binding names\<close>

definition GetObjectKeyFromNamespaceName :: "string \<Rightarrow> string \<Rightarrow> string" where
  "GetObjectKeyFromNamespaceName ns name = (if ns = '''' then name else ns @ ''/'' @ name)"

definition ExtractNamespaceNameFromKeyStr :: "string \<Rightarrow> (string \<times> string) result" where
  "ExtractNamespaceNameFromKeyStr keyStr =
     (if CHR ''/'' \<in> set keyStr then
        (let parts = split_on CHR ''/'' keyStr in
         if length parts \<noteq> 2 then Inl ErrUnexpectedBehavior
         else if parts ! 0 = [] \<or> parts ! 1 = [] then Inl ErrUnexpectedBehavior
         else Inr (parts ! 0, parts ! 1))
      else if keyStr = [] then Inl ErrUnexpectedBehavior
      else Inr ('''', keyStr))"

text \<open>
  What naming takes from the Kubernetes libraries: the UUID drawn for the binding of a
  cluster and the check of DNS labels.
\<close>

record naming =
  NewUUID :: "string \<Rightarrow> string"
  IsDNS1123Label :: "string \<Rightarrow> bool"

definition NewBindingName :: "naming \<Rightarrow> string \<Rightarrow> string \<Rightarrow> string result" where
  "NewBindingName nm placementName clusterName =
     (let reservedSlots = 2 + 8; slotsPerSeg = (63 - reservedSlots) div 2;
          uniqueName = take slotsPerSeg placementName @ ''-'' @
                       take (slotsPerSeg + 1) clusterName @ ''-'' @ take 8 (NewUUID nm clusterName)
      in if \<not> IsDNS1123Label nm uniqueName
         then Inl (ErrPlain ''failed to format a unique RFC 1123 label name'')
         else Inr uniqueName)"

section \<open>Classification of bindings\<close>

record BindingSets =
  bound :: "Binding list"
  scheduled :: "Binding list"
  obsolete :: "Binding list"
  unscheduled :: "Binding list"
  dangling :: "Binding list"
  deleting :: "Binding list"

datatype BindingClass = Deleting | UnscheduledB | Dangling | Obsolete | ScheduledB | BoundB

definition bindingClass ::
  "PolicySnapshot \<Rightarrow> (string \<rightharpoonup> MemberCluster) \<Rightarrow> Binding \<Rightarrow> BindingClass option" where
  "bindingClass policy clusterMap b =
     (if DeletionTimestamp b \<noteq> None then Some Deleting
      else if State (Spec b) = BindingStateUnscheduled then Some UnscheduledB
      else if (case clusterMap (target b) of
                 None \<Rightarrow> True | Some c \<Rightarrow> DeletionTimestamp c \<noteq> None) then Some Dangling
      else if SchedulingPolicySnapshotName (Spec b) \<noteq> Name policy then Some Obsolete
      else if State (Spec b) = BindingStateScheduled then Some ScheduledB
      else if State (Spec b) = BindingStateBound then Some BoundB
      else None)"

definition classifyBindings ::
  "PolicySnapshot \<Rightarrow> Binding list \<Rightarrow> MemberCluster list \<Rightarrow> BindingSets" where
  "classifyBindings policy bs cs =
     (let clusterMap = build_map Name id cs;
          pick = (\<lambda>k. filter (\<lambda>b. bindingClass policy clusterMap b = Some k) bs)
      in \<lparr>bound = pick BoundB, scheduled = pick ScheduledB, obsolete = pick Obsolete,
          unscheduled = pick UnscheduledB, dangling = pick Dangling, deleting = pick Deleting\<rparr>)"

section \<open>Cross-referencing picked clusters and bindings\<close>

text \<open>
  A patch is the object it was computed from, with its resource version as the optimistic
  lock, and the updated object.
\<close>

record bindingWithPatch =
  updated :: Binding
  patchFrom :: Binding

definition quotedName :: "string \<Rightarrow> string" where
  "quotedName s = [CHR 0x22] @ s @ [CHR 0x22]"

definition succeededWithScoreMessage :: "string \<Rightarrow> int \<Rightarrow> int \<Rightarrow> string" where
  "succeededWithScoreMessage n a t =
     ''Successfully scheduled resources for placement in '' @ quotedName n @ '' (affinity score: '' @
     itoa a @ '', topology spread score: '' @ itoa t @ ''): picked by scheduling policy''"

definition succeededMessage :: "string \<Rightarrow> string" where
  "succeededMessage n =
     ''Successfully scheduled resources for placement in '' @ quotedName n @
     '': picked by scheduling policy''"

definition scoredDecision :: "ScoredCluster \<Rightarrow> ClusterDecision" where
  "scoredDecision sc =
     \<lparr>ClusterName = Name (sc_Cluster sc), Selected = True,
      ApiScore = Some \<lparr>AffinityScore = Some (cs_AffinityScore (sc_Score sc)),
                       TopologySpreadScore = Some (cs_TopologySpreadScore (sc_Score sc))\<rparr>,
      Reason = succeededWithScoreMessage (Name (sc_Cluster sc))
                 (cs_AffinityScore (sc_Score sc)) (cs_TopologySpreadScore (sc_Score sc))\<rparr>"

definition fixedDecision :: "string \<Rightarrow> ClusterDecision" where
  "fixedDecision n =
     \<lparr>ClusterName = n, Selected = True, ApiScore = None, Reason = succeededMessage n\<rparr>"

definition patchBindingFromScoredCluster ::
  "Binding \<Rightarrow> BindingState \<Rightarrow> ScoredCluster \<Rightarrow> PolicySnapshot \<Rightarrow> bindingWithPatch" where
  "patchBindingFromScoredCluster binding desiredState sc policy =
     \<lparr>updated = binding\<lparr>Spec := (Spec binding)
        \<lparr>State := desiredState, SchedulingPolicySnapshotName := Name policy,
         Decision := scoredDecision sc\<rparr>\<rparr>,
      patchFrom = binding\<rparr>"

definition patchBindingFromFixedCluster ::
  "Binding \<Rightarrow> BindingState \<Rightarrow> string \<Rightarrow> PolicySnapshot \<Rightarrow> bindingWithPatch" where
  "patchBindingFromFixedCluster binding desiredState clusterName policy =
     \<lparr>updated = binding\<lparr>Spec := (Spec binding)
        \<lparr>State := desiredState, SchedulingPolicySnapshotName := Name policy,
         Decision := fixedDecision clusterName\<rparr>\<rparr>,
      patchFrom = binding\<rparr>"

definition newBinding :: "string \<Rightarrow> string \<Rightarrow> string \<Rightarrow> ResourceBindingSpec \<Rightarrow> Binding" where
  "newBinding ns name placementName spec =
     \<lparr>Name = name, Namespace = ns, Labels = [PlacementTrackingLabel \<mapsto> placementName],
      Annotations = Map.empty, Finalizers = [SchedulerBindingCleanupFinalizer],
      Generation = 0, ResourceVersion = 0, DeletionTimestamp = None,
      Spec = spec, BindingConditions = Map.empty\<rparr>"

definition newBindingSpec :: "PolicySnapshot \<Rightarrow> string \<Rightarrow> ClusterDecision \<Rightarrow> ResourceBindingSpec" where
  "newBindingSpec policy cluster d =
     \<lparr>State = BindingStateScheduled, ResourceSnapshotName = '''', ResourceOverrideSnapshots = [],
      ClusterResourceOverrideSnapshots = [], SchedulingPolicySnapshotName = Name policy,
      TargetCluster = cluster, Decision = d, BindingApplyStrategy = None\<rparr>"

text \<open>\<open>generateBinding\<close> followed by \<open>SetBindingSpec\<close>.\<close>

definition generateBinding ::
  "naming \<Rightarrow> string \<Rightarrow> string \<Rightarrow> ResourceBindingSpec \<Rightarrow> Binding result" where
  "generateBinding nm placementKey clusterName spec =
     bindR (ExtractNamespaceNameFromKeyStr placementKey) (\<lambda>(placementNamespace, placementName).
       bindR (wrapR (\<lambda>_. ErrUnexpectedBehavior) (NewBindingName nm placementName clusterName))
         (\<lambda>bindingName. Inr (newBinding placementNamespace bindingName placementName spec)))"

text \<open>
  Restoring an unscheduled binding: the annotation with the previous state is removed from the
  listed object itself, before the patch is computed from it.
\<close>

definition restoredState :: "Binding \<Rightarrow> (BindingState \<times> Binding) result" where
  "restoredState b =
     (case Annotations b PreviousBindingStateAnnotation of
        None \<Rightarrow> Inl ErrUnexpectedBehavior
      | Some s \<Rightarrow>
          Inr (BindingState_of_string s,
               b\<lparr>Annotations := (Annotations b)(PreviousBindingStateAnnotation := None)\<rparr>))"

fun patchUnscheduled ::
  "(string \<rightharpoonup> ScoredCluster) \<Rightarrow> PolicySnapshot \<Rightarrow> Binding list \<Rightarrow> bindingWithPatch list result" where
  "patchUnscheduled pickedMap policy [] = Inr []"
| "patchUnscheduled pickedMap policy (b # bs) =
     (case pickedMap (target b) of
        None \<Rightarrow> patchUnscheduled pickedMap policy bs
      | Some sc \<Rightarrow>
          bindR (restoredState b) (\<lambda>(desiredState, b').
            bindR (patchUnscheduled pickedMap policy bs) (\<lambda>ps.
              Inr (patchBindingFromScoredCluster b' desiredState sc policy # ps))))"

fun createScored ::
  "naming \<Rightarrow> string \<Rightarrow> PolicySnapshot \<Rightarrow> string set \<Rightarrow> ScoredCluster list \<Rightarrow> Binding list result" where
  "createScored nm key policy checked [] = Inr []"
| "createScored nm key policy checked (sc # scs) =
     (if Name (sc_Cluster sc) \<in> checked then createScored nm key policy checked scs
      else bindR (generateBinding nm key (Name (sc_Cluster sc))
                    (newBindingSpec policy (Name (sc_Cluster sc)) (scoredDecision sc))) (\<lambda>b.
             bindR (createScored nm key policy checked scs) (\<lambda>bs. Inr (b # bs))))"

type_synonym manipulation = "Binding list \<times> Binding list \<times> bindingWithPatch list"

definition crossReferencePickedClustersAndDeDupBindings ::
  "naming \<Rightarrow> string \<Rightarrow> PolicySnapshot \<Rightarrow> ScoredCluster list \<Rightarrow> Binding list \<Rightarrow> Binding list \<Rightarrow>
   manipulation result" where
  "crossReferencePickedClustersAndDeDupBindings nm placementKey policy picked us obs =
     (let pickedMap = build_map (\<lambda>sc. Name (sc_Cluster sc)) id picked;
          toDelete = filter (\<lambda>b. pickedMap (target b) = None) obs;
          patchObsolete = map (\<lambda>b. patchBindingFromScoredCluster b (State (Spec b))
                                     (the (pickedMap (target b))) policy)
                            (filter (\<lambda>b. pickedMap (target b) \<noteq> None) obs);
          checked = target ` set obs \<union> target ` set us
      in bindR (patchUnscheduled pickedMap policy us) (\<lambda>patchU.
           bindR (createScored nm placementKey policy checked picked) (\<lambda>toCreate.
             Inr (toCreate, toDelete, patchObsolete @ patchU))))"

text \<open>
  The loop over the valid targets of a PickFixed placement. The map of unscheduled bindings
  holds the listed objects, so removing an annotation is visible to later iterations.
\<close>

fun referenceValid ::
  "naming \<Rightarrow> string \<Rightarrow> PolicySnapshot \<Rightarrow> string set \<Rightarrow> (string \<rightharpoonup> Binding) \<Rightarrow> (string \<rightharpoonup> Binding) \<Rightarrow>
   MemberCluster list \<Rightarrow> (Binding list \<times> bindingWithPatch list) result" where
  "referenceValid nm key policy sb obsMap usMap [] = Inr ([], [])"
| "referenceValid nm key policy sb obsMap usMap (c # cs) =
     (if Name c \<in> sb then referenceValid nm key policy sb obsMap usMap cs
      else case obsMap (Name c) of
        Some ob \<Rightarrow>
          bindR (referenceValid nm key policy sb obsMap usMap cs) (\<lambda>(cr, pa).
            Inr (cr, patchBindingFromFixedCluster ob (State (Spec ob)) (Name c) policy # pa))
      | None \<Rightarrow>
        (case usMap (Name c) of
           Some ub \<Rightarrow>
             bindR (restoredState ub) (\<lambda>(desiredState, ub').
               bindR (referenceValid nm key policy sb obsMap (usMap(Name c \<mapsto> ub')) cs) (\<lambda>(cr, pa).
                 Inr (cr, patchBindingFromFixedCluster ub' desiredState (Name c) policy # pa)))
         | None \<Rightarrow>
             bindR (generateBinding nm key (Name c)
                      (newBindingSpec policy (Name c) (fixedDecision (Name c)))) (\<lambda>b.
               bindR (referenceValid nm key policy sb obsMap usMap cs) (\<lambda>(cr, pa).
                 Inr (b # cr, pa)))))"

definition crossReferenceValidTargetsWithBindings ::
  "naming \<Rightarrow> string \<Rightarrow> PolicySnapshot \<Rightarrow> MemberCluster list \<Rightarrow> Binding list \<Rightarrow> Binding list \<Rightarrow>
   Binding list \<Rightarrow> Binding list \<Rightarrow> manipulation result" where
  "crossReferenceValidTargetsWithBindings nm key policy valid bnd sched us obs =
     (let sb = target ` set sched \<union> target ` set bnd;
          usMap = build_map target id us;
          obsMap = build_map target id obs;
          validTargets = Name ` set valid
      in bindR (referenceValid nm key policy sb obsMap usMap valid) (\<lambda>(toCreate, toPatch).
           Inr (toCreate, filter (\<lambda>b. target b \<notin> validTargets) obs, toPatch)))"

section \<open>Scheduling decisions and conditions\<close>

record filteredClusterWithStatus =
  fc_cluster :: MemberCluster
  fc_status :: Status

definition clustersDecisionArrayLengthLimitInAPI :: int where
  "clustersDecisionArrayLengthLimitInAPI = 1000"

text \<open>
  The loop over the binding sets: it takes bindings of a set while there are slots, subtracts
  the size of the set and stops when no slot is left.
\<close>

fun existingDecisions ::
  "int \<Rightarrow> Binding list list \<Rightarrow> ClusterDecision list \<times> string list \<times> int" where
  "existingDecisions slotsLeft [] = ([], [], slotsLeft)"
| "existingDecisions slotsLeft (bs # sets) =
     (let taken = take (nat slotsLeft) bs;
          slotsLeft' = slotsLeft - int (length bs)
      in if slotsLeft' \<le> 0
         then (map (Decision \<circ> Spec) taken, map target taken, slotsLeft')
         else case existingDecisions slotsLeft' sets of (ds, seen, left) \<Rightarrow>
                (map (Decision \<circ> Spec) taken @ ds, map target taken @ seen, left))"

definition notPickedDecision :: "ScoredCluster \<Rightarrow> ClusterDecision" where
  "notPickedDecision sc =
     (let n = Name (sc_Cluster sc); a = cs_AffinityScore (sc_Score sc);
          t = cs_TopologySpreadScore (sc_Score sc)
      in \<lparr>ClusterName = n, Selected = False,
          ApiScore = Some \<lparr>AffinityScore = Some a, TopologySpreadScore = Some t\<rparr>,
          Reason = ''Cluster '' @ quotedName n @ '' does not score high enough (affinity score: '' @
                   itoa a @ '', topology spread score: '' @ itoa t @ '')''\<rparr>)"

fun notPickedDecisions ::
  "string set \<Rightarrow> int \<Rightarrow> int \<Rightarrow> ScoredCluster list \<Rightarrow> ClusterDecision list \<times> int \<times> int" where
  "notPickedDecisions seen slotsLeft maxCount [] = ([], slotsLeft, maxCount)"
| "notPickedDecisions seen slotsLeft maxCount (sc # scs) =
     (if slotsLeft = 0 \<or> maxCount = 0 then ([], slotsLeft, maxCount)
      else if Name (sc_Cluster sc) \<in> seen then notPickedDecisions seen slotsLeft maxCount scs
      else case notPickedDecisions seen (slotsLeft - 1) (maxCount - 1) scs of (ds, left, m) \<Rightarrow>
             (notPickedDecision sc # ds, left, m))"

definition filteredDecisions ::
  "string set \<Rightarrow> int \<Rightarrow> int \<Rightarrow> filteredClusterWithStatus list \<Rightarrow> ClusterDecision list" where
  "filteredDecisions seen slotsLeft maxCount filtered =
     map (\<lambda>f. \<lparr>ClusterName = Name (fc_cluster f), Selected = False, ApiScore = None,
               Reason = StatusString (fc_status f)\<rparr>)
       (filter (\<lambda>f. Name (fc_cluster f) \<notin> seen) (take (nat (min maxCount slotsLeft)) filtered))"

definition newSchedulingDecisionsFromBindings ::
  "int \<Rightarrow> ScoredCluster list \<Rightarrow> filteredClusterWithStatus list \<Rightarrow> Binding list list \<Rightarrow>
   ClusterDecision list" where
  "newSchedulingDecisionsFromBindings maxCount notPicked filtered existing =
     (case existingDecisions clustersDecisionArrayLengthLimitInAPI existing of (ds1, seen, left1) \<Rightarrow>
      case notPickedDecisions (set seen) left1 maxCount notPicked of (ds2, left2, max2) \<Rightarrow>
        ds1 @ ds2 @ filteredDecisions (set seen) left2 max2 filtered)"

definition newScheduledCondition ::
  "PolicySnapshot \<Rightarrow> ConditionStatus \<Rightarrow> string \<Rightarrow> string \<Rightarrow> Condition" where
  "newScheduledCondition policy status reason message =
     \<lparr>cond_Type = ''Scheduled'', cond_Status = status, cond_ObservedGeneration = Generation policy,
      cond_LastTransitionTime = 0, cond_Reason = reason, cond_Message = message\<rparr>"

definition newScheduledConditionFromBindings ::
  "PolicySnapshot \<Rightarrow> int \<Rightarrow> Binding list list \<Rightarrow> Condition" where
  "newScheduledConditionFromBindings policy numOfClusters existing =
     (let count = int (sum_list (map length existing)) in
      if count < numOfClusters
      then newScheduledCondition policy ConditionFalse ''SchedulingPolicyUnfulfilled''
             (''could not find all clusters needed as specified by the scheduling policy, found '' @
              itoa count @ '' cluster(s) instead'')
      else newScheduledCondition policy ConditionTrue ''SchedulingPolicyFulfilled''
             (''found all cluster needed as specified by the scheduling policy, found '' @
              itoa count @ '' cluster(s)''))"

record invalidClusterWithReason =
  ic_cluster :: MemberCluster
  ic_reason :: string

definition newSchedulingDecisionsForPickFixedPlacementType ::
  "MemberCluster list \<Rightarrow> invalidClusterWithReason list \<Rightarrow> string list \<Rightarrow> ClusterDecision list" where
  "newSchedulingDecisionsForPickFixedPlacementType valid invalid notFound =
     map (\<lambda>c. fixedDecision (Name c)) valid @
     map (\<lambda>i. \<lparr>ClusterName = Name (ic_cluster i), Selected = False, ApiScore = None,
               Reason = ''Cluster '' @ quotedName (Name (ic_cluster i)) @
                        '' is not eligible for resource placement yet: '' @ ic_reason i\<rparr>) invalid @
     map (\<lambda>n. \<lparr>ClusterName = n, Selected = False, ApiScore = None,
               Reason = ''Specified cluster '' @ quotedName n @ '' is not found''\<rparr>) notFound"

definition equalDecisions :: "ClusterDecision list \<Rightarrow> ClusterDecision list \<Rightarrow> bool" where
  "equalDecisions current desired =
     (if length current \<noteq> length desired then False
      else let byCluster = build_map ClusterName id desired in
        list_all (\<lambda>d. byCluster (ClusterName d) = Some d) current)"

section \<open>Scaling and picking\<close>

definition shouldDownscale :: "PolicySnapshot \<Rightarrow> int \<Rightarrow> int \<Rightarrow> int \<Rightarrow> (bool \<times> int) result" where
  "shouldDownscale policy desired present obsoleteCount =
     (case Policy policy of
        None \<Rightarrow> Inl Panic
      | Some p \<Rightarrow>
          Inr (if Type p = PickNPlacementType \<and> desired \<le> present \<and>
                  present - desired + obsoleteCount > 0
               then (True, present - desired) else (False, 0)))"

text \<open>
  The comparison of two bindings reads the scores through pointers; \<open>None\<close> is the crash on a
  nil pointer. A binding with a score is compared with another one that has a score as soon
  as there are two of them.
\<close>

definition apiScoreValue :: "ApiClusterScore \<Rightarrow> ClusterScore option" where
  "apiScoreValue s =
     (case (AffinityScore s, TopologySpreadScore s) of
        (Some a, Some t) \<Rightarrow> Some (zeroScore\<lparr>cs_AffinityScore := a, cs_TopologySpreadScore := t\<rparr>)
      | _ \<Rightarrow> None)"

definition bindingLess :: "Binding \<Rightarrow> Binding \<Rightarrow> bool option" where
  "bindingLess a b =
     (case (ApiScore (Decision (Spec a)), ApiScore (Decision (Spec b))) of
        (None, None) \<Rightarrow> Some (target a < target b)
      | (None, Some _) \<Rightarrow> Some True
      | (Some _, None) \<Rightarrow> Some False
      | (Some sa, Some sb) \<Rightarrow>
          (case (apiScoreValue sa, apiScoreValue sb) of
             (Some ca, Some cb) \<Rightarrow>
               Some (if ca = cb then target a < target b else ScoreLess ca cb)
           | _ \<Rightarrow> None))"

definition bindingLt :: "Binding \<Rightarrow> Binding \<Rightarrow> bool" where
  "bindingLt a b = (bindingLess a b = Some True)"

definition sortByClusterScoreAndName :: "Binding list \<Rightarrow> Binding list result" where
  "sortByClusterScoreAndName bs =
     (if length (filter (\<lambda>b. ApiScore (Decision (Spec b)) \<noteq> None) bs) \<ge> 2 \<and>
         list_ex (\<lambda>b. case ApiScore (Decision (Spec b)) of
                        None \<Rightarrow> False | Some s \<Rightarrow> apiScoreValue s = None) bs
      then Inl Panic
      else Inr (sort_by bindingLt bs))"

definition shouldSchedule :: "int \<Rightarrow> int \<Rightarrow> bool" where
  "shouldSchedule desiredCount existingCount = (desiredCount > existingCount)"

definition calcNumOfClustersToSelect :: "int \<Rightarrow> int \<Rightarrow> int \<Rightarrow> int" where
  "calcNumOfClustersToSelect desired limit scored =
     (let num = desired;
          num = (if limit < num then limit else num);
          num = (if scored < num then scored else num)
      in num)"

text \<open>
  \<open>sort.Reverse\<close> exchanges the arguments of the comparison. A negative count would make the
  slice expression panic.
\<close>

definition pickTopNScoredClusters ::
  "ScoredCluster list \<Rightarrow> int \<Rightarrow> (ScoredCluster list \<times> ScoredCluster list) result" where
  "pickTopNScoredClusters scs N =
     (let srt = sort_by (\<lambda>a b. ScoredClustersLess b a) scs in
      if length srt = 0 \<or> N = 0 then Inr ([], srt)
      else if int (length srt) \<le> N then Inr (srt, [])
      else if N < 0 then Inl Panic
      else Inr (take (nat N) srt, drop (nat N) srt))"

definition shouldRequeue :: "int \<Rightarrow> int \<Rightarrow> int \<Rightarrow> bool" where
  "shouldRequeue desired limit bindingCount =
     (if desired > limit \<and> bindingCount = limit then True else False)"

section \<open>Keys and names: properties\<close>

text \<open>
  C31: A placement key splits back into the namespace and the name it was built from.
\<close>

theorem placement_key_roundtrip:
  assumes "CHR ''/'' \<notin> set ns" and "CHR ''/'' \<notin> set name" and "name \<noteq> []"
  shows "ExtractNamespaceNameFromKeyStr (GetObjectKeyFromNamespaceName ns name) = Inr (ns, name)"
  using assms split_on_append[of "CHR ''/''" ns name] split_on_absent[of "CHR ''/''" name]
  by (simp add: ExtractNamespaceNameFromKeyStr_def GetObjectKeyFromNamespaceName_def)

theorem placement_key_roundtrip_witness:
  "ExtractNamespaceNameFromKeyStr (GetObjectKeyFromNamespaceName ''ns'' ''rp'') = Inr (''ns'', ''rp'')"
  by (rule placement_key_roundtrip) auto

lemma NewBindingName_length:
  "NewBindingName nm p c = Inr n \<Longrightarrow> length n \<le> 63"
  by (auto simp: NewBindingName_def Let_def split: if_splits)

lemma generateBinding_shape:
  assumes "generateBinding nm key c spec = Inr b"
  shows "Spec b = spec \<and> live b \<and> Finalizers b = [SchedulerBindingCleanupFinalizer] \<and>
    Annotations b = Map.empty \<and> length (Name b) \<le> 63 \<and> IsDNS1123Label nm (Name b)"
proof -
  from assms obtain ns p n where "NewBindingName nm p c = Inr n" "b = newBinding ns n p spec"
    by (auto simp: generateBinding_def bindR_eq_Inr)
  then show ?thesis
    using NewBindingName_length[of nm p c n]
    by (auto simp: newBinding_def NewBindingName_def Let_def split: if_splits)
qed

section \<open>Classification: properties\<close>

lemma bindingClass_None:
  "bindingClass policy m b = None \<Longrightarrow>
   live b \<and> (\<exists>x. State (Spec b) = BindingStateOther x)"
  by (cases "State (Spec b)") (auto simp: bindingClass_def split: if_splits option.splits)

definition knownState :: "Binding \<Rightarrow> bool" where
  "knownState b \<longleftrightarrow> State (Spec b) \<in> {BindingStateScheduled, BindingStateBound, BindingStateUnscheduled}"

lemma mset_by_class:
  assumes "\<forall>b\<in>set bs. f b \<noteq> None"
  shows "mset bs = mset (filter (\<lambda>b. f b = Some BoundB) bs) + mset (filter (\<lambda>b. f b = Some ScheduledB) bs) +
    mset (filter (\<lambda>b. f b = Some Obsolete) bs) + mset (filter (\<lambda>b. f b = Some UnscheduledB) bs) +
    mset (filter (\<lambda>b. f b = Some Dangling) bs) + mset (filter (\<lambda>b. f b = Some Deleting) bs)"
  using assms
proof (induction bs)
  case (Cons b bs)
  then obtain k where "f b = Some k" by auto
  with Cons show ?case by (cases k) auto
qed simp

lemma classifyBindings_mset:
  assumes "\<forall>b\<in>set bs. knownState b"
  shows "mset bs = mset (bound (classifyBindings ps bs cs)) + mset (scheduled (classifyBindings ps bs cs)) +
    mset (obsolete (classifyBindings ps bs cs)) + mset (unscheduled (classifyBindings ps bs cs)) +
    mset (dangling (classifyBindings ps bs cs)) + mset (deleting (classifyBindings ps bs cs))"
proof -
  have "\<forall>b\<in>set bs. bindingClass ps (build_map Name id cs) b \<noteq> None"
    using assms bindingClass_None by (fastforce simp: knownState_def)
  from mset_by_class[OF this] show ?thesis by (simp add: classifyBindings_def Let_def)
qed

lemma classifyBindings_sets:
  assumes "s = classifyBindings ps bs cs"
  shows "\<forall>b\<in>set (deleting s). \<not> live b"
    and "\<forall>b\<in>set (unscheduled s). live b \<and> State (Spec b) = BindingStateUnscheduled"
    and "\<forall>b\<in>set (bound s) \<union> set (scheduled s). live b \<and> SchedulingPolicySnapshotName (Spec b) = Name ps \<and>
           (\<exists>c\<in>set cs. Name c = target b \<and> live c)"
    and "\<forall>b\<in>set (obsolete s). live b \<and> SchedulingPolicySnapshotName (Spec b) \<noteq> Name ps \<and>
           State (Spec b) \<noteq> BindingStateUnscheduled \<and> (\<exists>c\<in>set cs. Name c = target b \<and> live c)"
    and "\<forall>b\<in>set (bound s). State (Spec b) = BindingStateBound"
    and "\<forall>b\<in>set (scheduled s). State (Spec b) = BindingStateScheduled"
    and "\<forall>b\<in>set (dangling s). live b \<and> State (Spec b) \<noteq> BindingStateUnscheduled"
    and "set (bound s) \<union> set (scheduled s) \<union> set (obsolete s) \<union> set (unscheduled s) \<union>
         set (dangling s) \<union> set (deleting s) \<subseteq> set bs"
proof -
  note defs = assms classifyBindings_def Let_def bindingClass_def
  have present: "\<exists>c\<in>set cs. Name c = n \<and> live c"
    if "\<not> (case build_map Name id cs n of None \<Rightarrow> True | Some c \<Rightarrow> DeletionTimestamp c \<noteq> None)" for n
    using that by (auto split: option.splits dest!: build_map_SomeD)
  show "\<forall>b\<in>set (deleting s). \<not> live b" by (auto simp: defs split: if_splits)
  show "\<forall>b\<in>set (unscheduled s). live b \<and> State (Spec b) = BindingStateUnscheduled"
    by (auto simp: defs split: if_splits)
  show "\<forall>b\<in>set (bound s) \<union> set (scheduled s). live b \<and> SchedulingPolicySnapshotName (Spec b) = Name ps \<and>
           (\<exists>c\<in>set cs. Name c = target b \<and> live c)"
    using present by (auto simp: defs split: if_splits)
  show "\<forall>b\<in>set (obsolete s). live b \<and> SchedulingPolicySnapshotName (Spec b) \<noteq> Name ps \<and>
           State (Spec b) \<noteq> BindingStateUnscheduled \<and> (\<exists>c\<in>set cs. Name c = target b \<and> live c)"
    using present by (auto simp: defs split: if_splits)
  show "\<forall>b\<in>set (bound s). State (Spec b) = BindingStateBound"
    "\<forall>b\<in>set (scheduled s). State (Spec b) = BindingStateScheduled"
    by (auto simp: defs split: if_splits)
  show "\<forall>b\<in>set (dangling s). live b \<and> State (Spec b) \<noteq> BindingStateUnscheduled"
    by (auto simp: defs split: if_splits)
  show "set (bound s) \<union> set (scheduled s) \<union> set (obsolete s) \<union> set (unscheduled s) \<union>
         set (dangling s) \<union> set (deleting s) \<subseteq> set bs" by (auto simp: defs)
qed


definition exampleBindings :: "Binding list" where
  "exampleBindings =
     [exampleBinding ''b1'' ''a'' BindingStateBound ''p-1'',
      exampleBinding ''b2'' ''b'' BindingStateScheduled ''p-0'',
      exampleBinding ''b3'' ''c'' BindingStateUnscheduled ''p-1'']"


section \<open>Cross-referencing: properties\<close>

abbreviation scName :: "ScoredCluster \<Rightarrow> string" where
  "scName sc \<equiv> Name (sc_Cluster sc)"

definition freshBinding :: "PolicySnapshot \<Rightarrow> Binding \<Rightarrow> bool" where
  "freshBinding policy b \<longleftrightarrow> live b \<and> State (Spec b) = BindingStateScheduled \<and>
     SchedulingPolicySnapshotName (Spec b) = Name policy \<and>
     SchedulerBindingCleanupFinalizer \<in> set (Finalizers b) \<and>
     ClusterName (Decision (Spec b)) = target b \<and> Selected (Decision (Spec b))"

lemma createScored_spec:
  assumes "createScored nm key policy checked scs = Inr bs"
  shows "map target bs = filter (\<lambda>n. n \<notin> checked) (map scName scs) \<and>
    (\<forall>b\<in>set bs. freshBinding policy b)"
  using assms
proof (induction scs arbitrary: bs)
  case (Cons sc scs)
  show ?case
  proof (cases "scName sc \<in> checked")
    case False
    with Cons.prems obtain b bs' where
      b: "generateBinding nm key (scName sc) (newBindingSpec policy (scName sc) (scoredDecision sc)) = Inr b"
      and rest: "createScored nm key policy checked scs = Inr bs'" and bs: "bs = b # bs'"
      by (auto simp: bindR_eq_Inr)
    from generateBinding_shape[OF b] have "target b = scName sc" "freshBinding policy b"
      by (simp_all add: newBindingSpec_def freshBinding_def scoredDecision_def)
    with Cons.IH[OF rest] bs False show ?thesis by simp
  qed (use Cons in simp)
qed simp

definition refreshed :: "PolicySnapshot \<Rightarrow> bindingWithPatch \<Rightarrow> bool" where
  "refreshed policy p \<longleftrightarrow>
     SchedulingPolicySnapshotName (Spec (updated p)) = Name policy \<and>
     TargetCluster (Spec (updated p)) = TargetCluster (Spec (patchFrom p)) \<and>
     ClusterName (Decision (Spec (updated p))) = target (updated p) \<and>
     Annotations (updated p) = Annotations (patchFrom p)"

lemma restoredState_Inr:
  "restoredState b = Inr (s, b') \<Longrightarrow>
   Spec b' = Spec b \<and> Annotations b' PreviousBindingStateAnnotation = None \<and>
   (\<exists>x. Annotations b PreviousBindingStateAnnotation = Some x \<and> s = BindingState_of_string x)"
  by (auto simp: restoredState_def split: option.splits)

lemma pickedMap_scName:
  "build_map scName id picked n = Some sc \<Longrightarrow> scName sc = n \<and> sc \<in> set picked"
  by (auto dest!: build_map_SomeD)

lemma patchUnscheduled_spec:
  assumes "patchUnscheduled m policy us = Inr ps" and "\<And>n sc. m n = Some sc \<Longrightarrow> scName sc = n"
  shows "map (\<lambda>p. target (updated p)) ps = filter (\<lambda>n. m n \<noteq> None) (map target us) \<and>
    (\<forall>p\<in>set ps. refreshed policy p)"
  using assms(1)
proof (induction us arbitrary: ps)
  case (Cons b us)
  show ?case
  proof (cases "m (target b)")
    case (Some sc)
    with Cons.prems obtain s b' ps' where
      r: "restoredState b = Inr (s, b')" and
      rest: "patchUnscheduled m policy us = Inr ps'" and
      ps: "ps = patchBindingFromScoredCluster b' s sc policy # ps'"
      by (auto simp: bindR_eq_Inr)
    from assms(2)[OF Some] Some restoredState_Inr[OF r] Cons.IH[OF rest] ps show ?thesis
      by (simp add: patchBindingFromScoredCluster_def refreshed_def scoredDecision_def)
  qed (use Cons in simp)
qed simp

lemma crossReferencePicked_spec:
  assumes "crossReferencePickedClustersAndDeDupBindings nm key policy picked us obs = Inr (cr, de, pa)"
  shows "map target cr = filter (\<lambda>n. n \<notin> target ` set obs \<union> target ` set us) (map scName picked)"
    and "de = filter (\<lambda>b. target b \<notin> scName ` set picked) obs"
    and "map (\<lambda>p. target (updated p)) pa = filter (\<lambda>n. n \<in> scName ` set picked) (map target (obs @ us))"
    and "\<forall>b\<in>set cr. freshBinding policy b"
    and "\<forall>p\<in>set pa. refreshed policy p"
proof -
  let ?m = "build_map scName id picked"
  from assms obtain pu where
    pu: "patchUnscheduled ?m policy us = Inr pu" and
    cr: "createScored nm key policy (target ` set obs \<union> target ` set us) picked = Inr cr" and
    de: "de = filter (\<lambda>b. ?m (target b) = None) obs" and
    pa: "pa = map (\<lambda>b. patchBindingFromScoredCluster b (State (Spec b)) (the (?m (target b))) policy)
                (filter (\<lambda>b. ?m (target b) \<noteq> None) obs) @ pu"
    by (auto simp: crossReferencePickedClustersAndDeDupBindings_def Let_def bindR_eq_Inr)
  show "map target cr = filter (\<lambda>n. n \<notin> target ` set obs \<union> target ` set us) (map scName picked)"
    "\<forall>b\<in>set cr. freshBinding policy b" using createScored_spec[OF cr] by auto
  show "de = filter (\<lambda>b. target b \<notin> scName ` set picked) obs"
    unfolding de by (simp add: build_map_None_iff)
  have some: "scName (the (?m (target b))) = target b" if "?m (target b) \<noteq> None" for b
    using that pickedMap_scName by force
  have u: "map (\<lambda>p. target (updated p)) pu = filter (\<lambda>n. ?m n \<noteq> None) (map target us)"
    "\<forall>p\<in>set pu. refreshed policy p"
    using patchUnscheduled_spec[OF pu] pickedMap_scName by blast+
  have in_iff: "?m n \<noteq> None \<longleftrightarrow> n \<in> scName ` set picked" for n
    by (simp only: build_map_None_iff not_not)
  show "map (\<lambda>p. target (updated p)) pa = filter (\<lambda>n. n \<in> scName ` set picked) (map target (obs @ us))"
    unfolding pa map_append filter_append u(1) map_map
    by (simp add: patchBindingFromScoredCluster_def in_iff filter_map o_def del: not_None_eq)
  have "refreshed policy (patchBindingFromScoredCluster b (State (Spec b)) (the (?m (target b))) policy)"
    if "?m (target b) \<noteq> None" for b
    using some[OF that]
    by (simp add: patchBindingFromScoredCluster_def refreshed_def scoredDecision_def)
  then show "\<forall>p\<in>set pa. refreshed policy p"
    using u(2) unfolding pa by (simp add: ball_Un del: not_None_eq)
qed

lemma mset_filter_split: "mset (filter (\<lambda>x. \<not> P x) xs) + mset (filter P xs) = mset xs"
  by (induction xs) auto

lemma mset_filter_swap:
  assumes "distinct xs" and "distinct ys"
  shows "mset (filter (\<lambda>x. x \<in> set ys) xs) = mset (filter (\<lambda>y. y \<in> set xs) ys)"
  using assms by (subst set_eq_iff_mset_eq_distinct[symmetric]) auto

text \<open>
  C11: Cross-referencing gives every picked cluster exactly one request: a creation when no
  obsolete or unscheduled binding targets it, else one patch of that binding. Created
  bindings are live, in the Scheduled state and carry the scheduler's finalizer; created and
  patched ones refer to the current policy snapshot. Exactly the obsolete bindings of clusters
  that were not picked are to be unscheduled.
\<close>

theorem crossReferencePicked_exactly_once:
  assumes "crossReferencePickedClustersAndDeDupBindings nm key policy picked us obs = Inr (cr, de, pa)"
    and "distinct (map scName picked)" and "distinct (map target (obs @ us))"
  shows "mset (map target cr) + mset (map (\<lambda>p. target (updated p)) pa) = mset (map scName picked) \<and>
    set (map target cr) \<inter> target ` (set obs \<union> set us) = {} \<and>
    (\<forall>b\<in>set cr. freshBinding policy b) \<and> (\<forall>p\<in>set pa. refreshed policy p) \<and>
    de = filter (\<lambda>b. target b \<notin> scName ` set picked) obs"
proof -
  let ?P = "map scName picked" and ?T = "map target (obs @ us)"
  note spec = crossReferencePicked_spec[OF assms(1)]
  have cr: "map target cr = filter (\<lambda>n. n \<notin> set ?T) ?P"
    using spec(1) by (simp add: image_Un)
  have pa: "mset (map (\<lambda>p. target (updated p)) pa) = mset (filter (\<lambda>n. n \<in> set ?T) ?P)"
    using spec(3) mset_filter_swap[OF assms(3,2)] by simp
  have "mset (map target cr) + mset (map (\<lambda>p. target (updated p)) pa) = mset ?P"
    unfolding cr pa by (rule mset_filter_split)
  moreover have "set (map target cr) \<inter> target ` (set obs \<union> set us) = {}"
    unfolding spec(1) by auto
  ultimately show ?thesis using spec(2,4,5) by blast
qed

text \<open>The same for the fixed targets.\<close>

lemma referenceValid_spec:
  assumes "referenceValid nm key policy sb obsMap usMap cs = Inr (cr, pa)"
    and "\<forall>n b. obsMap n = Some b \<longrightarrow> target b = n" and "\<forall>n b. usMap n = Some b \<longrightarrow> target b = n"
  shows "map target cr = filter (\<lambda>n. n \<notin> sb \<and> obsMap n = None \<and> usMap n = None) (map Name cs) \<and>
    map (\<lambda>p. target (updated p)) pa =
      filter (\<lambda>n. n \<notin> sb \<and> \<not> (obsMap n = None \<and> usMap n = None)) (map Name cs) \<and>
    (\<forall>b\<in>set cr. freshBinding policy b) \<and> (\<forall>p\<in>set pa. refreshed policy p)"
  using assms(1,3)
proof (induction cs arbitrary: usMap cr pa)
  case (Cons c cs)
  show ?case
  proof (cases "Name c \<in> sb")
    case sb: False
    show ?thesis
    proof (cases "obsMap (Name c)")
      case obs: (Some ob)
      with Cons.prems sb obtain pa' where
        rest: "referenceValid nm key policy sb obsMap usMap cs = Inr (cr, pa')" and
        pa: "pa = patchBindingFromFixedCluster ob (State (Spec ob)) (Name c) policy # pa'"
        by (auto simp: bindR_eq_Inr)
      from assms(2) obs have "target ob = Name c" by simp
      with Cons.IH[OF rest Cons.prems(2)] pa sb obs show ?thesis
        by (simp add: patchBindingFromFixedCluster_def refreshed_def fixedDecision_def)
    next
      case obs: None
      show ?thesis
      proof (cases "usMap (Name c)")
        case us: (Some ub)
        with Cons.prems sb obs obtain s ub' pa' where
          r: "restoredState ub = Inr (s, ub')" and
          rest: "referenceValid nm key policy sb obsMap (usMap(Name c \<mapsto> ub')) cs = Inr (cr, pa')" and
          pa: "pa = patchBindingFromFixedCluster ub' s (Name c) policy # pa'"
          by (auto simp: bindR_eq_Inr)
        have ub': "target ub' = Name c" using restoredState_Inr[OF r] Cons.prems(2) us by simp
        have none: "(usMap(Name c \<mapsto> ub')) n = None \<longleftrightarrow> usMap n = None" for n using us by simp
        have "\<forall>n b. (usMap(Name c \<mapsto> ub')) n = Some b \<longrightarrow> target b = n"
          using Cons.prems(2) ub' by simp
        from Cons.IH[OF rest this, unfolded none] pa sb obs us ub' show ?thesis
          by (simp add: patchBindingFromFixedCluster_def refreshed_def fixedDecision_def)
      next
        case us: None
        with Cons.prems sb obs obtain b cr' where
          b: "generateBinding nm key (Name c) (newBindingSpec policy (Name c) (fixedDecision (Name c))) = Inr b"
          and rest: "referenceValid nm key policy sb obsMap usMap cs = Inr (cr', pa)" and cr: "cr = b # cr'"
          by (auto simp: bindR_eq_Inr)
        from generateBinding_shape[OF b] have "target b = Name c" "freshBinding policy b"
          by (simp_all add: newBindingSpec_def freshBinding_def fixedDecision_def)
        with Cons.IH[OF rest Cons.prems(2)] cr sb obs us show ?thesis by simp
      qed
    qed
  qed (use Cons in simp)
qed simp

lemma crossReferenceValid_spec:
  assumes "crossReferenceValidTargetsWithBindings nm key policy valid bnd sched us obs = Inr (cr, de, pa)"
  defines "T \<equiv> target ` (set obs \<union> set us)" and "sb \<equiv> target ` (set sched \<union> set bnd)"
  shows "map target cr = filter (\<lambda>n. n \<notin> sb \<and> n \<notin> T) (map Name valid)"
    and "map (\<lambda>p. target (updated p)) pa = filter (\<lambda>n. n \<notin> sb \<and> n \<in> T) (map Name valid)"
    and "\<forall>b\<in>set cr. freshBinding policy b" and "\<forall>p\<in>set pa. refreshed policy p"
    and "de = filter (\<lambda>b. target b \<notin> Name ` set valid) obs"
proof -
  let ?o = "build_map target id obs" and ?u = "build_map target id us"
  have keys: "\<forall>n b. ?o n = Some b \<longrightarrow> target b = n" "\<forall>n b. ?u n = Some b \<longrightarrow> target b = n"
    by (auto dest!: build_map_SomeD)
  from assms(1) have
    rv: "referenceValid nm key policy (target ` set sched \<union> target ` set bnd) ?o ?u valid = Inr (cr, pa)"
    and de: "de = filter (\<lambda>b. target b \<notin> Name ` set valid) obs"
    by (auto simp: crossReferenceValidTargetsWithBindings_def Let_def bindR_eq_Inr)
  note spec = referenceValid_spec[OF rv keys]
  have T: "?o n = None \<and> ?u n = None \<longleftrightarrow> n \<notin> T" for n
    by (auto simp: build_map_None_iff T_def)
  show "map target cr = filter (\<lambda>n. n \<notin> sb \<and> n \<notin> T) (map Name valid)"
    "map (\<lambda>p. target (updated p)) pa = filter (\<lambda>n. n \<notin> sb \<and> n \<in> T) (map Name valid)"
    "\<forall>b\<in>set cr. freshBinding policy b" "\<forall>p\<in>set pa. refreshed policy p"
    using spec unfolding T not_not by (simp_all add: sb_def image_Un)
  show "de = filter (\<lambda>b. target b \<notin> Name ` set valid) obs" by (rule de)
qed

text \<open>
  C26: For a PickFixed placement every valid target without a scheduled or bound binding gets
  exactly one request, a creation when no other binding targets it and a patch otherwise;
  targets with a scheduled or bound binding are left alone.
\<close>

theorem crossReferenceValid_exactly_once:
  assumes "crossReferenceValidTargetsWithBindings nm key policy valid bnd sched us obs = Inr (cr, de, pa)"
  shows "mset (map target cr) + mset (map (\<lambda>p. target (updated p)) pa) =
      mset (filter (\<lambda>n. n \<notin> target ` (set sched \<union> set bnd)) (map Name valid)) \<and>
    set (map target cr) \<inter> target ` (set obs \<union> set us \<union> set sched \<union> set bnd) = {} \<and>
    (\<forall>b\<in>set cr. freshBinding policy b) \<and> (\<forall>p\<in>set pa. refreshed policy p) \<and>
    de = filter (\<lambda>b. target b \<notin> Name ` set valid) obs"
proof -
  note spec = crossReferenceValid_spec[OF assms]
  let ?T = "target ` (set obs \<union> set us)" and ?s = "target ` (set sched \<union> set bnd)"
  have cr: "map target cr = filter (\<lambda>n. \<not> n \<in> ?T) (filter (\<lambda>n. n \<notin> ?s) (map Name valid))"
    unfolding spec(1) filter_filter ..
  have pa: "map (\<lambda>p. target (updated p)) pa = filter (\<lambda>n. n \<in> ?T) (filter (\<lambda>n. n \<notin> ?s) (map Name valid))"
    unfolding spec(2) filter_filter ..
  have "mset (map target cr) + mset (map (\<lambda>p. target (updated p)) pa) =
      mset (filter (\<lambda>n. n \<notin> ?s) (map Name valid))"
    unfolding cr pa by (rule mset_filter_split)
  moreover have "set (map target cr) \<inter> target ` (set obs \<union> set us \<union> set sched \<union> set bnd) = {}"
    unfolding spec(1) by auto
  ultimately show ?thesis using spec(3,4,5) by blast
qed

text \<open>
  C37: The patch of a restored binding never removes the annotation with the previous state
  from the stored object, although the code drops it for that purpose: it is dropped from the
  object the patch is computed from as well, and a merge patch leaves keys on which the two
  objects agree as they are.
\<close>

theorem previous_state_annotation_survives:
  assumes "\<And>from to srv k. from k = to k \<Longrightarrow> merge from to srv k = srv k"
    and "crossReferencePickedClustersAndDeDupBindings nm key policy picked us obs = Inr (cr, de, pa)"
  shows "\<forall>p\<in>set pa. merge (Annotations (patchFrom p)) (Annotations (updated p)) stored
           PreviousBindingStateAnnotation = stored PreviousBindingStateAnnotation"
  using crossReferencePicked_spec(5)[OF assms(2)] assms(1) by (auto simp: refreshed_def)

section \<open>Examples\<close>

definition exampleNaming :: naming where
  "exampleNaming = \<lparr>NewUUID = \<lambda>c. ''0123456789'' @ c, IsDNS1123Label = \<lambda>_. True\<rparr>"

definition exampleScored :: "string \<Rightarrow> int \<Rightarrow> ScoredCluster" where
  "exampleScored n a =
     \<lparr>sc_Cluster = exampleCluster n, sc_Score = zeroScore\<lparr>cs_AffinityScore := a\<rparr>\<rparr>"

lemma scName_exampleScored [simp]: "scName (exampleScored n a) = n"
  by (simp add: exampleScored_def exampleCluster_def)

lemma target_exampleBinding [simp]: "target (exampleBinding n c s p) = c"
  by (simp add: exampleBinding_def)

definition exampleUnscheduled :: Binding where
  "exampleUnscheduled = (exampleBinding ''b4'' ''c'' BindingStateUnscheduled ''p-0'')
     \<lparr>Annotations := [PreviousBindingStateAnnotation \<mapsto> ''Bound'']\<rparr>"

lemma target_exampleUnscheduled [simp]: "target exampleUnscheduled = ''c''"
  by (simp add: exampleUnscheduled_def exampleBinding_def)

lemma exampleCrossReference:
  "\<exists>cr de pa. crossReferencePickedClustersAndDeDupBindings exampleNaming ''crp'' (examplePolicy None)
     [exampleScored ''a'' 1, exampleScored ''c'' 0] [exampleUnscheduled]
     [exampleBinding ''b2'' ''b'' BindingStateScheduled ''p-0''] = Inr (cr, de, pa) \<and> length pa = 1"
  by (simp add: crossReferencePickedClustersAndDeDupBindings_def build_map_def restoredState_def
      exampleUnscheduled_def exampleBinding_def generateBinding_def NewBindingName_def
      ExtractNamespaceNameFromKeyStr_def exampleNaming_def Let_def)

theorem crossReferencePicked_exactly_once_witness:
  "\<exists>cr de pa. crossReferencePickedClustersAndDeDupBindings exampleNaming ''crp'' (examplePolicy None)
     [exampleScored ''a'' 1, exampleScored ''c'' 0] [exampleUnscheduled]
     [exampleBinding ''b2'' ''b'' BindingStateScheduled ''p-0''] = Inr (cr, de, pa) \<and>
     mset (map target cr) + mset (map (\<lambda>p. target (updated p)) pa) = {#''a'', ''c''#}"
proof -
  from exampleCrossReference obtain cr de pa where
    r: "crossReferencePickedClustersAndDeDupBindings exampleNaming ''crp'' (examplePolicy None)
     [exampleScored ''a'' 1, exampleScored ''c'' 0] [exampleUnscheduled]
     [exampleBinding ''b2'' ''b'' BindingStateScheduled ''p-0''] = Inr (cr, de, pa)" by blast
  from crossReferencePicked_exactly_once[OF r] r show ?thesis by auto
qed

theorem previous_state_annotation_survives_witness:
  "\<exists>cr de pa p. crossReferencePickedClustersAndDeDupBindings exampleNaming ''crp'' (examplePolicy None)
     [exampleScored ''a'' 1, exampleScored ''c'' 0] [exampleUnscheduled]
     [exampleBinding ''b2'' ''b'' BindingStateScheduled ''p-0''] = Inr (cr, de, pa) \<and> p \<in> set pa \<and>
     (\<lambda>k. if Annotations (patchFrom p) k = Annotations (updated p) k
          then Annotations exampleUnscheduled k else Annotations (updated p) k)
       PreviousBindingStateAnnotation = Some ''Bound''"
proof -
  from exampleCrossReference obtain cr de pa where
    r: "crossReferencePickedClustersAndDeDupBindings exampleNaming ''crp'' (examplePolicy None)
     [exampleScored ''a'' 1, exampleScored ''c'' 0] [exampleUnscheduled]
     [exampleBinding ''b2'' ''b'' BindingStateScheduled ''p-0''] = Inr (cr, de, pa)"
    and "length pa = 1" by blast
  then obtain p where p: "p \<in> set pa" by (cases pa) auto
  have "Annotations exampleUnscheduled PreviousBindingStateAnnotation = Some ''Bound''"
    by (simp add: exampleUnscheduled_def)
  moreover have "\<forall>p\<in>set pa. (\<lambda>k. if Annotations (patchFrom p) k = Annotations (updated p) k
          then Annotations exampleUnscheduled k else Annotations (updated p) k)
       PreviousBindingStateAnnotation = Annotations exampleUnscheduled PreviousBindingStateAnnotation"
    by (rule previous_state_annotation_survives
        [where merge = "\<lambda>from to srv k. if from k = to k then srv k else to k", OF _ r]) simp
  ultimately show ?thesis using p r by (intro exI[of _ cr] exI[of _ de] exI[of _ pa] exI[of _ p]) auto
qed

theorem crossReferenceValid_exactly_once_witness:
  "\<exists>cr de pa. crossReferenceValidTargetsWithBindings exampleNaming ''crp'' (examplePolicy None)
     [exampleCluster ''a'', exampleCluster ''c''] [] [] [exampleUnscheduled] [] = Inr (cr, de, pa) \<and>
     mset (map target cr) + mset (map (\<lambda>p. target (updated p)) pa) = {#''a'', ''c''#}"
proof -
  have "\<exists>cr de pa. crossReferenceValidTargetsWithBindings exampleNaming ''crp'' (examplePolicy None)
     [exampleCluster ''a'', exampleCluster ''c''] [] [] [exampleUnscheduled] [] = Inr (cr, de, pa)"
    by (simp add: crossReferenceValidTargetsWithBindings_def build_map_def restoredState_def
      exampleUnscheduled_def exampleBinding_def exampleCluster_def generateBinding_def NewBindingName_def
      ExtractNamespaceNameFromKeyStr_def exampleNaming_def Let_def)
  then obtain cr de pa where
    r: "crossReferenceValidTargetsWithBindings exampleNaming ''crp'' (examplePolicy None)
     [exampleCluster ''a'', exampleCluster ''c''] [] [] [exampleUnscheduled] [] = Inr (cr, de, pa)" by blast
  from crossReferenceValid_exactly_once[OF r] r show ?thesis by (auto simp: exampleCluster_def)
qed

end
