(* ===== verification/Hub.thy ===== *)
theory Hub
  imports Framework_Utils
begin

text \<open>
  Programs that call the API server of the hub cluster. The server is not part of the
  repository: it is the record \<open>hub\<close> of the calls the controllers make, each a function on an
  opaque world, which may contain the actions of other clients between two calls. A program
  maps a world to a result and the world after it. \<open>retry.OnError\<close> of client-go runs a function
  again while its error is retriable and attempts are left; the number of attempts
  (\<open>DefaultBackoff.Steps\<close>) is a field of the record. Requests the code issues in parallel in an
  error group are executed in the order of the list, all of them, and the first error is
  returned; a context cancelled by an earlier error shows as an error of the later call.
\<close>

type_synonym ('w, 'a) prog = "'w \<Rightarrow> 'a result \<times> 'w"

definition returnP :: "'a \<Rightarrow> ('w, 'a) prog" where
  "returnP x = (\<lambda>w. (Inr x, w))"

definition failP :: "go_error \<Rightarrow> ('w, 'a) prog" where
  "failP e = (\<lambda>w. (Inl e, w))"

definition liftP :: "'a result \<Rightarrow> ('w, 'a) prog" where
  "liftP r = (\<lambda>w. (r, w))"

definition bindP :: "('w, 'a) prog \<Rightarrow> ('a \<Rightarrow> ('w, 'b) prog) \<Rightarrow> ('w, 'b) prog" where
  "bindP p f = (\<lambda>w. case p w of (Inl e, w') \<Rightarrow> (Inl e, w') | (Inr x, w') \<Rightarrow> f x w')"

definition wrapP :: "(go_error \<Rightarrow> go_error) \<Rightarrow> ('w, 'a) prog \<Rightarrow> ('w, 'a) prog" where
  "wrapP g p = (\<lambda>w. case p w of (r, w') \<Rightarrow> (wrapR g r, w'))"

lemma prog_simps [simp]:
  "returnP x w = (Inr x, w)" "failP e w = (Inl e, w)" "liftP r w = (r, w)"
  "bindP (returnP x) f = f x" "bindP (failP e) f = failP e"
  by (auto simp: returnP_def failP_def liftP_def bindP_def)

lemma liftP_bind: "bindP (liftP (Inr x)) f = f x" "bindP (liftP (Inl e)) f = failP e"
  by (auto simp: liftP_def bindP_def failP_def)

lemma bindP_eq:
  "bindP p f w = (case p w of (Inl e, w') \<Rightarrow> (Inl e, w') | (Inr x, w') \<Rightarrow> f x w')"
  by (simp add: bindP_def)

lemma bindP_InrD:
  "bindP p f w = (Inr y, w'') \<Longrightarrow> \<exists>x w'. p w = (Inr x, w') \<and> f x w' = (Inr y, w'')"
  by (auto simp: bindP_def split: prod.splits sum.splits)

text \<open>
  An invariant rule: a relation on worlds that every call respects, and that is reflexive and
  transitive, relates the worlds before and after the program.
\<close>

lemma bindP_rel:
  assumes "\<And>a. R a a" and "\<And>a b c. R a b \<Longrightarrow> R b c \<Longrightarrow> R a c"
    and "R w (snd (p w))" and "\<And>x w'. p w = (Inr x, w') \<Longrightarrow> R w' (snd (f x w'))"
  shows "R w (snd (bindP p f w))"
proof (cases "p w")
  case (Pair r w')
  with assms show ?thesis by (cases r) (auto simp: bindP_def)
qed

lemma wrapP_snd [simp]: "snd (wrapP g p w) = snd (p w)"
  by (simp add: wrapP_def split: prod.splits)

lemma wrapP_Inr [simp]: "wrapP g p w = (Inr x, w') \<longleftrightarrow> p w = (Inr x, w')"
  by (cases "p w") (simp add: wrapP_def)

text \<open>The error of a call, given the category \<open>NewAPIServerError\<close> and its relatives choose.\<close>

definition apiServerError :: "bool \<Rightarrow> go_error \<Rightarrow> go_error" where
  "apiServerError fromCache e = the (NewAPIServerError fromCache (Some e))"

definition updateIgnoreConflictError :: "go_error \<Rightarrow> go_error" where
  "updateIgnoreConflictError e = the (NewUpdateIgnoreConflictError (Some e))"

section \<open>The calls of the API server\<close>

record 'w hub =
  hubListClusters :: "'w \<Rightarrow> MemberCluster list result \<times> 'w"
  hubListBindings :: "string \<Rightarrow> string \<Rightarrow> 'w \<Rightarrow> Binding list result \<times> 'w"
  hubGetBinding :: "string \<Rightarrow> string \<Rightarrow> 'w \<Rightarrow> Binding result \<times> 'w"
  hubCreateBinding :: "Binding \<Rightarrow> 'w \<Rightarrow> unit result \<times> 'w"
  hubUpdateBinding :: "Binding \<Rightarrow> 'w \<Rightarrow> unit result \<times> 'w"
  hubPatchBinding :: "bindingWithPatch \<Rightarrow> 'w \<Rightarrow> unit result \<times> 'w"
  hubDeleteBinding :: "Binding \<Rightarrow> 'w \<Rightarrow> unit result \<times> 'w"
  hubUpdatePolicyStatus :: "PolicySnapshot \<Rightarrow> 'w \<Rightarrow> unit result \<times> 'w"
  SetStatusCondition :: "conditions \<Rightarrow> Condition \<Rightarrow> conditions"
  retrySteps :: nat

section \<open>Retries and error groups\<close>

text \<open>
  \<open>retry.OnError\<close>: the function acts on an object it may mutate, and the mutation is seen by
  the next attempt.
\<close>

fun retryOnError ::
  "nat \<Rightarrow> (go_error \<Rightarrow> bool) \<Rightarrow> ('o \<Rightarrow> 'w \<Rightarrow> (unit result \<times> 'o) \<times> 'w) \<Rightarrow> 'o \<Rightarrow> 'w \<Rightarrow> unit result \<times> 'w" where
  "retryOnError n retriable attempt obj w =
     (case attempt obj w of
        ((Inr u, _), w') \<Rightarrow> (Inr u, w')
      | ((Inl e, obj'), w') \<Rightarrow>
          (case n of
             Suc (Suc m) \<Rightarrow>
               (if retriable e then retryOnError (Suc m) retriable attempt obj' w' else (Inl e, w'))
           | _ \<Rightarrow> (Inl e, w')))"

declare retryOnError.simps [simp del]

text \<open>An error group over a list of tasks.\<close>

fun errgroup :: "('a \<Rightarrow> ('w, unit) prog) \<Rightarrow> 'a list \<Rightarrow> ('w, unit) prog" where
  "errgroup task [] w = (Inr (), w)"
| "errgroup task (x # xs) w =
     (case task x w of (r, w') \<Rightarrow>
        case errgroup task xs w' of (r', w'') \<Rightarrow>
          ((case r of Inl e \<Rightarrow> Inl e | Inr _ \<Rightarrow> r'), w''))"

lemma errgroup_rel:
  assumes "\<And>a. R a a" and "\<And>a b c. R a b \<Longrightarrow> R b c \<Longrightarrow> R a c"
    and "\<And>x w. x \<in> set xs \<Longrightarrow> R w (snd (task x w))"
  shows "R w (snd (errgroup task xs w))"
  using assms(3)
proof (induction xs arbitrary: w)
  case (Cons x xs)
  obtain r w' where t: "task x w = (r, w')" by fastforce
  obtain r' w'' where g: "errgroup task xs w' = (r', w'')" by fastforce
  have "R w w'" using Cons.prems[of x w] t by simp
  moreover have "R w' w''" using Cons.IH[of w'] Cons.prems g by simp
  ultimately show ?case using assms(2) t g by simp
qed (simp add: assms(1))

lemma errgroup_Inr:
  "errgroup task (x # xs) w = (Inr (), w'') \<longleftrightarrow>
     (\<exists>w'. task x w = (Inr (), w') \<and> errgroup task xs w' = (Inr (), w''))"
  by (auto split: prod.splits sum.splits)

lemma retryOnError_cases:
  assumes "attempt obj w = ((r, obj'), w')"
  shows "retryOnError n retriable attempt obj w = (r, w') \<or>
    (\<exists>m. n = Suc m \<and> retryOnError n retriable attempt obj w = retryOnError m retriable attempt obj' w')"
  using assms by (subst (1 2) retryOnError.simps) (auto split: sum.split nat.split)

lemma retryOnError_rel:
  assumes "\<And>a. R a a" and "\<And>a b c. R a b \<Longrightarrow> R b c \<Longrightarrow> R a c"
    and "P obj" and "\<And>obj w. P obj \<Longrightarrow> R w (snd (attempt obj w)) \<and> P (snd (fst (attempt obj w)))"
  shows "R w (snd (retryOnError n retriable attempt obj w))"
  using assms(3)
proof (induction n arbitrary: obj w)
  case (0 obj w)
  obtain r obj' w' where a: "attempt obj w = ((r, obj'), w')" by (metis surj_pair)
  with assms(4)[OF 0, of w] retryOnError_cases[of attempt obj w, OF a, of 0 retriable] show ?case by auto
next
  case (Suc n obj w)
  obtain r obj' w' where a: "attempt obj w = ((r, obj'), w')" by (metis surj_pair)
  have step: "R w w'" "P obj'" using assms(4)[OF Suc.prems, of w] a by auto
  have "R w (snd (retryOnError n retriable attempt obj' w'))"
    using assms(2)[OF step(1)] Suc.IH[OF step(2)] by blast
  with step(1) retryOnError_cases[of attempt obj w, OF a, of "Suc n" retriable] show ?case by auto
qed

lemma retryOnError_success_first:
  "attempt obj w = ((Inr (), obj'), w') \<Longrightarrow> retryOnError n retriable attempt obj w = (Inr (), w')"
  by (subst retryOnError.simps) simp

section \<open>Decimal numbers\<close>

text \<open>\<open>strconv.Atoi\<close>: an optional sign and digits, within the range of a 64-bit integer.\<close>

definition digit_value :: "char \<Rightarrow> int option" where
  "digit_value c = (let n = int (of_char c) - 48 in if 0 \<le> n \<and> n \<le> 9 then Some n else None)"

fun parse_digits :: "int \<Rightarrow> string \<Rightarrow> int option" where
  "parse_digits acc [] = Some acc"
| "parse_digits acc (c # cs) =
     (case digit_value c of None \<Rightarrow> None | Some d \<Rightarrow> parse_digits (10 * acc + d) cs)"

definition in_int64 :: "int \<Rightarrow> int option" where
  "in_int64 n = (if - (2 ^ 63) \<le> n \<and> n < 2 ^ 63 then Some n else None)"

definition atoi :: "string \<Rightarrow> int option" where
  "atoi s =
     (case s of
        [] \<Rightarrow> None
      | c # cs \<Rightarrow>
          (if c = CHR ''-'' \<or> c = CHR ''+''
           then (if cs = [] then None
                 else case parse_digits 0 cs of None \<Rightarrow> None
                      | Some n \<Rightarrow> in_int64 (if c = CHR ''-'' then - n else n))
           else case parse_digits 0 s of None \<Rightarrow> None | Some n \<Rightarrow> in_int64 n))"

text \<open>A rendered integer is read back.\<close>

lemma digit_value_digit: "d < 10 \<Longrightarrow> digit_value (char_of (48 + d :: nat)) = Some (int d)"
  by (simp add: digit_value_def)

lemma digit_char_not_sign: "d < 10 \<Longrightarrow> char_of (48 + d :: nat) \<noteq> CHR ''-'' \<and> char_of (48 + d) \<noteq> CHR ''+''"
  by (auto simp: char_of_eq_iff take_bit_eq_mod)

lemma parse_digits_snoc:
  "parse_digits acc (xs @ [c]) =
     (case parse_digits acc xs of None \<Rightarrow> None
      | Some a \<Rightarrow> (case digit_value c of None \<Rightarrow> None | Some d \<Rightarrow> Some (10 * a + d)))"
  by (induction acc xs rule: parse_digits.induct) (auto split: option.splits)

lemma parse_nat_digits: "parse_digits 0 (nat_digits n) = Some (int n)"
proof (induction n rule: nat_digits.induct)
  case (1 n)
  show ?case
  proof (cases "n < 10")
    case True then show ?thesis by (subst nat_digits.simps) (simp add: digit_value_digit)
  next
    case False
    with 1 show ?thesis
      by (subst nat_digits.simps) (simp add: parse_digits_snoc digit_value_digit zmod_int zdiv_int)
  qed
qed

lemma nat_digits_hd: "\<exists>d < 10. \<exists>xs. nat_digits n = char_of (48 + d :: nat) # xs"
proof (induction n rule: nat_digits.induct)
  case (1 n)
  show ?case
  proof (cases "n < 10")
    case True then show ?thesis by (subst nat_digits.simps) auto
  next
    case False
    with 1 obtain d xs where "d < 10" "nat_digits (n div 10) = char_of (48 + d :: nat) # xs" by blast
    with False show ?thesis by (subst nat_digits.simps) auto
  qed
qed

lemma atoi_itoa: "- (2 ^ 63) \<le> n \<Longrightarrow> n < 2 ^ 63 \<Longrightarrow> atoi (itoa n) = Some n"
proof -
  assume range: "- (2 ^ 63) \<le> n" "n < 2 ^ 63"
  obtain d xs where d: "d < 10" "nat_digits (nat \<bar>n\<bar>) = char_of (48 + d :: nat) # xs" using nat_digits_hd by blast
  with digit_char_not_sign[OF d(1)] parse_nat_digits[of "nat \<bar>n\<bar>"] range show ?thesis
    by (cases "n < 0") (simp_all add: itoa_def atoi_def in_int64_def)
qed

definition annotationCount :: "string \<Rightarrow> PolicySnapshot \<Rightarrow> int result" where
  "annotationCount key policy =
     (case Annotations policy key of
        None \<Rightarrow> Inl (ErrPlain ''cannot find annotation'')
      | Some s \<Rightarrow>
          (case atoi s of
             None \<Rightarrow> Inl (ErrPlain ''invalid annotation'')
           | Some n \<Rightarrow> if n < 0 then Inl (ErrPlain ''invalid annotation'') else Inr n))"

definition ExtractNumOfClustersFromPolicySnapshot :: "PolicySnapshot \<Rightarrow> int result" where
  "ExtractNumOfClustersFromPolicySnapshot policy = annotationCount NumberOfClustersAnnotation policy"

definition ExtractObservedPlacementGenerationFromPolicySnapshot :: "PolicySnapshot \<Rightarrow> int result" where
  "ExtractObservedPlacementGenerationFromPolicySnapshot policy =
     annotationCount CRPGenerationAnnotation policy"

lemma annotationCount_nonneg: "annotationCount k p = Inr n \<Longrightarrow> 0 \<le> n"
  by (auto simp: annotationCount_def split: option.splits if_splits)

section \<open>Finalizers\<close>

text \<open>\<open>controllerutil.AddFinalizer\<close> and \<open>controllerutil.RemoveFinalizer\<close>.\<close>

definition RemoveFinalizer :: "string \<Rightarrow> ('a ObjectMeta_scheme) \<Rightarrow> ('a ObjectMeta_scheme)" where
  "RemoveFinalizer f obj = obj\<lparr>Finalizers := filter (\<lambda>x. x \<noteq> f) (Finalizers obj)\<rparr>"

definition AddFinalizer :: "string \<Rightarrow> ('a ObjectMeta_scheme) \<Rightarrow> ('a ObjectMeta_scheme)" where
  "AddFinalizer f obj = (if f \<in> set (Finalizers obj) then obj else obj\<lparr>Finalizers := Finalizers obj @ [f]\<rparr>)"

section \<open>An empty hub\<close>

text \<open>A hub without clusters and bindings, on which every write succeeds, for the witnesses.\<close>

definition exampleHub :: "'w hub" where
  "exampleHub =
     \<lparr>hubListClusters = \<lambda>w. (Inr [], w), hubListBindings = \<lambda>_ _ w. (Inr [], w),
      hubGetBinding = \<lambda>_ _ w. (Inl (ErrAPI NotFound), w), hubCreateBinding = \<lambda>_ w. (Inr (), w),
      hubUpdateBinding = \<lambda>_ w. (Inr (), w), hubPatchBinding = \<lambda>_ w. (Inr (), w),
      hubDeleteBinding = \<lambda>_ w. (Inr (), w), hubUpdatePolicyStatus = \<lambda>_ w. (Inr (), w),
      SetStatusCondition = \<lambda>cs c. cs(cond_Type c \<mapsto> c), retrySteps = 4\<rparr>"

end
