(* ===== verification/Placement_Types.thy ===== *)
theory Placement_Types
  imports Hub
begin

text \<open>
  Placements with their rollout strategy (\<open>apis/placement/v1beta1\<close>), the default values the
  controllers fill in (\<open>pkg/utils/defaulter\<close>), resource snapshots and the label and
  annotation readers on them (\<open>pkg/utils/labels\<close>, \<open>pkg/utils/annotations\<close>). A cluster-scoped
  and a namespaced placement are the same record; the namespace of the former is empty.
\<close>

section \<open>Placements\<close>

datatype IntOrString = IntVal int | StringVal string

record RollingUpdateConfig =
  MaxUnavailable :: "IntOrString option"
  MaxSurge :: "IntOrString option"
  UnavailablePeriodSeconds :: "int option"

record RolloutStrategy =
  StrategyType :: string
  RollingUpdate :: "RollingUpdateConfig option"
  StrategyApplyStrategy :: "ApplyStrategy option"

record Placement = ObjectMeta +
  PlacementPolicyOf :: "PlacementPolicy option"
  Strategy :: RolloutStrategy
  RevisionHistoryLimit :: "int option"

definition RollingUpdateRolloutStrategyType :: string where
  "RollingUpdateRolloutStrategyType = ''RollingUpdate''"

definition ExternalRolloutStrategyType :: string where
  "ExternalRolloutStrategyType = ''External''"

section \<open>Default values\<close>

text \<open>The zero value of \<open>ApplyStrategy\<close>, and of \<open>PlacementPolicy\<close> with a placement type.\<close>

definition zeroApplyStrategy :: ApplyStrategy where
  "zeroApplyStrategy =
     \<lparr>as_Type = '''', as_ComparisonOption = '''', as_WhenToApply = '''', as_WhenToTakeOver = '''',
      as_AllowCoOwnership = False, as_ServerSideApplyConfig = None\<rparr>"

definition policyOfType :: "PlacementType \<Rightarrow> PlacementPolicy" where
  "policyOfType t =
     \<lparr>Type = t, ClusterNames = [], NumberOfClusters = None, Affinity = None,
      TopologySpreadConstraints = [], Tolerations = []\<rparr>"

definition SetDefaultsApplyStrategy :: "ApplyStrategy \<Rightarrow> ApplyStrategy" where
  "SetDefaultsApplyStrategy obj =
     (let t = if as_Type obj = '''' then ''ClientSideApply'' else as_Type obj
      in obj\<lparr>as_Type := t,
             as_ServerSideApplyConfig :=
               (if t = ''ServerSideApply'' \<and> as_ServerSideApplyConfig obj = None then Some False
                else as_ServerSideApplyConfig obj),
             as_ComparisonOption :=
               (if as_ComparisonOption obj = '''' then ''PartialComparison'' else as_ComparisonOption obj),
             as_WhenToApply := (if as_WhenToApply obj = '''' then ''Always'' else as_WhenToApply obj),
             as_WhenToTakeOver :=
               (if as_WhenToTakeOver obj = '''' then ''Always'' else as_WhenToTakeOver obj)\<rparr>)"

definition defaultConstraint :: "TopologySpreadConstraint \<Rightarrow> TopologySpreadConstraint" where
  "defaultConstraint c =
     c\<lparr>MaxSkew := (case MaxSkew c of None \<Rightarrow> Some 1 | Some k \<Rightarrow> Some k),
       WhenUnsatisfiable :=
         (if WhenUnsatisfiable c = OtherAction '''' then DoNotSchedule else WhenUnsatisfiable c)\<rparr>"

definition defaultToleration :: "Toleration \<Rightarrow> Toleration" where
  "defaultToleration t =
     t\<lparr>tol_Operator :=
         (if tol_Operator t = OtherTolerationOp '''' then TolerationOpEqual else tol_Operator t)\<rparr>"

definition defaultRollingUpdate :: "RollingUpdateConfig option \<Rightarrow> RollingUpdateConfig" where
  "defaultRollingUpdate r =
     (let c = (case r of None \<Rightarrow> \<lparr>MaxUnavailable = None, MaxSurge = None, UnavailablePeriodSeconds = None\<rparr>
               | Some c \<Rightarrow> c)
      in \<lparr>MaxUnavailable = Some (case MaxUnavailable c of None \<Rightarrow> StringVal ''25%'' | Some v \<Rightarrow> v),
          MaxSurge = Some (case MaxSurge c of None \<Rightarrow> StringVal ''25%'' | Some v \<Rightarrow> v),
          UnavailablePeriodSeconds = Some (case UnavailablePeriodSeconds c of None \<Rightarrow> 60 | Some v \<Rightarrow> v)\<rparr>)"

definition SetPlacementDefaults :: "Placement \<Rightarrow> Placement" where
  "SetPlacementDefaults obj =
     (let p = (case PlacementPolicyOf obj of None \<Rightarrow> policyOfType PickAllPlacementType | Some p \<Rightarrow> p);
          p' = p\<lparr>TopologySpreadConstraints := map defaultConstraint (TopologySpreadConstraints p),
                 Tolerations := map defaultToleration (Tolerations p)\<rparr>;
          s = Strategy obj;
          t = if StrategyType s = '''' then RollingUpdateRolloutStrategyType else StrategyType s
      in obj\<lparr>PlacementPolicyOf := Some p',
             Strategy :=
               \<lparr>StrategyType = t,
                RollingUpdate =
                  (if t = RollingUpdateRolloutStrategyType
                   then Some (defaultRollingUpdate (RollingUpdate s)) else RollingUpdate s),
                StrategyApplyStrategy =
                  Some (SetDefaultsApplyStrategy
                          (case StrategyApplyStrategy s of None \<Rightarrow> zeroApplyStrategy | Some a \<Rightarrow> a))\<rparr>,
             RevisionHistoryLimit :=
               Some (case RevisionHistoryLimit obj of None \<Rightarrow> 10 | Some n \<Rightarrow> n)\<rparr>)"

lemmas default_defs =
  SetPlacementDefaults_def SetDefaultsApplyStrategy_def defaultRollingUpdate_def
  defaultConstraint_def defaultToleration_def Let_def

lemma SetDefaultsApplyStrategy_idem:
  "SetDefaultsApplyStrategy (SetDefaultsApplyStrategy a) = SetDefaultsApplyStrategy a"
  by (simp add: SetDefaultsApplyStrategy_def Let_def)

lemma defaultRollingUpdate_idem: "defaultRollingUpdate (Some (defaultRollingUpdate r)) = defaultRollingUpdate r"
  by (simp add: defaultRollingUpdate_def Let_def)

lemma defaultConstraint_idem: "defaultConstraint (defaultConstraint c) = defaultConstraint c"
  by (simp add: defaultConstraint_def split: option.split)

lemma defaultToleration_idem: "defaultToleration (defaultToleration t) = defaultToleration t"
  by (simp add: defaultToleration_def)


definition examplePlacement :: "PlacementPolicy option \<Rightarrow> Placement" where
  "examplePlacement p =
     \<lparr>Name = ''crp'', Namespace = '''', Labels = Map.empty, Annotations = Map.empty, Finalizers = [],
      Generation = 1, ResourceVersion = 1, DeletionTimestamp = None, PlacementPolicyOf = p,
      Strategy = \<lparr>StrategyType = '''', RollingUpdate = None, StrategyApplyStrategy = None\<rparr>,
      RevisionHistoryLimit = None\<rparr>"


section \<open>Looking up placements\<close>

text \<open>The read of a placement from the API server is a parameter.\<close>

definition FetchPlacementFromKey ::
  "(string \<Rightarrow> string \<Rightarrow> ('w, Placement) prog) \<Rightarrow> string \<Rightarrow> ('w, Placement) prog" where
  "FetchPlacementFromKey get placementKey =
     bindP (liftP (ExtractNamespaceNameFromKeyStr placementKey)) (\<lambda>(namespace, name). get namespace name)"

definition GetObjectKeyFromObj :: "'a ObjectMeta_scheme \<Rightarrow> string" where
  "GetObjectKeyFromObj obj = (if Namespace obj = '''' then Name obj else Namespace obj @ ''/'' @ Name obj)"

definition GetObjectKeyFromRequest :: "NamespacedName \<Rightarrow> string" where
  "GetObjectKeyFromRequest req =
     (if nn_Namespace req = '''' then nn_Name req else nn_Namespace req @ ''/'' @ nn_Name req)"

section \<open>Resource snapshots\<close>

text \<open>A selected resource is kept as its raw content.\<close>

record ResourceSnapshot = ObjectMeta +
  SelectedResources :: "string list"

definition ResourceGroupHashAnnotation :: string where
  "ResourceGroupHashAnnotation = FleetPrefix @ ''resource-hash''"

definition NumberOfResourceSnapshotsAnnotation :: string where
  "NumberOfResourceSnapshotsAnnotation = FleetPrefix @ ''number-of-resource-snapshots''"

definition ResourceIndexLabel :: string where
  "ResourceIndexLabel = FleetPrefix @ ''resource-index''"

text \<open>Looking up a missing key of a Go string map gives the empty string.\<close>

definition getString :: "(string \<rightharpoonup> string) \<Rightarrow> string \<Rightarrow> string" where
  "getString m k = (case m k of None \<Rightarrow> '''' | Some v \<Rightarrow> v)"

definition ExtractIndex :: "'a ObjectMeta_scheme \<Rightarrow> string \<Rightarrow> int result" where
  "ExtractIndex object labelKey =
     (case atoi (getString (Labels object) labelKey) of
        None \<Rightarrow> Inl (ErrPlain ''invalid resource index'')
      | Some v \<Rightarrow> if v < 0 then Inl (ErrPlain ''invalid resource index'') else Inr v)"

definition ExtractResourceIndexFromResourceSnapshot :: "ResourceSnapshot \<Rightarrow> int result" where
  "ExtractResourceIndexFromResourceSnapshot snapshot = ExtractIndex snapshot ResourceIndexLabel"

definition ExtractNumberOfResourceSnapshotsFromResourceSnapshot :: "ResourceSnapshot \<Rightarrow> int result" where
  "ExtractNumberOfResourceSnapshotsFromResourceSnapshot snapshot =
     (case atoi (getString (Annotations snapshot) NumberOfResourceSnapshotsAnnotation) of
        None \<Rightarrow> Inl (ErrPlain ''invalid snapshot count'')
      | Some n \<Rightarrow> if n < 1 then Inl (ErrPlain ''invalid snapshot count'') else Inr n)"

text \<open>\<open>strconv.ParseBool\<close>.\<close>

definition parseBool :: "string \<Rightarrow> bool option" where
  "parseBool s =
     (if s \<in> {''1'', ''t'', ''T'', ''TRUE'', ''true'', ''True''} then Some True
      else if s \<in> {''0'', ''f'', ''F'', ''FALSE'', ''false'', ''False''} then Some False
      else None)"

end
