(* ===== verification/Policy_Snapshots.thy ===== *)
theory Policy_Snapshots
  imports Placement_Types
begin

text \<open>
  Scheduling policy snapshots: the helpers that build, list and look them up
  (\<open>pkg/utils/controller/policy_snapshot_resolver.go\<close>, \<open>pkg/utils/labels\<close>). A cluster-scoped and
  a namespaced snapshot are the same record. The list and delete calls of the API server are
  parameters, with the namespace and the name of the placement as arguments: the label
  selector they send is the tracking label of that name.
\<close>

definition PolicyIndexLabel :: string where
  "PolicyIndexLabel = FleetPrefix @ ''policy-index''"

text \<open>\<open>strconv.FormatBool\<close>.\<close>

definition formatBool :: "bool \<Rightarrow> string" where
  "formatBool b = (if b then ''true'' else ''false'')"

definition ParsePolicyIndexFromLabel :: "PolicySnapshot \<Rightarrow> int result" where
  "ParsePolicyIndexFromLabel policySnapshot =
     (case atoi (getString (Labels policySnapshot) PolicyIndexLabel) of
        None \<Rightarrow> Inl (ErrPlain ''invalid policy index'')
      | Some v \<Rightarrow> if v < 0 then Inl (ErrPlain ''invalid policy index'') else Inr v)"

definition DeletePolicySnapshots ::
  "(string \<Rightarrow> string \<Rightarrow> ('w, unit) prog) \<Rightarrow> Placement \<Rightarrow> ('w, unit) prog" where
  "DeletePolicySnapshots deleteAllOf placementObj =
     wrapP (apiServerError False) (deleteAllOf (Namespace placementObj) (Name placementObj))"

text \<open>The number of clusters a placement asks for, when it is of the type that has one.\<close>

definition requestedCount :: "Placement \<Rightarrow> int option" where
  "requestedCount placementObj =
     (case PlacementPolicyOf placementObj of None \<Rightarrow> None
      | Some p \<Rightarrow> if Type p = PickNPlacementType then NumberOfClusters p else None)"

definition BuildPolicySnapshot :: "Placement \<Rightarrow> int \<Rightarrow> string \<Rightarrow> PolicySnapshot" where
  "BuildPolicySnapshot placementObj policySnapshotIndex policyHash =
     \<lparr>Name = Name placementObj @ ''-'' @ itoa policySnapshotIndex,
      Namespace = Namespace placementObj,
      Labels = [PlacementTrackingLabel \<mapsto> Name placementObj,
                IsLatestSnapshotLabel \<mapsto> formatBool True,
                PolicyIndexLabel \<mapsto> itoa policySnapshotIndex],
      Annotations =
        (let annotations = [CRPGenerationAnnotation \<mapsto> itoa (Generation placementObj)]
         in case requestedCount placementObj of
              None \<Rightarrow> annotations
            | Some n \<Rightarrow> annotations(NumberOfClustersAnnotation \<mapsto> itoa n)),
      Finalizers = [], Generation = 0, ResourceVersion = 0, DeletionTimestamp = None,
      Policy = PlacementPolicyOf placementObj, PolicyHash = policyHash,
      ObservedCRPGeneration = 0, PolicyConditions = Map.empty, ClusterDecisions = []\<rparr>"

definition IsLatestPolicySnapshot :: "PolicySnapshot \<Rightarrow> bool result" where
  "IsLatestPolicySnapshot snapshot =
     (case Labels snapshot IsLatestSnapshotLabel of
        None \<Rightarrow> Inl ErrUnexpectedBehavior
      | Some val \<Rightarrow> (case parseBool val of None \<Rightarrow> Inl ErrUnexpectedBehavior | Some b \<Rightarrow> Inr b))"

text \<open>
  The error for several latest snapshots wraps \<open>ErrUnexpectedBehavior\<close> and a sentinel of its
  own; the callers only test for the sentinel.
\<close>

definition LookupLatestPolicySnapshot ::
  "(string \<Rightarrow> string \<Rightarrow> ('w, PolicySnapshot list) prog) \<Rightarrow> string \<Rightarrow> string \<Rightarrow> ('w, PolicySnapshot) prog" where
  "LookupLatestPolicySnapshot listLatest namespace name =
     bindP (wrapP (apiServerError True) (listLatest namespace name)) (\<lambda>policySnapshots.
       case policySnapshots of
         [] \<Rightarrow> failP ErrNoLatestPolicySnapshot
       | [s] \<Rightarrow> returnP s
       | _ \<Rightarrow> failP ErrMultipleActivePolicySnapshots)"

section \<open>What a built snapshot says\<close>

lemmas label_defs =
  PolicyIndexLabel_def IsLatestSnapshotLabel_def PlacementTrackingLabel_def FleetPrefix_def
  CRPGenerationAnnotation_def NumberOfClustersAnnotation_def

lemma BuildPolicySnapshot_index:
  "0 \<le> i \<Longrightarrow> i < 2 ^ 63 \<Longrightarrow> ParsePolicyIndexFromLabel (BuildPolicySnapshot p i h) = Inr i"
  by (simp add: ParsePolicyIndexFromLabel_def BuildPolicySnapshot_def getString_def atoi_itoa)

lemma BuildPolicySnapshot_latest: "IsLatestPolicySnapshot (BuildPolicySnapshot p i h) = Inr True"
  by (simp add: IsLatestPolicySnapshot_def BuildPolicySnapshot_def formatBool_def parseBool_def label_defs)

lemma BuildPolicySnapshot_generation:
  "0 \<le> Generation p \<Longrightarrow> Generation p < 2 ^ 63 \<Longrightarrow>
   ExtractObservedPlacementGenerationFromPolicySnapshot (BuildPolicySnapshot p i h) = Inr (Generation p)"
  by (cases "requestedCount p")
    (simp_all add: ExtractObservedPlacementGenerationFromPolicySnapshot_def annotationCount_def
      BuildPolicySnapshot_def atoi_itoa label_defs)

lemma BuildPolicySnapshot_count:
  "requestedCount p = Some n \<Longrightarrow> 0 \<le> n \<Longrightarrow> n < 2 ^ 63 \<Longrightarrow>
   ExtractNumOfClustersFromPolicySnapshot (BuildPolicySnapshot p i h) = Inr n"
  by (simp add: ExtractNumOfClustersFromPolicySnapshot_def annotationCount_def
      BuildPolicySnapshot_def atoi_itoa)

end
