(* ===== verification/Plugin_Affinity.thy ===== *)
theory Plugin_Affinity
  imports Framework_Base Example_Objects
begin

text \<open>
  The ClusterAffinity plugin (\<open>pkg/scheduler/framework/plugins/clusteraffinity\<close>): reading a
  resource or non-resource property of a cluster, matching required terms, the minimum and
  maximum observed before scoring, and the interpolated weights. What the plugin takes from
  the Kubernetes libraries is the record \<open>lib\<close>: label selectors, the quantity parser, the
  approximation of a quantity by a float64. Quantities are rational numbers, which
  \<open>Cmp\<close> and \<open>Equal\<close> compare. A float64 operation is the exact operation followed by the
  rounding \<open>fl\<close>; an infinite approximation is \<open>None\<close>.
\<close>

section \<open>Library functions\<close>

record lib =
  LabelSelectorAsSelector :: "LabelSelector \<Rightarrow> ((string \<rightharpoonup> string) \<Rightarrow> bool) result"
  ParseQuantity :: "string \<Rightarrow> quantity result"
  AsApproximateFloat64 :: "quantity \<Rightarrow> rat option"
  fl :: "rat \<Rightarrow> rat"

text \<open>
  IEEE rounding is monotone and leaves 32-bit integers unchanged; the approximation of
  quantities is monotone, and finite on the quantities that can be parsed.
\<close>

definition float64_rounding :: "(rat \<Rightarrow> rat) \<Rightarrow> bool" where
  "float64_rounding r \<longleftrightarrow> mono r \<and> (\<forall>n::int. \<bar>n\<bar> \<le> 2 ^ 31 \<longrightarrow> r (of_int n) = of_int n)"

definition quantity_approximation :: "(quantity \<Rightarrow> rat option) \<Rightarrow> bool" where
  "quantity_approximation a \<longleftrightarrow>
     (\<forall>q. a q \<noteq> None) \<and> (\<forall>p q. p \<le> q \<longrightarrow> the (a p) \<le> the (a q))"

text \<open>\<open>math.Round\<close>: half away from zero.\<close>

definition mathRound :: "rat \<Rightarrow> int" where
  "mathRound w = (if w \<ge> 0 then \<lfloor>w + 1 / 2\<rfloor> else - \<lfloor>- w + 1 / 2\<rfloor>)"

section \<open>Reading properties\<close>

definition ResourcePropertyNamePrefix :: string where
  "ResourcePropertyNamePrefix = ''resources.kubernetes-fleet.io/''"

definition retrieveResourceUsageFrom :: "MemberCluster \<Rightarrow> string \<Rightarrow> quantity option result" where
  "retrieveResourceUsageFrom cluster name =
     (let segs = split_on CHR ''-'' name in
      if length segs \<noteq> 2 \<or> segs ! 0 = [] \<or> segs ! 1 = []
      then Inl (ErrPlain ''invalid resource property name'')
      else let cn = segs ! 0; tn = segs ! 1 in
        if cn = ''total'' then Inr (Capacity cluster tn)
        else if cn = ''allocatable'' then Inr (Allocatable cluster tn)
        else if cn = ''available'' then Inr (Available cluster tn)
        else Inl (ErrPlain ''invalid capacity type in resource property name''))"

definition has_prefix :: "string \<Rightarrow> string \<Rightarrow> bool" where
  "has_prefix s p = (take (length p) s = p)"

definition retrievePropertyValueFrom ::
  "lib \<Rightarrow> MemberCluster \<Rightarrow> string \<Rightarrow> quantity option result" where
  "retrievePropertyValueFrom lib cluster name =
     (if has_prefix name ResourcePropertyNamePrefix
      then retrieveResourceUsageFrom cluster (drop (length ResourcePropertyNamePrefix) name)
      else case Properties cluster name of
             None \<Rightarrow> Inr None
           | Some v \<Rightarrow> bindR (ParseQuantity lib v) (\<lambda>qv. Inr (Some qv)))"

section \<open>Required terms\<close>

definition compareOp :: "PropertySelectorOperator \<Rightarrow> quantity \<Rightarrow> quantity \<Rightarrow> bool result" where
  "compareOp op q e =
     (case op of
        PropertySelectorEqualTo \<Rightarrow> Inr (q = e)
      | PropertySelectorNotEqualTo \<Rightarrow> Inr (q \<noteq> e)
      | PropertySelectorGreaterThan \<Rightarrow> Inr (q > e)
      | PropertySelectorGreaterThanOrEqualTo \<Rightarrow> Inr (q \<ge> e)
      | PropertySelectorLessThan \<Rightarrow> Inr (q < e)
      | PropertySelectorLessThanOrEqualTo \<Rightarrow> Inr (q \<le> e)
      | PropertySelectorOther _ \<Rightarrow> Inl (ErrPlain ''invalid operator''))"

fun matchExpressions ::
  "lib \<Rightarrow> MemberCluster \<Rightarrow> PropertySelectorRequirement list \<Rightarrow> bool result" where
  "matchExpressions lib cluster [] = Inr True"
| "matchExpressions lib cluster (e # exps) =
     bindR (retrievePropertyValueFrom lib cluster (psr_Name e)) (\<lambda>q.
       case q of
         None \<Rightarrow> Inr False
       | Some q \<Rightarrow>
           (if length (psr_Values e) \<noteq> 1
            then Inl (ErrPlain ''more than one value in the property selector expression'')
            else bindR (ParseQuantity lib (hd (psr_Values e))) (\<lambda>expectedQ.
                   bindR (compareOp (psr_Operator e) q expectedQ) (\<lambda>holds.
                     if holds then matchExpressions lib cluster exps else Inr False))))"

definition Matches :: "lib \<Rightarrow> ClusterSelectorTerm \<Rightarrow> MemberCluster \<Rightarrow> bool result" where
  "Matches lib c cluster =
     bindR (case TermLabelSelector c of
              None \<Rightarrow> Inr True
            | Some sel \<Rightarrow> bindR (LabelSelectorAsSelector lib sel) (\<lambda>ls. Inr (ls (Labels cluster))))
       (\<lambda>labelsMatch.
          if \<not> labelsMatch then Inr False
          else case PropertySelector c of
                 None \<Rightarrow> Inr True
               | Some [] \<Rightarrow> Inr True
               | Some exps \<Rightarrow> matchExpressions lib cluster exps)"

definition clusteraffinity_PreFilter ::
  "string \<Rightarrow> CycleState \<Rightarrow> PolicySnapshot \<Rightarrow> (CycleState \<times> Status) result" where
  "clusteraffinity_PreFilter name st ps =
     Inr (st,
       let noRequiredClusterAffinityTerms =
         (case cluster_affinity ps of
            None \<Rightarrow> True
          | Some ca \<Rightarrow> RequiredTerms ca = None \<or> RequiredTerms ca = Some [])
       in if noRequiredClusterAffinityTerms
          then NewNonErrorStatus Skip name [''no required cluster affinity terms to enforce'']
          else None)"

fun matchAnyTerm ::
  "lib \<Rightarrow> string \<Rightarrow> MemberCluster \<Rightarrow> ClusterSelectorTerm list \<Rightarrow> Status" where
  "matchAnyTerm lib name cluster [] =
     NewNonErrorStatus ClusterUnschedulable name
       [''cluster does not match with any of the required cluster affinity terms'']"
| "matchAnyTerm lib name cluster (t # ts) =
     (case Matches lib t cluster of
        Inl e \<Rightarrow> FromError e name
                   [''failed to match the cluster against a required affinity term'']
      | Inr True \<Rightarrow> None
      | Inr False \<Rightarrow> matchAnyTerm lib name cluster ts)"

definition clusteraffinity_Filter ::
  "lib \<Rightarrow> string \<Rightarrow> CycleState \<Rightarrow> PolicySnapshot \<Rightarrow> MemberCluster \<Rightarrow> Status result" where
  "clusteraffinity_Filter lib name st ps cluster =
     (case cluster_affinity ps of
        None \<Rightarrow> Inl Panic
      | Some ca \<Rightarrow>
          (case RequiredTerms ca of
             None \<Rightarrow> Inl Panic
           | Some terms \<Rightarrow> Inr (matchAnyTerm lib name cluster terms)))"

section \<open>Preferred terms\<close>

text \<open>
  The loop of \<open>preparePluginState\<close> over the clusters for one property: a cluster that does not
  have the property is passed over.
\<close>

fun observeMinMax ::
  "lib \<Rightarrow> string \<Rightarrow> MemberCluster list \<Rightarrow> observedMinMaxValues \<Rightarrow> observedMinMaxValues result" where
  "observeMinMax lib n [] mm = Inr mm"
| "observeMinMax lib n (c # cs) mm =
     bindR (retrievePropertyValueFrom lib c n) (\<lambda>q.
       case q of
         None \<Rightarrow> observeMinMax lib n cs mm
       | Some q \<Rightarrow>
           observeMinMax lib n cs
             \<lparr>minQ = (case minQ mm of None \<Rightarrow> Some q | Some m \<Rightarrow> if q < m then Some q else Some m),
              maxQ = (case maxQ mm of None \<Rightarrow> Some q | Some m \<Rightarrow> if q > m then Some q else Some m)\<rparr>)"

fun prepareTerms ::
  "lib \<Rightarrow> MemberCluster list \<Rightarrow> PreferredClusterSelector list \<Rightarrow> (string \<rightharpoonup> observedMinMaxValues) \<Rightarrow>
   (string \<rightharpoonup> observedMinMaxValues) result" where
  "prepareTerms lib cs [] m = Inr m"
| "prepareTerms lib cs (t # ts) m =
     (case TermPropertySorter (Preference t) of
        None \<Rightarrow> prepareTerms lib cs ts m
      | Some sorter \<Rightarrow>
          bindR (observeMinMax lib (sorter_Name sorter) cs \<lparr>minQ = None, maxQ = None\<rparr>) (\<lambda>mm.
            prepareTerms lib cs ts (m(sorter_Name sorter \<mapsto> mm))))"

definition preparePluginState ::
  "lib \<Rightarrow> CycleState \<Rightarrow> PolicySnapshot \<Rightarrow> (string \<rightharpoonup> observedMinMaxValues) result" where
  "preparePluginState lib st ps =
     (case cluster_affinity ps of
        None \<Rightarrow> Inl Panic
      | Some ca \<Rightarrow> prepareTerms lib (ListClusters st) (PreferredTerms ca) Map.empty)"

definition clusteraffinity_PreScore ::
  "lib \<Rightarrow> string \<Rightarrow> CycleState \<Rightarrow> PolicySnapshot \<Rightarrow> (CycleState \<times> Status) result" where
  "clusteraffinity_PreScore lib name st ps =
     (let noPreferredClusterAffinityTerms =
        (case cluster_affinity ps of None \<Rightarrow> True | Some ca \<Rightarrow> PreferredTerms ca = [])
      in if noPreferredClusterAffinityTerms
         then Inr (st, NewNonErrorStatus Skip name [''no preferred cluster affinity terms specified''])
         else case preparePluginState lib st ps of
                Inl e \<Rightarrow> Inr (st, FromError e name [''failed to prepare plugin state''])
              | Inr m \<Rightarrow> Inr (Write st name (AffinityState m), None))"

definition readAffinityState ::
  "string \<Rightarrow> CycleState \<Rightarrow> (string \<rightharpoonup> observedMinMaxValues) result" where
  "readAffinityState name st =
     bindR (Read st name) (\<lambda>v.
       case v of AffinityState m \<Rightarrow> Inr m
       | _ \<Rightarrow> Inl (ErrPlain ''failed to cast value to the right type''))"

definition interpolateWeightFor ::
  "lib \<Rightarrow> MemberCluster \<Rightarrow> string \<Rightarrow> PropertySortOrder \<Rightarrow> int \<Rightarrow> (string \<rightharpoonup> observedMinMaxValues) \<Rightarrow>
   int result" where
  "interpolateWeightFor lib cluster property sortOrder weight state =
     bindR (retrievePropertyValueFrom lib cluster property) (\<lambda>q.
       case q of
         None \<Rightarrow> Inr 0
       | Some q \<Rightarrow>
         (case state property of
            None \<Rightarrow> Inl (ErrPlain ''failed to look up extremums for property, no state is prepared'')
          | Some mm \<Rightarrow>
            (case (minQ mm, maxQ mm) of
               (Some mn, Some mx) \<Rightarrow>
                 (case (AsApproximateFloat64 lib q, AsApproximateFloat64 lib mn,
                        AsApproximateFloat64 lib mx) of
                    (Some f, Some minF, Some maxF) \<Rightarrow>
                      (if minF > maxF \<or> f < minF \<or> f > maxF
                       then Inl (ErrPlain ''cannot interpolate weight'')
                       else if minF = maxF then Inr 0
                       else let r = fl lib (fl lib (f - minF) / fl lib (maxF - minF)) in
                         (case sortOrder of
                            Descending \<Rightarrow>
                              Inr (wrap32 (mathRound (fl lib (r * of_int weight))))
                          | Ascending \<Rightarrow>
                              Inr (wrap32 (mathRound (fl lib (fl lib (1 - r) * of_int weight))))
                          | OtherSortOrder _ \<Rightarrow>
                              Inl (ErrPlain ''cannot interpolate weight as sort order is invalid'')))
                  | _ \<Rightarrow> Inl (ErrPlain ''cannot interpolate weight''))
             | _ \<Rightarrow> Inl (ErrPlain ''extremums for property are not available''))))"

definition Scores ::
  "lib \<Rightarrow> PreferredClusterSelector \<Rightarrow> (string \<rightharpoonup> observedMinMaxValues) \<Rightarrow> MemberCluster \<Rightarrow> int result" where
  "Scores lib c state cluster =
     bindR (case TermLabelSelector (Preference c) of
              None \<Rightarrow> Inr True
            | Some sel \<Rightarrow> bindR (LabelSelectorAsSelector lib sel) (\<lambda>ls. Inr (ls (Labels cluster))))
       (\<lambda>matched.
          case TermPropertySorter (Preference c) of
            None \<Rightarrow> Inr (if matched then Weight c else 0)
          | Some sorter \<Rightarrow>
              (if \<not> matched then Inr 0
               else interpolateWeightFor lib cluster (sorter_Name sorter) (SortOrder sorter)
                      (Weight c) state))"

fun scoreTerms ::
  "lib \<Rightarrow> (string \<rightharpoonup> observedMinMaxValues) \<Rightarrow> MemberCluster \<Rightarrow> PreferredClusterSelector list \<Rightarrow>
   int \<Rightarrow> int result" where
  "scoreTerms lib state cluster [] acc = Inr acc"
| "scoreTerms lib state cluster (t # ts) acc =
     (if Weight t \<noteq> 0
      then bindR (Scores lib t state cluster) (\<lambda>s.
             scoreTerms lib state cluster ts (wrap32 (acc + s)))
      else scoreTerms lib state cluster ts acc)"

definition clusteraffinity_Score ::
  "lib \<Rightarrow> string \<Rightarrow> CycleState \<Rightarrow> PolicySnapshot \<Rightarrow> MemberCluster \<Rightarrow>
   (ClusterScore option \<times> Status) result" where
  "clusteraffinity_Score lib name st ps cluster =
     (case readAffinityState name st of
        Inl e \<Rightarrow> Inr (None, FromError e name [''failed to read plugin state''])
      | Inr state \<Rightarrow>
          (case cluster_affinity ps of
             None \<Rightarrow> Inl Panic
           | Some ca \<Rightarrow>
               (case scoreTerms lib state cluster (PreferredTerms ca) 0 of
                  Inl e \<Rightarrow> Inr (None, FromError e name [])
                | Inr a \<Rightarrow> Inr (Some (zeroScore\<lparr>cs_AffinityScore := a\<rparr>), None))))"

section \<open>Properties\<close>

lemma retrieveResourceUsageFrom_dash:
  "CHR ''-'' \<in> set res \<Longrightarrow> CHR ''-'' \<notin> set cap \<Longrightarrow>
   \<exists>e. retrieveResourceUsageFrom c (cap @ CHR ''-'' # res) = Inl e"
  using count_list_0_iff[of res "CHR ''-''"]
  by (auto simp: retrieveResourceUsageFrom_def Let_def split_on_append length_split_on)

lemma retrieveResourceUsageFrom_total:
  "res \<noteq> [] \<Longrightarrow> CHR ''-'' \<notin> set res \<Longrightarrow>
   retrieveResourceUsageFrom c (''total-'' @ res) = Inr (Capacity c res)"
  using split_on_append[of "CHR ''-''" "''total''" res]
  by (simp add: retrieveResourceUsageFrom_def split_on_absent)

text \<open>Matching against required terms is the disjunction of the terms.\<close>

lemma matchAnyTerm_success:
  "\<forall>t\<in>set ts. \<exists>b. Matches lib t c = Inr b \<Longrightarrow>
   matchAnyTerm lib name c ts = None \<longleftrightarrow> (\<exists>t\<in>set ts. Matches lib t c = Inr True)"
  by (induction ts) (auto simp: NewNonErrorStatus_def split: bool.splits)

lemma matchAnyTerm_not_Skip: "code (matchAnyTerm lib name c ts) \<noteq> Skip"
  by (induction ts) (auto split: sum.splits bool.splits)

lemma matchExpressions_iff:
  "matchExpressions lib c es = Inr True \<longleftrightarrow>
   (\<forall>e\<in>set es. \<exists>q x v. retrievePropertyValueFrom lib c (psr_Name e) = Inr (Some q) \<and>
      psr_Values e = [v] \<and> ParseQuantity lib v = Inr x \<and>
      compareOp (psr_Operator e) q x = Inr True)"
proof (induction es)
  case (Cons e es)
  show ?case
    by (cases "psr_Values e")
       (auto simp: bindR_eq_Inr Cons.IH split: option.splits if_splits)
qed simp

text \<open>The observed extremes bound every reading, and are themselves readings.\<close>

lemma observeMinMax_bounds:
  assumes "observeMinMax lib n cs mm = Inr mm'"
  shows "(\<forall>m. minQ mm = Some m \<longrightarrow> (\<exists>m'. minQ mm' = Some m' \<and> m' \<le> m)) \<and>
         (\<forall>m. maxQ mm = Some m \<longrightarrow> (\<exists>m'. maxQ mm' = Some m' \<and> m \<le> m')) \<and>
         (\<forall>c\<in>set cs. \<exists>r. retrievePropertyValueFrom lib c n = Inr r \<and>
            (\<forall>q. r = Some q \<longrightarrow>
               (\<exists>m M. minQ mm' = Some m \<and> maxQ mm' = Some M \<and> m \<le> q \<and> q \<le> M)))"
  using assms
proof (induction cs arbitrary: mm)
  case (Cons c cs)
  then obtain r where r: "retrievePropertyValueFrom lib c n = Inr r"
    by (auto simp: bindR_eq_Inr)
  show ?case
  proof (cases r)
    case None
    with Cons.prems r have "observeMinMax lib n cs mm = Inr mm'" by simp
    from Cons.IH[OF this] r None show ?thesis by simp
  next
    case (Some q)
    let ?mm = "\<lparr>minQ = (case minQ mm of None \<Rightarrow> Some q | Some m \<Rightarrow> if q < m then Some q else Some m),
      maxQ = (case maxQ mm of None \<Rightarrow> Some q | Some m \<Rightarrow> if q > m then Some q else Some m)\<rparr>"
    from Cons.prems r Some have "observeMinMax lib n cs ?mm = Inr mm'" by simp
    note IH = Cons.IH[OF this]
    have "\<exists>m. minQ ?mm = Some m \<and> m \<le> q" "\<exists>M. maxQ ?mm = Some M \<and> q \<le> M"
      by (auto split: option.splits)
    then obtain m M where mM: "minQ ?mm = Some m" "maxQ ?mm = Some M" "m \<le> q" "q \<le> M"
      by blast
    have le: "minQ mm = Some x \<Longrightarrow> m \<le> x" "maxQ mm = Some x \<Longrightarrow> x \<le> M" for x
      using mM by (auto split: if_splits)
    from IH mM obtain m' M' where "minQ mm' = Some m'" "m' \<le> m" "maxQ mm' = Some M'" "M \<le> M'"
      by blast
    with IH mM le r Some show ?thesis by (auto intro: order_trans)
  qed
qed auto

abbreviation observed_for ::
  "lib \<Rightarrow> MemberCluster list \<Rightarrow> string \<Rightarrow> observedMinMaxValues result" where
  "observed_for lib cs n \<equiv> observeMinMax lib n cs \<lparr>minQ = None, maxQ = None\<rparr>"

lemma prepareTerms_keep:
  assumes "prepareTerms lib cs ts m = Inr m'" and "m n = Some mm" and "observed_for lib cs n = Inr mm"
  shows "m' n = Some mm"
  using assms
proof (induction ts arbitrary: m)
  case (Cons t ts)
  show ?case
  proof (cases "TermPropertySorter (Preference t)")
    case (Some s)
    with Cons.prems obtain mm' where
      mm': "observed_for lib cs (sorter_Name s) = Inr mm'" and
      rest: "prepareTerms lib cs ts (m(sorter_Name s \<mapsto> mm')) = Inr m'"
      by (auto simp: bindR_eq_Inr)
    from mm' Cons.prems have "(m(sorter_Name s \<mapsto> mm')) n = Some mm" by auto
    from Cons.IH[OF rest this] Cons.prems show ?thesis by simp
  qed (use Cons in simp)
qed simp

lemma prepareTerms_lookup:
  assumes "prepareTerms lib cs ts m = Inr m'" and "t \<in> set ts"
    and "TermPropertySorter (Preference t) = Some s"
  shows "\<exists>mm. m' (sorter_Name s) = Some mm \<and> observed_for lib cs (sorter_Name s) = Inr mm"
  using assms
proof (induction ts arbitrary: m)
  case (Cons u ts)
  show ?case
  proof (cases "TermPropertySorter (Preference u)")
    case (Some su)
    with Cons.prems obtain mm where
      mm: "observed_for lib cs (sorter_Name su) = Inr mm" and
      rest: "prepareTerms lib cs ts (m(sorter_Name su \<mapsto> mm)) = Inr m'"
      by (auto simp: bindR_eq_Inr)
    show ?thesis
    proof (cases "u = t")
      case True
      with Some Cons.prems have "su = s" by simp
      with prepareTerms_keep[OF rest] mm show ?thesis by simp
    next
      case False
      with Cons.IH[OF rest] Cons.prems show ?thesis by auto
    qed
  next
    case None
    with Cons.prems have "prepareTerms lib cs ts m = Inr m'" "t \<in> set ts" by auto
    with Cons.IH Cons.prems show ?thesis by blast
  qed
qed simp

text \<open>Rounded arithmetic stays within the exact bounds.\<close>

lemma float64_rounding_mono: "float64_rounding r \<Longrightarrow> x \<le> y \<Longrightarrow> r x \<le> r y"
  by (simp add: float64_rounding_def monoD)

lemma float64_rounding_int: "float64_rounding r \<Longrightarrow> \<bar>n\<bar> \<le> 2 ^ 31 \<Longrightarrow> r (of_int n) = of_int n"
  by (simp add: float64_rounding_def)

lemma float64_rounding_between:
  assumes "float64_rounding r" and "of_int a \<le> x" and "x \<le> of_int b"
    and "\<bar>a\<bar> \<le> 2 ^ 31" and "\<bar>b\<bar> \<le> 2 ^ 31"
  shows "of_int a \<le> r x" and "r x \<le> of_int b"
  using float64_rounding_mono[OF assms(1) assms(2)] float64_rounding_mono[OF assms(1) assms(3)]
    float64_rounding_int[OF assms(1) assms(4)] float64_rounding_int[OF assms(1) assms(5)]
  by simp_all

lemma float64_rounding_unit:
  assumes "float64_rounding r" and "0 \<le> x" and "x \<le> 1"
  shows "0 \<le> r x" and "r x \<le> 1"
  using float64_rounding_between[of r 0 x 1] assms by simp_all

definition ratio :: "(rat \<Rightarrow> rat) \<Rightarrow> rat \<Rightarrow> rat \<Rightarrow> rat \<Rightarrow> rat" where
  "ratio r f mn mx = r (r (f - mn) / r (mx - mn))"

lemma ratio_unit:
  assumes "float64_rounding r" and "mn \<le> f" and "f \<le> mx"
  shows "0 \<le> ratio r f mn mx" and "ratio r f mn mx \<le> 1"
proof -
  have r0: "r 0 = 0" using float64_rounding_int[OF assms(1), of 0] by simp
  have lo: "0 \<le> r (f - mn)" using float64_rounding_mono[OF assms(1), of 0 "f - mn"] assms r0 by simp
  have hi: "r (f - mn) \<le> r (mx - mn)" using float64_rounding_mono[OF assms(1)] assms by simp
  have "0 \<le> r (f - mn) / r (mx - mn)" "r (f - mn) / r (mx - mn) \<le> 1"
    using lo hi by (auto intro: divide_nonneg_nonneg simp: divide_le_eq_1)
  then show "0 \<le> ratio r f mn mx" "ratio r f mn mx \<le> 1"
    unfolding ratio_def by (auto intro: float64_rounding_unit[OF assms(1)])
qed

lemma ratio_mono:
  assumes "float64_rounding r" and "f \<le> f'" and "mn \<le> mx"
  shows "ratio r f mn mx \<le> ratio r f' mn mx"
proof -
  have "r 0 = 0" using float64_rounding_int[OF assms(1), of 0] by simp
  then have "0 \<le> r (mx - mn)" using float64_rounding_mono[OF assms(1), of 0 "mx - mn"] assms by simp
  moreover have "r (f - mn) \<le> r (f' - mn)" using float64_rounding_mono[OF assms(1)] assms by simp
  ultimately have "r (f - mn) / r (mx - mn) \<le> r (f' - mn) / r (mx - mn)"
    by (simp add: divide_right_mono)
  then show ?thesis unfolding ratio_def by (rule float64_rounding_mono[OF assms(1)])
qed

lemma scaled_between:
  assumes "float64_rounding r" and "0 \<le> x" and "x \<le> 1" and "\<bar>w\<bar> \<le> 2 ^ 31"
  shows "of_int (min 0 w) \<le> r (x * of_int w)" and "r (x * of_int w) \<le> of_int (max 0 w)"
proof -
  have "of_int (min 0 w) \<le> x * of_int w \<and> x * of_int w \<le> of_int (max 0 w)"
  proof (cases "0 \<le> w")
    case True
    with assms show ?thesis by (simp add: mult_left_le_one_le)
  next
    case False
    then have "1 * (of_int w :: rat) \<le> x * of_int w"
      by (intro mult_right_mono_neg) (use assms in auto)
    moreover have "x * of_int w \<le> (0 :: rat)"
      using False assms by (simp add: mult_nonneg_nonpos)
    ultimately show ?thesis using False by simp
  qed
  then show "of_int (min 0 w) \<le> r (x * of_int w)" "r (x * of_int w) \<le> of_int (max 0 w)"
    using float64_rounding_between[OF assms(1), of "min 0 w" _ "max 0 w"] assms(4) by auto
qed

lemma mathRound_between:
  assumes "of_int a \<le> x" and "x \<le> of_int b"
  shows "a \<le> mathRound x" and "mathRound x \<le> b"
proof -
  have "a \<le> \<lfloor>x + 1 / 2\<rfloor>" "\<lfloor>x + 1 / 2\<rfloor> \<le> b"
    using assms by (simp_all add: le_floor_iff floor_le_iff)
  moreover have "- b \<le> \<lfloor>- x + 1 / 2\<rfloor>" "\<lfloor>- x + 1 / 2\<rfloor> \<le> - a"
    using assms by (simp_all add: le_floor_iff floor_le_iff)
  ultimately show "a \<le> mathRound x" "mathRound x \<le> b"
    unfolding mathRound_def by simp_all
qed

lemma mathRound_mono:
  assumes "x \<le> y"
  shows "mathRound x \<le> mathRound y"
proof -
  have up: "\<lfloor>x + 1 / 2\<rfloor> \<le> \<lfloor>y + 1 / 2\<rfloor>" and dn: "\<lfloor>- y + 1 / 2\<rfloor> \<le> \<lfloor>- x + 1 / 2\<rfloor>"
    using assms by (auto intro: floor_mono)
  show ?thesis
  proof (cases "x < 0 \<and> 0 \<le> y")
    case True
    then have "0 \<le> \<lfloor>- x + 1 / 2\<rfloor>" "0 \<le> \<lfloor>y + 1 / 2\<rfloor>" by simp_all
    then have "- \<lfloor>- x + 1 / 2\<rfloor> \<le> \<lfloor>y + 1 / 2\<rfloor>" by linarith
    with True show ?thesis by (simp add: mathRound_def)
  next
    case False
    with up dn assms show ?thesis by (auto simp: mathRound_def)
  qed
qed

lemma weight_between:
  assumes "float64_rounding r" and "0 \<le> x" and "x \<le> 1" and "\<bar>w\<bar> < 2 ^ 31"
  shows "min 0 w \<le> wrap32 (mathRound (r (x * of_int w)))"
    and "wrap32 (mathRound (r (x * of_int w))) \<le> max 0 w"
    and "wrap32 (mathRound (r (x * of_int w))) = mathRound (r (x * of_int w))"
proof -
  have w: "\<bar>w\<bar> \<le> 2 ^ 31" using assms(4) by simp
  have b: "min 0 w \<le> mathRound (r (x * of_int w))" "mathRound (r (x * of_int w)) \<le> max 0 w"
    using mathRound_between[OF scaled_between[OF assms(1-3) w]] .
  then show eq: "wrap32 (mathRound (r (x * of_int w))) = mathRound (r (x * of_int w))"
    using assms(4) by (intro wrap32_id) auto
  show "min 0 w \<le> wrap32 (mathRound (r (x * of_int w)))"
    "wrap32 (mathRound (r (x * of_int w))) \<le> max 0 w"
    unfolding eq by (rule b)+
qed

definition interpolated ::
  "lib \<Rightarrow> PropertySortOrder \<Rightarrow> int \<Rightarrow> rat \<Rightarrow> rat \<Rightarrow> rat \<Rightarrow> int result" where
  "interpolated lib order w f mn mx =
     (if mn = mx then Inr 0 else
       case order of
         Descending \<Rightarrow> Inr (wrap32 (mathRound (fl lib (ratio (fl lib) f mn mx * of_int w))))
       | Ascending \<Rightarrow> Inr (wrap32 (mathRound (fl lib (fl lib (1 - ratio (fl lib) f mn mx) * of_int w))))
       | OtherSortOrder _ \<Rightarrow> Inl (ErrPlain ''cannot interpolate weight as sort order is invalid''))"

lemma interpolated_range:
  assumes "float64_rounding (fl lib)" and "mn \<le> f" and "f \<le> mx" and "\<bar>w\<bar> < 2 ^ 31"
    and "order = Descending \<or> order = Ascending"
  shows "\<exists>v. interpolated lib order w f mn mx = Inr v \<and> min 0 w \<le> v \<and> v \<le> max 0 w"
proof -
  note u = ratio_unit[OF assms(1-3)]
  have "0 \<le> 1 - ratio (fl lib) f mn mx" "1 - ratio (fl lib) f mn mx \<le> 1" using u by simp_all
  note v = float64_rounding_unit[OF assms(1) this]
  show ?thesis
    using assms(5) weight_between(1,2)[OF assms(1) u assms(4)] weight_between(1,2)[OF assms(1) v assms(4)]
    by (cases "mn = mx") (auto simp: interpolated_def)
qed

text \<open>The value of the interpolation on a cluster the extremes were computed from.\<close>

lemma interpolateWeightFor_eq:
  assumes ob: "observed_for lib cs n = Inr mm" and st: "state n = Some mm" and c: "c \<in> set cs"
    and approx: "quantity_approximation (AsApproximateFloat64 lib)"
    and q: "retrievePropertyValueFrom lib c n = Inr (Some q)"
  shows "\<exists>f mn mx. AsApproximateFloat64 lib q = Some f \<and> mn \<le> f \<and> f \<le> mx \<and>
    (\<exists>m M. minQ mm = Some m \<and> maxQ mm = Some M \<and>
       AsApproximateFloat64 lib m = Some mn \<and> AsApproximateFloat64 lib M = Some mx) \<and>
    interpolateWeightFor lib c n order w state =
      interpolated lib order w f mn mx"
proof -
  have "\<forall>c\<in>set cs. \<exists>r. retrievePropertyValueFrom lib c n = Inr r \<and> (\<forall>q. r = Some q \<longrightarrow>
      (\<exists>m M. minQ mm = Some m \<and> maxQ mm = Some M \<and> m \<le> q \<and> q \<le> M))"
    using observeMinMax_bounds[OF ob] by blast
  from bspec[OF this c] q obtain m M where
    mM: "minQ mm = Some m" "maxQ mm = Some M" "m \<le> q" "q \<le> M" by auto
  have total: "\<exists>x. AsApproximateFloat64 lib p = Some x" for p
    using approx by (simp add: quantity_approximation_def)
  obtain f mn mx where F: "AsApproximateFloat64 lib q = Some f"
    "AsApproximateFloat64 lib m = Some mn" "AsApproximateFloat64 lib M = Some mx"
    using total[of q] total[of m] total[of M] by blast
  have mono: "the (AsApproximateFloat64 lib p) \<le> the (AsApproximateFloat64 lib p')" if "p \<le> p'" for p p'
    using approx that by (simp add: quantity_approximation_def)
  have le: "mn \<le> f" "f \<le> mx" using mono[OF mM(3)] mono[OF mM(4)] F by simp_all
  have "interpolateWeightFor lib c n order w state = interpolated lib order w f mn mx"
    using q st mM(1,2) F le
    by (simp add: interpolateWeightFor_def interpolated_def ratio_def Let_def not_less
        split: PropertySortOrder.split)
  with F mM(1,2) le show ?thesis by blast
qed

lemma interpolateWeightFor_range:
  assumes ob: "observed_for lib cs n = Inr mm" and st: "state n = Some mm" and c: "c \<in> set cs"
    and approx: "quantity_approximation (AsApproximateFloat64 lib)" and fl: "float64_rounding (fl lib)"
    and ord: "order = Descending \<or> order = Ascending" and w: "\<bar>w\<bar> < 2 ^ 31"
  shows "\<exists>v. interpolateWeightFor lib c n order w state = Inr v \<and> min 0 w \<le> v \<and> v \<le> max 0 w"
proof -
  from observeMinMax_bounds[OF ob] c obtain r where r: "retrievePropertyValueFrom lib c n = Inr r"
    by blast
  show ?thesis
  proof (cases r)
    case None
    with r show ?thesis by (simp add: interpolateWeightFor_def)
  next
    case (Some q)
    obtain f mn mx where le: "mn \<le> f" "f \<le> mx" and
      eq: "interpolateWeightFor lib c n order w state =
      interpolated lib order w f mn mx"
      using interpolateWeightFor_eq[where state = state and order = order and w = w, OF ob st c approx] r Some by blast
    show ?thesis unfolding eq by (rule interpolated_range[OF fl le w ord])
  qed
qed


definition exampleLib :: lib where
  "exampleLib = \<lparr>LabelSelectorAsSelector = \<lambda>_. Inr (\<lambda>_. True),
                 ParseQuantity = \<lambda>v. Inr (of_nat (length v)),
                 AsApproximateFloat64 = Some, fl = id\<rparr>"

definition exampleTerm :: PreferredClusterSelector where
  "exampleTerm = \<lparr>Weight = 20, Preference =
     \<lparr>TermLabelSelector = None, PropertySelector = None,
      TermPropertySorter = Some \<lparr>sorter_Name = ''nodes'', SortOrder = Descending\<rparr>\<rparr>\<rparr>"

lemma exampleLib_ok:
  "quantity_approximation (AsApproximateFloat64 exampleLib)" "float64_rounding (fl exampleLib)"
  by (auto simp: exampleLib_def quantity_approximation_def float64_rounding_def mono_def)


text \<open>The plugin contracts.\<close>

interpretation affinity_prefilter: pre_contract "clusteraffinity_PreFilter name"
  by unfold_locales (auto simp: clusteraffinity_PreFilter_def Let_def split: if_splits option.splits)

interpretation affinity_filter: filter_contract "clusteraffinity_Filter lib name"
  by unfold_locales
    (auto simp: clusteraffinity_Filter_def matchAnyTerm_not_Skip split: option.splits)

interpretation affinity_prescore: pre_contract "clusteraffinity_PreScore lib name"
  by unfold_locales
    (auto simp: clusteraffinity_PreScore_def Let_def split: if_splits option.splits sum.splits)

interpretation affinity_score: score_contract "clusteraffinity_Score lib name"
  by unfold_locales (auto simp: clusteraffinity_Score_def split: option.splits sum.splits)

end
