(* ===== verification/Overrider.thy ===== *)
theory Overrider
  imports Placement_Types Plugin_Affinity Framework_Utils
begin

text \<open>
  Which override snapshots apply to a placement and to a cluster
  (\<open>pkg/utils/overrider/overrider.go\<close>), and the group of resource snapshots behind a master
  (\<open>FetchAllResourceSnapshotsAlongWithMaster\<close>, \<open>FetchLatestMasterResourceSnapshot\<close>). Parsing
  raw content, asking the API server which kinds are cluster scoped and label selectors are
  library code: the record \<open>manifests\<close> and the selector of \<open>lib\<close>. The two kinds of override
  snapshots are one record; the namespace of a cluster-scoped one is empty.
\<close>

section \<open>Objects\<close>

record GroupVersionKind =
  gvk_Group :: string
  gvk_Version :: string
  gvk_Kind :: string

record Unstructured =
  u_GVK :: GroupVersionKind
  u_Namespace :: string
  u_Name :: string

record Envelope =
  env_Namespace :: string
  env_Data :: "(string \<times> string) list"

record manifests =
  UnmarshalObject :: "string \<Rightarrow> Unstructured option"
  UnmarshalEnvelope :: "string \<Rightarrow> Envelope option"
  IsClusterScopedResources :: "GroupVersionKind \<Rightarrow> bool"

record ResourceIdentifier =
  ri_Group :: string
  ri_Version :: string
  ri_Kind :: string
  ri_Name :: string
  ri_Namespace :: string

record PlacementRef =
  ref_Name :: string
  ref_Scope :: string

record ResourceSelector =
  rs_GVK :: GroupVersionKind
  rs_Name :: string

text \<open>The label selectors of the terms of a rule; a nil cluster selector is \<open>None\<close>.\<close>

record OverrideRule =
  ClusterSelector :: "LabelSelector option list option"

record OverrideSnapshot = ObjectMeta +
  OverridePlacement :: "PlacementRef option"
  OverrideSelectors :: "ResourceSelector list"
  OverridePolicy :: "OverrideRule list option"

definition NamespaceScoped :: string where
  "NamespaceScoped = ''Namespaced''"

record 'w overrideClient =
  listLatestClusterResourceOverrideSnapshots :: "('w, OverrideSnapshot list) prog"
  listLatestResourceOverrideSnapshots :: "('w, OverrideSnapshot list) prog"
  listResourceSnapshotsWithIndex :: "string \<Rightarrow> string \<Rightarrow> string \<Rightarrow> ('w, ResourceSnapshot list) prog"
  listLatestResourceSnapshots :: "string \<Rightarrow> string \<Rightarrow> ('w, ResourceSnapshot list) prog"
  getMemberCluster :: "string \<Rightarrow> ('w, MemberCluster) prog"

section \<open>Resource snapshots\<close>

definition ListLatestResourceSnapshots ::
  "'w overrideClient \<Rightarrow> string \<Rightarrow> string \<Rightarrow> ('w, ResourceSnapshot list) prog" where
  "ListLatestResourceSnapshots c namespace name =
     wrapP (apiServerError True) (listLatestResourceSnapshots c namespace name)"

definition isMasterSnapshot :: "ResourceSnapshot \<Rightarrow> bool" where
  "isMasterSnapshot s = (length (getString (Annotations s) ResourceGroupHashAnnotation) \<noteq> 0)"

definition FetchLatestMasterResourceSnapshot ::
  "'w overrideClient \<Rightarrow> string \<Rightarrow> string \<Rightarrow> ('w, ResourceSnapshot option) prog" where
  "FetchLatestMasterResourceSnapshot c namespace name =
     bindP (ListLatestResourceSnapshots c namespace name) (\<lambda>items.
       if length items = 0 then returnP None
       else case find isMasterSnapshot items of
              None \<Rightarrow> failP ErrUnexpectedBehavior
            | Some m \<Rightarrow> returnP (Some m))"

definition ListAllResourceSnapshotWithAnIndex ::
  "'w overrideClient \<Rightarrow> string \<Rightarrow> string \<Rightarrow> string \<Rightarrow> ('w, ResourceSnapshot list) prog" where
  "ListAllResourceSnapshotWithAnIndex c index name namespace =
     wrapP (apiServerError True) (listResourceSnapshotsWithIndex c index name namespace)"

text \<open>The snapshots by name: a later one with the same name replaces an earlier one.\<close>

definition putSnapshot :: "ResourceSnapshot \<Rightarrow> ResourceSnapshot list \<Rightarrow> ResourceSnapshot list" where
  "putSnapshot s m = filter (\<lambda>t. Name t \<noteq> Name s) m @ [s]"

definition FetchAllResourceSnapshotsAlongWithMaster ::
  "'w overrideClient \<Rightarrow> string \<Rightarrow> ResourceSnapshot \<Rightarrow> ('w, ResourceSnapshot list) prog" where
  "FetchAllResourceSnapshotsAlongWithMaster c placementKey master =
     (case atoi (getString (Annotations master) NumberOfResourceSnapshotsAnnotation) of
        None \<Rightarrow> failP ErrUnexpectedBehavior
      | Some snapshotCount \<Rightarrow>
          if snapshotCount < 1 then failP ErrUnexpectedBehavior
          else bindP
            (if snapshotCount > 1
             then bindP (liftP (wrapR (\<lambda>_. ErrUnexpectedBehavior)
                          (ExtractResourceIndexFromResourceSnapshot master))) (\<lambda>index.
                  bindP (liftP (ExtractNamespaceNameFromKeyStr placementKey)) (\<lambda>(namespace, name).
                  bindP (wrapP (apiServerError True)
                          (ListAllResourceSnapshotWithAnIndex c (itoa index) name namespace)) (\<lambda>items.
                  returnP (foldl (\<lambda>m s. putSnapshot s m) [master] items))))
             else returnP [master]) (\<lambda>snapshots.
          if int (length snapshots) \<noteq> snapshotCount then failP ErrExpectedBehavior
          else returnP snapshots))"

section \<open>Candidates\<close>

definition namespaceCROCandidate :: "string \<Rightarrow> ResourceIdentifier" where
  "namespaceCROCandidate namespace =
     \<lparr>ri_Group = '''', ri_Version = ''v1'', ri_Kind = ''Namespace'', ri_Name = namespace,
      ri_Namespace = ''''\<rparr>"

definition clusterScopedCROCandidate :: "Unstructured \<Rightarrow> ResourceIdentifier" where
  "clusterScopedCROCandidate u =
     \<lparr>ri_Group = gvk_Group (u_GVK u), ri_Version = gvk_Version (u_GVK u), ri_Kind = gvk_Kind (u_GVK u),
      ri_Name = u_Name u, ri_Namespace = ''''\<rparr>"

definition namespacedROCandidate :: "Unstructured \<Rightarrow> string \<Rightarrow> ResourceIdentifier" where
  "namespacedROCandidate u namespace =
     \<lparr>ri_Group = gvk_Group (u_GVK u), ri_Version = gvk_Version (u_GVK u), ri_Kind = gvk_Kind (u_GVK u),
      ri_Name = u_Name u, ri_Namespace = namespace\<rparr>"

text \<open>Pairs of sets: the candidates for cluster-scoped and for namespaced overrides.\<close>

type_synonym candidates = "ResourceIdentifier set \<times> ResourceIdentifier set"

definition addCandidatesFromResource :: "manifests \<Rightarrow> Unstructured \<Rightarrow> candidates" where
  "addCandidatesFromResource mf u =
     (if \<not> IsClusterScopedResources mf (u_GVK u)
      then ({namespaceCROCandidate (u_Namespace u)}, {namespacedROCandidate u (u_Namespace u)})
      else ({clusterScopedCROCandidate u}, {}))"

definition sortedEnvelopeDataKeys :: "(string \<times> string) list \<Rightarrow> string list" where
  "sortedEnvelopeDataKeys data = sort (map fst data)"

definition unmarshalEnvelopeData :: "manifests \<Rightarrow> Envelope \<Rightarrow> string \<Rightarrow> Unstructured option" where
  "unmarshalEnvelopeData mf e key =
     (case map_of (env_Data e) key of None \<Rightarrow> UnmarshalObject mf '''' | Some raw \<Rightarrow> UnmarshalObject mf raw)"

definition collectCandidatesFromClusterResourceEnvelope :: "manifests \<Rightarrow> Envelope \<Rightarrow> ResourceIdentifier set" where
  "collectCandidatesFromClusterResourceEnvelope mf e =
     set (List.map_filter (\<lambda>key.
       case unmarshalEnvelopeData mf e key of
         None \<Rightarrow> None
       | Some u \<Rightarrow> if \<not> IsClusterScopedResources mf (u_GVK u) then None
                   else Some (clusterScopedCROCandidate u)) (sortedEnvelopeDataKeys (env_Data e)))"

definition collectCandidatesFromResourceEnvelope :: "manifests \<Rightarrow> Envelope \<Rightarrow> ResourceIdentifier set" where
  "collectCandidatesFromResourceEnvelope mf e =
     set (List.map_filter (\<lambda>key.
       case unmarshalEnvelopeData mf e key of
         None \<Rightarrow> None
       | Some u \<Rightarrow> if IsClusterScopedResources mf (u_GVK u) then None
                   else if env_Namespace e \<noteq> u_Namespace u then None
                   else Some (namespacedROCandidate u (env_Namespace e)))
       (sortedEnvelopeDataKeys (env_Data e)))"

definition envelopeGVK :: "string \<Rightarrow> GroupVersionKind" where
  "envelopeGVK kind =
     \<lparr>gvk_Group = ''placement.kubernetes-fleet.io'', gvk_Version = ''v1beta1'', gvk_Kind = kind\<rparr>"

definition collectOverrideCandidatesFromSelectedResource :: "manifests \<Rightarrow> string \<Rightarrow> candidates result" where
  "collectOverrideCandidatesFromSelectedResource mf raw =
     (case UnmarshalObject mf raw of
        None \<Rightarrow> Inl ErrUnexpectedBehavior
      | Some u \<Rightarrow>
          if u_GVK u = envelopeGVK ''ClusterResourceEnvelope'' then
            (case UnmarshalEnvelope mf raw of
               None \<Rightarrow> Inl ErrUnexpectedBehavior
             | Some e \<Rightarrow> Inr (collectCandidatesFromClusterResourceEnvelope mf e, {}))
          else if u_GVK u = envelopeGVK ''ResourceEnvelope'' then
            (case UnmarshalEnvelope mf raw of
               None \<Rightarrow> Inl ErrUnexpectedBehavior
             | Some e \<Rightarrow> Inr ({namespaceCROCandidate (env_Namespace e)},
                              collectCandidatesFromResourceEnvelope mf e))
          else Inr (addCandidatesFromResource mf u))"

definition possibleOverrides :: "manifests \<Rightarrow> ResourceSnapshot list \<Rightarrow> candidates result" where
  "possibleOverrides mf snapshots =
     foldR (\<lambda>raw (cros, ros).
       bindR (collectOverrideCandidatesFromSelectedResource mf raw) (\<lambda>(c, r). Inr (cros \<union> c, ros \<union> r)))
       (concat (map SelectedResources snapshots)) ({}, {})"

section \<open>Overrides of a placement\<close>

definition selectorKey :: "string \<Rightarrow> ResourceSelector \<Rightarrow> ResourceIdentifier" where
  "selectorKey namespace s =
     \<lparr>ri_Group = gvk_Group (rs_GVK s), ri_Version = gvk_Version (rs_GVK s), ri_Kind = gvk_Kind (rs_GVK s),
      ri_Name = rs_Name s, ri_Namespace = namespace\<rparr>"

definition croMatched :: "string \<Rightarrow> ResourceIdentifier set \<Rightarrow> OverrideSnapshot \<Rightarrow> bool" where
  "croMatched placementKey possible cro =
     ((case OverridePlacement cro of None \<Rightarrow> True | Some p \<Rightarrow> ref_Name p = placementKey) \<and>
      list_ex (\<lambda>s. selectorKey '''' s \<in> possible) (OverrideSelectors cro))"

definition roMatched :: "string \<Rightarrow> ResourceIdentifier set \<Rightarrow> OverrideSnapshot \<Rightarrow> bool" where
  "roMatched placementKey possible ro =
     ((case OverridePlacement ro of None \<Rightarrow> True
       | Some p \<Rightarrow>
           (if ref_Scope p = NamespaceScoped
            then GetObjectKeyFromNamespaceName (Namespace ro) (ref_Name p) else ref_Name p) = placementKey) \<and>
      list_ex (\<lambda>s. selectorKey (Namespace ro) s \<in> possible) (OverrideSelectors ro))"

definition FetchAllMatchingOverridesForResourceSnapshot ::
  "'w overrideClient \<Rightarrow> manifests \<Rightarrow> string \<Rightarrow> ResourceSnapshot \<Rightarrow>
   ('w, OverrideSnapshot list \<times> OverrideSnapshot list) prog" where
  "FetchAllMatchingOverridesForResourceSnapshot c mf placementKey master =
     bindP (listLatestClusterResourceOverrideSnapshots c) (\<lambda>cros.
     bindP (listLatestResourceOverrideSnapshots c) (\<lambda>ros.
     if length cros = 0 \<and> length ros = 0 then returnP ([], [])
     else bindP (FetchAllResourceSnapshotsAlongWithMaster c placementKey master) (\<lambda>snapshots.
     bindP (liftP (possibleOverrides mf snapshots)) (\<lambda>(possibleCROs, possibleROs).
     returnP (filter (croMatched placementKey possibleCROs) cros,
              filter (roMatched placementKey possibleROs) ros)))))"

section \<open>Overrides of a cluster\<close>

text \<open>\<open>LabelSelectorAsSelector\<close> of a nil selector matches nothing.\<close>

definition selectorMatches :: "lib \<Rightarrow> LabelSelector option \<Rightarrow> MemberCluster \<Rightarrow> bool result" where
  "selectorMatches lib s cluster =
     (case s of None \<Rightarrow> Inr False
      | Some ls \<Rightarrow> bindR (LabelSelectorAsSelector lib ls) (\<lambda>m. Inr (m (Labels cluster))))"

fun anyTermMatches :: "lib \<Rightarrow> MemberCluster \<Rightarrow> LabelSelector option list \<Rightarrow> bool result" where
  "anyTermMatches lib cluster [] = Inr False"
| "anyTermMatches lib cluster (t # ts) =
     bindR (selectorMatches lib t cluster) (\<lambda>m.
       if m then Inr True else anyTermMatches lib cluster ts)"

definition IsClusterMatched :: "lib \<Rightarrow> MemberCluster \<Rightarrow> OverrideRule \<Rightarrow> bool result" where
  "IsClusterMatched lib cluster rule =
     (case ClusterSelector rule of
        None \<Rightarrow> Inr False
      | Some terms \<Rightarrow> if length terms = 0 then Inr True else anyTermMatches lib cluster terms)"

fun anyRuleMatches :: "lib \<Rightarrow> MemberCluster \<Rightarrow> OverrideRule list \<Rightarrow> bool result" where
  "anyRuleMatches lib cluster [] = Inr False"
| "anyRuleMatches lib cluster (r # rs) =
     bindR (IsClusterMatched lib cluster r) (\<lambda>m. if m then Inr True else anyRuleMatches lib cluster rs)"

definition isClusterMatched :: "lib \<Rightarrow> MemberCluster \<Rightarrow> OverrideRule list option \<Rightarrow> bool result" where
  "isClusterMatched lib cluster policy =
     (case policy of None \<Rightarrow> Inl (ErrPlain ''policy is nil'')
      | Some rules \<Rightarrow> anyRuleMatches lib cluster rules)"

fun matchedOverrides :: "lib \<Rightarrow> MemberCluster \<Rightarrow> OverrideSnapshot list \<Rightarrow> OverrideSnapshot list result" where
  "matchedOverrides lib cluster [] = Inr []"
| "matchedOverrides lib cluster (o' # os) =
     bindR (wrapR (\<lambda>_. ErrUnexpectedBehavior) (isClusterMatched lib cluster (OverridePolicy o'))) (\<lambda>m.
       bindR (matchedOverrides lib cluster os) (\<lambda>rest. Inr (if m then o' # rest else rest)))"

definition croLess :: "OverrideSnapshot \<Rightarrow> OverrideSnapshot \<Rightarrow> bool" where
  "croLess a b = (Name a < Name b)"

definition roLess :: "OverrideSnapshot \<Rightarrow> OverrideSnapshot \<Rightarrow> bool" where
  "roLess a b = (if Namespace a = Namespace b then Name a < Name b else Namespace a < Namespace b)"

definition PickFromResourceMatchedOverridesForTargetCluster ::
  "'w overrideClient \<Rightarrow> lib \<Rightarrow> string \<Rightarrow> OverrideSnapshot list \<Rightarrow> OverrideSnapshot list \<Rightarrow>
   ('w, string list \<times> NamespacedName list) prog" where
  "PickFromResourceMatchedOverridesForTargetCluster c lib targetCluster croList roList =
     (if length croList = 0 \<and> length roList = 0 then returnP ([], [])
      else bindP (wrapP (\<lambda>e. if e = ErrAPI NotFound then ErrExpectedBehavior else apiServerError True e)
                   (getMemberCluster c targetCluster)) (\<lambda>cluster.
        bindP (liftP (matchedOverrides lib cluster croList)) (\<lambda>croFiltered.
        bindP (liftP (matchedOverrides lib cluster roList)) (\<lambda>roFiltered.
        returnP (map Name (sort_by croLess croFiltered),
                 map (\<lambda>o'. \<lparr>nn_Name = Name o', nn_Namespace = Namespace o'\<rparr>) (sort_by roLess roFiltered))))))"

section \<open>Properties\<close>

interpretation cro_order: strict_order croLess
  unfolding croLess_def[abs_def] by (rule strict_order_key)

lemma roLess_lex:
  "roLess = (\<lambda>a b. Namespace a < Namespace b \<or> (\<not> Namespace b < Namespace a \<and> Name a < Name b))"
  by (intro ext) (auto simp: roLess_def)

interpretation ro_order: strict_order roLess
  unfolding roLess_lex by (rule strict_order_lex[OF strict_order_key strict_order_key])

text \<open>A snapshot list is matched one by one; the result is a filtered list or the one error.\<close>

definition overrideMatch :: "lib \<Rightarrow> MemberCluster \<Rightarrow> OverrideSnapshot \<Rightarrow> bool" where
  "overrideMatch lib cluster o' \<longleftrightarrow> isClusterMatched lib cluster (OverridePolicy o') = Inr True"

lemma matchedOverrides_eq:
  "matchedOverrides lib cluster os =
     (if \<forall>o'\<in>set os. \<exists>m. isClusterMatched lib cluster (OverridePolicy o') = Inr m
      then Inr (filter (overrideMatch lib cluster) os) else Inl ErrUnexpectedBehavior)"
proof (induction os)
  case (Cons x os)
  show ?case
  proof (cases "isClusterMatched lib cluster (OverridePolicy x)")
    case (Inl e)
    then show ?thesis by simp
  next
    case (Inr m)
    moreover have "overrideMatch lib cluster x \<longleftrightarrow> m" using Inr by (simp add: overrideMatch_def)
    ultimately show ?thesis using Cons by auto
  qed
qed simp

lemma matchedOverrides_perm:
  assumes "mset os1 = mset os2" and "distinct (map f os2)"
    and "strict_order lt" and "\<And>a b. f a \<noteq> f b \<Longrightarrow> lt a b \<or> lt b a"
  shows "wrapR id (bindR (matchedOverrides lib cluster os1) (\<lambda>os. Inr (sort_by lt os))) =
    wrapR id (bindR (matchedOverrides lib cluster os2) (\<lambda>os. Inr (sort_by lt os)))"
proof -
  have set: "set os1 = set os2" using assms(1) by (metis set_mset_mset)
  have m: "mset (filter P os1) = mset (filter P os2)" for P using assms(1) by (metis mset_filter)
  have "sort_by lt (filter P os1) = sort_by lt (filter P os2)" for P
  proof (rule strict_order.sort_by_unique[OF assms(3)])
    show "mset (sort_by lt (filter P os1)) = mset (filter P os2)" using m by simp
    show "sorted_by lt (sort_by lt (filter P os1))" by (rule strict_order.sorted_sort_by[OF assms(3)])
    show "lt a b \<or> lt b a" if "a \<in> set (filter P os2)" "b \<in> set (filter P os2)" "a \<noteq> b" for a b
      using that assms(2,4) by (auto simp: distinct_map inj_on_def)
  qed
  with set show ?thesis by (simp add: matchedOverrides_eq)
qed

lemma bindP_liftP_cong:
  assumes "bindR r1 (\<lambda>x. Inr (g x)) = bindR r2 (\<lambda>x. Inr (g x))" and "\<And>x y. g x = g y \<Longrightarrow> k1 x = k2 y"
  shows "bindP (liftP r1) k1 = bindP (liftP r2) k2"
  using assms by (cases r1; cases r2) (auto simp: liftP_bind)

lemma wrapR_id [simp]: "wrapR id r = r"
  by (cases r) simp_all

abbreviation overrideKey :: "OverrideSnapshot \<Rightarrow> string \<times> string" where
  "overrideKey o' \<equiv> (Namespace o', Name o')"

text \<open>
  C28: The overrides picked for a cluster do not depend on the order in which the override
  snapshots are listed: permuted lists of snapshots with distinct names give the same calls
  and the same names in the same order, so an unchanged set of overrides never looks like a
  change to the rollout controller.
\<close>

theorem picked_overrides_order_independent:
  fixes c :: "'w overrideClient"
  assumes "mset cros1 = mset cros2" and "distinct (map Name cros2)"
    and "mset ros1 = mset ros2" and "distinct (map overrideKey ros2)"
  shows "PickFromResourceMatchedOverridesForTargetCluster c lib cluster cros1 ros1 =
    PickFromResourceMatchedOverridesForTargetCluster c lib cluster cros2 ros2"
proof -
  have len: "length cros1 = length cros2" "length ros1 = length ros2"
    using assms(1,3) by (auto dest: mset_eq_length)
  have cro: "bindR (matchedOverrides lib cl cros1) (\<lambda>os. Inr (sort_by croLess os)) =
      bindR (matchedOverrides lib cl cros2) (\<lambda>os. Inr (sort_by croLess os))" for cl
    using matchedOverrides_perm[OF assms(1,2) cro_order.strict_order_axioms]
    by (simp add: croLess_def neq_iff)
  have ro: "bindR (matchedOverrides lib cl ros1) (\<lambda>os. Inr (sort_by roLess os)) =
      bindR (matchedOverrides lib cl ros2) (\<lambda>os. Inr (sort_by roLess os))" for cl
  proof -
    have "overrideKey a \<noteq> overrideKey b \<Longrightarrow> roLess a b \<or> roLess b a" for a b
      by (auto simp: roLess_def)
    from matchedOverrides_perm[OF assms(3,4) ro_order.strict_order_axioms this] show ?thesis by simp
  qed
  let ?k = "\<lambda>cs rs. returnP (map Name (sort_by croLess cs),
    map (\<lambda>o'. \<lparr>nn_Name = Name o', nn_Namespace = Namespace o'\<rparr>) (sort_by roLess rs)) :: ('w, string list \<times> NamespacedName list) prog"
  have "bindP (liftP (matchedOverrides lib cl cros1)) (\<lambda>cs. bindP (liftP (matchedOverrides lib cl ros1)) (?k cs)) =
    bindP (liftP (matchedOverrides lib cl cros2)) (\<lambda>cs. bindP (liftP (matchedOverrides lib cl ros2)) (?k cs))" for cl
    by (intro bindP_liftP_cong[where g = "sort_by croLess", OF cro] bindP_liftP_cong[where g = "sort_by roLess", OF ro])
      simp
  then show ?thesis by (simp add: PickFromResourceMatchedOverridesForTargetCluster_def len)
qed

definition exampleSelection :: lib where
  "exampleSelection =
     \<lparr>LabelSelectorAsSelector = \<lambda>s. Inr (\<lambda>m. list_all (\<lambda>(k, v). m k = Some v) (MatchLabels s)),
      ParseQuantity = \<lambda>_. Inr 0, AsApproximateFloat64 = \<lambda>q. Some q, fl = \<lambda>x. x\<rparr>"

definition exampleOverride :: "string \<Rightarrow> OverrideSnapshot" where
  "exampleOverride n =
     \<lparr>Name = n, Namespace = '''', Labels = Map.empty, Annotations = Map.empty, Finalizers = [],
      Generation = 1, ResourceVersion = 1, DeletionTimestamp = None, OverridePlacement = None,
      OverrideSelectors = [], OverridePolicy = Some [\<lparr>ClusterSelector = Some []\<rparr>]\<rparr>"

definition exampleOverrideClient :: "ResourceSnapshot list result \<Rightarrow> 'w overrideClient" where
  "exampleOverrideClient snapshots =
     \<lparr>listLatestClusterResourceOverrideSnapshots = returnP [],
      listLatestResourceOverrideSnapshots = returnP [],
      listResourceSnapshotsWithIndex = \<lambda>_ _ _. liftP snapshots,
      listLatestResourceSnapshots = \<lambda>_ _. liftP snapshots,
      getMemberCluster = \<lambda>n. returnP (exampleCluster n)\<rparr>"

theorem picked_overrides_order_independent_witness:
  "let c = exampleOverrideClient (Inr []) :: nat overrideClient;
       r = PickFromResourceMatchedOverridesForTargetCluster c exampleSelection ''m''
             [exampleOverride ''b'', exampleOverride ''a''] []
   in r = PickFromResourceMatchedOverridesForTargetCluster c exampleSelection ''m''
            [exampleOverride ''a'', exampleOverride ''b''] [] \<and>
      r 0 = (Inr ([''a'', ''b''], []), 0)"
proof -
  have "PickFromResourceMatchedOverridesForTargetCluster (exampleOverrideClient (Inr []) :: nat overrideClient)
      exampleSelection ''m'' [exampleOverride ''b'', exampleOverride ''a''] [] =
    PickFromResourceMatchedOverridesForTargetCluster (exampleOverrideClient (Inr []))
      exampleSelection ''m'' [exampleOverride ''a'', exampleOverride ''b''] []"
    by (rule picked_overrides_order_independent) (simp_all add: exampleOverride_def)
  then show ?thesis
    by (simp add: PickFromResourceMatchedOverridesForTargetCluster_def exampleOverrideClient_def
        isClusterMatched_def IsClusterMatched_def exampleOverride_def bindP_def wrapP_def croLess_def)
qed

text \<open>
  A transient API error while listing the snapshots of a group is reported as unexpected
  behaviour: the list function has already replaced the error by one of the category
  \<open>ErrAPIServerError\<close>, which carries no status, and classifying it a second time as an error
  of the cache takes a missing status for a broken cache.
\<close>

theorem snapshot_list_error_misclassified:
  assumes "atoi (getString (Annotations master) NumberOfResourceSnapshotsAnnotation) = Some n" and "1 < n"
    and "ExtractResourceIndexFromResourceSnapshot master = Inr i"
    and "ExtractNamespaceNameFromKeyStr key = Inr (ns, name)"
    and "listResourceSnapshotsWithIndex c (itoa i) name ns w = (Inl (ErrAPI e), w')" and "e \<noteq> NonStatusError"
  shows "ListAllResourceSnapshotWithAnIndex c (itoa i) name ns w = (Inl ErrAPIServerError, w') \<and>
    FetchAllResourceSnapshotsAlongWithMaster c key master w = (Inl ErrUnexpectedBehavior, w')"
proof -
  have "ListAllResourceSnapshotWithAnIndex c (itoa i) name ns w = (Inl ErrAPIServerError, w')"
    using assms(5,6)
    by (simp add: ListAllResourceSnapshotWithAnIndex_def wrapP_def apiServerError_def error_defs isUnexpectedCacheError_def)
  with assms(1-4) show ?thesis
    by (simp add: FetchAllResourceSnapshotsAlongWithMaster_def bindP_def wrapP_def apiServerError_def error_defs
        isUnexpectedCacheError_def)
qed

definition exampleSnapshot :: "string \<Rightarrow> ResourceSnapshot" where
  "exampleSnapshot n =
     \<lparr>Name = n, Namespace = '''', Labels = [ResourceIndexLabel \<mapsto> ''0''],
      Annotations = [NumberOfResourceSnapshotsAnnotation \<mapsto> ''2'', ResourceGroupHashAnnotation \<mapsto> ''h''],
      Finalizers = [], Generation = 1, ResourceVersion = 1, DeletionTimestamp = None, SelectedResources = []\<rparr>"

theorem snapshot_list_error_misclassified_witness:
  "FetchAllResourceSnapshotsAlongWithMaster (exampleOverrideClient (Inl (ErrAPI ServerTimeout))) ''crp''
     (exampleSnapshot ''crp-0-snapshot'') (0 :: nat) = (Inl ErrUnexpectedBehavior, 0)"
proof -
  let ?m = "exampleSnapshot ''crp-0-snapshot''"
  have "atoi (getString (Annotations ?m) NumberOfResourceSnapshotsAnnotation) = Some 2"
    "ExtractResourceIndexFromResourceSnapshot ?m = Inr 0" "ExtractNamespaceNameFromKeyStr ''crp'' = Inr ('''', ''crp'')"
    by code_simp+
  from snapshot_list_error_misclassified[OF this(1) _ this(2,3),
      of "exampleOverrideClient (Inl (ErrAPI ServerTimeout))" "0 :: nat" ServerTimeout 0]
  show ?thesis by (simp add: exampleOverrideClient_def)
qed

end
