(* ===== verification/Binding_Status.thy ===== *)
theory Binding_Status
  imports Api_Types
begin

text \<open>
  The conditions of a binding and the helpers on them (\<open>pkg/utils/binding/binding.go\<close>,
  \<open>apis/placement/v1beta1/binding_types.go\<close>).
\<close>

definition ResourceBindingRolloutStarted :: string where
  "ResourceBindingRolloutStarted = ''RolloutStarted''"

definition ResourceBindingOverridden :: string where
  "ResourceBindingOverridden = ''Overridden''"

definition ResourceBindingWorkSynchronized :: string where
  "ResourceBindingWorkSynchronized = ''WorkSynchronized''"

definition ResourceBindingApplied :: string where
  "ResourceBindingApplied = ''Applied''"

definition ResourceBindingAvailable :: string where
  "ResourceBindingAvailable = ''Available''"

definition ResourceBindingDiffReported :: string where
  "ResourceBindingDiffReported = ''DiffReported''"

lemmas binding_condition_defs =
  ResourceBindingRolloutStarted_def ResourceBindingOverridden_def ResourceBindingWorkSynchronized_def
  ResourceBindingApplied_def ResourceBindingAvailable_def ResourceBindingDiffReported_def

definition GetCondition :: "Binding \<Rightarrow> string \<Rightarrow> Condition option" where
  "GetCondition b conditionType = BindingConditions b conditionType"

text \<open>The conditions from \<open>OverriddenCondition\<close> to \<open>AvailableCondition\<close>.\<close>

definition perClusterConditions :: "string list" where
  "perClusterConditions =
     [ResourceBindingOverridden, ResourceBindingWorkSynchronized, ResourceBindingApplied,
      ResourceBindingAvailable]"

definition nonTerminalBindingFailureReasons :: "string list" where
  "nonTerminalBindingFailureReasons =
     [''OverriddenPending'', ''WorkNotSynchronizedYet'', ''ApplyPending'', ''ResourceNotAvailableYet'']"

definition HasBindingFailed :: "Binding \<Rightarrow> bool" where
  "HasBindingFailed b =
     list_ex (\<lambda>t.
       case GetCondition b t of
         None \<Rightarrow> False
       | Some c \<Rightarrow> IsConditionStatusFalse (Some c) (Generation b) \<and>
                   cond_Reason c \<notin> set nonTerminalBindingFailureReasons)
       perClusterConditions"

definition IsBindingDiffReported :: "Binding \<Rightarrow> bool" where
  "IsBindingDiffReported b =
     (case GetCondition b ResourceBindingDiffReported of
        None \<Rightarrow> False | Some c \<Rightarrow> cond_ObservedGeneration c = Generation b)"

text \<open>A binding is available at its own generation.\<close>

definition IsBindingAvailable :: "Binding \<Rightarrow> bool" where
  "IsBindingAvailable b =
     IsConditionStatusTrue (GetCondition b ResourceBindingAvailable) (Generation b)"

end
