(* ===== verification/Updaterun_Types.thy ===== *)
theory Updaterun_Types
  imports Policy_Snapshots Overrider Binding_Status
begin

text \<open>
  Staged update runs (\<open>apis/placement/v1beta1/stageupdate_types.go\<close>) and the functions that mark
  their conditions in memory (\<open>pkg/controllers/updaterun/execution.go\<close>, \<open>stop.go\<close>). A
  cluster-scoped and a namespaced run are the same record, and so are the two kinds of approval
  requests. The list of the stage statuses is an option because the code tells a nil list from
  an empty one. \<open>meta.SetStatusCondition\<close> of apimachinery, which reads the clock, is a parameter
  with the time as an argument: \<open>setter\<close>.
\<close>

section \<open>Strategies\<close>

datatype StageTaskType = StageTaskTypeTimedWait | StageTaskTypeApproval | StageTaskTypeOther string

record StageTask =
  task_Type :: StageTaskType
  WaitTime :: "int option"

record StageConfig =
  stage_Name :: string
  StageLabelSelector :: "LabelSelector option"
  SortingLabelKey :: "string option"
  MaxConcurrency :: "IntOrString option"
  AfterStageTasks :: "StageTask list"
  BeforeStageTasks :: "StageTask list"

text \<open>The delete stage has before stage tasks only.\<close>

record UpdateStrategySpec =
  Stages :: "StageConfig list"
  DeleteStage :: "StageTask list option"

section \<open>Runs\<close>

record ClusterUpdatingStatus =
  cus_ClusterName :: string
  cus_ResourceOverrideSnapshots :: "NamespacedName list"
  cus_ClusterResourceOverrideSnapshots :: "string list"
  cus_Conditions :: conditions

record StageTaskStatus =
  sts_Type :: StageTaskType
  ApprovalRequestName :: string
  sts_Conditions :: conditions

record StageUpdatingStatus =
  StageName :: string
  StageClusters :: "ClusterUpdatingStatus list"
  AfterStageTaskStatus :: "StageTaskStatus list"
  BeforeStageTaskStatus :: "StageTaskStatus list"
  StartTime :: "int option"
  EndTime :: "int option"
  StageConditions :: conditions

datatype RunState = StateInitialize | StateRun | StateStop | StateOther string

record UpdateRunSpec =
  PlacementName :: string
  ResourceSnapshotIndex :: string
  StagedUpdateStrategyName :: string
  RunStateOf :: RunState

record UpdateRunStatus =
  PolicySnapshotIndexUsed :: string
  PolicyObservedClusterCount :: int
  ResourceSnapshotIndexUsed :: string
  RunApplyStrategy :: "ApplyStrategy option"
  UpdateStrategySnapshot :: "UpdateStrategySpec option"
  StagesStatus :: "StageUpdatingStatus list option"
  DeletionStageStatus :: "StageUpdatingStatus option"
  RunConditions :: conditions

record UpdateRun = ObjectMeta +
  RunSpec :: UpdateRunSpec
  RunStatus :: UpdateRunStatus

record ApprovalRequest = ObjectMeta +
  TargetUpdateRun :: string
  TargetStage :: string
  ApprovalConditions :: conditions

text \<open>The stages of a run; a nil list has none.\<close>

definition stagesOf :: "UpdateRun \<Rightarrow> StageUpdatingStatus list" where
  "stagesOf run = (case StagesStatus (RunStatus run) of None \<Rightarrow> [] | Some l \<Rightarrow> l)"

section \<open>Constants\<close>

definition UpdateRunFinalizer :: string where
  "UpdateRunFinalizer = FleetPrefix @ ''stagedupdaterun-finalizer''"

definition TargetUpdateRunLabel :: string where
  "TargetUpdateRunLabel = FleetPrefix @ ''targetUpdateRun''"

definition TaskTypeLabel :: string where
  "TaskTypeLabel = FleetPrefix @ ''taskType''"

definition UpdateRunDeleteStageName :: string where
  "UpdateRunDeleteStageName = FleetPrefix @ ''deleteStage''"

definition UpdateRunDeleteStageTaskName :: string where
  "UpdateRunDeleteStageTaskName = ''delete-stage''"

definition IsLatestUpdateRunApprovalLabel :: string where
  "IsLatestUpdateRunApprovalLabel = FleetPrefix @ ''isLatestUpdateRunApproval''"

definition TargetUpdatingStageNameLabel :: string where
  "TargetUpdatingStageNameLabel = FleetPrefix @ ''targetUpdatingStage''"

definition BeforeStageTaskLabelValue :: string where
  "BeforeStageTaskLabelValue = ''beforeStage''"

definition AfterStageTaskLabelValue :: string where
  "AfterStageTaskLabelValue = ''afterStage''"

text \<open>The condition types; a run and a stage use the same two names, and a cluster one of them.\<close>

definition InitializedType :: string where
  "InitializedType = ''Initialized''"

definition ProgressingType :: string where
  "ProgressingType = ''Progressing''"

definition SucceededType :: string where
  "SucceededType = ''Succeeded''"

definition ClusterUpdatingConditionStarted :: string where
  "ClusterUpdatingConditionStarted = ''Started''"

definition StageTaskConditionApprovalRequestCreated :: string where
  "StageTaskConditionApprovalRequestCreated = ''ApprovalRequestCreated''"

definition StageTaskConditionApprovalRequestApproved :: string where
  "StageTaskConditionApprovalRequestApproved = ''ApprovalRequestApproved''"

definition StageTaskConditionWaitTimeElapsed :: string where
  "StageTaskConditionWaitTimeElapsed = ''WaitTimeElapsed''"

definition ApprovalRequestConditionApproved :: string where
  "ApprovalRequestConditionApproved = ''Approved''"

definition ApprovalRequestConditionApprovalAccepted :: string where
  "ApprovalRequestConditionApprovalAccepted = ''ApprovalAccepted''"

definition UpdateRunWaitingReason :: string where
  "UpdateRunWaitingReason = ''UpdateRunWaiting''"

definition UpdateRunStuckReason :: string where
  "UpdateRunStuckReason = ''UpdateRunStuck''"

definition clusterUpdatingWaitTime :: int where
  "clusterUpdatingWaitTime = 15 * 10 ^ 9"

definition stageUpdatingWaitTime :: int where
  "stageUpdatingWaitTime = 60 * 10 ^ 9"

definition updateRunStuckThreshold :: int where
  "updateRunStuckThreshold = 5 * 60 * 10 ^ 9"

section \<open>Marking conditions in memory\<close>

type_synonym setter = "int \<Rightarrow> conditions \<Rightarrow> Condition \<Rightarrow> conditions"

definition newCondition :: "string \<Rightarrow> ConditionStatus \<Rightarrow> int \<Rightarrow> string \<Rightarrow> string \<Rightarrow> Condition" where
  "newCondition ty st generation reason message =
     \<lparr>cond_Type = ty, cond_Status = st, cond_ObservedGeneration = generation, cond_LastTransitionTime = 0,
      cond_Reason = reason, cond_Message = message\<rparr>"

definition setRun :: "setter \<Rightarrow> int \<Rightarrow> string \<Rightarrow> ConditionStatus \<Rightarrow> string \<Rightarrow> string \<Rightarrow> UpdateRun \<Rightarrow> UpdateRun" where
  "setRun sc t ty st reason message run =
     run\<lparr>RunStatus := (RunStatus run)\<lparr>RunConditions :=
       sc t (RunConditions (RunStatus run)) (newCondition ty st (Generation run) reason message)\<rparr>\<rparr>"

definition setStage ::
  "setter \<Rightarrow> int \<Rightarrow> int \<Rightarrow> string \<Rightarrow> ConditionStatus \<Rightarrow> string \<Rightarrow> string \<Rightarrow> StageUpdatingStatus \<Rightarrow> StageUpdatingStatus" where
  "setStage sc t generation ty st reason message s =
     s\<lparr>StageConditions := sc t (StageConditions s) (newCondition ty st generation reason message)\<rparr>"

definition setCluster ::
  "setter \<Rightarrow> int \<Rightarrow> int \<Rightarrow> string \<Rightarrow> ConditionStatus \<Rightarrow> string \<Rightarrow> string \<Rightarrow> ClusterUpdatingStatus \<Rightarrow> ClusterUpdatingStatus" where
  "setCluster sc t generation ty st reason message c =
     c\<lparr>cus_Conditions := sc t (cus_Conditions c) (newCondition ty st generation reason message)\<rparr>"

definition setTask ::
  "setter \<Rightarrow> int \<Rightarrow> int \<Rightarrow> string \<Rightarrow> string \<Rightarrow> string \<Rightarrow> StageTaskStatus \<Rightarrow> StageTaskStatus" where
  "setTask sc t generation ty reason message s =
     s\<lparr>sts_Conditions := sc t (sts_Conditions s) (newCondition ty ConditionTrue generation reason message)\<rparr>"

subsection \<open>Runs\<close>

definition markUpdateRunProgressing :: "setter \<Rightarrow> int \<Rightarrow> UpdateRun \<Rightarrow> UpdateRun" where
  "markUpdateRunProgressing sc t run =
     setRun sc t ProgressingType ConditionTrue ''UpdateRunProgressing'' ''The update run is making progress'' run"

definition markUpdateRunProgressingIfNotWaitingOrStuck :: "setter \<Rightarrow> int \<Rightarrow> UpdateRun \<Rightarrow> UpdateRun" where
  "markUpdateRunProgressingIfNotWaitingOrStuck sc t run =
     (case RunConditions (RunStatus run) ProgressingType of
        Some c \<Rightarrow>
          if IsConditionStatusFalse (Some c) (Generation run) \<and>
             (cond_Reason c = UpdateRunWaitingReason \<or> cond_Reason c = UpdateRunStuckReason)
          then run else markUpdateRunProgressing sc t run
      | None \<Rightarrow> markUpdateRunProgressing sc t run)"

text \<open>\<open>strings.Join\<close>.\<close>

fun joinStrings :: "string \<Rightarrow> string list \<Rightarrow> string" where
  "joinStrings sep [] = []"
| "joinStrings sep [x] = x"
| "joinStrings sep (x # y # xs) = x @ sep @ joinStrings sep (y # xs)"

definition generateStuckClustersString :: "string list \<Rightarrow> string" where
  "generateStuckClustersString names =
     (if length names \<le> 3 then joinStrings '', '' names else joinStrings '', '' (take 3 names) @ ''...'')"

definition markUpdateRunStuck :: "setter \<Rightarrow> int \<Rightarrow> string \<Rightarrow> string list \<Rightarrow> UpdateRun \<Rightarrow> UpdateRun" where
  "markUpdateRunStuck sc t stageName names run =
     setRun sc t ProgressingType ConditionFalse UpdateRunStuckReason
       (''The updateRun is stuck waiting for '' @ generateStuckClustersString names @
        '' cluster(s) in stage '' @ stageName @
        '' to finish updating, please check placement status for potential errors'') run"

definition updateRunWaitingMessage :: "string \<Rightarrow> string \<Rightarrow> string" where
  "updateRunWaitingMessage tasks stageName =
     ''The updateRun is waiting for '' @ tasks @ '' tasks in stage '' @ stageName @ '' to complete''"

definition markUpdateRunWaiting :: "setter \<Rightarrow> int \<Rightarrow> string \<Rightarrow> UpdateRun \<Rightarrow> UpdateRun" where
  "markUpdateRunWaiting sc t message run =
     setRun sc t ProgressingType ConditionFalse UpdateRunWaitingReason message run"

definition markUpdateRunStopping :: "setter \<Rightarrow> int \<Rightarrow> UpdateRun \<Rightarrow> UpdateRun" where
  "markUpdateRunStopping sc t run =
     setRun sc t ProgressingType ConditionUnknown ''UpdateRunStopping''
       ''The update run is in the process of stopping, waiting for all the updating/deleting clusters to finish updating before completing the stop process'' run"

definition aggregateUpdateRunStatus :: "setter \<Rightarrow> int \<Rightarrow> string \<Rightarrow> string list \<Rightarrow> UpdateRun \<Rightarrow> UpdateRun" where
  "aggregateUpdateRunStatus sc t stageName names run =
     (if names \<noteq> [] then markUpdateRunStuck sc t stageName names run
      else if RunStateOf (RunSpec run) = StateRun then markUpdateRunProgressing sc t run
      else run)"

subsection \<open>Stages\<close>

definition startStageTime :: "int \<Rightarrow> StageUpdatingStatus \<Rightarrow> StageUpdatingStatus" where
  "startStageTime t s = s\<lparr>StartTime := (case StartTime s of None \<Rightarrow> Some t | Some x \<Rightarrow> Some x)\<rparr>"

definition endStageTime :: "int \<Rightarrow> StageUpdatingStatus \<Rightarrow> StageUpdatingStatus" where
  "endStageTime t s = s\<lparr>EndTime := (case EndTime s of None \<Rightarrow> Some t | Some x \<Rightarrow> Some x)\<rparr>"

definition markStageUpdatingProgressStarted :: "setter \<Rightarrow> int \<Rightarrow> int \<Rightarrow> StageUpdatingStatus \<Rightarrow> StageUpdatingStatus" where
  "markStageUpdatingProgressStarted sc t generation s =
     setStage sc t generation ProgressingType ConditionTrue ''StageUpdatingStarted''
       ''Clusters in the stage started updating'' (startStageTime t s)"

definition markStageUpdatingWaiting :: "setter \<Rightarrow> int \<Rightarrow> int \<Rightarrow> string \<Rightarrow> StageUpdatingStatus \<Rightarrow> StageUpdatingStatus" where
  "markStageUpdatingWaiting sc t generation message s =
     setStage sc t generation ProgressingType ConditionFalse ''StageUpdatingWaiting'' message s"

definition markStageUpdatingSucceeded :: "setter \<Rightarrow> int \<Rightarrow> int \<Rightarrow> StageUpdatingStatus \<Rightarrow> StageUpdatingStatus" where
  "markStageUpdatingSucceeded sc t generation s =
     setStage sc t generation SucceededType ConditionTrue ''StageUpdatingSucceeded'' ''Stage update completed successfully''
       (setStage sc t generation ProgressingType ConditionFalse ''StageUpdatingSucceeded''
          ''All clusters in the stage are updated and after-stage tasks are completed'' (endStageTime t s))"

definition markStageUpdatingSkippedNoClusters :: "setter \<Rightarrow> int \<Rightarrow> int \<Rightarrow> string \<Rightarrow> StageUpdatingStatus \<Rightarrow> StageUpdatingStatus" where
  "markStageUpdatingSkippedNoClusters sc t generation message s =
     setStage sc t generation SucceededType ConditionTrue ''StageUpdatingSkippedNoClusters'' message
       (setStage sc t generation ProgressingType ConditionFalse ''StageUpdatingSkippedNoClusters'' message
          (endStageTime t (startStageTime t s)))"

definition markStageUpdatingFailed :: "setter \<Rightarrow> int \<Rightarrow> int \<Rightarrow> string \<Rightarrow> StageUpdatingStatus \<Rightarrow> StageUpdatingStatus" where
  "markStageUpdatingFailed sc t generation message s =
     setStage sc t generation SucceededType ConditionFalse ''StageUpdatingFailed'' message
       (setStage sc t generation ProgressingType ConditionFalse ''StageUpdatingFailed''
          ''Stage update aborted due to a non-recoverable error'' (endStageTime t s))"

definition markStageUpdatingStopping :: "setter \<Rightarrow> int \<Rightarrow> int \<Rightarrow> StageUpdatingStatus \<Rightarrow> StageUpdatingStatus" where
  "markStageUpdatingStopping sc t generation s =
     setStage sc t generation ProgressingType ConditionUnknown ''StageUpdatingStopping''
       ''Waiting for all the updating clusters to finish updating before completing the stop process'' s"

definition markStageUpdatingStopped :: "setter \<Rightarrow> int \<Rightarrow> int \<Rightarrow> StageUpdatingStatus \<Rightarrow> StageUpdatingStatus" where
  "markStageUpdatingStopped sc t generation s =
     setStage sc t generation ProgressingType ConditionFalse ''StageUpdatingStopped''
       ''All the updating clusters have finished updating, the stage is now stopped, waiting to be resumed'' s"

subsection \<open>Clusters and tasks\<close>

definition markClusterUpdatingStarted :: "setter \<Rightarrow> int \<Rightarrow> int \<Rightarrow> ClusterUpdatingStatus \<Rightarrow> ClusterUpdatingStatus" where
  "markClusterUpdatingStarted sc t generation c =
     setCluster sc t generation ClusterUpdatingConditionStarted ConditionTrue ''ClusterUpdatingStarted''
       ''Cluster update started'' c"

definition markClusterUpdatingSucceeded :: "setter \<Rightarrow> int \<Rightarrow> int \<Rightarrow> ClusterUpdatingStatus \<Rightarrow> ClusterUpdatingStatus" where
  "markClusterUpdatingSucceeded sc t generation c =
     setCluster sc t generation SucceededType ConditionTrue ''ClusterUpdatingSucceeded''
       ''Cluster update completed successfully'' c"

definition markClusterUpdatingFailed :: "setter \<Rightarrow> int \<Rightarrow> int \<Rightarrow> string \<Rightarrow> ClusterUpdatingStatus \<Rightarrow> ClusterUpdatingStatus" where
  "markClusterUpdatingFailed sc t generation message c =
     setCluster sc t generation SucceededType ConditionFalse ''ClusterUpdatingFailed'' message c"

definition markStageTaskRequestCreated :: "setter \<Rightarrow> int \<Rightarrow> int \<Rightarrow> StageTaskStatus \<Rightarrow> StageTaskStatus" where
  "markStageTaskRequestCreated sc t generation s =
     setTask sc t generation StageTaskConditionApprovalRequestCreated ''StageTaskApprovalRequestCreated''
       ''ApprovalRequest object is created'' s"

definition markStageTaskRequestApproved :: "setter \<Rightarrow> int \<Rightarrow> int \<Rightarrow> StageTaskStatus \<Rightarrow> StageTaskStatus" where
  "markStageTaskRequestApproved sc t generation s =
     setTask sc t generation StageTaskConditionApprovalRequestApproved ''StageTaskApprovalRequestApproved''
       ''ApprovalRequest object is approved'' s"

definition markAfterStageWaitTimeElapsed :: "setter \<Rightarrow> int \<Rightarrow> int \<Rightarrow> StageTaskStatus \<Rightarrow> StageTaskStatus" where
  "markAfterStageWaitTimeElapsed sc t generation s =
     setTask sc t generation StageTaskConditionWaitTimeElapsed ''AfterStageTaskWaitTimeElapsed'' ''Wait time elapsed'' s"

end
