(* ===== verification/Framework_Decisions.thy ===== *)
theory Framework_Decisions
  imports Framework_Utils
begin

text \<open>
  Properties of the decision list, of picking and of the comparison of decisions in
  \<open>pkg/scheduler/framework/frameworkutils.go\<close>: the array limit of the API, which clusters the
  top-N selection takes, when two decision lists are equal, and the order in which bindings
  are trimmed.
\<close>

section \<open>The decision list\<close>

definition totalLength :: "'a list list \<Rightarrow> int" where
  "totalLength sets = int (sum_list (map length sets))"

lemma totalLength_simps [simp]:
  "totalLength [] = 0" "totalLength (bs # sets) = int (length bs) + totalLength sets"
  by (simp_all add: totalLength_def)

lemma totalLength_nonneg: "0 \<le> totalLength sets"
  by (simp add: totalLength_def)

lemma existingDecisions_count:
  assumes "existingDecisions slots sets = (ds, seen, left)" and "0 \<le> slots"
  shows "int (length ds) = min slots (totalLength sets) \<and> length seen = length ds \<and>
    (totalLength sets \<le> slots \<longrightarrow> left = slots - totalLength sets)"
  using assms
proof (induction sets arbitrary: slots ds seen left)
  case (Cons bs sets)
  show ?case
  proof (cases "slots - int (length bs) \<le> 0")
    case True
    with Cons.prems have eq: "ds = map (Decision \<circ> Spec) (take (nat slots) bs)"
      "seen = map target (take (nat slots) bs)" "left = slots - int (length bs)"
      by (simp_all add: Let_def)
    have "int (length ds) = slots" using True Cons.prems(2) by (simp add: eq)
    moreover have "length seen = length ds" by (simp add: eq)
    moreover have "min slots (totalLength (bs # sets)) = slots"
      using True totalLength_nonneg[of sets] by simp
    moreover have "left = slots - totalLength (bs # sets)" if "totalLength (bs # sets) \<le> slots"
      using True that totalLength_nonneg[of sets] by (simp add: eq)
    ultimately show ?thesis by simp
  next
    case False
    obtain ds' seen' left' where r: "existingDecisions (slots - int (length bs)) sets = (ds', seen', left')"
      by (metis prod_cases3)
    with False Cons.prems have eq: "ds = map (Decision \<circ> Spec) (take (nat slots) bs) @ ds'"
      "seen = map target (take (nat slots) bs) @ seen'" "left = left'"
      by (simp_all add: Let_def)
    have "0 \<le> slots - int (length bs)" using False by simp
    note IH = Cons.IH[OF r this]
    have "int (length ds) = int (length bs) + int (length ds')" using False by (simp add: eq)
    with IH False show ?thesis by (simp add: eq min_def)
  qed
qed auto

lemma notPickedDecisions_count:
  assumes "notPickedDecisions seen left m scs = (ds, left', m')"
  shows "left' = left - int (length ds) \<and> m' = m - int (length ds) \<and>
    (0 \<le> left \<longrightarrow> 0 \<le> left') \<and> (0 \<le> m \<longrightarrow> 0 \<le> m')"
  using assms
proof (induction scs arbitrary: left m ds left' m')
  case (Cons sc scs)
  show ?case
  proof (cases "left = 0 \<or> m = 0 \<or> scName sc \<in> seen")
    case True
    with Cons show ?thesis by (auto split: if_splits)
  next
    case False
    obtain ds1 l1 m1 where r: "notPickedDecisions seen (left - 1) (m - 1) scs = (ds1, l1, m1)"
      by (metis prod_cases3)
    with False Cons.prems have "ds = notPickedDecision sc # ds1" "left' = l1" "m' = m1" by simp_all
    with Cons.IH[OF r] False show ?thesis by auto
  qed
qed auto

lemma filteredDecisions_count:
  "int (length (filteredDecisions seen left m fs)) \<le> max 0 (min m left)"
proof -
  have "length (filteredDecisions seen left m fs) \<le> length (take (nat (min m left)) fs)"
    unfolding filteredDecisions_def by (simp only: length_map length_filter_le)
  also have "\<dots> \<le> nat (min m left)" by simp
  finally show ?thesis by linarith
qed

text \<open>
  With at most 1000 existing bindings the decision list never exceeds the array limit of
  the API; it lists every existing binding, and at most the configured number of clusters
  that were not selected.
\<close>

theorem decisions_within_limit:
  assumes "totalLength existing \<le> clustersDecisionArrayLengthLimitInAPI" and "0 \<le> maxCount"
  shows "int (length (newSchedulingDecisionsFromBindings maxCount notPicked filtered existing))
           \<le> min clustersDecisionArrayLengthLimitInAPI (totalLength existing + maxCount)"
proof -
  let ?L = clustersDecisionArrayLengthLimitInAPI
  obtain ds1 seen left1 where e: "existingDecisions ?L existing = (ds1, seen, left1)"
    by (metis prod_cases3)
  obtain ds2 left2 max2 where n: "notPickedDecisions (set seen) left1 maxCount notPicked = (ds2, left2, max2)"
    by (metis prod_cases3)
  have L: "0 \<le> ?L" by (simp add: clustersDecisionArrayLengthLimitInAPI_def)
  note c1 = existingDecisions_count[OF e L] and c2 = notPickedDecisions_count[OF n]
  have "left1 = ?L - totalLength existing" "int (length ds1) = totalLength existing"
    using c1 assms(1) by simp_all
  moreover have "int (length (filteredDecisions (set seen) left2 max2 filtered)) \<le> max 0 (min max2 left2)"
    by (rule filteredDecisions_count)
  moreover have "length (newSchedulingDecisionsFromBindings maxCount notPicked filtered existing) =
      length ds1 + length ds2 + length (filteredDecisions (set seen) left2 max2 filtered)"
    by (simp add: newSchedulingDecisionsFromBindings_def e n)
  ultimately show ?thesis using c2 assms by linarith
qed

theorem decisions_within_limit_witness:
  "int (length (newSchedulingDecisionsFromBindings 20 [exampleScored ''b'' 0] []
      [[exampleBinding ''b1'' ''a'' BindingStateBound ''p-1'']])) \<le> 21"
  using decisions_within_limit[of "[[exampleBinding ''b1'' ''a'' BindingStateBound ''p-1'']]" 20
      "[exampleScored ''b'' 0]" "[]"]
  by (simp add: clustersDecisionArrayLengthLimitInAPI_def)

text \<open>
  With more than 1000 existing bindings the limit is not kept: the remaining slots become
  negative, the test for zero slots no longer stops the loop over the clusters that were not
  picked, and the decision list gets longer than the API allows.
\<close>

theorem decisions_exceed_limit:
  assumes "int (length bs) > clustersDecisionArrayLengthLimitInAPI" and "0 < maxCount"
    and "scName sc \<notin> target ` set bs"
  shows "int (length (newSchedulingDecisionsFromBindings maxCount [sc] filtered [bs])) >
           clustersDecisionArrayLengthLimitInAPI"
proof -
  define L where "L = clustersDecisionArrayLengthLimitInAPI"
  have L: "0 < L" by (simp add: L_def clustersDecisionArrayLengthLimitInAPI_def)
  have bs: "L < int (length bs)" using assms(1) by (simp add: L_def)
  let ?t = "take (nat L) bs"
  have e: "existingDecisions L [bs] = (map (Decision \<circ> Spec) ?t, map target ?t, L - int (length bs))"
    using bs by (simp add: Let_def)
  have "scName sc \<notin> set (map target ?t)"
    using assms(3) by (auto dest: in_set_takeD)
  then have n: "notPickedDecisions (set (map target ?t)) (L - int (length bs)) maxCount [sc] =
      ([notPickedDecision sc], L - int (length bs) - 1, maxCount - 1)"
    using bs assms(2) by simp
  have "int (length (newSchedulingDecisionsFromBindings maxCount [sc] filtered [bs])) \<ge> int (length ?t) + 1"
    unfolding newSchedulingDecisionsFromBindings_def L_def[symmetric] e prod.case n by simp
  moreover have "int (length ?t) = L" using bs L by simp
  ultimately show ?thesis by (simp add: L_def)
qed

theorem decisions_exceed_limit_witness:
  "clustersDecisionArrayLengthLimitInAPI <
     int (length (newSchedulingDecisionsFromBindings 20 [exampleScored ''z'' 0] []
       [replicate 1001 (exampleBinding ''b1'' ''a'' BindingStateBound ''p-1'')]))"
  by (rule decisions_exceed_limit) (simp_all add: clustersDecisionArrayLengthLimitInAPI_def)

section \<open>Picking the best clusters\<close>

interpretation reversed_scores: strict_order "\<lambda>a b. ScoredClustersLess b a"
  by (rule scored_clusters.dual)

lemma pickTopN_eq:
  assumes "0 \<le> N"
  shows "pickTopNScoredClusters scs N =
    (let srt = sort_by (\<lambda>a b. ScoredClustersLess b a) scs in Inr (take (nat N) srt, drop (nat N) srt))"
  using assms by (auto simp: pickTopNScoredClusters_def Let_def)

text \<open>
  C27: The top-N selection splits the scored clusters into N of them (all, if there are fewer)
  and the rest, no cluster of the rest has a higher score than a picked one, and for clusters
  with different names the outcome does not depend on the order in which the parallel scoring
  delivered them.
\<close>

theorem pickTopN_best:
  assumes "0 \<le> N" and "pickTopNScoredClusters scs N = Inr (picked, rest)"
  shows "mset picked + mset rest = mset scs \<and>
    int (length picked) = min N (int (length scs)) \<and>
    (\<forall>a\<in>set picked. \<forall>b\<in>set rest. \<not> ScoreLess (sc_Score a) (sc_Score b)) \<and>
    (distinct (map scName scs) \<longrightarrow> mset scs' = mset scs \<longrightarrow>
       pickTopNScoredClusters scs' N = Inr (picked, rest))"
proof -
  let ?srt = "sort_by (\<lambda>a b. ScoredClustersLess b a) scs"
  from assms have p: "picked = take (nat N) ?srt" "rest = drop (nat N) ?srt"
    by (simp_all add: pickTopN_eq Let_def)
  have "mset picked + mset rest = mset scs"
    unfolding p by (metis append_take_drop_id mset_append mset_sort_by)
  moreover have "int (length picked) = min N (int (length scs))" using assms(1) by (simp add: p)
  moreover have "\<not> ScoreLess (sc_Score a) (sc_Score b)" if "a \<in> set picked" "b \<in> set rest" for a b
  proof -
    have "\<not> ScoredClustersLess a b"
      using reversed_scores.take_drop_sort_by that unfolding p by blast
    then show ?thesis by (auto simp: ScoredClustersLess_lex)
  qed
  moreover have "pickTopNScoredClusters scs' N = Inr (picked, rest)"
    if "distinct (map scName scs)" "mset scs' = mset scs"
  proof -
    have "sort_by (\<lambda>a b. ScoredClustersLess b a) scs' = ?srt"
      by (rule reversed_scores.sort_by_unique)
         (use that ScoredClustersLess_total in \<open>auto simp: reversed_scores.sorted_sort_by distinct_map inj_on_def\<close>)
    with p assms(1) show ?thesis by (simp add: pickTopN_eq Let_def)
  qed
  ultimately show ?thesis by blast
qed

theorem pickTopN_best_witness:
  "pickTopNScoredClusters [exampleScored ''a'' 1, exampleScored ''b'' 5] 1 =
     Inr ([exampleScored ''b'' 5], [exampleScored ''a'' 1]) \<and>
   \<not> ScoreLess (sc_Score (exampleScored ''b'' 5)) (sc_Score (exampleScored ''a'' 1)) \<and>
   pickTopNScoredClusters [exampleScored ''b'' 5, exampleScored ''a'' 1] 1 =
     Inr ([exampleScored ''b'' 5], [exampleScored ''a'' 1])"
proof -
  have r: "pickTopNScoredClusters [exampleScored ''a'' 1, exampleScored ''b'' 5] 1 =
     Inr ([exampleScored ''b'' 5], [exampleScored ''a'' 1])"
    by (simp add: pickTopN_eq Let_def ScoredClustersLess_def exampleScored_def ScoreLess_def
        zeroScore_def)
  from pickTopN_best[OF _ r, of "[exampleScored ''b'' 5, exampleScored ''a'' 1]"] r show ?thesis
    by simp
qed

text \<open>
  Between two clusters with the same score the reversed sort takes the one whose name is
  lexicographically larger first.
\<close>

theorem pickTopN_tie_takes_larger_name:
  assumes "sc_Score x = sc_Score y" and "scName x < scName y"
  shows "pickTopNScoredClusters [x, y] 1 = Inr ([y], [x])"
  using assms by (auto simp: pickTopN_eq Let_def ScoredClustersLess_def)

theorem pickTopN_tie_takes_larger_name_witness:
  "pickTopNScoredClusters [exampleScored ''a'' 1, exampleScored ''b'' 1] 1 =
     Inr ([exampleScored ''b'' 1], [exampleScored ''a'' 1])"
  by (rule pickTopN_tie_takes_larger_name) (simp_all add: exampleScored_def exampleCluster_def)

section \<open>Trimming order\<close>

text \<open>
  On bindings whose scores are complete the comparison used for trimming is a lexicographic
  order: bindings without a score first, then by score, then by target cluster.
\<close>

definition scoreComplete :: "Binding \<Rightarrow> bool" where
  "scoreComplete b \<longleftrightarrow>
     (case ApiScore (Decision (Spec b)) of None \<Rightarrow> True | Some s \<Rightarrow> apiScoreValue s \<noteq> None)"

definition hasScore :: "Binding \<Rightarrow> bool" where
  "hasScore b \<longleftrightarrow> ApiScore (Decision (Spec b)) \<noteq> None"

definition scoreOf :: "Binding \<Rightarrow> ClusterScore" where
  "scoreOf b =
     (case ApiScore (Decision (Spec b)) of None \<Rightarrow> zeroScore
      | Some s \<Rightarrow> (case apiScoreValue s of None \<Rightarrow> zeroScore | Some v \<Rightarrow> v))"

definition trimLt :: "Binding \<Rightarrow> Binding \<Rightarrow> bool" where
  "trimLt = (\<lambda>a b. hasScore a < hasScore b \<or> (\<not> hasScore b < hasScore a \<and>
     (ScoreLess (scoreOf a) (scoreOf b) \<or>
      (\<not> ScoreLess (scoreOf b) (scoreOf a) \<and> target a < target b))))"

interpretation trim_order: strict_order trimLt
  unfolding trimLt_def
  by (intro strict_order_lex strict_order_key strict_order.pullback[OF score_order.strict_order_axioms])

lemma bindingLt_trimLt:
  assumes "scoreComplete a" and "scoreComplete b"
  shows "bindingLt a b = trimLt a b"
proof (cases "ApiScore (Decision (Spec a))")
  case None
  then show ?thesis using assms(2)
    by (auto simp: bindingLt_def bindingLess_def trimLt_def hasScore_def scoreOf_def split: option.splits)
next
  case (Some sa)
  note sa = this
  from assms(1) sa obtain va where va: "apiScoreValue sa = Some va" by (auto simp: scoreComplete_def)
  show ?thesis
  proof (cases "ApiScore (Decision (Spec b))")
    case None
    with sa show ?thesis by (simp add: bindingLt_def bindingLess_def trimLt_def hasScore_def)
  next
    case (Some sb)
    from assms(2) Some obtain vb where vb: "apiScoreValue sb = Some vb" by (auto simp: scoreComplete_def)
    show ?thesis
      using sa va Some vb ScoreLess_total[of va vb] score_order.asym[of va vb]
      by (auto simp: bindingLt_def bindingLess_def trimLt_def hasScore_def scoreOf_def)
  qed
qed

lemma insert_by_cong:
  "(\<And>y. y \<in> set xs \<Longrightarrow> f x y = g x y) \<Longrightarrow> (\<And>y. y \<in> set xs \<Longrightarrow> f y x = g y x) \<Longrightarrow>
   insert_by f x xs = insert_by g x xs"
  by (induction xs) auto

lemma sort_by_cong:
  "(\<And>x y. x \<in> set xs \<Longrightarrow> y \<in> set xs \<Longrightarrow> f x y = g x y) \<Longrightarrow> sort_by f xs = sort_by g xs"
proof (induction xs)
  case (Cons x xs)
  then have "sort_by f xs = sort_by g xs" by simp
  moreover have "insert_by f x (sort_by g xs) = insert_by g x (sort_by g xs)"
    using Cons.prems by (intro insert_by_cong) auto
  ultimately show ?case by (simp add: sort_by_simps)
qed simp

lemma sortByClusterScoreAndName_eq:
  assumes "\<forall>b\<in>set bs. scoreComplete b"
  shows "sortByClusterScoreAndName bs = Inr (sort_by trimLt bs)"
proof -
  have "sort_by bindingLt bs = sort_by trimLt bs"
    using assms bindingLt_trimLt by (intro sort_by_cong) blast
  moreover have "\<not> list_ex (\<lambda>b. case ApiScore (Decision (Spec b)) of
      None \<Rightarrow> False | Some s \<Rightarrow> apiScoreValue s = None) bs"
    using assms by (force simp: list_ex_iff scoreComplete_def split: option.splits)
  ultimately show ?thesis by (simp add: sortByClusterScoreAndName_def)
qed

section \<open>Comparing decision lists\<close>

text \<open>
  On decision lists with one decision per cluster, the comparison that decides whether the
  status must be written holds exactly when the two lists are permutations of each other.
\<close>

theorem equalDecisions_iff_permutation:
  assumes "distinct (map ClusterName current)" and "distinct (map ClusterName desired)"
  shows "equalDecisions current desired \<longleftrightarrow> mset current = mset desired"
proof -
  have lookup: "build_map ClusterName id desired (ClusterName d) = Some d \<longleftrightarrow> d \<in> set desired" for d
    using build_map_distinct[OF assms(2), of d id] build_map_SomeD[of ClusterName id desired _ d] by auto
  have d: "distinct current" "distinct desired" using assms by (auto simp: distinct_map)
  have "equalDecisions current desired \<longleftrightarrow> length current = length desired \<and> set current \<subseteq> set desired"
    by (auto simp: equalDecisions_def Let_def list_all_iff lookup)
  also have "\<dots> \<longleftrightarrow> set current = set desired"
    using d by (metis List.finite_set card_subset_eq distinct_card order_refl)
  also have "\<dots> \<longleftrightarrow> mset current = mset desired" using d by (simp add: set_eq_iff_mset_eq_distinct)
  finally show ?thesis .
qed

theorem equalDecisions_iff_permutation_witness:
  "equalDecisions [exampleDecision ''a'', exampleDecision ''b''] [exampleDecision ''b'', exampleDecision ''a'']"
  using equalDecisions_iff_permutation[of "[exampleDecision ''a'', exampleDecision ''b'']"
      "[exampleDecision ''b'', exampleDecision ''a'']"]
  by (simp add: exampleDecision_def)

lemma equalDecisions_duplicates:
  "equalDecisions [exampleDecision ''a'', exampleDecision ''a''] [exampleDecision ''a'', exampleDecision ''b'']"
  by (simp add: equalDecisions_def build_map_def exampleDecision_def)

end
