(* ===== verification/Framework.thy ===== *)
theory Framework
  imports Hub Framework_Decisions
begin

text \<open>
  The scheduling framework (\<open>pkg/scheduler/framework/framework.go\<close>): running the plugins of a
  profile, manipulating bindings through the API server, and the scheduling cycles for the
  three placement types. The record \<open>framework\<close> has the profile, the hub, the eligibility
  check at the time of the cycle, and \<open>interleave\<close>, the order in which the parallelizer
  (a work queue of client-go) completes the clusters it is given.
\<close>

record 'w framework =
  profile :: Profile
  hub :: "'w hub"
  isEligible :: "MemberCluster \<Rightarrow> bool \<times> string"
  names :: naming
  interleave :: "MemberCluster list \<Rightarrow> MemberCluster list"
  maxUnselectedClusterDecisionCount :: int

section \<open>Running plugins\<close>

fun runPreFilterPlugins ::
  "PrePlugin list \<Rightarrow> CycleState \<Rightarrow> PolicySnapshot \<Rightarrow> (CycleState \<times> Status) result" where
  "runPreFilterPlugins [] st ps = Inr (st, None)"
| "runPreFilterPlugins ((name, pl) # pls) st ps =
     bindR (pl st ps) (\<lambda>(st', status).
       if IsSuccess status then runPreFilterPlugins pls st' ps
       else if IsInteralError status then Inr (st', status)
       else if IsSkip status then
         runPreFilterPlugins pls
           (st'\<lparr>skippedFilterPlugins := insert name (skippedFilterPlugins st')\<rparr>) ps
       else Inr (st', FromError (ErrPlain ''prefilter plugin returned an unknown status'') name []))"

fun runFilterPluginsFor ::
  "FilterPlugin list \<Rightarrow> CycleState \<Rightarrow> PolicySnapshot \<Rightarrow> MemberCluster \<Rightarrow> Status result" where
  "runFilterPluginsFor [] st ps cluster = Inr None"
| "runFilterPluginsFor ((name, pl) # pls) st ps cluster =
     (if name \<in> skippedFilterPlugins st then runFilterPluginsFor pls st ps cluster
      else bindR (pl st ps cluster) (\<lambda>status.
        if IsSuccess status then runFilterPluginsFor pls st ps cluster
        else if IsInteralError status then Inr status
        else if IsClusterUnschedulable status then Inr status
        else if IsClusterAlreadySelected status then Inr status
        else Inr (FromError (ErrPlain ''filter plugin returned an unknown status'') name [])))"

text \<open>
  The clusters are inspected in the order \<open>interleave\<close> gives; each worker appends to one of
  two slices or raises the error flag, and the first error is returned.
\<close>

fun runFilterLoop ::
  "FilterPlugin list \<Rightarrow> CycleState \<Rightarrow> PolicySnapshot \<Rightarrow> MemberCluster list \<Rightarrow>
   (MemberCluster list \<times> filteredClusterWithStatus list) result" where
  "runFilterLoop pls st ps [] = Inr ([], [])"
| "runFilterLoop pls st ps (c # cs) =
     bindR (runFilterPluginsFor pls st ps c) (\<lambda>status.
       if IsSuccess status then
         bindR (runFilterLoop pls st ps cs) (\<lambda>(passed, filtered). Inr (c # passed, filtered))
       else if IsClusterUnschedulable status then
         bindR (runFilterLoop pls st ps cs) (\<lambda>(passed, filtered).
           Inr (passed, \<lparr>fc_cluster = c, fc_status = status\<rparr> # filtered))
       else if IsClusterAlreadySelected status then runFilterLoop pls st ps cs
       else Inl (ErrPlain ''plugin returned an error''))"

definition runFilterPlugins ::
  "'w framework \<Rightarrow> CycleState \<Rightarrow> PolicySnapshot \<Rightarrow> MemberCluster list \<Rightarrow>
   (MemberCluster list \<times> filteredClusterWithStatus list) result" where
  "runFilterPlugins f st ps cs = runFilterLoop (filterPlugins (profile f)) st ps (interleave f cs)"

fun runPostBatchLoop ::
  "PostBatchPlugin list \<Rightarrow> CycleState \<Rightarrow> PolicySnapshot \<Rightarrow> int \<Rightarrow> (int \<times> Status) result" where
  "runPostBatchLoop [] st ps minLimit = Inr (minLimit, None)"
| "runPostBatchLoop ((name, pl) # pls) st ps minLimit =
     bindR (pl st ps) (\<lambda>(limit, status).
       if IsSuccess status then
         runPostBatchLoop pls st ps (if limit < minLimit \<and> limit \<ge> 0 then limit else minLimit)
       else if IsInteralError status then Inr (0, status)
       else if IsSkip status then runPostBatchLoop pls st ps minLimit
       else Inr (0, FromError (ErrPlain ''postbatch plugin returned an unsupported status'') name []))"

definition runPostBatchPlugins ::
  "PostBatchPlugin list \<Rightarrow> CycleState \<Rightarrow> PolicySnapshot \<Rightarrow> (int \<times> Status) result" where
  "runPostBatchPlugins pls st ps = runPostBatchLoop pls st ps (desiredBatchSize st)"

fun runPreScorePlugins ::
  "PrePlugin list \<Rightarrow> CycleState \<Rightarrow> PolicySnapshot \<Rightarrow> (CycleState \<times> Status) result" where
  "runPreScorePlugins [] st ps = Inr (st, None)"
| "runPreScorePlugins ((name, pl) # pls) st ps =
     bindR (pl st ps) (\<lambda>(st', status).
       if IsSuccess status then runPreScorePlugins pls st' ps
       else if IsInteralError status then Inr (st', status)
       else if IsSkip status then
         runPreScorePlugins pls
           (st'\<lparr>skippedScorePlugins := insert name (skippedScorePlugins st')\<rparr>) ps
       else Inr (st', FromError (ErrPlain ''prescore plugin returned an unknown status'') name []))"

text \<open>The scores by plugin name; a later plugin of the same name replaces an earlier one.\<close>

fun runScorePluginsFor ::
  "ScorePlugin list \<Rightarrow> CycleState \<Rightarrow> PolicySnapshot \<Rightarrow> MemberCluster \<Rightarrow>
   (string \<times> ClusterScore option) list \<Rightarrow> ((string \<times> ClusterScore option) list \<times> Status) result" where
  "runScorePluginsFor [] st ps cluster scoreList = Inr (scoreList, None)"
| "runScorePluginsFor ((name, pl) # pls) st ps cluster scoreList =
     (if name \<in> skippedScorePlugins st then runScorePluginsFor pls st ps cluster scoreList
      else bindR (pl st ps cluster) (\<lambda>(score, status).
        if IsSuccess status then
          runScorePluginsFor pls st ps cluster
            (filter (\<lambda>(n, _). n \<noteq> name) scoreList @ [(name, score)])
        else if IsInteralError status then Inr ([], status)
        else Inr ([], FromError (ErrPlain ''score plugin returned an unknown status'') name [])))"

text \<open>Adding a nil score panics.\<close>

fun sumScores :: "(string \<times> ClusterScore option) list \<Rightarrow> ClusterScore \<Rightarrow> ClusterScore result" where
  "sumScores [] acc = Inr acc"
| "sumScores ((_, None) # xs) acc = Inl Panic"
| "sumScores ((_, Some s) # xs) acc = sumScores xs (Add acc s)"

fun runScoreLoop ::
  "ScorePlugin list \<Rightarrow> CycleState \<Rightarrow> PolicySnapshot \<Rightarrow> MemberCluster list \<Rightarrow> ScoredCluster list result" where
  "runScoreLoop pls st ps [] = Inr []"
| "runScoreLoop pls st ps (c # cs) =
     bindR (runScorePluginsFor pls st ps c []) (\<lambda>(scoreList, status).
       if IsSuccess status then
         bindR (sumScores scoreList zeroScore) (\<lambda>totalScore.
           bindR (runScoreLoop pls st ps cs) (\<lambda>rest.
             Inr (\<lparr>sc_Cluster = c, sc_Score = totalScore\<rparr> # rest)))
       else Inl (ErrPlain ''plugin returned an error''))"

definition runScorePlugins ::
  "'w framework \<Rightarrow> CycleState \<Rightarrow> PolicySnapshot \<Rightarrow> MemberCluster list \<Rightarrow> ScoredCluster list result" where
  "runScorePlugins f st ps cs =
     (if cs = [] then Inr []
      else runScoreLoop (scorePlugins (profile f)) st ps (interleave f cs))"

text \<open>An internal error of a Pre stage ends the cycle with an unexpected behavior error.\<close>

definition unexpected :: "go_error \<Rightarrow> go_error" where
  "unexpected e = (if e = Panic then Panic else ErrUnexpectedBehavior)"

definition checkStatus :: "'a \<times> Status \<Rightarrow> 'a result" where
  "checkStatus xs = (if IsInteralError (snd xs) then Inl ErrUnexpectedBehavior else Inr (fst xs))"

definition runAllPluginsForPickAllPlacementType ::
  "'w framework \<Rightarrow> CycleState \<Rightarrow> PolicySnapshot \<Rightarrow> MemberCluster list \<Rightarrow>
   (ScoredCluster list \<times> filteredClusterWithStatus list) result" where
  "runAllPluginsForPickAllPlacementType f st ps cs =
     bindR (bindR (runPreFilterPlugins (preFilterPlugins (profile f)) st ps) checkStatus) (\<lambda>st'.
       bindR (wrapR unexpected (runFilterPlugins f st' ps cs)) (\<lambda>(passed, filtered).
         Inr (map (\<lambda>c. \<lparr>sc_Cluster = c, sc_Score = zeroScore\<rparr>) passed, filtered)))"

definition runAllPluginsForPickNPlacementType ::
  "'w framework \<Rightarrow> CycleState \<Rightarrow> PolicySnapshot \<Rightarrow> int \<Rightarrow> int \<Rightarrow> MemberCluster list \<Rightarrow>
   (CycleState \<times> ScoredCluster list \<times> filteredClusterWithStatus list) result" where
  "runAllPluginsForPickNPlacementType f st0 ps numOfClusters numOfBoundOrScheduled cs =
     (let st = st0\<lparr>desiredBatchSize := numOfClusters - numOfBoundOrScheduled\<rparr> in
      if desiredBatchSize st \<le> 0 then Inl ErrUnexpectedBehavior
      else bindR (bindR (runPostBatchPlugins (postBatchPlugins (profile f)) st ps) checkStatus) (\<lambda>limit.
        if limit > desiredBatchSize st \<or> limit < 0 then Inl ErrUnexpectedBehavior
        else let st1 = st\<lparr>batchSizeLimit := limit\<rparr> in
          bindR (bindR (runPreFilterPlugins (preFilterPlugins (profile f)) st1 ps) checkStatus) (\<lambda>st2.
            bindR (wrapR unexpected (runFilterPlugins f st2 ps cs)) (\<lambda>(passed, filtered).
              bindR (bindR (runPreScorePlugins (preScorePlugins (profile f)) st2 ps) checkStatus) (\<lambda>st3.
                bindR (wrapR unexpected (runScorePlugins f st3 ps passed)) (\<lambda>scored.
                  Inr (st3, scored, filtered)))))))"

section \<open>Manipulating bindings\<close>

definition retryUpdate :: "go_error \<Rightarrow> bool" where
  "retryUpdate e = (e \<in> {ErrAPI ServiceUnavailable, ErrAPI ServerTimeout, ErrAPI Conflict})"

definition retryWrite :: "go_error \<Rightarrow> bool" where
  "retryWrite e = (e \<in> {ErrAPI ServiceUnavailable, ErrAPI ServerTimeout})"

definition markUnscheduled :: "Binding \<Rightarrow> Binding" where
  "markUnscheduled b =
     b\<lparr>Annotations := [PreviousBindingStateAnnotation \<mapsto> string_of_BindingState (State (Spec b))],
       Spec := (Spec b)\<lparr>State := BindingStateUnscheduled\<rparr>\<rparr>"

definition removeCleanupFinalizer :: "Binding \<Rightarrow> Binding" where
  "removeCleanupFinalizer b =
     b\<lparr>Finalizers := filter (\<lambda>x. x \<noteq> SchedulerBindingCleanupFinalizer) (Finalizers b)\<rparr>"

text \<open>
  One attempt: the object is changed in place and written; after a conflict it is read again.
\<close>

definition updateAttempt ::
  "'w hub \<Rightarrow> (Binding \<Rightarrow> Binding) \<Rightarrow> Binding \<Rightarrow> 'w \<Rightarrow> (unit result \<times> Binding) \<times> 'w" where
  "updateAttempt h updateFn b w =
     (let b' = updateFn b in
      case hubUpdateBinding h b' w of
        (Inl e, w') \<Rightarrow>
          (if e = ErrAPI Conflict then
             (case hubGetBinding h (Namespace b') (Name b') w' of
                (Inl g, w'') \<Rightarrow> ((Inl g, b'), w'')
              | (Inr fresh, w'') \<Rightarrow> ((Inl e, fresh), w''))
           else ((Inl e, b'), w'))
      | (Inr u, w') \<Rightarrow> ((Inr u, b'), w'))"

definition updateBindings ::
  "'w hub \<Rightarrow> Binding list \<Rightarrow> (Binding \<Rightarrow> Binding) \<Rightarrow> ('w, unit) prog" where
  "updateBindings h bs updateFn =
     errgroup (\<lambda>b. retryOnError (retrySteps h) retryUpdate (updateAttempt h updateFn) b) bs"

definition createAttempt :: "'w hub \<Rightarrow> Binding \<Rightarrow> 'w \<Rightarrow> (unit result \<times> Binding) \<times> 'w" where
  "createAttempt h b w =
     (case hubCreateBinding h b w of
        (Inl e, w') \<Rightarrow> ((if e = ErrAPI AlreadyExists then Inr () else Inl e, b), w')
      | (Inr u, w') \<Rightarrow> ((Inr u, b), w'))"

definition createBindings :: "'w hub \<Rightarrow> Binding list \<Rightarrow> ('w, unit) prog" where
  "createBindings h toCreate =
     wrapP (apiServerError False)
       (errgroup (\<lambda>b. retryOnError (retrySteps h) retryWrite (createAttempt h) b) toCreate)"

definition patchAttempt ::
  "'w hub \<Rightarrow> bindingWithPatch \<Rightarrow> 'w \<Rightarrow> (unit result \<times> bindingWithPatch) \<times> 'w" where
  "patchAttempt h p w = (case hubPatchBinding h p w of (r, w') \<Rightarrow> ((r, p), w'))"

definition patchBindings :: "'w hub \<Rightarrow> bindingWithPatch list \<Rightarrow> ('w, unit) prog" where
  "patchBindings h toPatch =
     wrapP updateIgnoreConflictError
       (errgroup (\<lambda>p. retryOnError (retrySteps h) retryWrite (patchAttempt h) p) toPatch)"

definition manipulateBindings :: "'w hub \<Rightarrow> manipulation \<Rightarrow> ('w, unit) prog" where
  "manipulateBindings h m =
     (case m of (toCreate, toDelete, toPatch) \<Rightarrow>
        bindP (createBindings h toCreate) (\<lambda>_.
          bindP (patchBindings h toPatch) (\<lambda>_.
            updateBindings h toDelete markUnscheduled)))"

section \<open>Policy snapshot status\<close>

definition filteredLess :: "filteredClusterWithStatus \<Rightarrow> filteredClusterWithStatus \<Rightarrow> bool" where
  "filteredLess a b = (Name (fc_cluster a) < Name (fc_cluster b))"

text \<open>Comparing with the stored status and writing it when something changed.\<close>

definition writePolicyStatus ::
  "'w framework \<Rightarrow> PolicySnapshot \<Rightarrow> int \<Rightarrow> ClusterDecision list \<Rightarrow> Condition \<Rightarrow> ('w, unit) prog" where
  "writePolicyStatus f policy observedGeneration newDecisions newCondition =
     (if observedGeneration = ObservedCRPGeneration policy \<and>
         equalDecisions (ClusterDecisions policy) newDecisions \<and>
         EqualCondition (PolicyConditions policy ''Scheduled'') (Some newCondition)
      then returnP ()
      else wrapP (apiServerError False)
        (hubUpdatePolicyStatus (hub f)
          (policy\<lparr>ClusterDecisions := newDecisions, ObservedCRPGeneration := observedGeneration,
             PolicyConditions := SetStatusCondition (hub f) (PolicyConditions policy) newCondition\<rparr>)))"

definition updatePolicySnapshotStatusFromBindings ::
  "'w framework \<Rightarrow> PolicySnapshot \<Rightarrow> int \<Rightarrow> ScoredCluster list \<Rightarrow> filteredClusterWithStatus list \<Rightarrow>
   Binding list list \<Rightarrow> ('w, unit) prog" where
  "updatePolicySnapshotStatusFromBindings f policy numOfClusters notPicked filtered existing =
     bindP (liftP (wrapR unexpected (ExtractObservedPlacementGenerationFromPolicySnapshot policy))) (\<lambda>gen.
       writePolicyStatus f policy gen
         (newSchedulingDecisionsFromBindings (maxUnselectedClusterDecisionCount f) notPicked
            (sort_by filteredLess filtered) existing)
         (newScheduledConditionFromBindings policy numOfClusters existing))"

definition updatePolicySnapshotStatusForPickFixedPlacementType ::
  "'w framework \<Rightarrow> PolicySnapshot \<Rightarrow> MemberCluster list \<Rightarrow> invalidClusterWithReason list \<Rightarrow>
   string list \<Rightarrow> ('w, unit) prog" where
  "updatePolicySnapshotStatusForPickFixedPlacementType f policy valid invalid notFound =
     bindP (liftP (wrapR unexpected (ExtractObservedPlacementGenerationFromPolicySnapshot policy))) (\<lambda>gen.
       writePolicyStatus f policy gen
         (newSchedulingDecisionsForPickFixedPlacementType valid invalid notFound)
         (if length invalid + length notFound = 0
          then newScheduledCondition policy ConditionTrue ''SchedulingPolicyFulfilled''
                 (''found all cluster needed as specified by the scheduling policy, found '' @
                  itoa (int (length valid)) @ '' cluster(s)'')
          else newScheduledCondition policy ConditionFalse ''SchedulingPolicyUnfulfilled''
                 (''could not find all clusters needed as specified by the scheduling policy, found '' @
                  itoa (int (length valid)) @ '' cluster(s) instead'')))"

section \<open>The scheduling cycles\<close>

definition runSchedulingCycleForPickAllPlacementType ::
  "'w framework \<Rightarrow> CycleState \<Rightarrow> string \<Rightarrow> PolicySnapshot \<Rightarrow> MemberCluster list \<Rightarrow>
   Binding list \<Rightarrow> Binding list \<Rightarrow> Binding list \<Rightarrow> Binding list \<Rightarrow> ('w, Result) prog" where
  "runSchedulingCycleForPickAllPlacementType f st placementKey policy cs bnd sched us obs =
     bindP (liftP (runAllPluginsForPickAllPlacementType f st policy cs)) (\<lambda>(scored, filtered).
     bindP (liftP (crossReferencePickedClustersAndDeDupBindings (names f) placementKey policy
                     (sort_by ScoredClustersLess scored) us obs)) (\<lambda>(toCreate, toDelete, toPatch).
     bindP (manipulateBindings (hub f) (toCreate, toDelete, toPatch)) (\<lambda>_.
     let patched = map updated toPatch;
         numOfClusters = int (length toCreate + length patched + length sched + length bnd)
     in bindP (updatePolicySnapshotStatusFromBindings f policy numOfClusters [] filtered
                 [toCreate, patched, sched, bnd]) (\<lambda>_.
        returnP noRequeue))))"

text \<open>
  Trimming bindings: scheduled ones first, then bound ones, both by score. The bindings that
  remain are returned.
\<close>

definition downscale ::
  "'w framework \<Rightarrow> Binding list \<Rightarrow> Binding list \<Rightarrow> int \<Rightarrow> ('w, Binding list \<times> Binding list) prog" where
  "downscale f sched bnd cnt =
     (let ns = int (length sched); nb = int (length bnd);
          trim = (\<lambda>bs rest. bindP (updateBindings (hub f) bs markUnscheduled) (\<lambda>_. returnP rest))
      in if cnt = 0 then returnP (sched, bnd)
         else if cnt > ns + nb then failP ErrUnexpectedBehavior
         else if cnt < ns then
           bindP (liftP (sortByClusterScoreAndName sched)) (\<lambda>srt.
             if cnt < 0 then failP Panic
             else trim (take (nat cnt) srt) (drop (nat cnt) srt, bnd))
         else if cnt = ns then trim sched ([], bnd)
         else if cnt < ns + nb then
           bindP (liftP (sortByClusterScoreAndName bnd)) (\<lambda>srt.
             let left = nat (cnt - ns)
             in trim (sched @ take left srt) ([], drop left srt))
         else if cnt = ns + nb then trim (sched @ bnd) ([], [])
         else failP ErrUnexpectedBehavior)"

definition runSchedulingCycleForPickNPlacementType ::
  "'w framework \<Rightarrow> CycleState \<Rightarrow> string \<Rightarrow> PolicySnapshot \<Rightarrow> MemberCluster list \<Rightarrow>
   Binding list \<Rightarrow> Binding list \<Rightarrow> Binding list \<Rightarrow> Binding list \<Rightarrow> ('w, Result) prog" where
  "runSchedulingCycleForPickNPlacementType f st placementKey policy cs bnd sched us obs =
     bindP (liftP (wrapR unexpected (ExtractNumOfClustersFromPolicySnapshot policy))) (\<lambda>numOfClusters.
     bindP (liftP (shouldDownscale policy numOfClusters (int (length sched + length bnd))
                     (int (length obs)))) (\<lambda>(act, downscaleCount).
     if act then
       bindP (updateBindings (hub f) obs markUnscheduled) (\<lambda>_.
       bindP (downscale f sched bnd downscaleCount) (\<lambda>(sched', bnd').
       bindP (updatePolicySnapshotStatusFromBindings f policy numOfClusters [] [] [sched', bnd']) (\<lambda>_.
       returnP noRequeue)))
     else if \<not> shouldSchedule numOfClusters (int (length bnd + length sched)) then
       bindP (updatePolicySnapshotStatusFromBindings f policy numOfClusters [] [] [bnd, sched]) (\<lambda>_.
       returnP noRequeue)
     else
       bindP (liftP (runAllPluginsForPickNPlacementType f st policy numOfClusters
                       (int (length bnd + length sched)) cs)) (\<lambda>(st', scored, filtered).
       let toPick = calcNumOfClustersToSelect (desiredBatchSize st') (batchSizeLimit st') (int (length scored))
       in if toPick > int (length scored) then failP ErrUnexpectedBehavior
          else
            bindP (liftP (pickTopNScoredClusters scored toPick)) (\<lambda>(picked, notPicked).
            bindP (liftP (crossReferencePickedClustersAndDeDupBindings (names f) placementKey policy
                            picked us obs)) (\<lambda>(toCreate, toDelete, toPatch).
            bindP (manipulateBindings (hub f) (toCreate, toDelete, toPatch)) (\<lambda>_.
            if shouldRequeue (desiredBatchSize st') (batchSizeLimit st')
                 (int (length toCreate + length toPatch))
            then returnP \<lparr>Requeue = True, RequeueAfter = 0\<rparr>
            else
              bindP (updatePolicySnapshotStatusFromBindings f policy numOfClusters notPicked filtered
                       [toCreate, map updated toPatch, sched, bnd]) (\<lambda>_.
              returnP noRequeue)))))))"

definition crossReferenceClustersWithTargetNames ::
  "'w framework \<Rightarrow> MemberCluster list \<Rightarrow> string list \<Rightarrow>
   MemberCluster list \<times> invalidClusterWithReason list \<times> string list" where
  "crossReferenceClustersWithTargetNames f current targets =
     (let m = build_map Name id current;
          found = List.map_filter m targets
      in (filter (\<lambda>c. fst (isEligible f c)) found,
          map (\<lambda>c. \<lparr>ic_cluster = c, ic_reason = snd (isEligible f c)\<rparr>)
            (filter (\<lambda>c. \<not> fst (isEligible f c)) found),
          filter (\<lambda>n. m n = None) targets))"

definition runSchedulingCycleForPickFixedPlacementType ::
  "'w framework \<Rightarrow> string \<Rightarrow> PolicySnapshot \<Rightarrow> string list \<Rightarrow> MemberCluster list \<Rightarrow>
   Binding list \<Rightarrow> Binding list \<Rightarrow> Binding list \<Rightarrow> Binding list \<Rightarrow> ('w, Result) prog" where
  "runSchedulingCycleForPickFixedPlacementType f placementKey policy targetClusterNames cs bnd sched us obs =
     (if length targetClusterNames = 0 then returnP noRequeue
      else case crossReferenceClustersWithTargetNames f cs targetClusterNames of
        (valid, invalid, notFound) \<Rightarrow>
          bindP (liftP (crossReferenceValidTargetsWithBindings (names f) placementKey policy valid
                          bnd sched us obs)) (\<lambda>m.
          bindP (manipulateBindings (hub f) m) (\<lambda>_.
          bindP (updatePolicySnapshotStatusForPickFixedPlacementType f policy valid invalid notFound) (\<lambda>_.
          returnP noRequeue))))"

definition collectClusters :: "'w framework \<Rightarrow> ('w, MemberCluster list) prog" where
  "collectClusters f = wrapP (apiServerError True) (hubListClusters (hub f))"

definition bindingNameLess :: "Binding \<Rightarrow> Binding \<Rightarrow> bool" where
  "bindingNameLess a b = (Name a < Name b)"

definition ListBindingsFromKey :: "'w hub \<Rightarrow> string \<Rightarrow> string \<Rightarrow> bool \<Rightarrow> ('w, Binding list) prog" where
  "ListBindingsFromKey h ns name fromCache =
     bindP (wrapP (apiServerError fromCache) (hubListBindings h ns name)) (\<lambda>bs.
       returnP (sort_by bindingNameLess bs))"

text \<open>
  For an unknown placement type the code passes its own \<open>err\<close>, which is nil there, to
  \<open>NewUnexpectedBehaviorError\<close>.
\<close>

definition RunSchedulingCycleFor ::
  "'w framework \<Rightarrow> string \<Rightarrow> PolicySnapshot \<Rightarrow> ('w, Result) prog" where
  "RunSchedulingCycleFor f placementKey policy =
     bindP (liftP (ExtractNamespaceNameFromKeyStr placementKey)) (\<lambda>(ns, name).
     bindP (collectClusters f) (\<lambda>cs.
     bindP (ListBindingsFromKey (hub f) ns name False) (\<lambda>bs.
     let s = classifyBindings policy bs cs in
     bindP (updateBindings (hub f) (deleting s) removeCleanupFinalizer) (\<lambda>_.
     bindP (updateBindings (hub f) (dangling s) markUnscheduled) (\<lambda>_.
     let st = NewCycleState cs (obsolete s) [bound s, scheduled s] in
     case Policy policy of
       None \<Rightarrow>
         runSchedulingCycleForPickAllPlacementType f st placementKey policy cs
           (bound s) (scheduled s) (unscheduled s) (obsolete s)
     | Some p \<Rightarrow>
         (case Type p of
            PickFixedPlacementType \<Rightarrow>
              runSchedulingCycleForPickFixedPlacementType f placementKey policy (ClusterNames p) cs
                (bound s) (scheduled s) (unscheduled s) (obsolete s)
          | PickAllPlacementType \<Rightarrow>
              runSchedulingCycleForPickAllPlacementType f st placementKey policy cs
                (bound s) (scheduled s) (unscheduled s) (obsolete s)
          | PickNPlacementType \<Rightarrow>
              runSchedulingCycleForPickNPlacementType f st placementKey policy cs
                (bound s) (scheduled s) (unscheduled s) (obsolete s)
          | OtherPlacementType _ \<Rightarrow>
              (case NewUnexpectedBehaviorError None of
                 None \<Rightarrow> returnP noRequeue | Some e \<Rightarrow> failP e)))))))"

end
