(* ===== verification/Updaterun_Execution.thy ===== *)
theory Updaterun_Execution
  imports Updaterun_Types Framework
begin

text \<open>
  Executing and stopping a staged update run (\<open>pkg/controllers/updaterun/execution.go\<close>,
  \<open>stop.go\<close>). The code mutates the update run in memory also when it then returns an error, so a
  program acts on a pair of the world and the run. A pointer to a stage is a \<open>stageRef\<close> and a
  pointer to a task or cluster an index. The calls of the API server and what the controller
  takes from libraries are the record \<open>updateRunClient\<close>: the clock,
  \<open>meta.SetStatusCondition\<close>, the text of an error, and
  \<open>intstr.GetScaledValueFromIntOrPercent\<close> rounding down. Durations do not overflow, and a nil
  slice of overrides counts as an empty one.
\<close>

section \<open>Calls\<close>

record 'w updateRunClient =
  clock :: "'w \<Rightarrow> int"
  putCondition :: setter
  errorText :: "go_error \<Rightarrow> string"
  scaledDown :: "IntOrString option \<Rightarrow> int \<Rightarrow> int result"
  urHub :: "'w hub"
  urOverrides :: "'w overrideClient"
  urManifests :: manifests
  urLib :: lib
  getUpdateRun :: "string \<Rightarrow> string \<Rightarrow> ('w, UpdateRun) prog"
  putUpdateRun :: "UpdateRun \<Rightarrow> ('w, UpdateRun) prog"
  putUpdateRunStatus :: "UpdateRun \<Rightarrow> ('w, UpdateRun) prog"
  urGetPlacement :: "string \<Rightarrow> string \<Rightarrow> ('w, Placement) prog"
  urListLatestPolicies :: "string \<Rightarrow> string \<Rightarrow> ('w, PolicySnapshot list) prog"
  getUpdateStrategy :: "string \<Rightarrow> string \<Rightarrow> ('w, UpdateStrategySpec) prog"
  listClustersMatching :: "LabelSelector option \<Rightarrow> ('w, MemberCluster list) prog"
  putBinding :: "Binding \<Rightarrow> ('w, Binding) prog"
  putBindingStatus :: "Binding \<Rightarrow> ('w, unit) prog"
  removeBinding :: "Binding \<Rightarrow> ('w, unit) prog"
  createApproval :: "ApprovalRequest \<Rightarrow> ('w, unit) prog"
  getApproval :: "string \<Rightarrow> string \<Rightarrow> ('w, ApprovalRequest) prog"
  putApprovalStatus :: "ApprovalRequest \<Rightarrow> ('w, unit) prog"
  deleteApprovals :: "string \<Rightarrow> string \<Rightarrow> ('w, unit) prog"
  selectResources :: "Placement \<Rightarrow> ('w, int \<times> string list) prog"
  getOrCreateSnapshot :: "Placement \<Rightarrow> int \<Rightarrow> string list \<Rightarrow> int \<Rightarrow> ('w, ResourceSnapshot option) prog"

text \<open>A call leaves the object in memory alone; a mark changes only that object.\<close>

definition callP :: "('w, 'a) prog \<Rightarrow> ('w \<times> 's, 'a) prog" where
  "callP p = (\<lambda>(w, s). case p w of (r, w') \<Rightarrow> (r, (w', s)))"

definition readP :: "('w \<times> 's, 's) prog" where
  "readP = (\<lambda>(w, s). (Inr s, (w, s)))"

definition markP :: "'w updateRunClient \<Rightarrow> (setter \<Rightarrow> int \<Rightarrow> 's \<Rightarrow> 's) \<Rightarrow> ('w \<times> 's, unit) prog" where
  "markP c f = (\<lambda>(w, s). (Inr (), (w, f (putCondition c) (clock c w) s)))"

section \<open>Parts of a run\<close>

datatype stageRef = UpdatingStage nat | DeletionStage

fun onStage :: "stageRef \<Rightarrow> (StageUpdatingStatus \<Rightarrow> StageUpdatingStatus) \<Rightarrow> UpdateRun \<Rightarrow> UpdateRun" where
  "onStage (UpdatingStage k) f run =
     run\<lparr>RunStatus := (RunStatus run)\<lparr>StagesStatus := map_option (\<lambda>l. l[k := f (l ! k)]) (StagesStatus (RunStatus run))\<rparr>\<rparr>"
| "onStage DeletionStage f run =
     run\<lparr>RunStatus := (RunStatus run)\<lparr>DeletionStageStatus := map_option f (DeletionStageStatus (RunStatus run))\<rparr>\<rparr>"

fun stageAt :: "stageRef \<Rightarrow> UpdateRun \<Rightarrow> StageUpdatingStatus option" where
  "stageAt (UpdatingStage k) run = (if k < length (stagesOf run) then Some (stagesOf run ! k) else None)"
| "stageAt DeletionStage run = DeletionStageStatus (RunStatus run)"

datatype taskRef = BeforeTask nat | AfterTask nat

fun onTask :: "taskRef \<Rightarrow> (StageTaskStatus \<Rightarrow> StageTaskStatus) \<Rightarrow> StageUpdatingStatus \<Rightarrow> StageUpdatingStatus" where
  "onTask (BeforeTask i) f s =
     s\<lparr>BeforeStageTaskStatus := (BeforeStageTaskStatus s)[i := f (BeforeStageTaskStatus s ! i)]\<rparr>"
| "onTask (AfterTask i) f s =
     s\<lparr>AfterStageTaskStatus := (AfterStageTaskStatus s)[i := f (AfterStageTaskStatus s ! i)]\<rparr>"

fun taskAt :: "taskRef \<Rightarrow> StageUpdatingStatus \<Rightarrow> StageTaskStatus option" where
  "taskAt (BeforeTask i) s =
     (if i < length (BeforeStageTaskStatus s) then Some (BeforeStageTaskStatus s ! i) else None)"
| "taskAt (AfterTask i) s =
     (if i < length (AfterStageTaskStatus s) then Some (AfterStageTaskStatus s ! i) else None)"

text \<open>Following a nil pointer or indexing out of range is a crash.\<close>

definition orPanic :: "'a option \<Rightarrow> 'a result" where
  "orPanic x = (case x of None \<Rightarrow> Inl Panic | Some y \<Rightarrow> Inr y)"

definition stageConfig :: "nat \<Rightarrow> UpdateRun \<Rightarrow> StageConfig result" where
  "stageConfig k run =
     (case UpdateStrategySnapshot (RunStatus run) of
        None \<Rightarrow> Inl Panic
      | Some spec \<Rightarrow> if k < length (Stages spec) then Inr (Stages spec ! k) else Inl Panic)"

section \<open>Approvals\<close>

definition buildApprovalRequestObject :: "string \<Rightarrow> string \<Rightarrow> string \<Rightarrow> string \<Rightarrow> string \<Rightarrow> ApprovalRequest" where
  "buildApprovalRequestObject namespace name stageName updateRunName stageTaskType =
     \<lparr>Name = name, Namespace = namespace,
      Labels = [TargetUpdatingStageNameLabel \<mapsto>
                  (if stageName = UpdateRunDeleteStageName then UpdateRunDeleteStageTaskName else stageName),
                TargetUpdateRunLabel \<mapsto> updateRunName,
                TaskTypeLabel \<mapsto> stageTaskType,
                IsLatestUpdateRunApprovalLabel \<mapsto> ''true''],
      Annotations = Map.empty, Finalizers = [], Generation = 0, ResourceVersion = 0, DeletionTimestamp = None,
      TargetUpdateRun = updateRunName, TargetStage = stageName, ApprovalConditions = Map.empty\<rparr>"

definition updateApprovalRequestAccepted :: "'w updateRunClient \<Rightarrow> ApprovalRequest \<Rightarrow> ('w, unit) prog" where
  "updateApprovalRequestAccepted c appReq =
     (\<lambda>w. let cond = newCondition ApprovalRequestConditionApprovalAccepted ConditionTrue (Generation appReq)
                       ''ApprovalRequestApprovalAccepted'' ''The approval request has been approved and cannot be reverted''
          in wrapP updateIgnoreConflictError
               (putApprovalStatus c (appReq\<lparr>ApprovalConditions :=
                  putCondition c (clock c w) (ApprovalConditions appReq) cond\<rparr>)) w)"

definition markTask ::
  "'w updateRunClient \<Rightarrow> stageRef \<Rightarrow> taskRef \<Rightarrow> (setter \<Rightarrow> int \<Rightarrow> int \<Rightarrow> StageTaskStatus \<Rightarrow> StageTaskStatus) \<Rightarrow>
   ('w \<times> UpdateRun, unit) prog" where
  "markTask c ref task f =
     markP c (\<lambda>sc t run. onStage ref (onTask task (f sc t (Generation run))) run)"

text \<open>An existing approval request is read, and accepted when it is approved for the first time.\<close>

definition readApproval ::
  "'w updateRunClient \<Rightarrow> UpdateRun \<Rightarrow> string \<Rightarrow> string \<Rightarrow> ('w, bool) prog" where
  "readApproval c run stageName requestName =
     bindP (wrapP (apiServerError True) (getApproval c (Namespace run) requestName)) (\<lambda>req.
       if TargetStage req \<noteq> stageName \<or> TargetUpdateRun req \<noteq> Name run then failP ErrStagedUpdatedAborted
       else
         let approvalAccepted = IsConditionStatusTrue (ApprovalConditions req ApprovalRequestConditionApprovalAccepted) (Generation req);
             approved = IsConditionStatusTrue (ApprovalConditions req ApprovalRequestConditionApproved) (Generation req)
         in if \<not> approvalAccepted \<and> \<not> approved then returnP False
            else if \<not> approved then returnP True
            else if \<not> approvalAccepted then bindP (updateApprovalRequestAccepted c req) (\<lambda>_. returnP True)
            else returnP True)"

definition handleStageApprovalTask ::
  "'w updateRunClient \<Rightarrow> stageRef \<Rightarrow> taskRef \<Rightarrow> string \<Rightarrow> string \<Rightarrow> ('w \<times> UpdateRun, bool) prog" where
  "handleStageApprovalTask c ref task stageName stageTaskType =
     bindP readP (\<lambda>run.
     bindP (liftP (bindR (orPanic (stageAt ref run)) (\<lambda>s. orPanic (taskAt task s)))) (\<lambda>ts.
     if IsConditionStatusTrue (sts_Conditions ts StageTaskConditionApprovalRequestApproved) (Generation run)
     then returnP True
     else
       (\<lambda>s. case callP (createApproval c (buildApprovalRequestObject (Namespace run) (ApprovalRequestName ts)
                          stageName (Name run) stageTaskType)) s of
          (Inr _, s') \<Rightarrow> bindP (markTask c ref task markStageTaskRequestCreated) (\<lambda>_. returnP False) s'
        | (Inl e, s') \<Rightarrow>
            if e \<noteq> ErrAPI AlreadyExists then (Inl (apiServerError False e), s')
            else bindP (markTask c ref task markStageTaskRequestCreated) (\<lambda>_.
                 bindP (callP (readApproval c run stageName (ApprovalRequestName ts))) (\<lambda>approved.
                 if \<not> approved then returnP False
                 else bindP (markTask c ref task markStageTaskRequestApproved) (\<lambda>_. returnP True))) s')))"

text \<open>Every branch of the loop body returns, so only the first task is looked at.\<close>

definition checkBeforeStageTasksStatus ::
  "'w updateRunClient \<Rightarrow> stageRef \<Rightarrow> StageTask list \<Rightarrow> ('w \<times> UpdateRun, bool) prog" where
  "checkBeforeStageTasksStatus c ref tasks =
     (case tasks of
        [] \<Rightarrow> returnP True
      | task # _ \<Rightarrow>
          (case task_Type task of
             StageTaskTypeApproval \<Rightarrow>
               bindP readP (\<lambda>run.
               bindP (liftP (orPanic (stageAt ref run))) (\<lambda>s.
               handleStageApprovalTask c ref (BeforeTask 0) (StageName s) BeforeStageTaskLabelValue))
           | _ \<Rightarrow> failP ErrStagedUpdatedAborted))"

section \<open>Clusters\<close>

text \<open>What stays the same while the clusters of a stage are visited.\<close>

record stageEnv =
  env_Generation :: int
  env_SnapshotName :: string
  env_Run :: UpdateRun
  env_Bindings :: "string \<rightharpoonup> Binding"

definition isBindingSyncedWithClusterStatus :: "stageEnv \<Rightarrow> Binding \<Rightarrow> ClusterUpdatingStatus \<Rightarrow> bool" where
  "isBindingSyncedWithClusterStatus env binding cluster =
     (ResourceSnapshotName (Spec binding) = env_SnapshotName env \<and>
      cus_ResourceOverrideSnapshots cluster = ResourceOverrideSnapshots (Spec binding) \<and>
      cus_ClusterResourceOverrideSnapshots cluster = ClusterResourceOverrideSnapshots (Spec binding) \<and>
      BindingApplyStrategy (Spec binding) = RunApplyStrategy (RunStatus (env_Run env)))"

definition updatedOn :: "Binding \<Rightarrow> bool" where
  "updatedOn binding =
     (IsConditionStatusTrue (GetCondition binding ResourceBindingAvailable) (Generation binding) \<or>
      IsConditionStatusTrue (GetCondition binding ResourceBindingDiffReported) (Generation binding))"

definition checkClusterUpdateResult ::
  "setter \<Rightarrow> int \<Rightarrow> stageEnv \<Rightarrow> Binding \<Rightarrow> ClusterUpdatingStatus \<Rightarrow> (bool \<times> ClusterUpdatingStatus) result" where
  "checkClusterUpdateResult sc t env binding clusterStatus =
     (if updatedOn binding
      then Inr (True, markClusterUpdatingSucceeded sc t (env_Generation env) clusterStatus)
      else if HasBindingFailed binding \<or>
              IsConditionStatusFalse (GetCondition binding ResourceBindingDiffReported) (Generation binding)
      then Inl (ErrPlain ''the cluster updating encountered an error'')
      else Inr (False, clusterStatus))"

definition updateBindingRolloutStarted :: "'w updateRunClient \<Rightarrow> stageEnv \<Rightarrow> Binding \<Rightarrow> ('w, unit) prog" where
  "updateBindingRolloutStarted c env binding =
     (\<lambda>w. let cond = newCondition ResourceBindingRolloutStarted ConditionTrue (Generation binding) ''RolloutStarted''
                       (''Detected the new changes on the resources and started the rollout process, resourceSnapshotIndex: '' @
                        ResourceSnapshotIndex (RunSpec (env_Run env)) @ '', updateRun: '' @ Name (env_Run env))
          in wrapP updateIgnoreConflictError
               (putBindingStatus c (binding\<lparr>BindingConditions :=
                  putCondition c (clock c w) ((BindingConditions binding)(ResourceBindingRolloutStarted := None)) cond\<rparr>)) w)"

text \<open>The binding a cluster of the stage should have.\<close>

definition desiredSpec :: "stageEnv \<Rightarrow> ClusterUpdatingStatus \<Rightarrow> ResourceBindingSpec \<Rightarrow> ResourceBindingSpec" where
  "desiredSpec env clusterStatus spec =
     spec\<lparr>State := BindingStateBound, ResourceSnapshotName := env_SnapshotName env,
          ResourceOverrideSnapshots := cus_ResourceOverrideSnapshots clusterStatus,
          ClusterResourceOverrideSnapshots := cus_ClusterResourceOverrideSnapshots clusterStatus,
          BindingApplyStrategy := RunApplyStrategy (RunStatus (env_Run env))\<rparr>"

definition rolloutStartedOn :: "Binding \<Rightarrow> bool" where
  "rolloutStartedOn binding =
     IsConditionStatusTrue (BindingConditions binding ResourceBindingRolloutStarted) (Generation binding)"

text \<open>Starting the update of a cluster; the result is the status of the cluster before it is marked as started.\<close>

definition startCluster ::
  "'w updateRunClient \<Rightarrow> stageEnv \<Rightarrow> Binding \<Rightarrow> ClusterUpdatingStatus \<Rightarrow> ('w, ClusterUpdatingStatus) prog" where
  "startCluster c env binding clusterStatus =
     (if \<not> isBindingSyncedWithClusterStatus env binding clusterStatus then
        bindP (wrapP updateIgnoreConflictError
                 (putBinding c (binding\<lparr>Spec := desiredSpec env clusterStatus (Spec binding)\<rparr>))) (\<lambda>b.
        bindP (updateBindingRolloutStarted c env b) (\<lambda>_. returnP clusterStatus))
      else if State (Spec binding) \<noteq> BindingStateBound then
        bindP (wrapP updateIgnoreConflictError
                 (putBinding c (binding\<lparr>Spec := (Spec binding)\<lparr>State := BindingStateBound\<rparr>\<rparr>))) (\<lambda>b.
        bindP (updateBindingRolloutStarted c env b) (\<lambda>_. returnP clusterStatus))
      else if \<not> rolloutStartedOn binding then
        bindP (updateBindingRolloutStarted c env binding) (\<lambda>_. returnP clusterStatus)
      else
        (\<lambda>w. liftP (bindR (checkClusterUpdateResult (putCondition c) (clock c w) env binding clusterStatus)
                      (\<lambda>(_, cl). Inr cl)) w))"

text \<open>The local variables of the loop over the clusters; the stage is kept without its clusters.\<close>

record stageLoop =
  finishedClusterCount :: int
  clusterUpdatingCount :: int
  stuckClusterNames :: "string list"
  clusterUpdateErrors :: "go_error list"
  loopStage :: StageUpdatingStatus

definition addError :: "go_error \<Rightarrow> stageLoop \<Rightarrow> stageLoop" where
  "addError e l = l\<lparr>clusterUpdateErrors := clusterUpdateErrors l @ [e]\<rparr>"

definition countUpdating :: "stageLoop \<Rightarrow> stageLoop" where
  "countUpdating l = l\<lparr>clusterUpdatingCount := clusterUpdatingCount l + 1\<rparr>"

definition countFinished :: "stageLoop \<Rightarrow> stageLoop" where
  "countFinished l = l\<lparr>finishedClusterCount := finishedClusterCount l + 1\<rparr>"

definition clusterSucceeded :: "int \<Rightarrow> ClusterUpdatingStatus \<Rightarrow> bool" where
  "clusterSucceeded generation cl = IsConditionStatusTrue (cus_Conditions cl SucceededType) generation"

definition clusterFailed :: "int \<Rightarrow> ClusterUpdatingStatus \<Rightarrow> bool" where
  "clusterFailed generation cl = IsConditionStatusFalse (cus_Conditions cl SucceededType) generation"

definition clusterStarted :: "int \<Rightarrow> ClusterUpdatingStatus \<Rightarrow> bool" where
  "clusterStarted generation cl = IsConditionStatusTrue (cus_Conditions cl ClusterUpdatingConditionStarted) generation"

text \<open>Since when a cluster has been updating, read after \<open>clusterStarted\<close> has found the condition.\<close>

definition noteStuck :: "int \<Rightarrow> ClusterUpdatingStatus \<Rightarrow> stageLoop \<Rightarrow> stageLoop" where
  "noteStuck t cl l =
     (case cus_Conditions cl ClusterUpdatingConditionStarted of
        None \<Rightarrow> l
      | Some cond \<Rightarrow>
          if t - cond_LastTransitionTime cond > updateRunStuckThreshold
          then l\<lparr>stuckClusterNames := stuckClusterNames l @ [cus_ClusterName cl]\<rparr> else l)"

definition beginCluster ::
  "'w updateRunClient \<Rightarrow> stageEnv \<Rightarrow> Binding \<Rightarrow> ClusterUpdatingStatus \<Rightarrow> stageLoop \<Rightarrow> 'w \<Rightarrow>
   (ClusterUpdatingStatus \<times> stageLoop) \<times> 'w" where
  "beginCluster c env binding cl l w =
     (case startCluster c env binding cl w of
        (Inl e, w') \<Rightarrow> ((cl, addError e l), w')
      | (Inr cl', w') \<Rightarrow>
          ((markClusterUpdatingStarted (putCondition c) (clock c w') (env_Generation env) cl',
            l\<lparr>loopStage := markStageUpdatingProgressStarted (putCondition c) (clock c w') (env_Generation env) (loopStage l)\<rparr>), w'))"

definition continueCluster ::
  "'w updateRunClient \<Rightarrow> stageEnv \<Rightarrow> Binding \<Rightarrow> ClusterUpdatingStatus \<Rightarrow> stageLoop \<Rightarrow> 'w \<Rightarrow>
   (ClusterUpdatingStatus \<times> stageLoop) \<times> 'w" where
  "continueCluster c env binding cl l w =
     (if \<not> isBindingSyncedWithClusterStatus env binding cl \<or> \<not> rolloutStartedOn binding \<or>
         State (Spec binding) \<noteq> BindingStateBound
      then ((markClusterUpdatingFailed (putCondition c) (clock c w) (env_Generation env) (errorText c ErrUserError) cl,
             addError ErrStagedUpdatedAborted l), w)
      else
        (case checkClusterUpdateResult (putCondition c) (clock c w) env binding cl of
           Inl e \<Rightarrow> ((cl, noteStuck (clock c w) cl (addError e l)), w)
         | Inr (True, cl') \<Rightarrow>
             ((cl', (countFinished l)\<lparr>clusterUpdatingCount := clusterUpdatingCount l - 1\<rparr>), w)
         | Inr (False, cl') \<Rightarrow> ((cl', noteStuck (clock c w) cl l), w)))"

text \<open>One round of the loop.\<close>

definition executeCluster ::
  "'w updateRunClient \<Rightarrow> stageEnv \<Rightarrow> ClusterUpdatingStatus \<Rightarrow> stageLoop \<Rightarrow> 'w \<Rightarrow>
   (ClusterUpdatingStatus \<times> stageLoop) \<times> 'w" where
  "executeCluster c env cl l w =
     (if clusterSucceeded (env_Generation env) cl then ((cl, countFinished l), w)
      else if clusterFailed (env_Generation env) cl
      then ((cl, addError ErrStagedUpdatedAborted (countUpdating l)), w)
      else
        (case env_Bindings env (cus_ClusterName cl) of
           None \<Rightarrow> ((cl, addError ErrStagedUpdatedAborted (countUpdating l)), w)
         | Some binding \<Rightarrow>
             if \<not> clusterStarted (env_Generation env) cl
             then beginCluster c env binding cl (countUpdating l) w
             else continueCluster c env binding cl (countUpdating l) w))"

fun executeClusters ::
  "'w updateRunClient \<Rightarrow> stageEnv \<Rightarrow> int \<Rightarrow> ClusterUpdatingStatus list \<Rightarrow> stageLoop \<Rightarrow> 'w \<Rightarrow>
   (ClusterUpdatingStatus list \<times> stageLoop) \<times> 'w" where
  "executeClusters c env maxConcurrency [] l w = (([], l), w)"
| "executeClusters c env maxConcurrency (cl # cls) l w =
     (if clusterUpdatingCount l < maxConcurrency then
        (case executeCluster c env cl l w of
           ((cl', l'), w') \<Rightarrow>
             (case executeClusters c env maxConcurrency cls l' w' of
                ((cls', l''), w'') \<Rightarrow> ((cl' # cls', l''), w'')))
      else ((cl # cls, l), w))"

section \<open>Update stages\<close>

definition calculateMaxConcurrencyValue :: "'w updateRunClient \<Rightarrow> UpdateRun \<Rightarrow> nat \<Rightarrow> int result" where
  "calculateMaxConcurrencyValue c run stageIndex =
     bindR (stageConfig stageIndex run) (\<lambda>cfg.
     bindR (orPanic (stageAt (UpdatingStage stageIndex) run)) (\<lambda>s.
     bindR (scaledDown c (MaxConcurrency cfg) (int (length (StageClusters s)))) (\<lambda>v.
     Inr (if v = 0 then 1 else v))))"

text \<open>
  The error of \<open>strconv.Atoi\<close> is ignored: the value is then 0, or the nearest 64-bit integer for
  a number that is out of range.
\<close>

definition atoiIgnoringError :: "string \<Rightarrow> int" where
  "atoiIgnoringError s =
     (case atoi s of Some n \<Rightarrow> n
      | None \<Rightarrow>
          (let signed = (s \<noteq> [] \<and> (hd s = CHR ''-'' \<or> hd s = CHR ''+''));
               digits = (if signed then tl s else s)
           in if digits = [] then 0
              else case parse_digits 0 digits of
                     None \<Rightarrow> 0
                   | Some _ \<Rightarrow> if hd s = CHR ''-'' then - (2 ^ 63) else 2 ^ 63 - 1))"

definition resourceSnapshotNameOf :: "UpdateRun \<Rightarrow> string" where
  "resourceSnapshotNameOf run =
     PlacementName (RunSpec run) @ ''-'' @ itoa (atoiIgnoringError (ResourceSnapshotIndexUsed (RunStatus run))) @ ''-snapshot''"

definition stageEnvOf :: "UpdateRun \<Rightarrow> Binding list \<Rightarrow> stageEnv" where
  "stageEnvOf run bindings =
     \<lparr>env_Generation = Generation run, env_SnapshotName = resourceSnapshotNameOf run, env_Run = run,
      env_Bindings = build_map target (\<lambda>b. b) bindings\<rparr>"

text \<open>\<open>errors.Is\<close> finds the abort error in an aggregate when one of the errors is that.\<close>

definition NewAggregate :: "go_error list \<Rightarrow> go_error" where
  "NewAggregate es =
     (if ErrStagedUpdatedAborted \<in> set es then ErrStagedUpdatedAborted else ErrPlain ''aggregate of the errors'')"

text \<open>
  The tasks after a stage: whether all have finished, and how long to wait for the last timed
  task that has not.
\<close>

fun afterStageTasks ::
  "'w updateRunClient \<Rightarrow> nat \<Rightarrow> string \<Rightarrow> nat \<Rightarrow> StageTask list \<Rightarrow> bool \<times> int \<Rightarrow> ('w \<times> UpdateRun, bool \<times> int) prog" where
  "afterStageTasks c k name i [] acc = returnP acc"
| "afterStageTasks c k name i (task # tasks) (passed, waitTime) =
     (case task_Type task of
        StageTaskTypeTimedWait \<Rightarrow>
          (\<lambda>(w, run).
            bindP (liftP (bindR (orPanic (stageAt (UpdatingStage k) run)) (\<lambda>s.
                          bindR (orPanic (taskAt (AfterTask i) s)) (\<lambda>ts. Inr (s, ts))))) (\<lambda>(s, ts).
            if map_option cond_Status (sts_Conditions ts StageTaskConditionWaitTimeElapsed) = Some ConditionTrue
            then afterStageTasks c k name (Suc i) tasks (passed, waitTime)
            else
              bindP (liftP (bindR (orPanic (StageConditions s ProgressingType)) (\<lambda>progressing.
                            bindR (orPanic (WaitTime task)) (\<lambda>d.
                            Inr (cond_LastTransitionTime progressing + d - clock c w))))) (\<lambda>remaining.
              if remaining > 0 then afterStageTasks c k name (Suc i) tasks (False, remaining)
              else bindP (markTask c (UpdatingStage k) (AfterTask i) markAfterStageWaitTimeElapsed) (\<lambda>_.
                   afterStageTasks c k name (Suc i) tasks (passed, waitTime)))) (w, run))
      | StageTaskTypeApproval \<Rightarrow>
          bindP (handleStageApprovalTask c (UpdatingStage k) (AfterTask i) name AfterStageTaskLabelValue) (\<lambda>approved.
          afterStageTasks c k name (Suc i) tasks (passed \<and> approved, waitTime))
      | StageTaskTypeOther _ \<Rightarrow> afterStageTasks c k name (Suc i) tasks (passed, waitTime))"

definition checkAfterStageTasksStatus :: "'w updateRunClient \<Rightarrow> nat \<Rightarrow> ('w \<times> UpdateRun, bool \<times> int) prog" where
  "checkAfterStageTasksStatus c k =
     bindP readP (\<lambda>run.
     bindP (liftP (stageConfig k run)) (\<lambda>cfg.
     if AfterStageTasks cfg = [] then returnP (True, 0)
     else bindP (afterStageTasks c k (stage_Name cfg) 0 (AfterStageTasks cfg) (True, -1)) (\<lambda>(passed, waitTime).
          returnP (passed, if passed then 0 else waitTime))))"

definition markStageP ::
  "'w updateRunClient \<Rightarrow> stageRef \<Rightarrow> (setter \<Rightarrow> int \<Rightarrow> int \<Rightarrow> StageUpdatingStatus \<Rightarrow> StageUpdatingStatus) \<Rightarrow>
   ('w \<times> UpdateRun, unit) prog" where
  "markStageP c ref f = markP c (\<lambda>sc t run. onStage ref (f sc t (Generation run)) run)"

definition handleStageCompletion :: "'w updateRunClient \<Rightarrow> nat \<Rightarrow> string \<Rightarrow> ('w \<times> UpdateRun, int) prog" where
  "handleStageCompletion c k name =
     bindP (markP c (\<lambda>sc t. markUpdateRunWaiting sc t (updateRunWaitingMessage ''after-stage'' name))) (\<lambda>_.
     bindP (markStageP c (UpdatingStage k) (\<lambda>sc t g. markStageUpdatingWaiting sc t g
              ''All clusters in the stage are updated, waiting for after-stage tasks to complete'')) (\<lambda>_.
     bindP (checkAfterStageTasksStatus c k) (\<lambda>(approved, waitTime).
     if approved then
       bindP (markP c markUpdateRunProgressing) (\<lambda>_.
       bindP (markStageP c (UpdatingStage k) markStageUpdatingSucceeded) (\<lambda>_. returnP 0))
     else returnP (if waitTime < 0 then stageUpdatingWaitTime else waitTime))))"

definition executeUpdatingStage ::
  "'w updateRunClient \<Rightarrow> nat \<Rightarrow> Binding list \<Rightarrow> int \<Rightarrow> ('w \<times> UpdateRun, int) prog" where
  "executeUpdatingStage c k toBeUpdatedBindings maxConcurrency =
     (\<lambda>(w, run).
        case stageAt (UpdatingStage k) run of
          None \<Rightarrow> (Inl Panic, (w, run))
        | Some stage \<Rightarrow>
            (case executeClusters c (stageEnvOf run toBeUpdatedBindings) maxConcurrency (StageClusters stage)
                    \<lparr>finishedClusterCount = 0, clusterUpdatingCount = 0, stuckClusterNames = [],
                     clusterUpdateErrors = [], loopStage = stage\<rparr> w of
               ((cls, l), w') \<Rightarrow>
                 let run' = aggregateUpdateRunStatus (putCondition c) (clock c w') (StageName stage) (stuckClusterNames l)
                              (onStage (UpdatingStage k) (\<lambda>_. (loopStage l)\<lparr>StageClusters := cls\<rparr>) run)
                 in if clusterUpdateErrors l \<noteq> [] then (Inl (NewAggregate (clusterUpdateErrors l)), (w', run'))
                    else if finishedClusterCount l = int (length cls)
                    then handleStageCompletion c k (StageName stage) (w', run')
                    else (Inr clusterUpdatingWaitTime, (w', run'))))"

section \<open>The delete stage\<close>

text \<open>
  The clusters of the delete stage are looked up by name; of two entries with one name the later
  is used. A binding takes the entry of its cluster out of the ones that have been deleted.
\<close>

fun syncDeletingBindings ::
  "int \<Rightarrow> ClusterUpdatingStatus list \<Rightarrow> (string \<rightharpoonup> nat) \<Rightarrow> (string \<rightharpoonup> nat) \<Rightarrow> Binding list \<Rightarrow>
   ((string \<rightharpoonup> nat) \<times> (string \<rightharpoonup> nat)) result" where
  "syncDeletingBindings g cls deleted toBeStarted [] = Inr (deleted, toBeStarted)"
| "syncDeletingBindings g cls deleted toBeStarted (b # bs) =
     (case deleted (target b) of
        None \<Rightarrow> Inl ErrStagedUpdatedAborted
      | Some i \<Rightarrow>
          if clusterSucceeded g (cls ! i) then Inl ErrStagedUpdatedAborted
          else if \<not> clusterStarted g (cls ! i)
          then syncDeletingBindings g cls (deleted(target b := None)) (toBeStarted(target b \<mapsto> i)) bs
          else if live b then Inl ErrStagedUpdatedAborted
          else syncDeletingBindings g cls (deleted(target b := None)) toBeStarted bs)"

definition markDeleted :: "setter \<Rightarrow> int \<Rightarrow> int \<Rightarrow> (string \<rightharpoonup> nat) \<Rightarrow> ClusterUpdatingStatus list \<Rightarrow> ClusterUpdatingStatus list" where
  "markDeleted sc t g deleted cls =
     map (\<lambda>(i, cl).
       if deleted (cus_ClusterName cl) = Some i
       then markClusterUpdatingSucceeded sc t g (if clusterStarted g cl then cl else markClusterUpdatingStarted sc t g cl)
       else cl) (zip [0..<length cls] cls)"

definition syncDeleteStageClusterStatuses ::
  "'w updateRunClient \<Rightarrow> Binding list \<Rightarrow> ('w \<times> UpdateRun, string \<rightharpoonup> nat) prog" where
  "syncDeleteStageClusterStatuses c toBeDeletedBindings =
     bindP readP (\<lambda>run.
     bindP (liftP (orPanic (DeletionStageStatus (RunStatus run)))) (\<lambda>stage.
     let cls = StageClusters stage in
     bindP (liftP (syncDeletingBindings (Generation run) cls
                     (build_map (\<lambda>i. cus_ClusterName (cls ! i)) (\<lambda>i. i) [0..<length cls]) Map.empty
                     toBeDeletedBindings)) (\<lambda>(deleted, toBeStarted).
     bindP (markStageP c DeletionStage (\<lambda>sc t g s. s\<lparr>StageClusters := markDeleted sc t g deleted (StageClusters s)\<rparr>)) (\<lambda>_.
     returnP toBeStarted))))"

definition checkBeforeDeleteStageTasksStatus ::
  "'w updateRunClient \<Rightarrow> Binding list \<Rightarrow> ('w \<times> UpdateRun, bool) prog" where
  "checkBeforeDeleteStageTasksStatus c toBeDeletedBindings =
     bindP readP (\<lambda>run.
     bindP (liftP (orPanic (UpdateStrategySnapshot (RunStatus run)))) (\<lambda>spec.
     case DeleteStage spec of
       None \<Rightarrow> returnP True
     | Some tasks \<Rightarrow>
         if tasks = [] \<or> toBeDeletedBindings = [] then returnP True
         else bindP (liftP (orPanic (DeletionStageStatus (RunStatus run)))) (\<lambda>stage.
           if StartTime stage \<noteq> None then returnP True
           else bindP (checkBeforeStageTasksStatus c DeletionStage tasks) (\<lambda>approved.
             if \<not> approved then
               bindP (markStageP c DeletionStage (\<lambda>sc t g. markStageUpdatingWaiting sc t g
                        ''Not all before-stage tasks are completed, waiting for approval'')) (\<lambda>_.
               bindP (markP c (\<lambda>sc t. markUpdateRunWaiting sc t (updateRunWaitingMessage ''before-stage'' (StageName stage)))) (\<lambda>_.
               returnP False))
             else bindP (markP c markUpdateRunProgressing) (\<lambda>_. returnP True)))))"

fun deleteBindings ::
  "'w updateRunClient \<Rightarrow> (string \<rightharpoonup> nat) \<Rightarrow> Binding list \<Rightarrow> ('w \<times> UpdateRun, unit) prog" where
  "deleteBindings c toBeStarted [] = returnP ()"
| "deleteBindings c toBeStarted (b # bs) =
     (case toBeStarted (target b) of
        None \<Rightarrow> deleteBindings c toBeStarted bs
      | Some i \<Rightarrow>
          bindP (callP (wrapP (apiServerError False) (removeBinding c b))) (\<lambda>_.
          bindP (markStageP c DeletionStage (\<lambda>sc t g s.
                   s\<lparr>StageClusters := (StageClusters s)[i := markClusterUpdatingStarted sc t g (StageClusters s ! i)]\<rparr>)) (\<lambda>_.
          deleteBindings c toBeStarted bs)))"

definition executeDeleteStage ::
  "'w updateRunClient \<Rightarrow> Binding list \<Rightarrow> ('w \<times> UpdateRun, bool \<times> int) prog" where
  "executeDeleteStage c toBeDeletedBindings =
     bindP (checkBeforeDeleteStageTasksStatus c toBeDeletedBindings) (\<lambda>approved.
     if \<not> approved then returnP (False, stageUpdatingWaitTime)
     else
       bindP readP (\<lambda>run.
       bindP (liftP (orPanic (DeletionStageStatus (RunStatus run)))) (\<lambda>_.
       bindP (markStageP c DeletionStage markStageUpdatingProgressStarted) (\<lambda>_.
       bindP (syncDeleteStageClusterStatuses c toBeDeletedBindings) (\<lambda>toBeStarted.
       bindP (deleteBindings c toBeStarted toBeDeletedBindings) (\<lambda>_.
       bindP (if toBeDeletedBindings = [] then markStageP c DeletionStage markStageUpdatingSucceeded else returnP ()) (\<lambda>_.
       returnP (toBeDeletedBindings = [], clusterUpdatingWaitTime))))))))"

section \<open>Execution\<close>

definition checkIfErrorStagedUpdateAborted ::
  "'w updateRunClient \<Rightarrow> stageRef \<Rightarrow> ('w \<times> UpdateRun, 'a) prog \<Rightarrow> ('w \<times> UpdateRun, 'a) prog" where
  "checkIfErrorStagedUpdateAborted c ref p =
     (\<lambda>s. case p s of
        (Inl e, s') \<Rightarrow>
          if e = ErrStagedUpdatedAborted
          then bindP (markStageP c ref (\<lambda>sc t g. markStageUpdatingFailed sc t g (errorText c e))) (\<lambda>_. failP e) s'
          else (Inl e, s')
      | (Inr x, s') \<Rightarrow> (Inr x, s'))"

definition executeStage ::
  "'w updateRunClient \<Rightarrow> nat \<Rightarrow> Binding list \<Rightarrow> ('w \<times> UpdateRun, bool \<times> int) prog" where
  "executeStage c k toBeUpdatedBindings =
     bindP readP (\<lambda>run.
     bindP (liftP (orPanic (stageAt (UpdatingStage k) run))) (\<lambda>stage.
     if StageClusters stage = [] then
       bindP (markStageP c (UpdatingStage k) (\<lambda>sc t g. markStageUpdatingSkippedNoClusters sc t g
                ''Stage skipped because it has no clusters'')) (\<lambda>_. returnP (False, 0))
     else
       bindP (liftP (stageConfig k run)) (\<lambda>cfg.
       bindP (checkBeforeStageTasksStatus c (UpdatingStage k) (BeforeStageTasks cfg)) (\<lambda>approved.
       if \<not> approved then
         bindP (markStageP c (UpdatingStage k) (\<lambda>sc t g. markStageUpdatingWaiting sc t g
                  ''Not all before-stage tasks are completed, waiting for approval'')) (\<lambda>_.
         bindP (markP c (\<lambda>sc t. markUpdateRunWaiting sc t (updateRunWaitingMessage ''before-stage'' (StageName stage)))) (\<lambda>_.
         returnP (False, stageUpdatingWaitTime)))
       else
         bindP (liftP (wrapR (\<lambda>e. if e = Panic then Panic else ErrStagedUpdatedAborted)
                         (calculateMaxConcurrencyValue c run k))) (\<lambda>maxConcurrency.
         bindP (executeUpdatingStage c k toBeUpdatedBindings maxConcurrency) (\<lambda>waitTime.
         returnP (False, waitTime)))))))"

text \<open>Whether the run has finished, and how long to wait before going on.\<close>

definition execute ::
  "'w updateRunClient \<Rightarrow> nat \<Rightarrow> Binding list \<Rightarrow> Binding list \<Rightarrow> ('w \<times> UpdateRun, bool \<times> int) prog" where
  "execute c updatingStageIndex toBeUpdatedBindings toBeDeletedBindings =
     bindP (markP c markUpdateRunProgressingIfNotWaitingOrStuck) (\<lambda>_.
     bindP readP (\<lambda>run.
     if updatingStageIndex < length (stagesOf run)
     then checkIfErrorStagedUpdateAborted c (UpdatingStage updatingStageIndex)
            (executeStage c updatingStageIndex toBeUpdatedBindings)
     else checkIfErrorStagedUpdateAborted c DeletionStage (executeDeleteStage c toBeDeletedBindings)))"

section \<open>Stopping\<close>

text \<open>A cluster that is being updated is followed to its end; nothing else is touched.\<close>

definition stopCluster ::
  "'w updateRunClient \<Rightarrow> stageEnv \<Rightarrow> 'w \<Rightarrow> ClusterUpdatingStatus \<Rightarrow> stageLoop \<Rightarrow> ClusterUpdatingStatus \<times> stageLoop" where
  "stopCluster c env w cl l =
     (if \<not> clusterStarted (env_Generation env) cl then (cl, l)
      else if clusterFailed (env_Generation env) cl \<or> clusterSucceeded (env_Generation env) cl then (cl, l)
      else
        let l1 = countUpdating l in
        (case env_Bindings env (cus_ClusterName cl) of
           None \<Rightarrow> (cl, addError ErrStagedUpdatedAborted l1)
         | Some binding \<Rightarrow>
             (case checkClusterUpdateResult (putCondition c) (clock c w) env binding cl of
                Inl e \<Rightarrow> (cl, noteStuck (clock c w) cl (addError e l1))
              | Inr (True, cl') \<Rightarrow> (cl', l1\<lparr>clusterUpdatingCount := clusterUpdatingCount l1 - 1\<rparr>)
              | Inr (False, cl') \<Rightarrow> (cl', noteStuck (clock c w) cl l1))))"

fun stopClusters ::
  "'w updateRunClient \<Rightarrow> stageEnv \<Rightarrow> 'w \<Rightarrow> ClusterUpdatingStatus list \<Rightarrow> stageLoop \<Rightarrow> ClusterUpdatingStatus list \<times> stageLoop" where
  "stopClusters c env w [] l = ([], l)"
| "stopClusters c env w (cl # cls) l =
     (case stopCluster c env w cl l of
        (cl', l') \<Rightarrow> (case stopClusters c env w cls l' of (cls', l'') \<Rightarrow> (cl' # cls', l'')))"

definition followUpdatingClusters ::
  "'w updateRunClient \<Rightarrow> nat \<Rightarrow> Binding list \<Rightarrow> ('w \<times> UpdateRun, bool \<times> int) prog" where
  "followUpdatingClusters c k toBeUpdatedBindings =
     (\<lambda>(w, run).
        case stageAt (UpdatingStage k) run of
          None \<Rightarrow> (Inl Panic, (w, run))
        | Some stage \<Rightarrow>
            (case stopClusters c (stageEnvOf run toBeUpdatedBindings) w (StageClusters stage)
                    \<lparr>finishedClusterCount = 0, clusterUpdatingCount = 0, stuckClusterNames = [],
                     clusterUpdateErrors = [], loopStage = stage\<rparr> of
               (cls, l) \<Rightarrow>
                 let run' = aggregateUpdateRunStatus (putCondition c) (clock c w) (StageName stage) (stuckClusterNames l)
                              (onStage (UpdatingStage k) (\<lambda>s. s\<lparr>StageClusters := cls\<rparr>) run)
                 in if clusterUpdateErrors l \<noteq> [] then (Inl (NewAggregate (clusterUpdateErrors l)), (w, run'))
                    else if clusterUpdatingCount l = 0
                    then bindP (markStageP c (UpdatingStage k) markStageUpdatingStopped) (\<lambda>_. returnP (True, 0)) (w, run')
                    else (Inr (False, clusterUpdatingWaitTime), (w, run'))))"

definition stopUpdatingStage ::
  "'w updateRunClient \<Rightarrow> nat \<Rightarrow> Binding list \<Rightarrow> ('w \<times> UpdateRun, bool \<times> int) prog" where
  "stopUpdatingStage c k toBeUpdatedBindings =
     bindP (markStageP c (UpdatingStage k) markStageUpdatingStopping) (\<lambda>_.
     followUpdatingClusters c k toBeUpdatedBindings)"

definition stopDeleteStage :: "'w updateRunClient \<Rightarrow> Binding list \<Rightarrow> ('w \<times> UpdateRun, bool) prog" where
  "stopDeleteStage c toBeDeletedBindings =
     bindP (markStageP c DeletionStage markStageUpdatingStopping) (\<lambda>_.
     bindP (syncDeleteStageClusterStatuses c toBeDeletedBindings) (\<lambda>_.
     bindP readP (\<lambda>run.
     bindP (liftP (orPanic (DeletionStageStatus (RunStatus run)))) (\<lambda>stage.
     let allDeletingClustersDeleted =
           \<not> list_ex (\<lambda>cl. clusterStarted (Generation run) cl \<and> \<not> clusterSucceeded (Generation run) cl) (StageClusters stage)
     in bindP (if allDeletingClustersDeleted then markStageP c DeletionStage markStageUpdatingStopped else returnP ()) (\<lambda>_.
        returnP allDeletingClustersDeleted)))))"

definition stop ::
  "'w updateRunClient \<Rightarrow> nat \<Rightarrow> Binding list \<Rightarrow> Binding list \<Rightarrow> ('w \<times> UpdateRun, bool \<times> int) prog" where
  "stop c updatingStageIndex toBeUpdatedBindings toBeDeletedBindings =
     bindP (markP c markUpdateRunStopping) (\<lambda>_.
     bindP readP (\<lambda>run.
     if updatingStageIndex < length (stagesOf run)
     then checkIfErrorStagedUpdateAborted c (UpdatingStage updatingStageIndex)
            (stopUpdatingStage c updatingStageIndex toBeUpdatedBindings)
     else checkIfErrorStagedUpdateAborted c DeletionStage
            (bindP (stopDeleteStage c toBeDeletedBindings) (\<lambda>finished. returnP (finished, clusterUpdatingWaitTime)))))"

end
