(* ===== verification/Updaterun_Init.thy ===== *)
theory Updaterun_Init
  imports Updaterun_Execution
begin

text \<open>
  Initializing a staged update run and validating it in a later reconciliation
  (\<open>pkg/controllers/updaterun/initialization.go\<close>, \<open>validation.go\<close>). \<open>errValidationFailed\<close> wraps the
  abort error, which is all the callers test for. A nil label selector selects nothing.
\<close>

section \<open>The placement and its policy snapshot\<close>

definition validatePlacement :: "'w updateRunClient \<Rightarrow> ('w \<times> UpdateRun, Placement) prog" where
  "validatePlacement c =
     bindP readP (\<lambda>run.
     bindP (callP (wrapP (\<lambda>e. if e = ErrAPI NotFound then ErrStagedUpdatedAborted else apiServerError True e)
                     (urGetPlacement c (Namespace run) (PlacementName (RunSpec run))))) (\<lambda>p.
     let placement = SetPlacementDefaults p in
     if StrategyType (Strategy placement) \<noteq> ExternalRolloutStrategyType then failP ErrStagedUpdatedAborted
     else bindP (markP c (\<lambda>_ _ run. run\<lparr>RunStatus := (RunStatus run)\<lparr>RunApplyStrategy :=
                   StrategyApplyStrategy (Strategy placement)\<rparr>\<rparr>)) (\<lambda>_. returnP placement)))"

definition PolicySnapshotScheduledType :: string where
  "PolicySnapshotScheduledType = ''Scheduled''"

text \<open>The number of clusters a policy fixes, or -1.\<close>

definition observedClusterCount :: "PolicySnapshot \<Rightarrow> int result" where
  "observedClusterCount s =
     (case Policy s of
        None \<Rightarrow> Inr (-1)
      | Some p \<Rightarrow>
          if Type p = PickNPlacementType
          then wrapR (\<lambda>_. ErrStagedUpdatedAborted) (ExtractNumOfClustersFromPolicySnapshot s)
          else if Type p = PickFixedPlacementType then Inr (int (length (ClusterNames p)))
          else Inr (-1))"

definition determinePolicySnapshot :: "'w updateRunClient \<Rightarrow> ('w \<times> UpdateRun, PolicySnapshot \<times> int) prog" where
  "determinePolicySnapshot c =
     bindP readP (\<lambda>run.
     bindP (callP (wrapP (\<lambda>e. if e = ErrNoLatestPolicySnapshot \<or> e = ErrMultipleActivePolicySnapshots
                               then ErrStagedUpdatedAborted else e)
                     (LookupLatestPolicySnapshot (urListLatestPolicies c) (Namespace run) (PlacementName (RunSpec run))))) (\<lambda>s.
     let policyIndex = getString (Labels s) PolicyIndexLabel in
     if policyIndex = '''' then failP ErrStagedUpdatedAborted
     else
       bindP (markP c (\<lambda>_ _ run. run\<lparr>RunStatus := (RunStatus run)\<lparr>PolicySnapshotIndexUsed := policyIndex\<rparr>\<rparr>)) (\<lambda>_.
       bindP (liftP (observedClusterCount s)) (\<lambda>clusterCount.
       bindP (markP c (\<lambda>_ _ run. run\<lparr>RunStatus := (RunStatus run)\<lparr>PolicyObservedClusterCount := clusterCount\<rparr>\<rparr>)) (\<lambda>_.
       if \<not> IsConditionStatusTrue (PolicyConditions s PolicySnapshotScheduledType) (Generation s)
       then failP ErrStagedUpdatedAborted
       else returnP (s, clusterCount))))))"

section \<open>The clusters\<close>

text \<open>The scheduled bindings, and the ones to be deleted.\<close>

fun sortBindings :: "string \<Rightarrow> Binding list \<Rightarrow> (Binding list \<times> Binding list) result" where
  "sortBindings policyName [] = Inr ([], [])"
| "sortBindings policyName (b # bs) =
     (if SchedulingPolicySnapshotName (Spec b) \<noteq> policyName \<and> State (Spec b) \<noteq> BindingStateUnscheduled
      then Inl (ErrPlain ''binding with old policy snapshot is not unscheduled'')
      else bindR (sortBindings policyName bs) (\<lambda>(selected, toBeDeleted).
             if State (Spec b) = BindingStateUnscheduled then Inr (selected, b # toBeDeleted)
             else Inr (b # selected, toBeDeleted)))"

definition collectScheduledClusters ::
  "'w updateRunClient \<Rightarrow> PolicySnapshot \<Rightarrow> ('w \<times> UpdateRun, Binding list \<times> Binding list) prog" where
  "collectScheduledClusters c latestPolicySnapshot =
     bindP readP (\<lambda>run.
     bindP (callP (wrapP (apiServerError True)
                     (ListBindingsFromKey (urHub c) (Namespace run) (PlacementName (RunSpec run)) True))) (\<lambda>bindings.
     bindP (liftP (sortBindings (Name latestPolicySnapshot) bindings)) (\<lambda>(selected, toBeDeleted).
     if selected = [] \<and> toBeDeleted = [] then failP ErrStagedUpdatedAborted
     else
       let observed = PolicyObservedClusterCount (RunStatus run) in
       if observed = -1 then
         bindP (markP c (\<lambda>_ _ run. run\<lparr>RunStatus := (RunStatus run)\<lparr>PolicyObservedClusterCount := int (length selected)\<rparr>\<rparr>)) (\<lambda>_.
         returnP (selected, toBeDeleted))
       else if observed \<noteq> int (length selected) then failP ErrStagedUpdatedAborted
       else returnP (selected, toBeDeleted))))"

section \<open>The stages\<close>

definition validateBeforeStageTask :: "StageTask list \<Rightarrow> bool" where
  "validateBeforeStageTask tasks =
     (length tasks \<le> 1 \<and> list_all (\<lambda>t. task_Type t = StageTaskTypeApproval \<and> WaitTime t = None) tasks)"

definition validateAfterStageTask :: "StageTask list \<Rightarrow> bool" where
  "validateAfterStageTask tasks =
     (\<not> (length tasks = 2 \<and> task_Type (tasks ! 0) = task_Type (tasks ! 1)) \<and>
      list_all (\<lambda>t. task_Type t = StageTaskTypeTimedWait \<longrightarrow>
                      (case WaitTime t of None \<Rightarrow> False | Some d \<Rightarrow> 0 < d)) tasks)"

definition buildStageTaskStatuses :: "StageTask list \<Rightarrow> string \<Rightarrow> StageTaskStatus list" where
  "buildStageTaskStatuses tasks approvalRequestName =
     map (\<lambda>t. \<lparr>sts_Type = task_Type t,
               ApprovalRequestName = (if task_Type t = StageTaskTypeApproval then approvalRequestName else ''''),
               sts_Conditions = Map.empty\<rparr>) tasks"

definition newClusterStatus :: "string \<Rightarrow> ClusterUpdatingStatus" where
  "newClusterStatus name =
     \<lparr>cus_ClusterName = name, cus_ResourceOverrideSnapshots = [], cus_ClusterResourceOverrideSnapshots = [],
      cus_Conditions = Map.empty\<rparr>"

definition newStageStatus :: "string \<Rightarrow> string list \<Rightarrow> StageTaskStatus list \<Rightarrow> StageTaskStatus list \<Rightarrow> StageUpdatingStatus" where
  "newStageStatus name clusterNames beforeTasks afterTasks =
     \<lparr>StageName = name, StageClusters = map newClusterStatus clusterNames, AfterStageTaskStatus = afterTasks,
      BeforeStageTaskStatus = beforeTasks, StartTime = None, EndTime = None, StageConditions = Map.empty\<rparr>"

text \<open>
  The clusters a stage selects among the scheduled ones, which no earlier stage may have
  selected, and whose sorting label must be an integer.
\<close>

fun pickStageClusters ::
  "string option \<Rightarrow> string set \<Rightarrow> string set \<Rightarrow> MemberCluster list \<Rightarrow> MemberCluster list \<Rightarrow>
   (MemberCluster list \<times> string set) result" where
  "pickStageClusters key selected placed acc [] = Inr (acc, placed)"
| "pickStageClusters key selected placed acc (m # ms) =
     (if Name m \<notin> selected then pickStageClusters key selected placed acc ms
      else if Name m \<in> placed then Inl ErrStagedUpdatedAborted
      else if (case key of None \<Rightarrow> False | Some k \<Rightarrow> atoi (getString (Labels m) k) = None)
      then Inl ErrStagedUpdatedAborted
      else pickStageClusters key selected (insert (Name m) placed) (acc @ [m]) ms)"

definition stageClusterLess :: "string option \<Rightarrow> MemberCluster \<Rightarrow> MemberCluster \<Rightarrow> bool" where
  "stageClusterLess key a b =
     (case key of
        None \<Rightarrow> Name a < Name b
      | Some k \<Rightarrow>
          (let i = atoiIgnoringError (getString (Labels a) k); j = atoiIgnoringError (getString (Labels b) k)
           in if i \<noteq> j then i < j else Name a < Name b))"

definition computeStage ::
  "'w updateRunClient \<Rightarrow> string \<Rightarrow> string set \<Rightarrow> StageConfig \<Rightarrow> StageUpdatingStatus list \<times> string set \<Rightarrow>
   ('w, StageUpdatingStatus list \<times> string set) prog" where
  "computeStage c runName selected stage = (\<lambda>(stages, placed).
     if \<not> validateBeforeStageTask (BeforeStageTasks stage) \<or> \<not> validateAfterStageTask (AfterStageTasks stage)
     then failP ErrStagedUpdatedAborted
     else
       bindP (liftP (wrapR (\<lambda>_. ErrStagedUpdatedAborted)
                       (case StageLabelSelector stage of None \<Rightarrow> Inr (\<lambda>_. False)
                        | Some ls \<Rightarrow> LabelSelectorAsSelector (urLib c) ls))) (\<lambda>_.
       bindP (wrapP (apiServerError True) (listClustersMatching c (StageLabelSelector stage))) (\<lambda>clusters.
       bindP (liftP (pickStageClusters (SortingLabelKey stage) selected placed [] clusters)) (\<lambda>(curStageClusters, placed').
       returnP (stages @ [newStageStatus (stage_Name stage)
                            (map Name (sort_by (stageClusterLess (SortingLabelKey stage)) curStageClusters))
                            (buildStageTaskStatuses (BeforeStageTasks stage) (runName @ ''-before-'' @ stage_Name stage))
                            (buildStageTaskStatuses (AfterStageTasks stage) (runName @ ''-after-'' @ stage_Name stage))],
                placed')))))"

fun computeStages ::
  "'w updateRunClient \<Rightarrow> string \<Rightarrow> string set \<Rightarrow> StageConfig list \<Rightarrow> StageUpdatingStatus list \<times> string set \<Rightarrow>
   ('w, StageUpdatingStatus list \<times> string set) prog" where
  "computeStages c runName selected [] acc = returnP acc"
| "computeStages c runName selected (stage # stages) acc =
     bindP (computeStage c runName selected stage acc) (computeStages c runName selected stages)"

text \<open>The stages are recorded before it is checked that every cluster is in one.\<close>

definition computeRunStageStatus :: "'w updateRunClient \<Rightarrow> Binding list \<Rightarrow> ('w \<times> UpdateRun, unit) prog" where
  "computeRunStageStatus c scheduledBindings =
     bindP readP (\<lambda>run.
     bindP (liftP (orPanic (UpdateStrategySnapshot (RunStatus run)))) (\<lambda>spec.
     let selected = set (map target scheduledBindings) in
     bindP (callP (computeStages c (Name run) selected (Stages spec) ([], {}))) (\<lambda>(stages, placed).
     bindP (markP c (\<lambda>_ _ run. run\<lparr>RunStatus := (RunStatus run)\<lparr>StagesStatus := Some stages\<rparr>\<rparr>)) (\<lambda>_.
     if card placed \<noteq> card selected then failP ErrStagedUpdatedAborted else returnP ()))))"

definition removeWaitTimeFromApprovalTasks :: "StageTask list \<Rightarrow> StageTask list" where
  "removeWaitTimeFromApprovalTasks tasks =
     map (\<lambda>t. if task_Type t = StageTaskTypeApproval then t\<lparr>WaitTime := None\<rparr> else t) tasks"

definition removeWaitTimeFromUpdateRunStatus :: "UpdateRun \<Rightarrow> UpdateRun" where
  "removeWaitTimeFromUpdateRunStatus run =
     run\<lparr>RunStatus := (RunStatus run)\<lparr>UpdateStrategySnapshot :=
       map_option (\<lambda>spec.
         \<lparr>Stages = map (\<lambda>s. s\<lparr>BeforeStageTasks := removeWaitTimeFromApprovalTasks (BeforeStageTasks s),
                              AfterStageTasks := removeWaitTimeFromApprovalTasks (AfterStageTasks s)\<rparr>) (Stages spec),
          DeleteStage = map_option removeWaitTimeFromApprovalTasks (DeleteStage spec)\<rparr>)
         (UpdateStrategySnapshot (RunStatus run))\<rparr>\<rparr>"

definition generateStagesByStrategy ::
  "'w updateRunClient \<Rightarrow> Binding list \<Rightarrow> Binding list \<Rightarrow> ('w \<times> UpdateRun, unit) prog" where
  "generateStagesByStrategy c scheduledBindings toBeDeletedBindings =
     bindP readP (\<lambda>run.
     bindP (callP (wrapP (\<lambda>e. if e = ErrAPI NotFound then ErrStagedUpdatedAborted else apiServerError True e)
                     (getUpdateStrategy c (Namespace run) (StagedUpdateStrategyName (RunSpec run))))) (\<lambda>spec.
     bindP (markP c (\<lambda>_ _ run. removeWaitTimeFromUpdateRunStatus
                       (run\<lparr>RunStatus := (RunStatus run)\<lparr>UpdateStrategySnapshot := Some spec\<rparr>\<rparr>))) (\<lambda>_.
     let deleteStageTasks = (case DeleteStage spec of None \<Rightarrow> [] | Some tasks \<Rightarrow> removeWaitTimeFromApprovalTasks tasks) in
     if \<not> validateBeforeStageTask deleteStageTasks then failP ErrStagedUpdatedAborted
     else
       bindP (computeRunStageStatus c scheduledBindings) (\<lambda>_.
       markP c (\<lambda>_ _ run. run\<lparr>RunStatus := (RunStatus run)\<lparr>DeletionStageStatus :=
         Some (newStageStatus UpdateRunDeleteStageName
                 (sort_by (\<lambda>a b. a < b) (map target toBeDeletedBindings))
                 (buildStageTaskStatuses deleteStageTasks (Name run @ ''-before-'' @ UpdateRunDeleteStageTaskName))
                 [])\<rparr>\<rparr>)))))"

section \<open>Overrides\<close>

definition revisionLimitOf :: "Placement \<Rightarrow> int" where
  "revisionLimitOf placement =
     (case RevisionHistoryLimit placement of None \<Rightarrow> 10 | Some n \<Rightarrow> if n > 0 then n else 10)"

definition getResourceSnapshotObjs ::
  "'w updateRunClient \<Rightarrow> Placement \<Rightarrow> UpdateRun \<Rightarrow> ('w, ResourceSnapshot list) prog" where
  "getResourceSnapshotObjs c placement run =
     (let index = ResourceSnapshotIndex (RunSpec run) in
      if index \<noteq> '''' then
        (case atoi index of
           None \<Rightarrow> failP ErrStagedUpdatedAborted
         | Some n \<Rightarrow>
             if n < 0 then failP ErrStagedUpdatedAborted
             else bindP (wrapP (apiServerError True)
                    (ListAllResourceSnapshotWithAnIndex (urOverrides c) index (Name placement) (Namespace placement))) (\<lambda>snapshots.
                  if snapshots = [] then failP ErrStagedUpdatedAborted else returnP snapshots))
      else
        bindP (wrapP (\<lambda>e. if e = ErrUserError then ErrStagedUpdatedAborted else e) (selectResources c placement)) (\<lambda>(n, res).
        bindP (getOrCreateSnapshot c placement n res (revisionLimitOf placement)) (\<lambda>latest.
        case latest of None \<Rightarrow> failP ErrUnexpectedBehavior | Some s \<Rightarrow> returnP [s])))"

fun pickClusterOverrides ::
  "'w updateRunClient \<Rightarrow> OverrideSnapshot list \<Rightarrow> OverrideSnapshot list \<Rightarrow> ClusterUpdatingStatus list \<Rightarrow>
   ('w, ClusterUpdatingStatus list) prog" where
  "pickClusterOverrides c cros ros [] = returnP []"
| "pickClusterOverrides c cros ros (cl # cls) =
     bindP (wrapP (\<lambda>_. ErrStagedUpdatedAborted)
              (PickFromResourceMatchedOverridesForTargetCluster (urOverrides c) (urLib c) (cus_ClusterName cl) cros ros)) (\<lambda>(cro, ro).
     bindP (pickClusterOverrides c cros ros cls) (\<lambda>cls'.
     returnP (cl\<lparr>cus_ClusterResourceOverrideSnapshots := cro, cus_ResourceOverrideSnapshots := ro\<rparr> # cls')))"

fun pickStageOverrides ::
  "'w updateRunClient \<Rightarrow> OverrideSnapshot list \<Rightarrow> OverrideSnapshot list \<Rightarrow> StageUpdatingStatus list \<Rightarrow>
   ('w, StageUpdatingStatus list) prog" where
  "pickStageOverrides c cros ros [] = returnP []"
| "pickStageOverrides c cros ros (s # ss) =
     bindP (pickClusterOverrides c cros ros (StageClusters s)) (\<lambda>cls.
     bindP (pickStageOverrides c cros ros ss) (\<lambda>ss'. returnP (s\<lparr>StageClusters := cls\<rparr> # ss')))"

text \<open>
  The overrides are fetched with the bare name of the placement as its key. An error leaves some
  clusters of the run in memory with their overrides; such a run is not used any more.
\<close>

definition recordOverrideSnapshots :: "'w updateRunClient \<Rightarrow> Placement \<Rightarrow> ('w \<times> UpdateRun, unit) prog" where
  "recordOverrideSnapshots c placement =
     bindP readP (\<lambda>run.
     bindP (callP (getResourceSnapshotObjs c placement run)) (\<lambda>snapshots.
     case find isMasterSnapshot snapshots of
       None \<Rightarrow> failP ErrStagedUpdatedAborted
     | Some master \<Rightarrow>
         bindP (markP c (\<lambda>_ _ run. run\<lparr>RunStatus := (RunStatus run)\<lparr>ResourceSnapshotIndexUsed :=
                  getString (Labels master) ResourceIndexLabel\<rparr>\<rparr>)) (\<lambda>_.
         bindP (callP (wrapP (\<lambda>_. ErrStagedUpdatedAborted)
                  (FetchAllMatchingOverridesForResourceSnapshot (urOverrides c) (urManifests c)
                     (PlacementName (RunSpec run)) master))) (\<lambda>(cros, ros).
         bindP (callP (pickStageOverrides c cros ros (stagesOf run))) (\<lambda>stages.
         markP c (\<lambda>_ _ run. run\<lparr>RunStatus := (RunStatus run)\<lparr>StagesStatus :=
           map_option (\<lambda>_. stages) (StagesStatus (RunStatus run))\<rparr>\<rparr>))))))"

section \<open>Initialization\<close>

text \<open>Storing the status of the run; the stored object becomes the one in memory.\<close>

definition storeStatus :: "'w updateRunClient \<Rightarrow> ('w \<times> UpdateRun, unit) prog" where
  "storeStatus c =
     (\<lambda>(w, run). case putUpdateRunStatus c run w of
        (Inl e, w') \<Rightarrow> (Inl (updateIgnoreConflictError e), (w', run))
      | (Inr run', w') \<Rightarrow> (Inr (), (w', run')))"

definition recordInitializationSucceeded :: "'w updateRunClient \<Rightarrow> ('w \<times> UpdateRun, unit) prog" where
  "recordInitializationSucceeded c =
     bindP (markP c (\<lambda>sc t. setRun sc t InitializedType ConditionTrue ''UpdateRunInitializedSuccessfully''
              ''The UpdateRun initialized successfully'')) (\<lambda>_. storeStatus c)"

definition recordInitializationFailed :: "'w updateRunClient \<Rightarrow> string \<Rightarrow> ('w \<times> UpdateRun, unit) prog" where
  "recordInitializationFailed c message =
     bindP (markP c (\<lambda>sc t. setRun sc t InitializedType ConditionFalse ''UpdateRunInitializedFailed'' message)) (\<lambda>_.
     storeStatus c)"

definition initialize :: "'w updateRunClient \<Rightarrow> ('w \<times> UpdateRun, Binding list \<times> Binding list) prog" where
  "initialize c =
     bindP (validatePlacement c) (\<lambda>placement.
     bindP (determinePolicySnapshot c) (\<lambda>(latestPolicySnapshot, _).
     bindP (collectScheduledClusters c latestPolicySnapshot) (\<lambda>(scheduledBindings, toBeDeletedBindings).
     bindP (generateStagesByStrategy c scheduledBindings toBeDeletedBindings) (\<lambda>_.
     bindP (recordOverrideSnapshots c placement) (\<lambda>_.
     bindP (recordInitializationSucceeded c) (\<lambda>_.
     returnP (scheduledBindings, toBeDeletedBindings)))))))"

section \<open>Validation\<close>

text \<open>
  The indices of the stage that is updating and of the last finished one, -1 where there is
  none.
\<close>

definition validateClusterUpdatingStatus ::
  "int \<Rightarrow> int \<Rightarrow> int \<Rightarrow> StageUpdatingStatus \<Rightarrow> int \<Rightarrow> int \<Rightarrow> (int \<times> int) result" where
  "validateClusterUpdatingStatus curStage updatingStageIndex lastFinishedStageIndex stage maxConcurrency generation =
     (let stageSucceedCond = StageConditions stage SucceededType;
          stageStartedCond = StageConditions stage ProgressingType
      in if IsConditionStatusTrue stageSucceedCond generation then
           (if updatingStageIndex \<noteq> -1 \<and> curStage > updatingStageIndex then Inl ErrStagedUpdatedAborted
            else if \<not> list_all (clusterSucceeded generation) (StageClusters stage) then Inl ErrStagedUpdatedAborted
            else if curStage \<noteq> lastFinishedStageIndex + 1 then Inl ErrStagedUpdatedAborted
            else Inr (updatingStageIndex, curStage))
         else if IsConditionStatusFalse stageSucceedCond generation then Inl ErrStagedUpdatedAborted
         else if stageStartedCond \<noteq> None then
           (if updatingStageIndex \<noteq> -1 then Inl ErrStagedUpdatedAborted
            else if curStage \<noteq> lastFinishedStageIndex + 1 then Inl ErrStagedUpdatedAborted
            else if int (length (filter (\<lambda>cl. clusterStarted generation cl \<and> \<not> clusterSucceeded generation cl)
                           (StageClusters stage))) > maxConcurrency
            then Inl ErrStagedUpdatedAborted
            else Inr (curStage, lastFinishedStageIndex))
         else Inr (updatingStageIndex, lastFinishedStageIndex))"

text \<open>The maximal concurrency is the one of the recomputed stages, which have as many clusters.\<close>

fun validateStagesFrom ::
  "'w updateRunClient \<Rightarrow> UpdateRun \<Rightarrow> nat \<Rightarrow> StageUpdatingStatus list \<Rightarrow> StageUpdatingStatus list \<Rightarrow> int \<times> int \<Rightarrow>
   (int \<times> int) result" where
  "validateStagesFrom c run k (old # olds) (new # news) (updatingStageIndex, lastFinishedStageIndex) =
     (if StageName old \<noteq> StageName new then Inl ErrStagedUpdatedAborted
      else if map cus_ClusterName (StageClusters old) \<noteq> map cus_ClusterName (StageClusters new)
      then Inl ErrStagedUpdatedAborted
      else
        bindR (wrapR (\<lambda>e. if e = Panic then Panic else ErrStagedUpdatedAborted) (calculateMaxConcurrencyValue c run k)) (\<lambda>maxConcurrency.
        bindR (validateClusterUpdatingStatus (int k) updatingStageIndex lastFinishedStageIndex old maxConcurrency (Generation run)) (\<lambda>indices.
        validateStagesFrom c run (Suc k) olds news indices)))"
| "validateStagesFrom c run k _ _ indices = Inr indices"

definition validateUpdateStagesStatus ::
  "'w updateRunClient \<Rightarrow> StageUpdatingStatus list \<Rightarrow> UpdateRun \<Rightarrow> (int \<times> int) result" where
  "validateUpdateStagesStatus c existing run =
     (if length existing \<noteq> length (stagesOf run) then Inl ErrStagedUpdatedAborted
      else validateStagesFrom c run 0 existing (stagesOf run) (-1, -1))"

definition validateDeleteStageStatus ::
  "int \<Rightarrow> int \<Rightarrow> int \<Rightarrow> Binding list \<Rightarrow> UpdateRun \<Rightarrow> int result" where
  "validateDeleteStageStatus updatingStageIndex lastFinishedStageIndex totalStages toBeDeletedBindings run =
     (case DeletionStageStatus (RunStatus run) of
        None \<Rightarrow> Inl ErrStagedUpdatedAborted
      | Some stage \<Rightarrow>
          if \<not> list_all (\<lambda>b. target b \<in> cus_ClusterName ` set (StageClusters stage)) toBeDeletedBindings
          then Inl ErrStagedUpdatedAborted
          else
            let finished = StageConditions stage SucceededType; progressing = StageConditions stage ProgressingType
            in if updatingStageIndex \<noteq> -1 \<or> lastFinishedStageIndex < totalStages - 1 then
                 (if IsConditionStatusTrue finished (Generation run) \<or> IsConditionStatusFalse finished (Generation run) \<or>
                     IsConditionStatusTrue progressing (Generation run)
                  then Inl ErrStagedUpdatedAborted
                  else Inr (if updatingStageIndex = -1 then lastFinishedStageIndex + 1 else updatingStageIndex))
               else if IsConditionStatusTrue finished (Generation run) then Inr (-1)
               else if IsConditionStatusFalse finished (Generation run) then Inl ErrStagedUpdatedAborted
               else Inr totalStages)"

text \<open>The program acts on the copy of the run; the original is an argument.\<close>

definition validateStagesStatus ::
  "'w updateRunClient \<Rightarrow> UpdateRun \<Rightarrow> Binding list \<Rightarrow> Binding list \<Rightarrow> ('w \<times> UpdateRun, int) prog" where
  "validateStagesStatus c updateRun scheduledBindings toBeDeletedBindings =
     (if UpdateStrategySnapshot (RunStatus updateRun) = None then failP ErrStagedUpdatedAborted
      else
        bindP (computeRunStageStatus c scheduledBindings) (\<lambda>_.
        bindP readP (\<lambda>updateRunCopy.
        case StagesStatus (RunStatus updateRun) of
          None \<Rightarrow> failP ErrStagedUpdatedAborted
        | Some existing \<Rightarrow>
            liftP (bindR (validateUpdateStagesStatus c existing updateRunCopy) (\<lambda>(updatingStageIndex, lastFinishedStageIndex).
                   validateDeleteStageStatus updatingStageIndex lastFinishedStageIndex (int (length existing))
                     toBeDeletedBindings updateRunCopy)))))"

definition validateCopy :: "'w updateRunClient \<Rightarrow> UpdateRun \<Rightarrow> ('w \<times> UpdateRun, int \<times> Binding list \<times> Binding list) prog" where
  "validateCopy c updateRun =
     bindP (validatePlacement c) (\<lambda>_.
     bindP readP (\<lambda>copy1.
     if RunApplyStrategy (RunStatus updateRun) \<noteq> RunApplyStrategy (RunStatus copy1) then failP ErrStagedUpdatedAborted
     else
       bindP (determinePolicySnapshot c) (\<lambda>(latestPolicySnapshot, clusterCount).
       bindP readP (\<lambda>copy2.
       if PolicySnapshotIndexUsed (RunStatus updateRun) \<noteq> PolicySnapshotIndexUsed (RunStatus copy2)
       then failP ErrStagedUpdatedAborted
       else if clusterCount \<noteq> -1 \<and> PolicyObservedClusterCount (RunStatus updateRun) \<noteq> clusterCount
       then failP ErrStagedUpdatedAborted
       else
         bindP (collectScheduledClusters c latestPolicySnapshot) (\<lambda>(scheduledBindings, toBeDeletedBindings).
         bindP (validateStagesStatus c updateRun scheduledBindings toBeDeletedBindings) (\<lambda>updatingStageIndex.
         returnP (updatingStageIndex, scheduledBindings, toBeDeletedBindings)))))))"

definition validate :: "'w updateRunClient \<Rightarrow> ('w \<times> UpdateRun, int \<times> Binding list \<times> Binding list) prog" where
  "validate c =
     (\<lambda>(w, run). case validateCopy c run (w, run) of (r, (w', _)) \<Rightarrow> (r, (w', run)))"

end
