(* ===== verification/Updaterun_Controller.thy ===== *)
theory Updaterun_Controller
  imports Updaterun_Init
begin

text \<open>
  The reconciliation of a staged update run and the handlers of approval request events
  (\<open>pkg/controllers/updaterun/controller.go\<close>). Metrics and events are left out. An event handler
  adds at most one request to the work queue and is a function to that request; the casts of the
  handlers to the two kinds of approval requests always succeed here.
\<close>

section \<open>Conditions of a new generation\<close>

definition observeAll :: "int \<Rightarrow> conditions \<Rightarrow> conditions" where
  "observeAll generation cs = (\<lambda>ty. map_option (\<lambda>c. c\<lparr>cond_ObservedGeneration := generation\<rparr>) (cs ty))"

definition updateAllStageStatusConditionsGeneration :: "int \<Rightarrow> StageUpdatingStatus \<Rightarrow> StageUpdatingStatus" where
  "updateAllStageStatusConditionsGeneration generation s =
     s\<lparr>StageConditions := observeAll generation (StageConditions s),
       BeforeStageTaskStatus := map (\<lambda>t. t\<lparr>sts_Conditions := observeAll generation (sts_Conditions t)\<rparr>) (BeforeStageTaskStatus s),
       AfterStageTaskStatus := map (\<lambda>t. t\<lparr>sts_Conditions := observeAll generation (sts_Conditions t)\<rparr>) (AfterStageTaskStatus s),
       StageClusters := map (\<lambda>cl. cl\<lparr>cus_Conditions := observeAll generation (cus_Conditions cl)\<rparr>) (StageClusters s)\<rparr>"

definition updateAllStatusConditionsGeneration :: "UpdateRun \<Rightarrow> UpdateRun" where
  "updateAllStatusConditionsGeneration run =
     run\<lparr>RunStatus := (RunStatus run)\<lparr>
       RunConditions := observeAll (Generation run) (RunConditions (RunStatus run)),
       StagesStatus := map_option (map (updateAllStageStatusConditionsGeneration (Generation run))) (StagesStatus (RunStatus run)),
       DeletionStageStatus := map_option (updateAllStageStatusConditionsGeneration (Generation run)) (DeletionStageStatus (RunStatus run))\<rparr>\<rparr>"

section \<open>Recording the outcome\<close>

definition recordUpdateRunSucceeded :: "'w updateRunClient \<Rightarrow> ('w \<times> UpdateRun, unit) prog" where
  "recordUpdateRunSucceeded c =
     bindP (markP c (\<lambda>sc t. setRun sc t ProgressingType ConditionFalse ''UpdateRunSucceeded'' ''All stages are completed'')) (\<lambda>_.
     bindP (markP c (\<lambda>sc t. setRun sc t SucceededType ConditionTrue ''UpdateRunSucceeded'' ''All stages are completed successfully'')) (\<lambda>_.
     storeStatus c))"

definition recordUpdateRunFailed :: "'w updateRunClient \<Rightarrow> string \<Rightarrow> ('w \<times> UpdateRun, unit) prog" where
  "recordUpdateRunFailed c message =
     bindP (markP c (\<lambda>sc t. setRun sc t ProgressingType ConditionFalse ''UpdateRunFailed''
              ''The stages are aborted due to a non-recoverable error'')) (\<lambda>_.
     bindP (markP c (\<lambda>sc t. setRun sc t SucceededType ConditionFalse ''UpdateRunFailed'' message)) (\<lambda>_.
     storeStatus c))"

definition recordUpdateRunStopped :: "'w updateRunClient \<Rightarrow> ('w \<times> UpdateRun, unit) prog" where
  "recordUpdateRunStopped c =
     bindP (markP c (\<lambda>sc t. setRun sc t ProgressingType ConditionFalse ''UpdateRunStopped'' ''The update run has been stopped'')) (\<lambda>_.
     storeStatus c)"

definition handleIncompleteUpdateRun ::
  "'w updateRunClient \<Rightarrow> int result \<Rightarrow> ('w \<times> UpdateRun, Result) prog" where
  "handleIncompleteUpdateRun c r =
     bindP (storeStatus c) (\<lambda>_.
     liftP (bindR r (\<lambda>waitTime. Inr \<lparr>Requeue = True, RequeueAfter = waitTime\<rparr>)))"

section \<open>Reconciliation\<close>

definition handleDelete :: "'w updateRunClient \<Rightarrow> UpdateRun \<Rightarrow> ('w, unit) prog" where
  "handleDelete c run =
     bindP (wrapP (apiServerError False) (deleteApprovals c (Namespace run) (Name run))) (\<lambda>_.
     bindP (wrapP updateIgnoreConflictError (putUpdateRun c (RemoveFinalizer UpdateRunFinalizer run))) (\<lambda>_.
     returnP ()))"

definition ensureFinalizer :: "'w updateRunClient \<Rightarrow> ('w \<times> UpdateRun, unit) prog" where
  "ensureFinalizer c =
     (\<lambda>(w, run).
        if UpdateRunFinalizer \<in> set (Finalizers run) then (Inr (), (w, run))
        else let run' = AddFinalizer UpdateRunFinalizer run in
          (case putUpdateRun c run' w of
             (Inl e, w') \<Rightarrow> (Inl e, (w', run'))
           | (Inr run'', w') \<Rightarrow> (Inr (), (w', run''))))"

text \<open>
  What follows an execution or a stop: an abort is recorded as a failure, the end as such, and
  otherwise the status is stored and the run is requeued.
\<close>

definition concludeRun ::
  "'w updateRunClient \<Rightarrow> ('w \<times> UpdateRun, bool \<times> int) prog \<Rightarrow> ('w \<times> UpdateRun, unit) prog \<Rightarrow> ('w \<times> UpdateRun, Result) prog" where
  "concludeRun c p recordFinished =
     (\<lambda>s. case p s of
        (Inl e, s') \<Rightarrow>
          if e = Panic then (Inl Panic, s')
          else if e = ErrStagedUpdatedAborted
          then bindP (recordUpdateRunFailed c (errorText c e)) (\<lambda>_. returnP noRequeue) s'
          else handleIncompleteUpdateRun c (Inl e) s'
      | (Inr (finished, waitTime), s') \<Rightarrow>
          if finished then bindP recordFinished (\<lambda>_. returnP noRequeue) s'
          else handleIncompleteUpdateRun c (Inr waitTime) s')"

definition dispatchState ::
  "'w updateRunClient \<Rightarrow> RunState \<Rightarrow> int \<Rightarrow> Binding list \<Rightarrow> Binding list \<Rightarrow> ('w \<times> UpdateRun, Result) prog" where
  "dispatchState c state updatingStageIndex toBeUpdatedBindings toBeDeletedBindings =
     (if updatingStageIndex = -1 then bindP (recordUpdateRunSucceeded c) (\<lambda>_. returnP noRequeue)
      else case state of
        StateInitialize \<Rightarrow> returnP noRequeue
      | StateRun \<Rightarrow>
          concludeRun c (execute c (nat updatingStageIndex) toBeUpdatedBindings toBeDeletedBindings) (recordUpdateRunSucceeded c)
      | StateStop \<Rightarrow>
          concludeRun c (stop c (nat updatingStageIndex) toBeUpdatedBindings toBeDeletedBindings) (recordUpdateRunStopped c)
      | StateOther _ \<Rightarrow>
          bindP (recordUpdateRunFailed c (errorText c ErrUnexpectedBehavior)) (\<lambda>_. returnP noRequeue))"

text \<open>A run that is not initialized yet.\<close>

definition initializeAndDispatch :: "'w updateRunClient \<Rightarrow> ('w \<times> UpdateRun, Result) prog" where
  "initializeAndDispatch c =
     (\<lambda>s. case initialize c s of
        (Inl e, s') \<Rightarrow>
          if e = ErrStagedUpdatedAborted
          then bindP (recordInitializationFailed c (errorText c e)) (\<lambda>_. returnP noRequeue) s'
          else (Inl e, s')
      | (Inr (toBeUpdated, toBeDeleted), s') \<Rightarrow>
          dispatchState c (RunStateOf (RunSpec (snd s))) 0 toBeUpdated toBeDeleted s')"

definition validateAndDispatch :: "'w updateRunClient \<Rightarrow> ('w \<times> UpdateRun, Result) prog" where
  "validateAndDispatch c =
     (\<lambda>s. case validate c s of
        (Inl e, s') \<Rightarrow>
          if e = ErrStagedUpdatedAborted
          then bindP (recordUpdateRunFailed c (errorText c e)) (\<lambda>_. returnP noRequeue) s'
          else (Inl e, s')
      | (Inr (index, toBeUpdated, toBeDeleted), s') \<Rightarrow>
          dispatchState c (RunStateOf (RunSpec (snd s))) index toBeUpdated toBeDeleted s')"

definition reconcileLive :: "'w updateRunClient \<Rightarrow> ('w \<times> UpdateRun, Result) prog" where
  "reconcileLive c =
     bindP (ensureFinalizer c) (\<lambda>_.
     bindP readP (\<lambda>run.
     let initCond = RunConditions (RunStatus run) InitializedType;
         finishedCond = RunConditions (RunStatus run) SucceededType
     in if \<not> IsConditionStatusTrue initCond (Generation run) then
          (if IsConditionStatusFalse initCond (Generation run) then returnP noRequeue
           else initializeAndDispatch c)
        else if IsConditionStatusTrue finishedCond (Generation run) \<or> IsConditionStatusFalse finishedCond (Generation run)
        then returnP noRequeue
        else validateAndDispatch c))"

definition ReconcileUpdateRun :: "'w updateRunClient \<Rightarrow> NamespacedName \<Rightarrow> ('w, Result) prog" where
  "ReconcileUpdateRun c req =
     (\<lambda>w. case getUpdateRun c (nn_Namespace req) (nn_Name req) w of
        (Inl e, w') \<Rightarrow> if e = ErrAPI NotFound then (Inr noRequeue, w') else (Inl e, w')
      | (Inr stored, w') \<Rightarrow>
          let run = removeWaitTimeFromUpdateRunStatus (updateAllStatusConditionsGeneration stored) in
          if \<not> live run then bindP (handleDelete c run) (\<lambda>_. returnP noRequeue) w'
          else (case reconcileLive c (w', run) of (r, (w'', _)) \<Rightarrow> (r, w'')))"

section \<open>Events of approval requests\<close>

definition approvedIn :: "ApprovalRequest \<Rightarrow> bool" where
  "approvedIn req = IsConditionStatusTrue (ApprovalConditions req ApprovalRequestConditionApproved) (Generation req)"

definition enqueueRun :: "ApprovalRequest \<Rightarrow> NamespacedName option" where
  "enqueueRun req =
     (if TargetUpdateRun req = [] then None
      else Some \<lparr>nn_Name = TargetUpdateRun req, nn_Namespace = Namespace req\<rparr>)"

definition handleApprovalRequestUpdate :: "ApprovalRequest \<Rightarrow> ApprovalRequest \<Rightarrow> NamespacedName option" where
  "handleApprovalRequestUpdate oldReq newReq =
     (if approvedIn oldReq = approvedIn newReq then None else enqueueRun newReq)"

definition handleApprovalRequestDelete :: "ApprovalRequest \<Rightarrow> NamespacedName option" where
  "handleApprovalRequestDelete req =
     (if ApprovalConditions req ApprovalRequestConditionApproved \<noteq> None \<and>
         IsConditionStatusTrue (ApprovalConditions req ApprovalRequestConditionApprovalAccepted) (Generation req)
      then None else enqueueRun req)"

end
