(* ===== verification/Updaterun_Spec.thy ===== *)
theory Updaterun_Spec
  imports Prelude
begin

text \<open>
  The abstract specification of a staged update run: what a stage promises about the clusters,
  independent of conditions, bindings and API calls. The stages are lists of phases, one per
  cluster, followed by the delete stage; \<open>mx k\<close> is how many clusters of stage \<open>k\<close> may be updated
  at a time. A cluster is started only after all earlier stages are complete and only
  while fewer than \<open>mx k\<close> clusters before it in its stage are unfinished. Clusters are deleted only after
  every stage is complete.
\<close>

datatype phase = Waiting | Updating | Updated | Failed

type_synonym staged = "phase list list \<times> phase list"

definition complete :: "phase list \<Rightarrow> bool" where
  "complete ps \<longleftrightarrow> list_all (\<lambda>p. p = Updated) ps"

definition unfinished :: "phase list \<Rightarrow> nat" where
  "unfinished ps = length (filter (\<lambda>p. p \<noteq> Updated) ps)"

definition inProgress :: "phase list \<Rightarrow> nat" where
  "inProgress ps = length (filter (\<lambda>p. p = Updating \<or> p = Failed) ps)"

inductive stagedStep :: "(nat \<Rightarrow> int) \<Rightarrow> staged \<Rightarrow> staged \<Rightarrow> bool" for mx where
  start: "k < length S \<Longrightarrow> list_all complete (take k S) \<Longrightarrow> j < length (S ! k) \<Longrightarrow> S ! k ! j = Waiting \<Longrightarrow>
    int (unfinished (take j (S ! k))) < mx k \<Longrightarrow>
    stagedStep mx (S, d) (S[k := (S ! k)[j := Updating]], d)"
| finish: "k < length S \<Longrightarrow> j < length (S ! k) \<Longrightarrow> S ! k ! j = Updating \<Longrightarrow>
    stagedStep mx (S, d) (S[k := (S ! k)[j := Updated]], d)"
| fail: "k < length S \<Longrightarrow> j < length (S ! k) \<Longrightarrow> S ! k ! j = Updating \<Longrightarrow>
    stagedStep mx (S, d) (S[k := (S ! k)[j := Failed]], d)"
| delete: "list_all complete S \<Longrightarrow> j < length d \<Longrightarrow> d ! j \<noteq> Updated \<Longrightarrow> p = Updating \<or> p = Updated \<Longrightarrow>
    stagedStep mx (S, d) (S, d[j := p])"

inductive_cases stagedStepE: "stagedStep mx (S, d) T"

abbreviation stagedSteps :: "(nat \<Rightarrow> int) \<Rightarrow> staged \<Rightarrow> staged \<Rightarrow> bool" where
  "stagedSteps mx \<equiv> (stagedStep mx)\<^sup>*\<^sup>*"

text \<open>Nothing has been started.\<close>

definition unstarted :: "staged \<Rightarrow> bool" where
  "unstarted T \<longleftrightarrow> list_all (list_all (\<lambda>p. p = Waiting)) (fst T) \<and> list_all (\<lambda>p. p = Waiting) (snd T)"

section \<open>What the specification guarantees\<close>

text \<open>
  In every stage the clusters that have been started lie in a prefix with few unfinished
  clusters; a stage is untouched unless the earlier ones are complete, and the delete stage
  unless all are.
\<close>

definition window :: "int \<Rightarrow> phase list \<Rightarrow> bool" where
  "window m ps \<longleftrightarrow>
     (\<exists>n. list_all (\<lambda>p. p = Waiting) (drop n ps) \<and> (int (unfinished (take n ps)) \<le> m \<or> n = 0))"

definition orderly :: "(nat \<Rightarrow> int) \<Rightarrow> staged \<Rightarrow> bool" where
  "orderly mx T \<longleftrightarrow>
     (\<forall>k < length (fst T). window (mx k) (fst T ! k) \<and>
        (list_all (\<lambda>p. p = Waiting) (fst T ! k) \<or> list_all complete (take k (fst T)))) \<and>
     (list_all (\<lambda>p. p = Waiting) (snd T) \<or> list_all complete (fst T))"

lemma unfinished_take_update:
  assumes "p \<noteq> Waiting" "j < length ps" "ps ! j \<noteq> Updated"
  shows "unfinished (take n (ps[j := p])) \<le> unfinished (take n ps)"
proof (cases "j < n")
  case True
  then have "take n (ps[j := p]) = (take n ps)[j := p]" by (simp add: take_update_swap)
  moreover have "unfinished (xs[j := p]) \<le> unfinished xs" if "j < length xs" "xs ! j \<noteq> Updated" for xs
    using that unfolding unfinished_def
  proof (induction xs arbitrary: j)
    case (Cons x xs) then show ?case by (cases j) auto
  qed simp
  ultimately show ?thesis using assms True by simp
qed simp

lemma window_unstarted: "list_all (\<lambda>p. p = Waiting) ps \<Longrightarrow> window m ps"
  unfolding window_def by (intro exI[of _ 0]) simp

lemma window_advance:
  assumes "window m ps" "j < length ps" "ps ! j \<noteq> Updated" "ps ! j \<noteq> Waiting" "p \<noteq> Waiting"
  shows "window m (ps[j := p])"
proof -
  obtain n where n: "list_all (\<lambda>p. p = Waiting) (drop n ps)" "int (unfinished (take n ps)) \<le> m \<or> n = 0"
    using assms(1) by (auto simp: window_def)
  have "j < n"
  proof (rule ccontr)
    assume "\<not> j < n"
    then have "drop n ps ! (j - n) = ps ! j" "j - n < length (drop n ps)" using assms(2) by simp_all
    then have "ps ! j \<in> set (drop n ps)" by (metis nth_mem)
    then show False using n(1) assms(4) by (simp add: list_all_iff)
  qed
  then have "drop n (ps[j := p]) = drop n ps" by simp
  then show ?thesis
    using n unfinished_take_update[OF assms(5,2,3), of n] \<open>j < n\<close> unfolding window_def
    by (intro exI[of _ n]) auto
qed

lemma window_start:
  assumes "window m ps" "j < length ps" "ps ! j = Waiting" "int (unfinished (take j ps)) < m"
  shows "window m (ps[j := Updating])"
proof -
  obtain n where n: "list_all (\<lambda>p. p = Waiting) (drop n ps)" "int (unfinished (take n ps)) \<le> m \<or> n = 0"
    using assms(1) by (auto simp: window_def)
  show ?thesis
  proof (cases "j < n")
    case True
    then show ?thesis
      using n assms(2,3) unfinished_take_update[of Updating j ps n] unfolding window_def
      by (intro exI[of _ n]) auto
  next
    case False
    then have "drop (Suc j) ps = drop (Suc j - n) (drop n ps)" by simp
    then have "list_all (\<lambda>p. p = Waiting) (drop (Suc j) ps)"
      using n(1) by (metis list_all_iff in_set_dropD)
    moreover have "take (Suc j) (ps[j := Updating]) = take j ps @ [Updating]"
      using assms(2) by (simp add: take_Suc_conv_app_nth)
    ultimately show ?thesis using assms(4) unfolding window_def
      by (intro exI[of _ "Suc j"]) (simp add: unfinished_def)
  qed
qed

lemma window_inProgress: "window m ps \<Longrightarrow> int (inProgress ps) \<le> max m 0"
proof -
  assume "window m ps"
  then obtain n where n: "list_all (\<lambda>p. p = Waiting) (drop n ps)" "int (unfinished (take n ps)) \<le> m \<or> n = 0"
    by (auto simp: window_def)
  have "filter (\<lambda>p. p = Updating \<or> p = Failed) (drop n ps) = []"
    using n(1) by (auto simp: filter_empty_conv list_all_iff)
  then have "inProgress ps = inProgress (take n ps)"
    unfolding inProgress_def by (metis append_Nil2 append_take_drop_id filter_append)
  moreover have "inProgress xs \<le> unfinished xs" for xs
    unfolding inProgress_def unfinished_def by (induction xs) auto
  moreover have "inProgress (take 0 ps) = 0" by (simp add: inProgress_def)
  ultimately show ?thesis using n(2) by (smt (verit) of_nat_0 of_nat_mono)
qed

lemma complete_no_Waiting: "complete ps \<Longrightarrow> j < length ps \<Longrightarrow> ps ! j = Updated"
  by (simp add: complete_def list_all_length)

lemma complete_take_update:
  assumes "list_all complete (take k S)" "i < length S" "j < length (S ! i)" "S ! i ! j \<noteq> Updated"
  shows "list_all complete (take k (S[i := x]))"
proof -
  have "\<not> i < k"
  proof
    assume "i < k"
    then have "complete (S ! i)" using assms(1,2) by (simp add: list_all_length)
    with assms(3,4) complete_no_Waiting show False by blast
  qed
  then show ?thesis using assms(1) by simp
qed

text \<open>A step of a cluster keeps what holds of the other stages.\<close>

lemma orderly_update:
  assumes "orderly mx (S, d)" "k < length S" "j < length (S ! k)" "S ! k ! j \<noteq> Updated"
    and "window (mx k) ((S ! k)[j := p])" "list_all complete (take k S)"
  shows "orderly mx (S[k := (S ! k)[j := p]], d)"
proof -
  have "window (mx i) (S[k := (S ! k)[j := p]] ! i) \<and>
      (list_all (\<lambda>p. p = Waiting) (S[k := (S ! k)[j := p]] ! i) \<or> list_all complete (take i (S[k := (S ! k)[j := p]])))"
    if "i < length S" for i
  proof (cases "i = k")
    case True
    then show ?thesis using assms(2,5) complete_take_update[OF assms(6,2-4)] by simp
  next
    case False
    then show ?thesis using assms(1) that complete_take_update[OF _ assms(2-4), of i] by (auto simp: orderly_def)
  qed
  moreover have "\<not> list_all complete S"
    using assms(2-4) complete_no_Waiting by (auto simp: list_all_length)
  ultimately show ?thesis using assms(1) by (simp add: orderly_def)
qed

lemma orderly_step: "stagedStep mx T U \<Longrightarrow> orderly mx T \<Longrightarrow> orderly mx U"
proof (induction rule: stagedStep.induct)
  case (start k S j d)
  then show ?case
    by (intro orderly_update) (auto simp: orderly_def intro: window_start)
next
  case (finish k S j d)
  then have "list_all complete (take k S)" by (auto simp: orderly_def list_all_length)
  with finish show ?case by (intro orderly_update) (auto simp: orderly_def intro: window_advance)
next
  case (fail k S j d)
  then have "list_all complete (take k S)" by (auto simp: orderly_def list_all_length)
  with fail show ?case by (intro orderly_update) (auto simp: orderly_def intro: window_advance)
next
  case (delete S j d p)
  then show ?case by (auto simp: orderly_def)
qed

lemma orderly_steps: "stagedSteps mx T U \<Longrightarrow> orderly mx T \<Longrightarrow> orderly mx U"
  by (induction rule: rtranclp_induct) (auto intro: orderly_step)

lemma orderly_unstarted: "unstarted T \<Longrightarrow> orderly mx T"
  by (auto simp: unstarted_def orderly_def list_all_length intro: window_unstarted)

lemma stagedStep_shape: "stagedStep mx T U \<Longrightarrow> map length (fst U) = map length (fst T)"
  by (induction rule: stagedStep.induct) (auto simp: map_update list_update_same_conv)

section \<open>The delete stage\<close>

lemma complete_steps: "stagedSteps mx T U \<Longrightarrow> list_all complete (fst T) \<Longrightarrow> fst U = fst T"
proof (induction rule: rtranclp_induct)
  case (step U V)
  then have "list_all complete (fst U)" by simp
  with step.hyps(2) have "fst V = fst U"
  proof (induction rule: stagedStep.induct)
    case (start k S j d)
    then show ?case using complete_no_Waiting[of "S ! k" j] by (auto simp: list_all_length)
  next
    case (finish k S j d)
    then show ?case using complete_no_Waiting[of "S ! k" j] by (auto simp: list_all_length)
  next
    case (fail k S j d)
    then show ?case using complete_no_Waiting[of "S ! k" j] by (auto simp: list_all_length)
  qed simp
  with step show ?case by simp
qed simp

text \<open>Any number of clusters of the delete stage may move at once.\<close>

definition removes :: "phase \<Rightarrow> phase \<Rightarrow> bool" where
  "removes p q \<longleftrightarrow> q = p \<or> p \<noteq> Updated \<and> (q = Updating \<or> q = Updated)"

lemma delete_steps_from:
  "list_all2 removes d d' \<Longrightarrow> list_all complete S \<Longrightarrow> stagedSteps mx (S, ps @ d) (S, ps @ d')"
proof (induction d d' arbitrary: ps rule: list_all2_induct)
  case (Cons p d q d')
  have "stagedSteps mx (S, ps @ p # d) (S, ps @ q # d)"
    using Cons.hyps(1) stagedStep.delete[of S "length ps" "ps @ p # d" q mx] Cons.prems
    by (auto simp: removes_def nth_append intro: r_into_rtranclp)
  moreover have "stagedSteps mx (S, ps @ q # d) (S, ps @ q # d')"
    using Cons.IH[of "ps @ [q]"] Cons.prems by simp
  ultimately show ?case by (rule rtranclp_trans)
qed simp

lemmas delete_steps = delete_steps_from[of _ _ _ _ "[]", simplified]

section \<open>Plans\<close>

text \<open>
  A run has no plan until it is initialized; then the limits of the stages are fixed and its
  clusters only move by the steps above.
\<close>

type_synonym plan = "((nat \<Rightarrow> int) \<times> staged) option"

inductive planStep :: "plan \<Rightarrow> plan \<Rightarrow> bool" where
  plan: "unstarted T \<Longrightarrow> planStep None (Some (mx, T))"
| step: "stagedStep mx T U \<Longrightarrow> planStep (Some (mx, T)) (Some (mx, U))"

abbreviation planSteps :: "plan \<Rightarrow> plan \<Rightarrow> bool" where
  "planSteps \<equiv> planStep\<^sup>*\<^sup>*"

fun orderlyPlan :: "plan \<Rightarrow> bool" where
  "orderlyPlan None = True"
| "orderlyPlan (Some (mx, T)) = orderly mx T"

lemma orderlyPlan_steps: "planSteps a b \<Longrightarrow> orderlyPlan a \<Longrightarrow> orderlyPlan b"
proof (induction rule: rtranclp_induct)
  case (step b c)
  from step.hyps(2) step.IH[OF step.prems] show ?case
    by (induction rule: planStep.induct) (simp_all add: orderly_unstarted orderly_step)
qed

lemma planSteps_staged: "stagedSteps mx T U \<Longrightarrow> planSteps (Some (mx, T)) (Some (mx, U))"
  by (induction rule: rtranclp_induct) (auto intro: rtranclp.rtrancl_into_rtrancl planStep.step)

lemma planSteps_planned: "planSteps a b \<Longrightarrow> a \<noteq> None \<Longrightarrow> b \<noteq> None"
  by (induction rule: rtranclp_induct) (auto elim: planStep.cases)

end
