(* ===== verification/Updaterun_Refines.thy ===== *)
theory Updaterun_Refines
  imports Updaterun_Controller Updaterun_Spec
begin

text \<open>
  The staged update run controller implements the abstract specification of \<open>Updaterun_Spec\<close>:
  the phases of the clusters are read off the conditions in the status of the run, and every
  reconciliation of an initialized run takes the stored status along a path of specification
  steps, whatever the bindings say and whichever calls fail. The proof separates the programs
  that leave the clusters of the run alone (\<open>quiet\<close>) from the loops that move them.
\<close>

section \<open>Phases of a run\<close>

definition statusOf :: "conditions \<Rightarrow> string \<Rightarrow> ConditionStatus option" where
  "statusOf cs ty = map_option cond_Status (cs ty)"

definition phaseOf :: "ClusterUpdatingStatus \<Rightarrow> phase" where
  "phaseOf cl =
     (if statusOf (cus_Conditions cl) SucceededType = Some ConditionTrue then Updated
      else if statusOf (cus_Conditions cl) SucceededType = Some ConditionFalse then Failed
      else if statusOf (cus_Conditions cl) ClusterUpdatingConditionStarted = Some ConditionTrue then Updating
      else Waiting)"

definition deletionClusters :: "UpdateRun \<Rightarrow> ClusterUpdatingStatus list" where
  "deletionClusters run =
     (case DeletionStageStatus (RunStatus run) of None \<Rightarrow> [] | Some s \<Rightarrow> StageClusters s)"

definition stagedOf :: "UpdateRun \<Rightarrow> staged" where
  "stagedOf run =
     (map (\<lambda>s. map phaseOf (StageClusters s)) (stagesOf run), map phaseOf (deletionClusters run))"

definition limits :: "'w updateRunClient \<Rightarrow> UpdateRun \<Rightarrow> nat \<Rightarrow> int" where
  "limits c run k = (case calculateMaxConcurrencyValue c run k of Inl _ \<Rightarrow> 0 | Inr m \<Rightarrow> m)"

text \<open>The conditions of a cluster have been observed at the generation of the run.\<close>

definition current :: "int \<Rightarrow> ClusterUpdatingStatus \<Rightarrow> bool" where
  "current g cl \<longleftrightarrow>
     list_all (\<lambda>ty. case cus_Conditions cl ty of None \<Rightarrow> True | Some cond \<Rightarrow> cond_ObservedGeneration cond = g)
       [SucceededType, ClusterUpdatingConditionStarted]"

lemma type_names: "SucceededType \<noteq> ClusterUpdatingConditionStarted" "ClusterUpdatingConditionStarted \<noteq> SucceededType"
  by (simp_all add: SucceededType_def ClusterUpdatingConditionStarted_def)

lemma current_phase:
  assumes "current g cl"
  shows "clusterSucceeded g cl \<longleftrightarrow> phaseOf cl = Updated" "clusterFailed g cl \<longleftrightarrow> phaseOf cl = Failed"
    "phaseOf cl = Waiting \<Longrightarrow> \<not> clusterStarted g cl"
    "phaseOf cl \<noteq> Updated \<Longrightarrow> phaseOf cl \<noteq> Failed \<Longrightarrow> clusterStarted g cl \<longleftrightarrow> phaseOf cl = Updating"
  using assms
  by (auto simp: current_def phaseOf_def statusOf_def clusterSucceeded_def clusterFailed_def clusterStarted_def
      IsConditionStatusTrue_def IsConditionStatusFalse_def split: option.splits if_splits)

text \<open>What the three marks do to the phase, for every \<open>SetStatusCondition\<close> with its contract.\<close>

definition goodSetter :: "setter \<Rightarrow> bool" where
  "goodSetter sc \<longleftrightarrow> (\<forall>t. setsCondition (sc t))"

lemma goodSetter_set:
  assumes "goodSetter sc"
  shows "\<exists>u. sc t cs cond = cs(cond_Type cond \<mapsto> cond\<lparr>cond_LastTransitionTime := u\<rparr>)"
  using assms by (simp add: goodSetter_def setsCondition_def)

lemma setCluster_conditions:
  assumes "goodSetter sc"
  shows "\<exists>cond. cus_Conditions (setCluster sc t g ty st reason msg cl) = (cus_Conditions cl)(ty \<mapsto> cond) \<and>
    cond_Status cond = st \<and> cond_ObservedGeneration cond = g"
  using goodSetter_set[OF assms, of t "cus_Conditions cl" "newCondition ty st g reason msg"]
  by (auto simp: setCluster_def newCondition_def)

lemma mark_phase:
  assumes "goodSetter sc"
  shows "phaseOf (markClusterUpdatingStarted sc t g cl) = (if phaseOf cl = Waiting then Updating else phaseOf cl)"
    "phaseOf (markClusterUpdatingSucceeded sc t g cl) = Updated"
    "phaseOf (markClusterUpdatingFailed sc t g msg cl) = Failed"
proof -
  note set = setCluster_conditions[OF assms, of t g _ _ _ _ cl]
  obtain c1 where c1: "cus_Conditions (markClusterUpdatingStarted sc t g cl) =
      (cus_Conditions cl)(ClusterUpdatingConditionStarted \<mapsto> c1)" "cond_Status c1 = ConditionTrue"
    unfolding markClusterUpdatingStarted_def using set by blast
  obtain c2 where c2: "cus_Conditions (markClusterUpdatingSucceeded sc t g cl) =
      (cus_Conditions cl)(SucceededType \<mapsto> c2)" "cond_Status c2 = ConditionTrue"
    unfolding markClusterUpdatingSucceeded_def using set by blast
  obtain c3 where c3: "cus_Conditions (markClusterUpdatingFailed sc t g msg cl) =
      (cus_Conditions cl)(SucceededType \<mapsto> c3)" "cond_Status c3 = ConditionFalse"
    unfolding markClusterUpdatingFailed_def using set by blast
  show "phaseOf (markClusterUpdatingStarted sc t g cl) = (if phaseOf cl = Waiting then Updating else phaseOf cl)"
    by (simp add: phaseOf_def statusOf_def c1 type_names)
  show "phaseOf (markClusterUpdatingSucceeded sc t g cl) = Updated"
    by (simp add: phaseOf_def statusOf_def c2)
  show "phaseOf (markClusterUpdatingFailed sc t g msg cl) = Failed"
    by (simp add: phaseOf_def statusOf_def c3)
qed

section \<open>Programs that leave the clusters alone\<close>

text \<open>The same run up to the conditions of its stages and tasks.\<close>

definition sameClusters :: "UpdateRun \<Rightarrow> UpdateRun \<Rightarrow> bool" where
  "sameClusters run run' \<longleftrightarrow>
     Generation run' = Generation run \<and>
     UpdateStrategySnapshot (RunStatus run') = UpdateStrategySnapshot (RunStatus run) \<and>
     statusOf (RunConditions (RunStatus run')) InitializedType = statusOf (RunConditions (RunStatus run)) InitializedType \<and>
     map StageClusters (stagesOf run') = map StageClusters (stagesOf run) \<and>
     deletionClusters run' = deletionClusters run"

lemma sameClusters_refl [simp]: "sameClusters run run"
  by (simp add: sameClusters_def)

lemma sameClusters_trans: "sameClusters a b \<Longrightarrow> sameClusters b c \<Longrightarrow> sameClusters a c"
  by (simp add: sameClusters_def)

lemma sameClusters_length: "sameClusters run run' \<Longrightarrow> length (stagesOf run') = length (stagesOf run)"
  unfolding sameClusters_def by (metis length_map)

lemma sameClusters_nth:
  assumes "sameClusters run run'" "k < length (stagesOf run)"
  shows "StageClusters (stagesOf run' ! k) = StageClusters (stagesOf run ! k)"
proof -
  have "map StageClusters (stagesOf run') ! k = map StageClusters (stagesOf run) ! k"
    using assms(1) by (simp add: sameClusters_def)
  then show ?thesis using assms sameClusters_length[OF assms(1)] by simp
qed

lemma sameClusters_staged: "sameClusters run run' \<Longrightarrow> stagedOf run' = stagedOf run"
  unfolding sameClusters_def stagedOf_def by (metis (no_types, lifting) map_map comp_apply map_cong)

text \<open>The same run up to the conditions of its clusters: the limits of the stages stay the same.\<close>

definition sameShape :: "UpdateRun \<Rightarrow> UpdateRun \<Rightarrow> bool" where
  "sameShape run run' \<longleftrightarrow>
     Generation run' = Generation run \<and>
     UpdateStrategySnapshot (RunStatus run') = UpdateStrategySnapshot (RunStatus run) \<and>
     statusOf (RunConditions (RunStatus run')) InitializedType = statusOf (RunConditions (RunStatus run)) InitializedType \<and>
     map (\<lambda>s. length (StageClusters s)) (stagesOf run') = map (\<lambda>s. length (StageClusters s)) (stagesOf run)"

lemma sameShape_refl [simp]: "sameShape run run"
  by (simp add: sameShape_def)

lemma sameShape_trans: "sameShape a b \<Longrightarrow> sameShape b c \<Longrightarrow> sameShape a c"
  by (simp add: sameShape_def)

lemma sameClusters_shape: "sameClusters run run' \<Longrightarrow> sameShape run run'"
  unfolding sameClusters_def sameShape_def by (metis (no_types, lifting) map_map comp_apply map_cong)

lemma sameShape_limits: "sameShape run run' \<Longrightarrow> limits c run' = limits c run"
proof (intro ext)
  fix k assume s: "sameShape run run'"
  then have l: "map (\<lambda>s. length (StageClusters s)) (stagesOf run') = map (\<lambda>s. length (StageClusters s)) (stagesOf run)"
    and cfg: "stageConfig k run' = stageConfig k run" by (simp_all add: sameShape_def stageConfig_def)
  from l have len: "length (stagesOf run') = length (stagesOf run)" by (metis length_map)
  have "length (StageClusters (stagesOf run' ! k)) = length (StageClusters (stagesOf run ! k))" if "k < length (stagesOf run)"
    using arg_cong[OF l, of "\<lambda>x. x ! k"] that len by simp
  with cfg len show "limits c run' k = limits c run k"
    by (cases "k < length (stagesOf run)") (simp_all add: limits_def calculateMaxConcurrencyValue_def orPanic_def)
qed

definition keeps :: "('w \<Rightarrow> 'r) \<Rightarrow> ('w, 'a) prog \<Rightarrow> bool" where
  "keeps R p \<longleftrightarrow> (\<forall>w. R (snd (p w)) = R w)"

definition quiet :: "('w \<Rightarrow> 'r) \<Rightarrow> ('w \<times> UpdateRun, 'a) prog \<Rightarrow> bool" where
  "quiet R p \<longleftrightarrow>
     (\<forall>w run. R (fst (snd (p (w, run)))) = R w \<and> sameClusters run (snd (snd (p (w, run)))))"

named_theorems quiet_intros \<open>programs that change neither the stored run nor the clusters\<close>

lemma keeps_basic [quiet_intros]:
  "keeps R (returnP x)" "keeps R (failP e)" "keeps R (liftP r)"
  "keeps R p \<Longrightarrow> keeps R (wrapP f p)"
  by (simp_all add: keeps_def)

lemma keeps_bind [quiet_intros]: "keeps R p \<Longrightarrow> (\<And>x. keeps R (f x)) \<Longrightarrow> keeps R (bindP p f)"
  by (simp add: keeps_def bindP_def split: prod.splits sum.splits) (metis snd_conv)

lemma quiet_basic [quiet_intros]:
  "quiet R (returnP x)" "quiet R (failP e)" "quiet R (liftP r)" "quiet R readP"
  by (simp_all add: quiet_def readP_def)

lemma quiet_call [quiet_intros]: "keeps R p \<Longrightarrow> quiet R (callP p)"
  by (simp add: quiet_def keeps_def callP_def split: prod.splits) (metis snd_conv)

lemma quiet_bind [quiet_intros]:
  assumes "quiet R p" "\<And>x. quiet R (f x)" shows "quiet R (bindP p f)"
  unfolding quiet_def
proof (intro allI)
  fix w run
  obtain r w1 run1 where p: "p (w, run) = (r, (w1, run1))" by (metis surj_pair)
  with assms(1) have 1: "R w1 = R w" "sameClusters run run1"
    unfolding quiet_def by (metis fst_conv snd_conv)+
  show "R (fst (snd (bindP p f (w, run)))) = R w \<and> sameClusters run (snd (snd (bindP p f (w, run))))"
  proof (cases r)
    case (Inl e) with p 1 show ?thesis by (simp add: bindP_def)
  next
    case (Inr x)
    have "R (fst (snd (f x (w1, run1)))) = R w1 \<and> sameClusters run1 (snd (snd (f x (w1, run1))))"
      using assms(2)[of x] unfolding quiet_def by blast
    with p 1 Inr show ?thesis by (auto simp: bindP_def intro: sameClusters_trans)
  qed
qed

text \<open>
  What the controller relies on: \<open>SetStatusCondition\<close> has its contract, and no call but the ones
  that write the run itself changes the stored run \<open>R\<close>.
\<close>

definition leavesRun :: "'w updateRunClient \<Rightarrow> ('w \<Rightarrow> 'r) \<Rightarrow> bool" where
  "leavesRun c R \<longleftrightarrow>
     goodSetter (putCondition c) \<and>
     (\<forall>b. keeps R (putBinding c b)) \<and> (\<forall>b. keeps R (putBindingStatus c b)) \<and> (\<forall>b. keeps R (removeBinding c b)) \<and>
     (\<forall>a. keeps R (createApproval c a)) \<and> (\<forall>ns n. keeps R (getApproval c ns n)) \<and>
     (\<forall>a. keeps R (putApprovalStatus c a)) \<and> (\<forall>ns n. keeps R (deleteApprovals c ns n)) \<and>
     (\<forall>ns n. keeps R (urGetPlacement c ns n)) \<and> (\<forall>ns n. keeps R (urListLatestPolicies c ns n)) \<and>
     (\<forall>ns n. keeps R (getUpdateStrategy c ns n)) \<and> (\<forall>s. keeps R (listClustersMatching c s)) \<and>
     (\<forall>ns n. keeps R (hubListBindings (urHub c) ns n)) \<and> (\<forall>p. keeps R (selectResources c p)) \<and>
     (\<forall>p n l i. keeps R (getOrCreateSnapshot c p n l i)) \<and>
     keeps R (listLatestClusterResourceOverrideSnapshots (urOverrides c)) \<and>
     keeps R (listLatestResourceOverrideSnapshots (urOverrides c)) \<and>
     (\<forall>i n ns. keeps R (listResourceSnapshotsWithIndex (urOverrides c) i n ns)) \<and>
     (\<forall>n. keeps R (getMemberCluster (urOverrides c) n))"

lemma leavesRun_laws:
  assumes "leavesRun c R"
  shows "keeps R (putBinding c b)" "keeps R (putBindingStatus c b)" "keeps R (removeBinding c b)"
    "keeps R (createApproval c a)" "keeps R (getApproval c ns n)" "keeps R (putApprovalStatus c a)"
    "keeps R (deleteApprovals c ns n)" "keeps R (urGetPlacement c ns n)" "keeps R (urListLatestPolicies c ns n)"
    "keeps R (getUpdateStrategy c ns n)" "keeps R (listClustersMatching c s)" "keeps R (hubListBindings (urHub c) ns n)"
    "keeps R (selectResources c p)" "keeps R (getOrCreateSnapshot c p m l i)"
    "keeps R (listLatestClusterResourceOverrideSnapshots (urOverrides c))"
    "keeps R (listLatestResourceOverrideSnapshots (urOverrides c))"
    "keeps R (listResourceSnapshotsWithIndex (urOverrides c) idx n ns)"
    "keeps R (getMemberCluster (urOverrides c) n)"
    "goodSetter (putCondition c)"
  using assms by (simp_all add: leavesRun_def)

lemma quiet_mark: "(\<And>t run. sameClusters run (f (putCondition c) t run)) \<Longrightarrow> quiet R (markP c f)"
  by (simp add: quiet_def markP_def)

lemma stagesOf_onStage [simp]:
  "stagesOf (onStage (UpdatingStage k) f run) = (stagesOf run)[k := f (stagesOf run ! k)]"
  "stagesOf (onStage DeletionStage f run) = stagesOf run"
  by (simp_all add: stagesOf_def split: option.splits)

lemma deletionClusters_onStage [simp]:
  "deletionClusters (onStage (UpdatingStage k) f run) = deletionClusters run"
  "deletionClusters (onStage DeletionStage f run) =
     (case DeletionStageStatus (RunStatus run) of None \<Rightarrow> [] | Some s \<Rightarrow> StageClusters (f s))"
  by (simp_all add: deletionClusters_def split: option.splits)

lemma onStage_meta [simp]:
  "Generation (onStage ref f run) = Generation run" "RunSpec (onStage ref f run) = RunSpec run"
  "UpdateStrategySnapshot (RunStatus (onStage ref f run)) = UpdateStrategySnapshot (RunStatus run)"
  "RunConditions (RunStatus (onStage ref f run)) = RunConditions (RunStatus run)"
  by (cases ref; simp)+

declare onStage.simps [simp del]

lemma sameClusters_onStage:
  assumes "\<And>s. StageClusters (f s) = StageClusters s" shows "sameClusters run (onStage ref f run)"
proof (cases ref)
  case (UpdatingStage k)
  have "map StageClusters ((stagesOf run)[k := f (stagesOf run ! k)]) = map StageClusters (stagesOf run)"
    using assms by (simp add: map_update list_update_same_conv nth_equalityI) (metis length_map list_update_beyond list_update_id linorder_not_less nth_map)
  with UpdatingStage show ?thesis by (simp add: sameClusters_def)
next
  case DeletionStage
  then show ?thesis using assms by (simp add: sameClusters_def) (simp add: deletionClusters_def split: option.splits)
qed

lemma setStage_clusters [simp]: "StageClusters (setStage sc t g ty st reason msg s) = StageClusters s"
  by (simp add: setStage_def)

lemma markStage_clusters [simp]:
  "StageClusters (markStageUpdatingProgressStarted sc t g s) = StageClusters s"
  "StageClusters (markStageUpdatingWaiting sc t g msg s) = StageClusters s"
  "StageClusters (markStageUpdatingSucceeded sc t g s) = StageClusters s"
  "StageClusters (markStageUpdatingSkippedNoClusters sc t g msg s) = StageClusters s"
  "StageClusters (markStageUpdatingFailed sc t g msg s) = StageClusters s"
  "StageClusters (markStageUpdatingStopping sc t g s) = StageClusters s"
  "StageClusters (markStageUpdatingStopped sc t g s) = StageClusters s"
  "StageClusters (onTask task h s) = StageClusters s"
  by (simp_all add: markStageUpdatingProgressStarted_def markStageUpdatingWaiting_def markStageUpdatingSucceeded_def
      markStageUpdatingSkippedNoClusters_def markStageUpdatingFailed_def markStageUpdatingStopping_def
      markStageUpdatingStopped_def startStageTime_def endStageTime_def) (cases task; simp)

lemma run_type_names: "ProgressingType \<noteq> InitializedType" "SucceededType \<noteq> InitializedType"
  by (simp_all add: ProgressingType_def SucceededType_def InitializedType_def)

lemma sameClusters_setRun:
  assumes "goodSetter sc" "ty \<noteq> InitializedType" shows "sameClusters run (setRun sc t ty st reason msg run)"
  using goodSetter_set[OF assms(1), of t "RunConditions (RunStatus run)" "newCondition ty st (Generation run) reason msg"] assms(2)
  by (auto simp: sameClusters_def setRun_def stagesOf_def deletionClusters_def statusOf_def newCondition_def)

lemma sameClusters_markRun:
  assumes "goodSetter sc"
  shows "sameClusters run (markUpdateRunProgressing sc t run)"
  "sameClusters run (markUpdateRunProgressingIfNotWaitingOrStuck sc t run)"
  "sameClusters run (markUpdateRunWaiting sc t msg run)"
  "sameClusters run (markUpdateRunStuck sc t name stuck run)"
  "sameClusters run (markUpdateRunStopping sc t run)"
  "sameClusters run (aggregateUpdateRunStatus sc t name stuck run)"
  using sameClusters_setRun[OF assms] run_type_names
  by (simp_all add: markUpdateRunProgressing_def markUpdateRunProgressingIfNotWaitingOrStuck_def
      markUpdateRunWaiting_def markUpdateRunStuck_def markUpdateRunStopping_def aggregateUpdateRunStatus_def
      split: option.split)

lemma quiet_marks [quiet_intros]:
  assumes "leavesRun c R"
  shows "quiet R (markP c markUpdateRunProgressing)"
  "quiet R (markP c markUpdateRunProgressingIfNotWaitingOrStuck)"
  "quiet R (markP c (\<lambda>sc t. markUpdateRunWaiting sc t msg))"
  "quiet R (markP c markUpdateRunStopping)"
  "ty \<noteq> InitializedType \<Longrightarrow> quiet R (markP c (\<lambda>sc t. setRun sc t ty st reason msg))"
  using leavesRun_laws(19)[OF assms] by (auto intro!: quiet_mark sameClusters_markRun sameClusters_setRun)

lemma quiet_markStage [quiet_intros]:
  "(\<And>sc t g s. StageClusters (f sc t g s) = StageClusters s) \<Longrightarrow> quiet R (markStageP c ref f)"
  unfolding markStageP_def by (intro quiet_mark sameClusters_onStage) simp

lemma quiet_markTask [quiet_intros]: "quiet R (markTask c ref task f)"
  unfolding markTask_def by (intro quiet_mark sameClusters_onStage) simp

lemma keeps_accept [quiet_intros]: "leavesRun c R \<Longrightarrow> keeps R (updateApprovalRequestAccepted c req)"
  using leavesRun_laws(6)[of c R] by (simp add: keeps_def updateApprovalRequestAccepted_def Let_def)

lemma keeps_if [quiet_intros]: "keeps R p \<Longrightarrow> keeps R q \<Longrightarrow> keeps R (if b then p else q)"
  by simp

lemma quiet_if [quiet_intros]: "quiet R p \<Longrightarrow> quiet R q \<Longrightarrow> quiet R (if b then p else q)"
  by simp

lemma keeps_readApproval [quiet_intros]: "leavesRun c R \<Longrightarrow> keeps R (readApproval c run stageName n)"
  unfolding readApproval_def Let_def by (intro quiet_intros leavesRun_laws)

lemma quiet_cases:
  assumes "quiet R p" "\<And>x. quiet R (f x)" "\<And>e. quiet R (g e)"
  shows "quiet R (\<lambda>s. case p s of (Inr x, s') \<Rightarrow> f x s' | (Inl e, s') \<Rightarrow> g e s')"
  unfolding quiet_def
proof (intro allI)
  fix w run
  obtain r w1 run1 where p: "p (w, run) = (r, (w1, run1))" by (metis surj_pair)
  with assms(1) have 1: "R w1 = R w" "sameClusters run run1" unfolding quiet_def by (metis fst_conv snd_conv)+
  have "R (fst (snd (f x (w1, run1)))) = R w1 \<and> sameClusters run1 (snd (snd (f x (w1, run1))))"
    "R (fst (snd (g e (w1, run1)))) = R w1 \<and> sameClusters run1 (snd (snd (g e (w1, run1))))" for x e
    using assms(2,3) unfolding quiet_def by blast+
  with p 1 show "R (fst (snd (case p (w, run) of (Inr x, s') \<Rightarrow> f x s' | (Inl e, s') \<Rightarrow> g e s'))) = R w \<and>
      sameClusters run (snd (snd (case p (w, run) of (Inr x, s') \<Rightarrow> f x s' | (Inl e, s') \<Rightarrow> g e s')))"
    by (cases r) (auto intro: sameClusters_trans)
qed

lemma quiet_handleStageApprovalTask [quiet_intros]:
  assumes "leavesRun c R" shows "quiet R (handleStageApprovalTask c ref task stageName ty)"
proof -
  have err: "quiet R (\<lambda>s'. if e \<noteq> ErrAPI AlreadyExists then (Inl (apiServerError False e), s') else p s')"
    if "quiet R p" for e and p :: "('a \<times> UpdateRun, bool) prog"
    using that by (simp add: quiet_def)
  show ?thesis
    unfolding handleStageApprovalTask_def
    by (intro quiet_cases err quiet_intros leavesRun_laws assms)
qed

lemma quiet_checkBefore [quiet_intros]:
  assumes "leavesRun c R" shows "quiet R (checkBeforeStageTasksStatus c ref tasks)"
  unfolding checkBeforeStageTasksStatus_def
  by (cases tasks) (auto split: StageTaskType.split intro!: quiet_bind quiet_basic quiet_handleStageApprovalTask assms)

lemma quiet_state:
  assumes "\<And>w run. quiet R (f w run)" shows "quiet R (\<lambda>(w, run). f w run (w, run))"
  using assms by (simp add: quiet_def)

lemma quiet_afterStageTasks [quiet_intros]:
  assumes "leavesRun c R" shows "quiet R (afterStageTasks c k name i tasks acc)"
proof (induction tasks arbitrary: i acc)
  case (Cons task tasks)
  obtain passed waitTime where acc: "acc = (passed, waitTime)" by fastforce
  show ?case
  proof (cases "task_Type task")
    case StageTaskTypeTimedWait
    then show ?thesis
      unfolding acc afterStageTasks.simps StageTaskTypeTimedWait StageTaskType.case case_prod_beta
      by (intro quiet_state[unfolded case_prod_beta] quiet_bind quiet_if quiet_basic quiet_markTask Cons.IH)
  qed (auto simp: acc intro!: quiet_bind quiet_handleStageApprovalTask assms Cons.IH)
qed (simp add: quiet_basic)

lemma quiet_checkAfter [quiet_intros]:
  assumes "leavesRun c R" shows "quiet R (checkAfterStageTasksStatus c k)"
  unfolding checkAfterStageTasksStatus_def case_prod_beta
  by (intro quiet_bind quiet_if quiet_basic quiet_afterStageTasks assms)

lemma quiet_handleStageCompletion [quiet_intros]:
  assumes "leavesRun c R" shows "quiet R (handleStageCompletion c k name)"
  unfolding handleStageCompletion_def case_prod_beta
  by (intro quiet_bind quiet_if quiet_basic quiet_checkAfter assms quiet_marks quiet_markStage) simp_all

lemma quiet_checkBeforeDelete [quiet_intros]:
  assumes "leavesRun c R" shows "quiet R (checkBeforeDeleteStageTasksStatus c bs)"
proof -
  have del: "quiet R (case DeleteStage spec of None \<Rightarrow> returnP True
      | Some tasks \<Rightarrow> if tasks = [] \<or> bs = [] then returnP True else f tasks)"
    if "\<And>tasks. quiet R (f tasks)" for spec and f :: "StageTask list \<Rightarrow> ('a \<times> UpdateRun, bool) prog"
    using that by (simp add: quiet_basic split: option.split)
  show ?thesis
    unfolding checkBeforeDeleteStageTasksStatus_def
    by (intro quiet_bind quiet_basic del quiet_if quiet_checkBefore assms quiet_marks quiet_markStage) simp_all
qed

section \<open>The loops over the clusters\<close>

lemma keeps_startCluster:
  assumes "leavesRun c R" shows "keeps R (startCluster c env b cl)"
proof -
  have "keeps R (updateBindingRolloutStarted c env b)" for b
    using leavesRun_laws(2)[OF assms] by (simp add: keeps_def updateBindingRolloutStarted_def Let_def)
  moreover have "keeps R (\<lambda>w. liftP (f w) w)" for f :: "'a \<Rightarrow> ClusterUpdatingStatus result" by (simp add: keeps_def)
  ultimately show ?thesis
    unfolding startCluster_def by (intro keeps_if keeps_bind keeps_basic leavesRun_laws assms)
qed

text \<open>How one round of the loop moves a cluster.\<close>

lemma checkClusterUpdateResult_phase:
  assumes "goodSetter sc" "checkClusterUpdateResult sc t env b cl = Inr (fin, cl')"
  shows "(fin \<and> phaseOf cl' = Updated) \<or> (\<not> fin \<and> cl' = cl)"
  using assms by (auto simp: checkClusterUpdateResult_def mark_phase split: if_splits)

lemma startCluster_phase:
  assumes "goodSetter (putCondition c)" "startCluster c env b cl w = (Inr cl', w')"
  shows "cl' = cl \<or> phaseOf cl' = Updated"
  using assms(2) checkClusterUpdateResult_phase[OF assms(1)]
  by (fastforce simp: startCluster_def bindP_def bindR_eq_Inr split: if_splits prod.splits sum.splits)

definition moves :: "phase \<Rightarrow> phase \<Rightarrow> bool" where
  "moves p q \<longleftrightarrow> q = p \<or> p = Waiting \<and> (q = Updating \<or> q = Updated) \<or> p = Updating \<and> (q = Updated \<or> q = Failed)"

lemma executeCluster_phase:
  assumes "goodSetter (putCondition c)" "current (env_Generation env) cl"
    and "executeCluster c env cl l w = ((cl', l'), w')"
  shows "moves (phaseOf cl) (phaseOf cl') \<and>
    clusterUpdatingCount l' \<ge> clusterUpdatingCount l + (if phaseOf cl' = Updated then 0 else 1)"
proof -
  note ph = current_phase[OF assms(2)]
  have counts: "clusterUpdatingCount (countFinished l) = clusterUpdatingCount l"
    "clusterUpdatingCount (countUpdating l) = clusterUpdatingCount l + 1"
    "clusterUpdatingCount (addError e l1) = clusterUpdatingCount l1"
    "clusterUpdatingCount (noteStuck t cl1 l1) = clusterUpdatingCount l1" for e l1 t cl1
    by (simp_all add: countFinished_def countUpdating_def addError_def noteStuck_def split: option.split)
  show ?thesis
  proof (cases "clusterSucceeded (env_Generation env) cl \<or> clusterFailed (env_Generation env) cl \<or>
      env_Bindings env (cus_ClusterName cl) = None")
    case True
    then show ?thesis
      using assms(3) ph counts by (auto simp: executeCluster_def moves_def split: if_splits)
  next
    case False
    then obtain b where b: "env_Bindings env (cus_ClusterName cl) = Some b" by auto
    show ?thesis
    proof (cases "clusterStarted (env_Generation env) cl")
      case False2: False
      then have "phaseOf cl = Waiting" using ph False by (cases "phaseOf cl") auto
      moreover have "beginCluster c env b cl (countUpdating l) w = ((cl', l'), w')"
        using assms(3) b False False2 by (simp add: executeCluster_def)
      ultimately show ?thesis
        using startCluster_phase[OF assms(1), of env b cl w] mark_phase[OF assms(1)] counts
        by (auto simp: beginCluster_def moves_def split: prod.splits sum.splits)
    next
      case True
      then have "phaseOf cl = Updating" using ph False by auto
      moreover have "continueCluster c env b cl (countUpdating l) w = ((cl', l'), w')"
        using assms(3) b False True by (simp add: executeCluster_def)
      ultimately show ?thesis
        using checkClusterUpdateResult_phase[OF assms(1), of "clock c w" env b cl] mark_phase[OF assms(1)] counts
        by (auto simp: continueCluster_def moves_def split: sum.splits if_splits bool.splits)
    qed
  qed
qed

text \<open>A move of one cluster is a path of the specification when its stage may be worked on.\<close>

lemma move_steps:
  assumes "moves p q" "k < length S" "list_all complete (take k S)" "S ! k = ps @ p # qs"
    and "p = Waiting \<Longrightarrow> int (unfinished ps) < mx k"
  shows "stagedSteps mx (S, d) (S[k := ps @ q # qs], d)"
proof -
  have upd: "(S ! k)[length ps := x] = ps @ x # qs" for x using assms(4) by simp
  have at: "length ps < length (S ! k)" "S ! k ! length ps = p" "take (length ps) (S ! k) = ps" using assms(4) by simp_all
  have start: "stagedStep mx (S, d) (S[k := ps @ Updating # qs], d)" if "p = Waiting"
    using stagedStep.start[of k S "length ps" mx d] assms(2,3,5) at that by (simp add: upd)
  have finish: "stagedStep mx (S, d) (S[k := ps @ Updated # qs], d)" "stagedStep mx (S, d) (S[k := ps @ Failed # qs], d)"
    if "p = Updating"
    using stagedStep.finish[of k S "length ps" mx d] stagedStep.fail[of k S "length ps" mx d] assms(2) at that by (simp_all add: upd)
  have both: "stagedStep mx (S[k := ps @ Updating # qs], d) (S[k := ps @ Updated # qs], d)"
    using stagedStep.finish[of k "S[k := ps @ Updating # qs]" "length ps" mx d] assms(2) by simp
  have same: "S[k := ps @ p # qs] = S" using assms(4) by (metis list_update_id)
  from assms(1) consider "q = p" | "p = Waiting" "q = Updating" | "p = Waiting" "q = Updated"
    | "p = Updating" "q = Updated" | "p = Updating" "q = Failed" unfolding moves_def by blast
  then show ?thesis
  proof cases
    case 3
    with start both show ?thesis by (simp add: converse_rtranclp_into_rtranclp r_into_rtranclp)
  qed (use start finish same in \<open>simp_all add: r_into_rtranclp\<close>)
qed

lemma executeCluster_keeps:
  assumes "leavesRun c R" "executeCluster c env cl l w = (x, w')" shows "R w' = R w"
  using assms(2) keeps_startCluster[OF assms(1), of env _ cl] unfolding keeps_def
  by (auto simp: executeCluster_def beginCluster_def continueCluster_def
      split: if_splits option.splits prod.splits sum.splits bool.splits) (metis snd_conv)+

lemma executeClusters_steps:
  assumes "goodSetter (putCondition c)" "leavesRun c R" "k < length S" "list_all complete (take k S)"
    and "executeClusters c env (mx k) cls l w = ((cls', l'), w')" "list_all (current (env_Generation env)) cls"
    and "S ! k = ps @ map phaseOf cls" "int (unfinished ps) \<le> clusterUpdatingCount l"
  shows "stagedSteps mx (S, d) (S[k := ps @ map phaseOf cls'], d) \<and> length cls' = length cls \<and> R w' = R w"
  using assms(3-8)
proof (induction cls arbitrary: S ps l w cls' l' w')
  case Nil
  then have "S[k := ps] = S" by (metis append_Nil2 list.map_disc_iff list_update_id)
  with Nil show ?case by simp
next
  case (Cons cl cls)
  show ?case
  proof (cases "clusterUpdatingCount l < mx k")
    case False
    then have "cls' = cl # cls" "w' = w" using Cons.prems(3) by auto
    moreover from this have "S[k := ps @ map phaseOf cls'] = S" using Cons.prems(5) by (metis list_update_id)
    ultimately show ?thesis by simp
  next
    case True
    obtain cl1 l1 w1 where e: "executeCluster c env cl l w = ((cl1, l1), w1)" by (metis surj_pair)
    obtain cls2 l2 w2 where r: "executeClusters c env (mx k) cls l1 w1 = ((cls2, l2), w2)" by (metis surj_pair)
    have eq: "cls' = cl1 # cls2" "w' = w2" using Cons.prems(3) e r True by auto
    note ph = executeCluster_phase[OF assms(1) _ e]
    let ?S = "S[k := ps @ phaseOf cl1 # map phaseOf cls]"
    have first: "stagedSteps mx (S, d) (?S, d)"
      using move_steps[OF conjunct1[OF ph] Cons.prems(1,2), of ps "map phaseOf cls" mx d] Cons.prems(4,5,6) True by simp
    have "R w1 = R w" by (rule executeCluster_keeps[OF assms(2) e])
    moreover have "stagedSteps mx (?S, d) (?S[k := (ps @ [phaseOf cl1]) @ map phaseOf cls2], d) \<and> length cls2 = length cls \<and> R w2 = R w1"
    proof (rule Cons.IH[OF _ _ r])
      show "int (unfinished (ps @ [phaseOf cl1])) \<le> clusterUpdatingCount l1"
        using ph Cons.prems(4,6) by (auto simp: unfinished_def split: if_splits)
    qed (use Cons.prems in simp_all)
    ultimately show ?thesis using first eq by (auto intro: rtranclp_trans)
  qed
qed

section \<open>Executing and stopping\<close>

definition progress :: "('w \<Rightarrow> 'r) \<Rightarrow> (nat \<Rightarrow> int) \<Rightarrow> 'w \<times> UpdateRun \<Rightarrow> 'w \<times> UpdateRun \<Rightarrow> bool" where
  "progress R mx s s' \<longleftrightarrow>
     R (fst s') = R (fst s) \<and> sameShape (snd s) (snd s') \<and> stagedSteps mx (stagedOf (snd s)) (stagedOf (snd s'))"

lemma progress_refl: "progress R mx s s"
  by (simp add: progress_def)

lemma progress_trans: "progress R mx a b \<Longrightarrow> progress R mx b c \<Longrightarrow> progress R mx a c"
  unfolding progress_def by (auto intro: sameShape_trans rtranclp_trans)

lemma quiet_result:
  assumes "quiet R p" "p s = (r, s')" shows "R (fst s') = R (fst s) \<and> sameClusters (snd s) (snd s')"
proof -
  obtain w run where s: "s = (w, run)" by (cases s)
  have "R (fst (snd (p (w, run)))) = R w \<and> sameClusters run (snd (snd (p (w, run))))"
    using assms(1) unfolding quiet_def by blast
  with assms(2) s show ?thesis by simp
qed

lemma quiet_progress: assumes "quiet R p" shows "progress R mx s (snd (p s))"
proof -
  obtain r s' where p: "p s = (r, s')" by (metis surj_pair)
  from quiet_result[OF assms p] sameClusters_staged[of "snd s" "snd s'"] show ?thesis
    by (simp add: p progress_def sameClusters_shape)
qed

lemma progress_bind:
  assumes "progress R mx s (snd (p s))" "\<And>x s'. p s = (Inr x, s') \<Longrightarrow> progress R mx s' (snd (f x s'))"
  shows "progress R mx s (snd (bindP p f s))"
  by (rule bindP_rel[of "progress R mx"]) (use assms in \<open>auto intro: progress_refl progress_trans\<close>)

text \<open>The stage of that index may be worked on; the conditions of the run are up to date.\<close>

definition upToDateRun :: "UpdateRun \<Rightarrow> bool" where
  "upToDateRun run \<longleftrightarrow>
     list_all (\<lambda>s. list_all (current (Generation run)) (StageClusters s)) (stagesOf run) \<and>
     list_all (current (Generation run)) (deletionClusters run)"

definition ready :: "nat \<Rightarrow> UpdateRun \<Rightarrow> bool" where
  "ready k run \<longleftrightarrow>
     k \<le> length (stagesOf run) \<and> list_all complete (take k (fst (stagedOf run))) \<and> upToDateRun run"

lemma upToDate_sameClusters: "sameClusters run run' \<Longrightarrow> upToDateRun run \<Longrightarrow> upToDateRun run'"
proof -
  assume s: "sameClusters run run'" and u: "upToDateRun run"
  have all: "list_all (\<lambda>s. list_all P (StageClusters s)) l = list_all (list_all P) (map StageClusters l)" for P l
    by (simp add: list_all_iff)
  show ?thesis using u s unfolding upToDateRun_def all by (simp add: sameClusters_def)
qed

lemma ready_sameClusters: "sameClusters run run' \<Longrightarrow> ready k run \<Longrightarrow> ready k run'"
  using sameClusters_length[of run run'] sameClusters_staged[of run run'] upToDate_sameClusters[of run run']
  by (simp add: ready_def)

lemma executeUpdatingStage_progress:
  assumes "leavesRun c R" "ready k run" "k < length (stagesOf run)" "mx k = m"
  shows "progress R mx (w, run) (snd (executeUpdatingStage c k bs m (w, run)))"
proof -
  let ?stage = "stagesOf run ! k"
  let ?env = "stageEnvOf run bs"
  let ?l = "\<lparr>finishedClusterCount = 0, clusterUpdatingCount = 0, stuckClusterNames = [],
      clusterUpdateErrors = [], loopStage = ?stage\<rparr>"
  obtain cls l w1 where e: "executeClusters c ?env m (StageClusters ?stage) ?l w = ((cls, l), w1)" by (metis surj_pair)
  let ?run1 = "onStage (UpdatingStage k) (\<lambda>_. (loopStage l)\<lparr>StageClusters := cls\<rparr>) run"
  let ?run2 = "aggregateUpdateRunStatus (putCondition c) (clock c w1) (StageName ?stage) (stuckClusterNames l) ?run1"
  have cur: "list_all (current (Generation run)) (StageClusters ?stage)"
    using assms(2,3) by (simp add: ready_def upToDateRun_def list_all_length)
  have "stagedSteps mx (fst (stagedOf run), snd (stagedOf run))
      ((fst (stagedOf run))[k := [] @ map phaseOf cls], snd (stagedOf run)) \<and>
      length cls = length (StageClusters ?stage) \<and> R w1 = R w"
  proof (rule executeClusters_steps[OF leavesRun_laws(19)[OF assms(1)] assms(1)])
    show "executeClusters c ?env (mx k) (StageClusters ?stage) ?l w = ((cls, l), w1)" using e assms(4) by simp
    show "list_all (current (env_Generation ?env)) (StageClusters ?stage)" using cur by (simp add: stageEnvOf_def)
  qed (use assms(2,3) in \<open>simp_all add: ready_def stagedOf_def unfinished_def\<close>)
  moreover have "stagedOf ?run1 = ((fst (stagedOf run))[k := map phaseOf cls], snd (stagedOf run))"
    by (simp add: stagedOf_def map_update)
  moreover have "sameShape run ?run1" if "length cls = length (StageClusters ?stage)"
    using that assms(3) by (simp add: sameShape_def map_update list_update_same_conv)
  ultimately have 1: "progress R mx (w, run) (w1, ?run1)" by (simp add: progress_def)
  have "sameClusters ?run1 ?run2" by (rule sameClusters_markRun[OF leavesRun_laws(19)[OF assms(1)]])
  then have 2: "progress R mx (w1, ?run1) (w1, ?run2)"
    using sameClusters_staged[of ?run1 ?run2] by (simp add: progress_def sameClusters_shape)
  have 3: "progress R mx (w1, ?run2) (snd (handleStageCompletion c k (StageName ?stage) (w1, ?run2)))"
    by (rule quiet_progress[OF quiet_handleStageCompletion[OF assms(1)]])
  show ?thesis
    using progress_trans[OF 1 2] progress_trans[OF progress_trans[OF 1 2] 3] assms(3) e
    by (simp add: executeUpdatingStage_def Let_def)
qed

lemma bindP_readP: "bindP readP f (w, run) = f run (w, run)"
  by (simp add: bindP_def readP_def)

lemma bindP_liftP: "bindP (liftP r) f s = (case r of Inl e \<Rightarrow> (Inl e, s) | Inr x \<Rightarrow> f x s)"
  by (simp add: bindP_def split: sum.split)

lemma progress_quiet_bind:
  assumes "quiet R p"
    and "\<And>x w1 run1. sameClusters run run1 \<Longrightarrow> progress R mx (w1, run1) (snd (f x (w1, run1)))"
  shows "progress R mx (w, run) (snd (bindP p f (w, run)))"
proof (rule progress_bind)
  show "progress R mx (w, run) (snd (p (w, run)))" by (rule quiet_progress[OF assms(1)])
  fix x s' assume "p (w, run) = (Inr x, s')"
  from quiet_result[OF assms(1) this] have "sameClusters run (snd s')" by simp
  then show "progress R mx s' (snd (f x s'))" using assms(2)[of "snd s'" "fst s'"] by simp
qed

lemma executeLimited_progress:
  assumes "leavesRun c R" "ready k run" "k < length (stagesOf run)" "sameClusters run run1"
  shows "progress R (limits c run) (w1, run1)
      (snd (bindP (liftP (wrapR g (calculateMaxConcurrencyValue c run k))) (\<lambda>m.
        bindP (executeUpdatingStage c k bs m) (\<lambda>t. returnP (False, t))) (w1, run1)))"
proof (cases "calculateMaxConcurrencyValue c run k")
  case (Inr m)
  then have "limits c run k = m" by (simp add: limits_def)
  moreover have "ready k run1" "k < length (stagesOf run1)"
    using assms(2-4) ready_sameClusters sameClusters_length by metis+
  ultimately have "progress R (limits c run) (w1, run1) (snd (executeUpdatingStage c k bs m (w1, run1)))"
    by (intro executeUpdatingStage_progress[OF assms(1)])
  then show ?thesis unfolding Inr by (intro progress_bind) (auto intro!: progress_refl)
qed (simp add: bindP_def progress_refl)

lemma executeStage_progress:
  assumes "leavesRun c R" "ready k run" "k < length (stagesOf run)"
  shows "progress R (limits c run) (w, run) (snd (executeStage c k bs (w, run)))"
proof -
  have wait: "quiet R (bindP (markStageP c (UpdatingStage k) (\<lambda>sc t g. markStageUpdatingWaiting sc t g m1)) (\<lambda>_.
      bindP (markP c (\<lambda>sc t. markUpdateRunWaiting sc t m2)) (\<lambda>_. returnP x)))" for m1 m2 x
    by (intro quiet_intros assms) simp
  have skip: "quiet R (bindP (markStageP c (UpdatingStage k) (\<lambda>sc t g. markStageUpdatingSkippedNoClusters sc t g m1)) (\<lambda>_. returnP x))" for m1 x
    by (intro quiet_intros) simp
  show ?thesis
  proof (cases "StageClusters (stagesOf run ! k) = []")
    case True
    then show ?thesis using assms(3) quiet_progress[OF skip]
      by (simp add: executeStage_def bindP_readP bindP_liftP orPanic_def)
  next
    case False
    show ?thesis
    proof (cases "stageConfig k run")
      case (Inl e)
      with False show ?thesis using assms(3)
        by (simp add: executeStage_def bindP_readP bindP_liftP orPanic_def progress_refl)
    next
      case (Inr cfg)
      with False assms(3) show ?thesis
        by (simp add: executeStage_def bindP_readP bindP_liftP[of "Inr cfg"] bindP_liftP[of "Inr (stagesOf run ! k)"] orPanic_def)
          (rule progress_quiet_bind, rule quiet_checkBefore[OF assms(1)],
            simp add: executeLimited_progress[OF assms] quiet_progress[OF wait])
    qed
  qed
qed

subsection \<open>The delete stage\<close>

lemma deletion_progress:
  assumes "list_all complete (fst (stagedOf run))"
    and "\<And>s t. list_all2 removes (map phaseOf (StageClusters s))
               (map phaseOf (StageClusters (f (putCondition c) t (Generation run) s)))"
  shows "progress R mx (w, run) (snd (markStageP c DeletionStage f (w, run)))"
proof -
  let ?run = "onStage DeletionStage (f (putCondition c) (clock c w) (Generation run)) run"
  have "list_all2 removes (snd (stagedOf run)) (snd (stagedOf ?run))"
    using assms(2) by (simp add: stagedOf_def) (simp add: deletionClusters_def split: option.split)
  from delete_steps[OF this assms(1)] have "stagedSteps mx (stagedOf run) (stagedOf ?run)"
    by (metis prod.collapse stagedOf_def fst_conv stagesOf_onStage(2))
  moreover have "sameShape run ?run" by (simp add: sameShape_def)
  ultimately show ?thesis by (simp add: markStageP_def markP_def progress_def)
qed

lemma markDeleted_removes:
  assumes "goodSetter sc" shows "list_all2 removes (map phaseOf cls) (map phaseOf (markDeleted sc t g m cls))"
  using mark_phase[OF assms]
  by (auto simp: list_all2_conv_all_nth markDeleted_def removes_def intro: phase.exhaust)

lemma markStarted_removes:
  assumes "goodSetter sc"
  shows "list_all2 removes (map phaseOf cls) (map phaseOf (cls[i := markClusterUpdatingStarted sc t g (cls ! i)]))"
proof -
  have "removes (phaseOf (cls ! j)) (phaseOf (cls[i := markClusterUpdatingStarted sc t g (cls ! i)] ! j))"
    if "j < length cls" for j
    using that mark_phase(1)[OF assms] by (cases "i = j") (auto simp: removes_def)
  then show ?thesis by (simp add: list_all2_conv_all_nth)
qed

lemma progress_complete:
  "progress R mx s s' \<Longrightarrow> list_all complete (fst (stagedOf (snd s))) \<Longrightarrow> list_all complete (fst (stagedOf (snd s')))"
  using complete_steps unfolding progress_def by metis

lemma progress_complete_bind:
  assumes "progress R mx s (snd (p s))" "list_all complete (fst (stagedOf (snd s)))"
    and "\<And>x w1 run1. list_all complete (fst (stagedOf run1)) \<Longrightarrow> progress R mx (w1, run1) (snd (f x (w1, run1)))"
  shows "progress R mx s (snd (bindP p f s))"
proof (rule progress_bind)
  show "progress R mx s (snd (p s))" by (rule assms(1))
  fix x s' assume "p s = (Inr x, s')"
  then have "list_all complete (fst (stagedOf (snd s')))" using progress_complete[OF assms(1,2)] by simp
  then show "progress R mx s' (snd (f x s'))" using assms(3)[of "snd s'" "fst s'"] by simp
qed

lemma syncDelete_progress:
  assumes "leavesRun c R" "list_all complete (fst (stagedOf run))"
  shows "progress R mx (w, run) (snd (syncDeleteStageClusterStatuses c bs (w, run)))"
proof -
  have mark: "progress R mx (w, run) (snd (bindP (markStageP c DeletionStage (\<lambda>sc t g s.
      s\<lparr>StageClusters := markDeleted sc t g m (StageClusters s)\<rparr>)) (\<lambda>_. returnP x) (w, run)))" for m and x :: "string \<rightharpoonup> nat"
    using assms(2) markDeleted_removes[OF leavesRun_laws(19)[OF assms(1)]]
    by (intro progress_bind deletion_progress) (auto intro: progress_refl)
  show ?thesis
    unfolding syncDeleteStageClusterStatuses_def bindP_readP bindP_liftP Let_def
    using mark by (auto simp: progress_refl split: sum.split)
qed

lemma deleteBindings_progress:
  assumes "leavesRun c R"
  shows "list_all complete (fst (stagedOf run)) \<Longrightarrow> progress R mx (w, run) (snd (deleteBindings c m bs (w, run)))"
proof (induction bs arbitrary: w run)
  case (Cons b bs)
  show ?case
  proof (cases "m (target b)")
    case (Some i)
    let ?f = "\<lambda>sc t g s. s\<lparr>StageClusters := (StageClusters s)[i := markClusterUpdatingStarted sc t g (StageClusters s ! i)]\<rparr>"
    have mark: "progress R mx (w1, run1) (snd (markStageP c DeletionStage ?f (w1, run1)))"
      if "list_all complete (fst (stagedOf run1))" for w1 run1
      using that markStarted_removes[OF leavesRun_laws(19)[OF assms]] by (intro deletion_progress) auto
    have "quiet R (callP (wrapP (apiServerError False) (removeBinding c b)))"
      by (intro quiet_intros leavesRun_laws assms)
    then show ?thesis
      using Cons.prems Some unfolding deleteBindings.simps
      by simp (intro progress_complete_bind mark Cons.IH quiet_progress, simp_all)
  qed (use Cons in simp)
qed (simp add: progress_refl)

lemma complete_sameClusters:
  "sameClusters run run' \<Longrightarrow> list_all complete (fst (stagedOf run)) \<Longrightarrow> list_all complete (fst (stagedOf run'))"
  using sameClusters_staged[of run run'] by simp

lemma executeDeleteStage_progress:
  assumes "leavesRun c R" "list_all complete (fst (stagedOf run))"
  shows "progress R mx (w, run) (snd (executeDeleteStage c bs (w, run)))"
proof -
  have q: "quiet R (if bs = [] then markStageP c DeletionStage markStageUpdatingSucceeded else returnP ())"
    "quiet R (markStageP c DeletionStage markStageUpdatingProgressStarted)"
    "quiet R (checkBeforeDeleteStageTasksStatus c bs)"
    by (intro quiet_intros assms; simp)+
  have go: "progress R mx (w1, run1) (snd (bindP (markStageP c DeletionStage markStageUpdatingProgressStarted) (\<lambda>_.
      bindP (syncDeleteStageClusterStatuses c bs) (\<lambda>m. bindP (deleteBindings c m bs) (\<lambda>_.
      bindP (if bs = [] then markStageP c DeletionStage markStageUpdatingSucceeded else returnP ()) (\<lambda>_.
      returnP x)))) (w1, run1)))" if "list_all complete (fst (stagedOf run1))" for w1 run1 and x :: "bool \<times> int"
    using that q
    by (intro progress_complete_bind syncDelete_progress[OF assms(1)] deleteBindings_progress[OF assms(1)]
        quiet_progress quiet_basic) simp_all
  show ?thesis
    unfolding executeDeleteStage_def
  proof (rule progress_quiet_bind[OF q(3)])
    fix approved w1 run1
    assume "sameClusters run run1"
    then have "list_all complete (fst (stagedOf run1))" using assms(2) complete_sameClusters by blast
    with go show "progress R mx (w1, run1) (snd ((if \<not> approved then returnP (False, stageUpdatingWaitTime)
        else bindP readP (\<lambda>run. bindP (liftP (orPanic (DeletionStageStatus (RunStatus run)))) (\<lambda>_.
          bindP (markStageP c DeletionStage markStageUpdatingProgressStarted) (\<lambda>_.
          bindP (syncDeleteStageClusterStatuses c bs) (\<lambda>m. bindP (deleteBindings c m bs) (\<lambda>_.
          bindP (if bs = [] then markStageP c DeletionStage markStageUpdatingSucceeded else returnP ()) (\<lambda>_.
          returnP (bs = [], clusterUpdatingWaitTime)))))))) (w1, run1)))"
      by (auto simp: bindP_readP bindP_liftP progress_refl split: sum.split)
  qed
qed

lemma abort_progress:
  fixes p :: "('w \<times> UpdateRun, 'a) prog"
  assumes "progress R mx s (snd (p s))"
  shows "progress R mx s (snd (checkIfErrorStagedUpdateAborted c ref p s))"
proof -
  have "quiet R (bindP (markStageP c ref (\<lambda>sc t g. markStageUpdatingFailed sc t g m)) (\<lambda>_. failP e) :: ('w \<times> UpdateRun, 'a) prog)" for m e
    by (intro quiet_intros) simp
  note mark = quiet_progress[OF this]
  obtain r s' where p: "p s = (r, s')" by (metis surj_pair)
  show ?thesis
  proof (cases r)
    case (Inl e)
    with p assms progress_trans[OF _ mark, of mx s s'] show ?thesis
      by (simp add: checkIfErrorStagedUpdateAborted_def)
  qed (use p assms in \<open>simp add: checkIfErrorStagedUpdateAborted_def\<close>)
qed

lemma ready_complete: "ready k run \<Longrightarrow> \<not> k < length (stagesOf run) \<Longrightarrow> list_all complete (fst (stagedOf run))"
  by (simp add: ready_def stagedOf_def)

text \<open>Every execution is a path of the specification.\<close>

lemma execute_progress:
  assumes "leavesRun c R" "ready k run"
  shows "progress R (limits c run) (w, run) (snd (execute c k upd del (w, run)))"
  unfolding execute_def
proof (rule progress_quiet_bind)
  show "quiet R (markP c markUpdateRunProgressingIfNotWaitingOrStuck)" by (rule quiet_marks[OF assms(1)])
  fix x w1 run1
  assume s: "sameClusters run run1"
  then have r: "ready k run1" and l: "limits c run = limits c run1"
    using assms(2) ready_sameClusters sameShape_limits[OF sameClusters_shape[OF s], of c] by simp_all
  show "progress R (limits c run) (w1, run1) (snd (bindP readP (\<lambda>run.
      if k < length (stagesOf run)
      then checkIfErrorStagedUpdateAborted c (UpdatingStage k) (executeStage c k upd)
      else checkIfErrorStagedUpdateAborted c DeletionStage (executeDeleteStage c del)) (w1, run1)))"
    unfolding bindP_readP l
    using executeStage_progress[OF assms(1) r] executeDeleteStage_progress[OF assms(1) ready_complete[OF r]]
    by (auto intro: abort_progress)
qed

subsection \<open>Stopping\<close>

lemma stopCluster_phase:
  assumes "goodSetter (putCondition c)" "current (env_Generation env) cl"
    and "stopCluster c env w cl l = (cl', l')"
  shows "phaseOf cl' = phaseOf cl \<or> phaseOf cl = Updating \<and> phaseOf cl' = Updated"
proof -
  have "phaseOf cl = Updating" if "clusterStarted (env_Generation env) cl" "\<not> clusterFailed (env_Generation env) cl"
    "\<not> clusterSucceeded (env_Generation env) cl" using that current_phase[OF assms(2)] by auto
  then show ?thesis
    using assms(3)
    by (auto simp: stopCluster_def Let_def dest: checkClusterUpdateResult_phase[OF assms(1)]
        split: if_splits option.splits sum.splits bool.splits)
qed

lemma stopClusters_steps:
  assumes "goodSetter (putCondition c)" "k < length S"
    and "stopClusters c env w cls l = (cls', l')" "list_all (current (env_Generation env)) cls"
    and "S ! k = ps @ map phaseOf cls"
  shows "stagedSteps mx (S, d) (S[k := ps @ map phaseOf cls'], d) \<and> length cls' = length cls"
  using assms(2-5)
proof (induction cls arbitrary: S ps l cls' l')
  case Nil
  then have "S[k := ps] = S" by (metis append_Nil2 list.map_disc_iff list_update_id)
  with Nil show ?case by simp
next
  case (Cons cl cls)
  obtain cl1 l1 where e: "stopCluster c env w cl l = (cl1, l1)" by fastforce
  obtain cls2 l2 where r: "stopClusters c env w cls l1 = (cls2, l2)" by fastforce
  have eq: "cls' = cl1 # cls2" using Cons.prems(2) e r by simp
  let ?S = "S[k := ps @ phaseOf cl1 # map phaseOf cls]"
  have "(S ! k)[length ps := x] = ps @ x # map phaseOf cls" for x using Cons.prems(4) by simp
  then have "stagedSteps mx (S, d) (?S, d)"
    using stopCluster_phase[OF assms(1) _ e] Cons.prems stagedStep.finish[of k S "length ps" mx d]
      list_update_id[of S k] by auto
  moreover have "stagedSteps mx (?S, d) (?S[k := (ps @ [phaseOf cl1]) @ map phaseOf cls2], d) \<and> length cls2 = length cls"
    by (rule Cons.IH[OF _ r]) (use Cons.prems in simp_all)
  ultimately show ?case using eq by (auto intro: rtranclp_trans)
qed

lemma followUpdatingClusters_progress:
  assumes "leavesRun c R" "ready k run" "k < length (stagesOf run)"
  shows "progress R mx (w, run) (snd (followUpdatingClusters c k bs (w, run)))"
proof -
  let ?stage = "stagesOf run ! k"
  let ?l = "\<lparr>finishedClusterCount = 0, clusterUpdatingCount = 0, stuckClusterNames = [],
      clusterUpdateErrors = [], loopStage = ?stage\<rparr>"
  obtain cls l where e: "stopClusters c (stageEnvOf run bs) w (StageClusters ?stage) ?l = (cls, l)" by fastforce
  let ?run1 = "onStage (UpdatingStage k) (\<lambda>s. s\<lparr>StageClusters := cls\<rparr>) run"
  let ?run2 = "aggregateUpdateRunStatus (putCondition c) (clock c w) (StageName ?stage) (stuckClusterNames l) ?run1"
  have "list_all (current (env_Generation (stageEnvOf run bs))) (StageClusters ?stage)"
    using assms(2,3) by (simp add: ready_def upToDateRun_def list_all_length stageEnvOf_def)
  from stopClusters_steps[OF leavesRun_laws(19)[OF assms(1)] _ e this, of k "fst (stagedOf run)" "[]" mx "snd (stagedOf run)"]
  have st: "stagedSteps mx (fst (stagedOf run), snd (stagedOf run)) ((fst (stagedOf run))[k := map phaseOf cls], snd (stagedOf run))"
    "length cls = length (StageClusters ?stage)" using assms(3) by (simp_all add: stagedOf_def)
  have "stagedOf ?run1 = ((fst (stagedOf run))[k := map phaseOf cls], snd (stagedOf run))"
    by (simp add: stagedOf_def map_update)
  moreover have "sameShape run ?run1" using st(2) assms(3) by (simp add: sameShape_def map_update list_update_same_conv)
  moreover have c2: "sameClusters ?run1 ?run2" by (rule sameClusters_markRun[OF leavesRun_laws(19)[OF assms(1)]])
  ultimately have p2: "progress R mx (w, run) (w, ?run2)"
    using st(1) sameClusters_staged[OF c2] sameShape_trans[OF _ sameClusters_shape[OF c2]] by (simp add: progress_def)
  have "quiet R (bindP (markStageP c (UpdatingStage k) markStageUpdatingStopped) (\<lambda>_. returnP (True, 0 :: int)))"
    by (intro quiet_intros) simp
  from progress_trans[OF p2 quiet_progress[OF this]] p2 assms(3) e show ?thesis
    by (simp add: followUpdatingClusters_def Let_def)
qed

lemma stopUpdatingStage_progress:
  assumes "leavesRun c R" "ready k run" "k < length (stagesOf run)"
  shows "progress R mx (w, run) (snd (stopUpdatingStage c k bs (w, run)))"
  unfolding stopUpdatingStage_def
proof (rule progress_quiet_bind)
  show "quiet R (markStageP c (UpdatingStage k) markStageUpdatingStopping)" by (intro quiet_intros) simp
  fix x w1 run1 assume "sameClusters run run1"
  then show "progress R mx (w1, run1) (snd (followUpdatingClusters c k bs (w1, run1)))"
    using assms ready_sameClusters sameClusters_length followUpdatingClusters_progress by metis
qed

lemma stopDeleteStage_progress:
  assumes "leavesRun c R" "list_all complete (fst (stagedOf run))"
  shows "progress R mx (w, run) (snd (stopDeleteStage c bs (w, run)))"
proof -
  have q: "quiet R (bindP readP (\<lambda>run. bindP (liftP (orPanic (DeletionStageStatus (RunStatus run)))) (\<lambda>stage.
      let b = \<not> list_ex (\<lambda>cl. clusterStarted (Generation run) cl \<and> \<not> clusterSucceeded (Generation run) cl) (StageClusters stage)
      in bindP (if b then markStageP c DeletionStage markStageUpdatingStopped else returnP ()) (\<lambda>_. returnP b))))"
    unfolding Let_def by (intro quiet_intros) simp
  show ?thesis
    unfolding stopDeleteStage_def
    using assms
    by (intro progress_complete_bind syncDelete_progress[OF assms(1)] quiet_progress[OF q] quiet_progress quiet_markStage) simp_all
qed

lemma stop_progress:
  assumes "leavesRun c R" "ready k run"
  shows "progress R mx (w, run) (snd (stop c k upd del (w, run)))"
  unfolding stop_def
proof (rule progress_quiet_bind)
  show "quiet R (markP c markUpdateRunStopping)" by (rule quiet_marks[OF assms(1)])
  fix x w1 run1
  assume s: "sameClusters run run1"
  then have r: "ready k run1" using assms(2) ready_sameClusters by blast
  show "progress R mx (w1, run1) (snd (bindP readP (\<lambda>run.
      if k < length (stagesOf run)
      then checkIfErrorStagedUpdateAborted c (UpdatingStage k) (stopUpdatingStage c k upd)
      else checkIfErrorStagedUpdateAborted c DeletionStage
        (bindP (stopDeleteStage c del) (\<lambda>finished. returnP (finished, clusterUpdatingWaitTime)))) (w1, run1)))"
    unfolding bindP_readP
    using stopUpdatingStage_progress[OF assms(1) r] stopDeleteStage_progress[OF assms(1) ready_complete[OF r]]
    by (auto intro!: abort_progress progress_bind intro: progress_refl)
qed

end
