(* ===== verification/Updaterun_Reconcile.thy ===== *)
theory Updaterun_Reconcile
  imports Updaterun_Refines
begin

text \<open>
  The reconciler of a staged update run against the specification of staged rollouts: what
  validation and initialization establish, the contract of the stored run, and the refinement of
  \<open>ReconcileUpdateRun\<close>.
\<close>

section \<open>Validation and initialization\<close>

text \<open>Programs that may rebuild the status of the run in memory, but leave the stored one alone.\<close>

definition framed :: "('w \<Rightarrow> 'r) \<Rightarrow> ('w \<times> UpdateRun, 'a) prog \<Rightarrow> bool" where
  "framed R p \<longleftrightarrow>
     (\<forall>w run. R (fst (snd (p (w, run)))) = R w \<and> Generation (snd (snd (p (w, run)))) = Generation run)"

named_theorems framed_intros \<open>programs that change neither the stored run nor the generation\<close>

lemma framed_quiet: "quiet R p \<Longrightarrow> framed R p"
  by (simp add: quiet_def framed_def sameClusters_def)

lemma framed_basic [framed_intros]:
  "framed R (returnP x)" "framed R (failP e)" "framed R (liftP r)" "framed R readP" "keeps R q \<Longrightarrow> framed R (callP q)"
  by (intro framed_quiet quiet_intros; assumption?)+

lemma framed_if [framed_intros]: "framed R p \<Longrightarrow> framed R q \<Longrightarrow> framed R (if b then p else q)"
  by simp

lemma framed_case [framed_intros]:
  "(\<And>x. framed R (f x)) \<Longrightarrow> framed R g \<Longrightarrow> framed R (case o' of None \<Rightarrow> g | Some x \<Rightarrow> f x)"
  by (simp split: option.split)

lemma framed_mark [framed_intros]: "(\<And>sc t run. Generation (f sc t run) = Generation run) \<Longrightarrow> framed R (markP c f)"
  by (simp add: framed_def markP_def)

lemma framed_result:
  assumes "framed R p" "p s = (r, s')" shows "R (fst s') = R (fst s) \<and> Generation (snd s') = Generation (snd s)"
proof -
  obtain w run where s: "s = (w, run)" by (cases s)
  have "R (fst (snd (p (w, run)))) = R w \<and> Generation (snd (snd (p (w, run)))) = Generation run"
    using assms(1) unfolding framed_def by blast
  with assms(2) s show ?thesis by simp
qed

lemma framed_bind [framed_intros]:
  assumes "framed R p" "\<And>x. framed R (f x)" shows "framed R (bindP p f)"
  unfolding framed_def
proof (intro allI)
  fix w run
  obtain r s' where p: "p (w, run) = (r, s')" by (metis surj_pair)
  note 1 = framed_result[OF assms(1) p]
  show "R (fst (snd (bindP p f (w, run)))) = R w \<and> Generation (snd (snd (bindP p f (w, run)))) = Generation run"
  proof (cases r)
    case (Inl e) with p 1 show ?thesis by (simp add: bindP_def)
  next
    case (Inr x)
    obtain r2 s2 where f: "f x s' = (r2, s2)" by (metis surj_pair)
    from framed_result[OF assms(2) f] 1 p f Inr show ?thesis by (simp add: bindP_def)
  qed
qed

lemma keeps_case [quiet_intros]:
  "(\<And>x. keeps R (f x)) \<Longrightarrow> keeps R g \<Longrightarrow> keeps R (case o' of None \<Rightarrow> g | Some x \<Rightarrow> f x)"
  by (simp split: option.split)

lemma keeps_LookupLatest [quiet_intros]:
  "(\<And>ns n. keeps R (l ns n)) \<Longrightarrow> keeps R (LookupLatestPolicySnapshot l ns n)"
  unfolding LookupLatestPolicySnapshot_def
  by (intro keeps_bind keeps_basic) (auto split: list.split intro: keeps_basic)

lemma framed_validatePlacement [framed_intros]: "leavesRun c R \<Longrightarrow> framed R (validatePlacement c)"
  unfolding validatePlacement_def Let_def
  by (intro framed_intros quiet_intros leavesRun_laws) simp_all

lemma framed_determine [framed_intros]: "leavesRun c R \<Longrightarrow> framed R (determinePolicySnapshot c)"
  unfolding determinePolicySnapshot_def Let_def
  by (intro framed_intros quiet_intros leavesRun_laws) simp_all

lemma framed_collect [framed_intros]: "leavesRun c R \<Longrightarrow> framed R (collectScheduledClusters c s)"
  unfolding collectScheduledClusters_def Let_def ListBindingsFromKey_def case_prod_beta
  by (intro framed_intros quiet_intros leavesRun_laws) simp_all

lemma keeps_computeStages [quiet_intros]:
  assumes "leavesRun c R" shows "keeps R (computeStages c n sel stages acc)"
proof (induction stages arbitrary: acc)
  case (Cons s stages)
  have "keeps R (computeStage c n sel s acc)"
    unfolding computeStage_def case_prod_beta by (intro quiet_intros leavesRun_laws assms)
  with Cons show ?case by (simp add: keeps_bind)
qed (simp add: keeps_basic)

lemma framed_computeRun [framed_intros]: "leavesRun c R \<Longrightarrow> framed R (computeRunStageStatus c bs)"
  unfolding computeRunStageStatus_def Let_def case_prod_beta
  by (intro framed_intros quiet_intros) simp_all

text \<open>
  The stages up to the last finished one have only succeeded clusters, and the stage that is
  updating comes right after it.
\<close>

definition validatedTo :: "int \<Rightarrow> StageUpdatingStatus list \<Rightarrow> int \<Rightarrow> int \<Rightarrow> bool" where
  "validatedTo g stages u l \<longleftrightarrow>
     -1 \<le> l \<and> l < int (length stages) \<and> (u = -1 \<or> u = l + 1 \<and> u < int (length stages)) \<and>
     (\<forall>i < nat (l + 1). list_all (clusterSucceeded g) (StageClusters (stages ! i)))"

lemma validateCluster_cases:
  assumes "validateClusterUpdatingStatus k u l s m g = Inr (u', l')"
  obtains "u' = u" "l' = k" "list_all (clusterSucceeded g) (StageClusters s)" "k = l + 1" "u = -1 \<or> k \<le> u"
  | "u' = k" "l' = l" "k = l + 1" "u = -1" | "u' = u" "l' = l"
proof -
  note v = assms[unfolded validateClusterUpdatingStatus_def Let_def]
  show thesis
  proof (cases "IsConditionStatusTrue (StageConditions s SucceededType) g")
    case True with v show thesis by (intro that(1)) (auto split: if_split_asm)
  next
    case f: False
    show thesis
    proof (cases "StageConditions s ProgressingType = None")
      case True with v f show thesis by (intro that(3)) (auto split: if_split_asm)
    next
      case False with v f show thesis by (intro that(2)) (auto split: if_split_asm)
    qed
  qed
qed

lemma validateCluster_validatedTo:
  assumes "validatedTo g pre u l" "validateClusterUpdatingStatus (int (length pre)) u l s m g = Inr (u', l')"
  shows "validatedTo g (pre @ [s]) u' l'"
proof -
  have nth: "list_all (clusterSucceeded g) (StageClusters ((pre @ [s]) ! i))" if "i < nat (l + 1)" for i
    using that assms(1) by (auto simp: validatedTo_def nth_append)
  from assms(2) show ?thesis
  proof (cases rule: validateCluster_cases)
    case 1
    have "list_all (clusterSucceeded g) (StageClusters ((pre @ [s]) ! i))" if "i < Suc (length pre)" for i
      using that nth[of i] 1 by (cases "i = length pre") (auto simp: nth_append)
    with 1 assms(1) show ?thesis by (auto simp: validatedTo_def)
  qed (use assms(1) nth in \<open>auto simp: validatedTo_def\<close>)
qed

lemma validateStagesFrom_validatedTo:
  assumes "validateStagesFrom c copy (length pre) olds news (u, l) = Inr (u', l')" "length olds = length news"
    and "validatedTo (Generation copy) pre u l"
  shows "validatedTo (Generation copy) (pre @ olds) u' l'"
  using assms
proof (induction olds arbitrary: news pre u l)
  case (Cons old olds)
  then obtain new news' where news: "news = new # news'" by (cases news) auto
  with Cons.prems(1) obtain m u1 l1 where
    v: "validateClusterUpdatingStatus (int (length pre)) u l old m (Generation copy) = Inr (u1, l1)"
    and r: "validateStagesFrom c copy (Suc (length pre)) olds news' (u1, l1) = Inr (u', l')"
    by (auto simp: bindR_eq_Inr split: if_splits)
  from validateCluster_validatedTo[OF Cons.prems(3) v] have "validatedTo (Generation copy) (pre @ [old]) u1 l1" .
  with Cons.IH[of "pre @ [old]" news' u1 l1] r Cons.prems(2) news show ?case by simp
qed (cases news; simp)

lemma validateDelete_index:
  assumes "validatedTo g stages u l" "validateDeleteStageStatus u l (int (length stages)) bs run = Inr i"
  shows "i = -1 \<or> i = l + 1"
  using assms
  by (auto simp: validatedTo_def validateDeleteStageStatus_def Let_def split: option.splits if_splits)

lemma framed_validateStages [framed_intros]:
  "leavesRun c R \<Longrightarrow> framed R (validateStagesStatus c run sb db)"
  unfolding validateStagesStatus_def
  by (intro framed_intros)

lemma validatedTo_ready:
  assumes "validatedTo (Generation run) (stagesOf run) u l" "upToDateRun run" "i = l + 1"
  shows "ready (nat i) run"
proof -
  from assms have len: "nat i \<le> length (stagesOf run)" by (auto simp: validatedTo_def)
  have "complete (fst (stagedOf run) ! j)" if "j < nat i" for j
  proof -
    from that len have j: "j < length (stagesOf run)" by simp
    from that assms(1,3) have "list_all (clusterSucceeded (Generation run)) (StageClusters (stagesOf run ! j))"
      by (auto simp: validatedTo_def)
    moreover from assms(2) j have "list_all (current (Generation run)) (StageClusters (stagesOf run ! j))"
      by (simp add: upToDateRun_def list_all_length)
    ultimately show ?thesis using j by (auto simp: stagedOf_def complete_def list_all_iff current_phase(1))
  qed
  with len assms(2) show ?thesis by (simp add: ready_def list_all_length stagedOf_def)
qed

text \<open>A run that validates goes on from a stage whose predecessors are complete.\<close>

lemma validateStages_ready:
  assumes "validateStagesStatus c run sb db (w, copy) = (Inr i, s')" "upToDateRun run"
    and "leavesRun c R" "Generation copy = Generation run"
  shows "i = -1 \<or> ready (nat i) run"
proof -
  from assms(1) obtain existing w1 run1 r u l where e: "StagesStatus (RunStatus run) = Some existing"
    and c: "computeRunStageStatus c sb (w, copy) = (r, (w1, run1))"
    and u: "validateUpdateStagesStatus c existing run1 = Inr (u, l)"
    and d: "validateDeleteStageStatus u l (int (length existing)) db run1 = Inr i"
    by (auto simp: validateStagesStatus_def bindP_def readP_def liftP_def failP_def bindR_eq_Inr
        split: if_splits prod.splits sum.splits option.splits)
  from framed_result[OF framed_computeRun[OF assms(3)] c] assms(4) have g: "Generation run1 = Generation run" by simp
  from u have "length existing = length (stagesOf run1)" "validateStagesFrom c run1 0 existing (stagesOf run1) (-1, -1) = Inr (u, l)"
    by (auto simp: validateUpdateStagesStatus_def split: if_splits)
  then have v: "validatedTo (Generation run1) existing u l"
    using validateStagesFrom_validatedTo[of c run1 "[]" existing "stagesOf run1" "-1" "-1" u l]
    by (simp add: validatedTo_def)
  from validateDelete_index[OF v d] show ?thesis
    using validatedTo_ready[of run u l i] v e g assms(2) by (auto simp: stagesOf_def)
qed

lemma bindP_InrE:
  assumes "bindP p f s = (Inr y, s'')" obtains x s' where "p s = (Inr x, s')" "f x s' = (Inr y, s'')"
  using bindP_InrD[OF assms] by blast

lemma readP_Inr: "readP s = (Inr x, s') \<longleftrightarrow> x = snd s \<and> s' = s"
  by (cases s) (auto simp: readP_def)

lemma framed_validateCopy: "leavesRun c R \<Longrightarrow> framed R (validateCopy c run)"
  unfolding validateCopy_def case_prod_beta by (intro framed_intros)

lemma validate_ready:
  assumes "validate c (w, run) = (r, (w', run'))" "upToDateRun run" "leavesRun c R"
  shows "run' = run" "R w' = R w" "r = Inr (i, upd, del) \<Longrightarrow> i = -1 \<or> ready (nat i) run"
proof -
  from assms(1) obtain copy where c: "validateCopy c run (w, run) = (r, (w', copy))" and "run' = run"
    by (auto simp: validate_def split: prod.splits)
  show "run' = run" by fact
  from framed_result[OF framed_validateCopy[OF assms(3)] c] show "R w' = R w" by simp
  assume "r = Inr (i, upd, del)"
  with c obtain x1 s1 x2 s2 x3 s3 where
    1: "validatePlacement c (w, run) = (Inr x1, s1)" and 2: "determinePolicySnapshot c s1 = (Inr x2, s2)"
    and 3: "collectScheduledClusters c (fst x2) s2 = (Inr x3, s3)"
    and 4: "validateStagesStatus c run (fst x3) (snd x3) s3 = (Inr i, (w', copy))"
    unfolding validateCopy_def case_prod_beta
    by (auto simp: readP_Inr failP_def returnP_def elim!: bindP_InrE split: if_split_asm)
  obtain w3 run3 where s3: "s3 = (w3, run3)" by (cases s3)
  from framed_result[OF framed_validatePlacement[OF assms(3)] 1] framed_result[OF framed_determine[OF assms(3)] 2]
    framed_result[OF framed_collect[OF assms(3)] 3] s3 have "Generation run3 = Generation run" by simp
  with validateStages_ready[OF 4[unfolded s3] assms(2,3)] show "i = -1 \<or> ready (nat i) run" by simp
qed

section \<open>The stored run\<close>

text \<open>
  The contract of the API server for the run: a read gives the stored run, a write of the status
  changes neither finalizers nor the deletion timestamp, a write of the object keeps the status,
  and a write that fails may or may not have been made. The object goes away when the last
  finalizer of a deleted run is removed.
\<close>

definition sameMeta :: "UpdateRun \<Rightarrow> UpdateRun \<Rightarrow> bool" where
  "sameMeta run run' \<longleftrightarrow> Finalizers run' = Finalizers run \<and> DeletionTimestamp run' = DeletionTimestamp run"

definition storesRun :: "'w updateRunClient \<Rightarrow> NamespacedName \<Rightarrow> ('w \<Rightarrow> UpdateRun option) \<Rightarrow> bool" where
  "storesRun c req R \<longleftrightarrow>
     leavesRun c R \<and>
     (\<forall>w r w'. getUpdateRun c (nn_Namespace req) (nn_Name req) w = (r, w') \<longrightarrow>
        R w' = R w \<and> (\<forall>run. r = Inr run \<longrightarrow> R w = Some run)) \<and>
     (\<forall>w run r w'. putUpdateRunStatus c run w = (r, w') \<longrightarrow>
        ((\<exists>e. r = Inl e) \<and> R w' = R w) \<or>
        (\<exists>old stored. R w = Some old \<and> R w' = Some stored \<and> sameClusters run stored \<and> sameMeta old stored \<and>
           (\<forall>run'. r = Inr run' \<longrightarrow> run' = stored))) \<and>
     (\<forall>w run r w'. putUpdateRun c run w = (r, w') \<longrightarrow>
        ((\<exists>e. r = Inl e) \<and> R w' = R w) \<or> (\<not> live run \<and> R w' = None) \<or>
        (\<exists>old stored. R w = Some old \<and> R w' = Some stored \<and> RunStatus stored = RunStatus old \<and>
           Finalizers stored = Finalizers run \<and> DeletionTimestamp stored = DeletionTimestamp old \<and>
           (\<forall>run'. r = Inr run' \<longrightarrow> run' = stored)))"

lemma storesRun_leaves: "storesRun c req R \<Longrightarrow> leavesRun c R"
  by (simp add: storesRun_def)

lemmas storesRun_laws = iffD1[OF storesRun_def, THEN conjunct2]
lemmas storesRun_get = storesRun_laws[THEN conjunct1, rule_format]
lemmas storesRun_putStatus = storesRun_laws[THEN conjunct2, THEN conjunct1, rule_format]
lemmas storesRun_put = storesRun_laws[THEN conjunct2, THEN conjunct2, rule_format]

text \<open>The limits depend on the concurrency of the stages of the strategy and on the sizes of the stages.\<close>

lemma limits_cong:
  assumes "map_option (\<lambda>spec. map MaxConcurrency (Stages spec)) (UpdateStrategySnapshot (RunStatus run')) =
      map_option (\<lambda>spec. map MaxConcurrency (Stages spec)) (UpdateStrategySnapshot (RunStatus run))"
    and "map (\<lambda>s. length (StageClusters s)) (stagesOf run') = map (\<lambda>s. length (StageClusters s)) (stagesOf run)"
  shows "limits c run' = limits c run"
proof
  fix k
  from assms(1) consider "stageConfig k run' = Inl Panic" "stageConfig k run = Inl Panic"
    | a b where "stageConfig k run' = Inr a" "stageConfig k run = Inr b" "MaxConcurrency a = MaxConcurrency b"
  proof (cases "UpdateStrategySnapshot (RunStatus run)")
    case (Some b)
    with assms(1) obtain a where a: "UpdateStrategySnapshot (RunStatus run') = Some a"
      and m: "map MaxConcurrency (Stages a) = map MaxConcurrency (Stages b)" by auto
    from m have "length (Stages a) = length (Stages b)" by (metis length_map)
    with a Some arg_cong[OF m, of "\<lambda>x. x ! k"] that show ?thesis
      by (cases "k < length (Stages b)") (simp_all add: stageConfig_def)
  qed (use that in \<open>simp add: stageConfig_def\<close>)
  then show "limits c run' k = limits c run k"
  proof cases
    case 2
    from assms(2) have len: "length (stagesOf run') = length (stagesOf run)" by (metis length_map)
    have "length (StageClusters (stagesOf run' ! k)) = length (StageClusters (stagesOf run ! k))" if "k < length (stagesOf run)"
      using arg_cong[OF assms(2), of "\<lambda>x. x ! k"] that len by simp
    with 2 len show ?thesis
      by (cases "k < length (stagesOf run)") (simp_all add: limits_def calculateMaxConcurrencyValue_def orPanic_def)
  qed (simp add: limits_def calculateMaxConcurrencyValue_def)
qed

text \<open>The plan of a run, once it is initialized.\<close>

definition planOf :: "'w updateRunClient \<Rightarrow> UpdateRun \<Rightarrow> plan" where
  "planOf c run =
     (if statusOf (RunConditions (RunStatus run)) InitializedType = Some ConditionTrue
      then Some (limits c run, stagedOf run) else None)"

lemma planOf_sameClusters: "sameClusters run run' \<Longrightarrow> planOf c run' = planOf c run"
proof -
  assume s: "sameClusters run run'"
  have "stagedOf run' = stagedOf run" using s by (metis sameClusters_staged)
  moreover have "limits c run' = limits c run" by (rule sameShape_limits[OF sameClusters_shape[OF s]])
  ultimately show ?thesis using s by (simp add: planOf_def sameClusters_def)
qed

lemma planOf_status: "RunStatus run' = RunStatus run \<Longrightarrow> planOf c run' = planOf c run"
proof -
  assume s: "RunStatus run' = RunStatus run"
  then have "stagesOf run' = stagesOf run" "deletionClusters run' = deletionClusters run"
    by (simp_all add: stagesOf_def deletionClusters_def)
  with s limits_cong[of run' run c] show ?thesis by (simp add: planOf_def stagedOf_def)
qed

text \<open>
  Both the stored run and the one in memory have only moved on from the plan of the run the
  reconciler started from.
\<close>

definition movedOn :: "'w updateRunClient \<Rightarrow> ('w \<Rightarrow> UpdateRun option) \<Rightarrow> UpdateRun \<Rightarrow> 'w \<Rightarrow> bool" where
  "movedOn c R run0 w \<longleftrightarrow>
     (\<exists>stored. R w = Some stored \<and> sameMeta run0 stored \<and> planSteps (planOf c run0) (planOf c stored))"

definition traced :: "'w updateRunClient \<Rightarrow> ('w \<Rightarrow> UpdateRun option) \<Rightarrow> UpdateRun \<Rightarrow> 'w \<times> UpdateRun \<Rightarrow> bool" where
  "traced c R run0 s \<longleftrightarrow> movedOn c R run0 (fst s) \<and> planSteps (planOf c run0) (planOf c (snd s))"

definition tracing :: "'w updateRunClient \<Rightarrow> ('w \<Rightarrow> UpdateRun option) \<Rightarrow> UpdateRun \<Rightarrow> ('w \<times> UpdateRun, 'a) prog \<Rightarrow> bool" where
  "tracing c R run0 p \<longleftrightarrow> (\<forall>s. traced c R run0 s \<longrightarrow> traced c R run0 (snd (p s)))"

lemma tracing_result: "tracing c R run0 p \<Longrightarrow> p s = (r, s') \<Longrightarrow> traced c R run0 s \<Longrightarrow> traced c R run0 s'"
  unfolding tracing_def by (metis snd_conv)

lemma tracing_bind: "tracing c R run0 p \<Longrightarrow> (\<And>x. tracing c R run0 (f x)) \<Longrightarrow> tracing c R run0 (bindP p f)"
  unfolding tracing_def bindP_def by (auto split: prod.splits sum.splits) (metis snd_conv)+

lemma tracing_quiet:
  assumes "quiet R p" shows "tracing c R run0 p"
  unfolding tracing_def
proof (intro allI impI)
  fix s assume t: "traced c R run0 s"
  obtain r s' where p: "p s = (r, s')" by (metis surj_pair)
  from quiet_result[OF assms p] t planOf_sameClusters[of "snd s" "snd s'" c] p
  show "traced c R run0 (snd (p s))" by (simp add: traced_def movedOn_def)
qed

lemma tracing_basic: "tracing c R run0 (returnP x)" "tracing c R run0 (liftP r)"
  by (simp_all add: tracing_def returnP_def liftP_def)

lemma tracingD: "tracing c R run0 p \<Longrightarrow> traced c R run0 s \<Longrightarrow> traced c R run0 (snd (p s))"
  by (cases s) (simp add: tracing_def)

lemma tracing_finish: "tracing c R run0 q \<Longrightarrow> tracing c R run0 (bindP q (\<lambda>_. returnP x))"
  by (intro tracing_bind tracing_basic)

lemma tracing_store:
  assumes "storesRun c req R" shows "tracing c R run0 (storeStatus c)"
  unfolding tracing_def
proof (intro allI impI)
  fix s assume t: "traced c R run0 s"
  obtain w run r w' where s: "s = (w, run)" and p: "putUpdateRunStatus c run w = (r, w')"
    by (metis surj_pair)
  from storesRun_putStatus[OF assms p] consider e where "r = Inl e" "R w' = R w"
    | old stored where "R w = Some old" "R w' = Some stored" "sameClusters run stored" "sameMeta old stored"
        "\<forall>run'. r = Inr run' \<longrightarrow> run' = stored"
    by (elim disjE exE conjE)
  then show "traced c R run0 (snd (storeStatus c s))"
  proof cases
    case 1 with t s p show ?thesis by (auto simp: storeStatus_def traced_def movedOn_def)
  next
    case 2
    from planOf_sameClusters[OF 2(3), of c] 2 t s p show ?thesis
      by (cases r) (auto simp: storeStatus_def traced_def movedOn_def sameMeta_def)
  qed
qed

lemma traced_progress:
  assumes "traced c R run0 (w, run)" "progress R (limits c run) (w, run) s'" "planOf c run \<noteq> None"
  shows "traced c R run0 s'"
proof -
  from assms(2) have s: "R (fst s') = R w" "sameShape run (snd s')"
    "stagedSteps (limits c run) (stagedOf run) (stagedOf (snd s'))" by (auto simp: progress_def)
  from s(2) assms(3) have "planOf c run = Some (limits c run, stagedOf run)"
    "planOf c (snd s') = Some (limits c run, stagedOf (snd s'))"
    using sameShape_limits[OF s(2), of c] by (auto simp: planOf_def sameShape_def split: if_splits)
  with planSteps_staged[OF s(3)] have "planSteps (planOf c run) (planOf c (snd s'))" by simp
  with assms(1) s(1) show ?thesis by (auto simp: traced_def movedOn_def intro: rtranclp_trans)
qed

section \<open>Reconciling a run\<close>

lemma run_types: "ProgressingType \<noteq> InitializedType" "SucceededType \<noteq> InitializedType"
  by (simp_all add: ProgressingType_def SucceededType_def InitializedType_def)

lemma tracing_record:
  assumes "storesRun c req R"
  shows "tracing c R run0 (recordUpdateRunSucceeded c)" "tracing c R run0 (recordUpdateRunFailed c msg)"
    "tracing c R run0 (recordUpdateRunStopped c)" "tracing c R run0 (handleIncompleteUpdateRun c r)"
  unfolding recordUpdateRunSucceeded_def recordUpdateRunFailed_def recordUpdateRunStopped_def handleIncompleteUpdateRun_def
  by (intro tracing_bind tracing_basic tracing_store[OF assms] tracing_quiet quiet_marks(5) storesRun_leaves[OF assms] run_types)+

lemma traced_conclude:
  assumes "storesRun c req R" "traced c R run0 (snd (p s))" "tracing c R run0 f"
  shows "traced c R run0 (snd (concludeRun c p f s))"
proof -
  obtain r s' where p: "p s = (r, s')" by (metis surj_pair)
  note rec = tracingD[OF tracing_finish[OF tracing_record(2)[OF assms(1)]]] tracingD[OF tracing_finish[OF assms(3)]]
    tracingD[OF tracing_record(4)[OF assms(1)]]
  from assms(2) p have "traced c R run0 s'" by simp
  with p show ?thesis
    by (auto simp: concludeRun_def rec split: sum.split prod.split)
qed

lemma traced_dispatch:
  assumes "storesRun c req R" "traced c R run0 (w, run)" "i = -1 \<or> ready (nat i) run" "planOf c run \<noteq> None"
  shows "traced c R run0 (snd (dispatchState c st i upd del (w, run)))"
proof -
  note leaves = storesRun_leaves[OF assms(1)]
  note fin = tracingD[OF tracing_finish[OF tracing_record(1)[OF assms(1)]] assms(2)]
    tracingD[OF tracing_finish[OF tracing_record(2)[OF assms(1)]] assms(2)]
  show ?thesis
  proof (cases "i = -1")
    case True
    with fin(1) show ?thesis by (simp add: dispatchState_def)
  next
    case False
    with assms(3) have r: "ready (nat i) run" by simp
    from traced_progress[OF assms(2) execute_progress[OF leaves r] assms(4)]
      traced_progress[OF assms(2) stop_progress[OF leaves r] assms(4)]
    have "traced c R run0 (snd (execute c (nat i) upd del (w, run)))" "traced c R run0 (snd (stop c (nat i) upd del (w, run)))"
      by simp_all
    with False assms(2) fin(2) show ?thesis
      by (cases st) (simp_all add: dispatchState_def returnP_def
          traced_conclude[OF assms(1) _ tracing_record(1)[OF assms(1)]] traced_conclude[OF assms(1) _ tracing_record(3)[OF assms(1)]])
  qed
qed

lemma traced_validate:
  assumes "storesRun c req R" "traced c R run0 (w, run)" "upToDateRun run" "planOf c run \<noteq> None"
  shows "traced c R run0 (snd (validateAndDispatch c (w, run)))"
proof -
  obtain r w' run' where v: "validate c (w, run) = (r, (w', run'))" by (metis surj_pair)
  note ready = validate_ready[OF v assms(3) storesRun_leaves[OF assms(1)]]
  from assms(2) ready(1,2) have t: "traced c R run0 (w', run)" by (simp add: traced_def movedOn_def)
  show ?thesis
  proof (cases r)
    case (Inl e)
    note fail = tracingD[OF tracing_finish[OF tracing_record(2)[OF assms(1)]] t]
    with v Inl ready(1) t show ?thesis by (simp add: validateAndDispatch_def fail)
  next
    case (Inr x)
    then obtain i upd del where x: "r = Inr (i, upd, del)" by (cases x) auto
    from traced_dispatch[OF assms(1) t ready(3)[OF x] assms(4)] v x ready(1) show ?thesis
      by (simp add: validateAndDispatch_def)
  qed
qed

subsection \<open>Initialization\<close>

text \<open>No cluster has a condition.\<close>

definition freshClusters :: "ClusterUpdatingStatus list \<Rightarrow> bool" where
  "freshClusters cls \<longleftrightarrow> list_all (\<lambda>cl. cus_Conditions cl = Map.empty) cls"

definition fresh :: "UpdateRun \<Rightarrow> bool" where
  "fresh run \<longleftrightarrow>
     list_all (\<lambda>s. freshClusters (StageClusters s)) (stagesOf run) \<and> freshClusters (deletionClusters run)"

lemma fresh_unstarted: "fresh run \<Longrightarrow> unstarted (stagedOf run)"
  by (auto simp: fresh_def freshClusters_def unstarted_def stagedOf_def list_all_iff phaseOf_def statusOf_def)

lemma fresh_ready: "fresh run \<Longrightarrow> ready 0 run"
  by (auto simp: fresh_def freshClusters_def ready_def upToDateRun_def list_all_iff current_def)

lemma fresh_sameClusters: "sameClusters run run' \<Longrightarrow> fresh run \<Longrightarrow> fresh run'"
proof -
  assume s: "sameClusters run run'" and f: "fresh run"
  have all: "list_all (\<lambda>s. P (StageClusters s)) l = list_all P (map StageClusters l)" for P l
    by (simp add: list_all_iff)
  show ?thesis using f s unfolding fresh_def all by (simp add: sameClusters_def)
qed

lemma computeStages_fresh:
  assumes "computeStages c n sel stages acc w = (Inr (news, placed), w')"
    and "list_all (\<lambda>s. freshClusters (StageClusters s)) (fst acc)"
  shows "list_all (\<lambda>s. freshClusters (StageClusters s)) news"
  using assms
proof (induction stages arbitrary: acc w)
  case (Cons s stages)
  from Cons.prems(1) obtain acc' w1 where 1: "computeStage c n sel s acc w = (Inr acc', w1)"
    and 2: "computeStages c n sel stages acc' w1 = (Inr (news, placed), w')" by (auto elim: bindP_InrE)
  from 1 Cons.prems(2) have "list_all (\<lambda>s. freshClusters (StageClusters s)) (fst acc')"
    by (auto simp: computeStage_def failP_def returnP_def newStageStatus_def freshClusters_def newClusterStatus_def list_all_iff
        elim!: bindP_InrE split: if_split_asm prod.splits)
  from Cons.IH[OF 2 this] show ?case .
qed (auto simp: returnP_def)

lemma pickClusterOverrides_fresh:
  "pickClusterOverrides c cros ros cls w = (Inr cls', w') \<Longrightarrow> freshClusters cls \<Longrightarrow> freshClusters cls'"
  by (induction cls arbitrary: cls' w)
    (auto simp: freshClusters_def returnP_def elim!: bindP_InrE split: prod.splits)

lemma pickStageOverrides_fresh:
  assumes "pickStageOverrides c cros ros ss w = (Inr ss', w')" "list_all (\<lambda>s. freshClusters (StageClusters s)) ss"
  shows "list_all (\<lambda>s. freshClusters (StageClusters s)) ss'"
  using assms
  by (induction ss arbitrary: ss' w)
    (auto simp: returnP_def elim!: bindP_InrE dest: pickClusterOverrides_fresh)

lemma callP_Inr: "callP q s = (Inr x, s') \<longleftrightarrow> (\<exists>w'. q (fst s) = (Inr x, w') \<and> s' = (w', snd s))"
  by (cases s) (auto simp: callP_def split: prod.splits)

lemma markP_Inr: "markP c f s = (Inr u, s') \<longleftrightarrow> s' = (fst s, f (putCondition c) (clock c (fst s)) (snd s))"
  by (cases s) (auto simp: markP_def)

lemma newStage_fresh: "freshClusters (StageClusters (newStageStatus n l a b))"
  by (simp add: freshClusters_def newStageStatus_def newClusterStatus_def list_all_iff)

lemma generateStages_fresh:
  assumes "generateStagesByStrategy c sb db s = (Inr u, s')" shows "fresh (snd s')"
proof -
  from assms obtain s1 s2 where 1: "computeRunStageStatus c sb s1 = (Inr (), s2)"
    and 2: "freshClusters (deletionClusters (snd s'))" "stagesOf (snd s') = stagesOf (snd s2)"
    by (auto simp: generateStagesByStrategy_def Let_def readP_Inr callP_Inr markP_Inr failP_def deletionClusters_def
        stagesOf_def newStage_fresh
        elim!: bindP_InrE split: if_split_asm)
  from 1 have "list_all (\<lambda>s. freshClusters (StageClusters s)) (stagesOf (snd s2))"
    by (auto simp: computeRunStageStatus_def Let_def readP_Inr callP_Inr markP_Inr failP_def returnP_def stagesOf_def
        elim!: bindP_InrE dest!: computeStages_fresh split: if_split_asm prod.splits)
  with 2 show ?thesis by (simp add: fresh_def)
qed

lemma recordOverrides_fresh:
  assumes "recordOverrideSnapshots c p s = (Inr u, s')" "fresh (snd s)" shows "fresh (snd s')"
proof -
  have stages: "stagesOf (run\<lparr>RunStatus := (RunStatus run)\<lparr>StagesStatus := map_option (\<lambda>_. l) (StagesStatus (RunStatus run))\<rparr>\<rparr>) =
      (if StagesStatus (RunStatus run) = None then [] else l)" for run l
    by (simp add: stagesOf_def split: option.split)
  from assms show ?thesis
    unfolding recordOverrideSnapshots_def case_prod_beta
    by (auto simp: readP_Inr callP_Inr markP_Inr failP_def fresh_def stages deletionClusters_def stagesOf_def
        elim!: bindP_InrE dest!: pickStageOverrides_fresh split: option.split_asm)
qed

lemma framed_generate: "leavesRun c R \<Longrightarrow> framed R (generateStagesByStrategy c sb db)"
  unfolding generateStagesByStrategy_def Let_def
  by (intro framed_intros quiet_intros leavesRun_laws) (simp_all add: removeWaitTimeFromUpdateRunStatus_def)

lemma keeps_PickFrom [quiet_intros]:
  "leavesRun c R \<Longrightarrow> keeps R (PickFromResourceMatchedOverridesForTargetCluster (urOverrides c) lib n cros ros)"
  unfolding PickFromResourceMatchedOverridesForTargetCluster_def by (intro quiet_intros leavesRun_laws)

lemma keeps_pickClusterOverrides [quiet_intros]:
  "leavesRun c R \<Longrightarrow> keeps R (pickClusterOverrides c cros ros cls)"
proof (induction cls)
  case (Cons cl cls) then show ?case unfolding pickClusterOverrides.simps case_prod_beta by (intro quiet_intros)
qed (simp add: keeps_basic)

lemma keeps_pickStageOverrides [quiet_intros]:
  "leavesRun c R \<Longrightarrow> keeps R (pickStageOverrides c cros ros ss)"
proof (induction ss)
  case (Cons cl cls) then show ?case unfolding pickStageOverrides.simps by (intro quiet_intros)
qed (simp add: keeps_basic)

lemma keeps_FetchAll [quiet_intros]:
  "leavesRun c R \<Longrightarrow> keeps R (FetchAllMatchingOverridesForResourceSnapshot (urOverrides c) mf key master)"
  unfolding FetchAllMatchingOverridesForResourceSnapshot_def FetchAllResourceSnapshotsAlongWithMaster_def case_prod_beta
    ListAllResourceSnapshotWithAnIndex_def Let_def
  by (intro quiet_intros leavesRun_laws)

lemma keeps_getResourceSnapshotObjs [quiet_intros]:
  "leavesRun c R \<Longrightarrow> keeps R (getResourceSnapshotObjs c p run)"
  unfolding getResourceSnapshotObjs_def Let_def case_prod_beta ListAllResourceSnapshotWithAnIndex_def
  by (intro quiet_intros leavesRun_laws)

lemma framed_recordOverrides: "leavesRun c R \<Longrightarrow> framed R (recordOverrideSnapshots c p)"
  unfolding recordOverrideSnapshots_def case_prod_beta
  by (intro framed_intros quiet_intros) simp_all

lemma bindP_assoc: "bindP (bindP p f) g = bindP p (\<lambda>x. bindP (f x) g)"
  by (auto simp: bindP_def split: prod.split sum.split)

lemma returnP_bindP: "bindP (returnP x) f = f x"
  by (auto simp: bindP_def returnP_def)

text \<open>Everything that initialization does before it records that it has succeeded.\<close>

definition prepareRun :: "'w updateRunClient \<Rightarrow> ('w \<times> UpdateRun, Binding list \<times> Binding list) prog" where
  "prepareRun c =
     bindP (validatePlacement c) (\<lambda>placement.
     bindP (determinePolicySnapshot c) (\<lambda>latest.
     bindP (collectScheduledClusters c (fst latest)) (\<lambda>bindings.
     bindP (generateStagesByStrategy c (fst bindings) (snd bindings)) (\<lambda>_.
     bindP (recordOverrideSnapshots c placement) (\<lambda>_.
     returnP bindings)))))"

lemma initialize_prepare:
  "initialize c = bindP (prepareRun c) (\<lambda>x. bindP (recordInitializationSucceeded c) (\<lambda>_. returnP x))"
  unfolding initialize_def prepareRun_def bindP_assoc returnP_bindP case_prod_beta by simp

lemma prepareRun_framed: "leavesRun c R \<Longrightarrow> framed R (prepareRun c)"
  unfolding prepareRun_def by (intro framed_intros framed_generate framed_recordOverrides)

lemma prepareRun_fresh: "prepareRun c s = (Inr x, s') \<Longrightarrow> fresh (snd s')"
  unfolding prepareRun_def
  by (auto simp: returnP_def elim!: bindP_InrE intro: recordOverrides_fresh generateStages_fresh)

lemma storeStatus_result:
  assumes "storesRun c req R" "storeStatus c (w, run) = (r, (w', run'))"
  shows "r = Inr u \<Longrightarrow> sameClusters run run'" "r \<noteq> Inl ErrStagedUpdatedAborted"
proof -
  obtain q w1 where p: "putUpdateRunStatus c run w = (q, w1)" by (metis surj_pair)
  show "r \<noteq> Inl ErrStagedUpdatedAborted" using assms(2) p
    by (cases q) (auto simp: storeStatus_def updateIgnoreConflictError_def error_defs split: if_splits)
  assume "r = Inr u"
  with assms(2) p have "q = Inr run'" by (cases q) (auto simp: storeStatus_def)
  with storesRun_putStatus[OF assms(1) p] show "sameClusters run run'" by auto
qed

lemma setInitialized:
  assumes "goodSetter sc"
  shows "statusOf (RunConditions (RunStatus (setRun sc t InitializedType st reason msg run))) InitializedType = Some st"
    "fresh (setRun sc t InitializedType st reason msg run) = fresh run"
  using goodSetter_set[OF assms, of t "RunConditions (RunStatus run)" "newCondition InitializedType st (Generation run) reason msg"]
  by (auto simp: setRun_def statusOf_def newCondition_def fresh_def stagesOf_def deletionClusters_def)

lemma initialize_cases:
  assumes "storesRun c req R" "R w = Some stored" "planOf c stored = None" "initialize c (w, run) = (r, (w', run'))"
  obtains e where "r = Inl e" "R w' = Some stored"
  | e where "r = Inl e" "e \<noteq> ErrStagedUpdatedAborted" "traced c R stored (w', run')"
  | x where "r = Inr x" "traced c R stored (w', run')" "planOf c run' \<noteq> None" "ready 0 run'"
proof -
  note leaves = storesRun_leaves[OF assms(1)]
  obtain q w1 run1 where p: "prepareRun c (w, run) = (q, (w1, run1))" by (metis surj_pair)
  from framed_result[OF prepareRun_framed[OF leaves] p] assms(2) have R1: "R w1 = Some stored" by simp
  show thesis
  proof (cases q)
    case (Inl e) with p assms(4) R1 that(1) show thesis by (auto simp: initialize_prepare bindP_def)
  next
    case (Inr x)
    obtain run2 where run2: "run2 = setRun (putCondition c) (clock c w1) InitializedType ConditionTrue
        ''UpdateRunInitializedSuccessfully'' ''The UpdateRun initialized successfully'' run1" by simp
    obtain q2 w2 run3 where st: "storeStatus c (w1, run2) = (q2, (w2, run3))" by (metis surj_pair)
    have i: "initialize c (w, run) = (case q2 of Inl e \<Rightarrow> (Inl e, (w2, run3)) | Inr _ \<Rightarrow> (Inr x, (w2, run3)))"
      using p Inr st run2
      by (simp add: initialize_prepare recordInitializationSucceeded_def bindP_def markP_def returnP_def split: sum.split)
    from setInitialized[OF leavesRun_laws(19)[OF leaves]] prepareRun_fresh[OF p[unfolded Inr]] run2
    have f: "fresh run2" and pl: "planOf c run2 = Some (limits c run2, stagedOf run2)" by (simp_all add: planOf_def)
    have "planSteps (planOf c stored) (planOf c run2)"
      unfolding assms(3) pl using fresh_unstarted[OF f] by (blast intro: planStep.plan)
    with R1 have "traced c R stored (w1, run2)" by (simp add: traced_def movedOn_def sameMeta_def)
    from tracing_result[OF tracing_store[OF assms(1)] st this] have t: "traced c R stored (w2, run3)" .
    note res = storeStatus_result[OF assms(1) st]
    show thesis
    proof (cases q2)
      case (Inl e) with i assms(4) t res(2) that(2) show thesis by auto
    next
      case (Inr u)
      with res(1) have s: "sameClusters run2 run3" by simp
      from planOf_sameClusters[OF s, of c] pl fresh_ready[OF fresh_sameClusters[OF s f]] i Inr assms(4) t that(3)
      show thesis by auto
    qed
  qed
qed

lemma initializeAndDispatch_moves:
  assumes "storesRun c req R" "R w = Some stored" "planOf c stored = None"
  shows "movedOn c R stored (fst (snd (initializeAndDispatch c (w, run))))"
proof -
  obtain r w' run' where i: "initialize c (w, run) = (r, (w', run'))" by (metis surj_pair)
  have moved: "movedOn c R stored (fst s)" if "traced c R stored s" for s using that by (simp add: traced_def)
  from initialize_cases[OF assms i] show ?thesis
  proof cases
    case (1 e)
    obtain run2 where run2: "run2 = setRun (putCondition c) (clock c w') InitializedType ConditionFalse
        ''UpdateRunInitializedFailed'' (errorText c e) run'" by simp
    from setInitialized(1)[OF leavesRun_laws(19)[OF storesRun_leaves[OF assms(1)]]] run2
    have "planOf c run2 = None" by (simp add: planOf_def)
    with 1 assms(3) have "traced c R stored (w', run2)" by (simp add: traced_def movedOn_def sameMeta_def)
    then have m: "movedOn c R stored (fst (snd (bindP (storeStatus c) (\<lambda>_. returnP noRequeue) (w', run2))))"
      by (intro moved tracingD[OF tracing_finish[OF tracing_store[OF assms(1)]]])
    have eq: "bindP (recordInitializationFailed c (errorText c e)) (\<lambda>_. returnP noRequeue) (w', run') =
        bindP (storeStatus c) (\<lambda>_. returnP noRequeue) (w', run2)"
      by (simp add: recordInitializationFailed_def bindP_def markP_def run2)
    from 1 m i eq show ?thesis
      by (cases "e = ErrStagedUpdatedAborted") (simp_all add: initializeAndDispatch_def, simp add: movedOn_def sameMeta_def)
  next
    case (2 e)
    with i moved[of "(w', run')"] show ?thesis by (simp add: initializeAndDispatch_def)
  next
    case (3 x)
    obtain upd del where x: "x = (upd, del)" by (cases x)
    from 3(4) have "0 = (-1 :: int) \<or> ready (nat 0) run'" by simp
    from moved[OF traced_dispatch[OF assms(1) 3(2) this 3(3)]] i 3(1) x show ?thesis
      by (simp add: initializeAndDispatch_def)
  qed
qed

subsection \<open>The conditions of a new generation\<close>

definition refreshRun :: "UpdateRun \<Rightarrow> UpdateRun" where
  "refreshRun run = removeWaitTimeFromUpdateRunStatus (updateAllStatusConditionsGeneration run)"

lemma statusOf_observeAll: "statusOf (observeAll g cs) ty = statusOf cs ty"
  by (cases "cs ty") (simp_all add: statusOf_def observeAll_def)

lemma phaseOf_observeAll: "phaseOf (cl\<lparr>cus_Conditions := observeAll g (cus_Conditions cl)\<rparr>) = phaseOf cl"
  by (simp add: phaseOf_def statusOf_observeAll)

lemma current_observeAll: "current g (cl\<lparr>cus_Conditions := observeAll g (cus_Conditions cl)\<rparr>)"
  by (auto simp: current_def observeAll_def split: option.split)

lemma StageClusters_updateAll:
  "StageClusters (updateAllStageStatusConditionsGeneration g s) =
     map (\<lambda>cl. cl\<lparr>cus_Conditions := observeAll g (cus_Conditions cl)\<rparr>) (StageClusters s)"
  by (simp add: updateAllStageStatusConditionsGeneration_def)

lemma refreshRun_parts:
  "stagesOf (refreshRun run) = map (updateAllStageStatusConditionsGeneration (Generation run)) (stagesOf run)"
  "deletionClusters (refreshRun run) =
     map (\<lambda>cl. cl\<lparr>cus_Conditions := observeAll (Generation run) (cus_Conditions cl)\<rparr>) (deletionClusters run)"
  "RunConditions (RunStatus (refreshRun run)) = observeAll (Generation run) (RunConditions (RunStatus run))"
  "Finalizers (refreshRun run) = Finalizers run" "DeletionTimestamp (refreshRun run) = DeletionTimestamp run"
  "Generation (refreshRun run) = Generation run"
  by (simp_all add: refreshRun_def removeWaitTimeFromUpdateRunStatus_def updateAllStatusConditionsGeneration_def
      stagesOf_def deletionClusters_def StageClusters_updateAll split: option.split)

lemma refreshRun_upToDate: "upToDateRun (refreshRun run)"
  by (simp add: upToDateRun_def refreshRun_parts StageClusters_updateAll list_all_iff current_observeAll)

lemma refreshRun_plan: "planOf c (refreshRun run) = planOf c run"
proof -
  have "stagedOf (refreshRun run) = stagedOf run"
    by (simp add: stagedOf_def refreshRun_parts StageClusters_updateAll comp_def phaseOf_observeAll)
  moreover have "limits c (refreshRun run) = limits c run"
    by (rule limits_cong)
      (simp_all add: refreshRun_parts StageClusters_updateAll comp_def, simp add: refreshRun_def
        removeWaitTimeFromUpdateRunStatus_def updateAllStatusConditionsGeneration_def option.map_comp comp_def)
  ultimately show ?thesis by (simp add: planOf_def refreshRun_parts statusOf_observeAll)
qed

lemma planned_initialized:
  "planOf c run = None \<Longrightarrow> \<not> IsConditionStatusTrue (RunConditions (RunStatus run) InitializedType) g"
  "planOf c run \<noteq> None \<longleftrightarrow>
     IsConditionStatusTrue (RunConditions (RunStatus (refreshRun run)) InitializedType) (Generation (refreshRun run))"
  by (auto simp: planOf_def refreshRun_parts IsConditionStatusTrue_def statusOf_def observeAll_def split: if_splits option.splits)

subsection \<open>The reconciler\<close>

text \<open>A live run that is initialized has the finalizer of the controller.\<close>

definition guarded :: "'w updateRunClient \<Rightarrow> UpdateRun \<Rightarrow> bool" where
  "guarded c run \<longleftrightarrow> (live run \<and> planOf c run \<noteq> None \<longrightarrow> UpdateRunFinalizer \<in> set (Finalizers run))"

definition advanced :: "'w updateRunClient \<Rightarrow> ('w \<Rightarrow> UpdateRun option) \<Rightarrow> UpdateRun \<Rightarrow> 'w \<Rightarrow> bool" where
  "advanced c R run0 w \<longleftrightarrow>
     (\<exists>run. R w = Some run \<and> planSteps (planOf c run0) (planOf c run) \<and> guarded c run)"

lemma movedOn_advanced:
  assumes "movedOn c R run w" "UpdateRunFinalizer \<in> set (Finalizers run)" "planOf c run0 = planOf c run"
  shows "advanced c R run0 w"
  using assms by (auto simp: movedOn_def advanced_def guarded_def sameMeta_def)

lemma unchanged_advanced: "R w = Some run \<Longrightarrow> planOf c run0 = planOf c run \<Longrightarrow> guarded c run \<Longrightarrow> advanced c R run0 w"
  by (auto simp: advanced_def)

lemma ensureFinalizer_cases:
  assumes "storesRun c req R" "R w = Some stored" "live stored" "Finalizers run = Finalizers stored" "live run"
    and "ensureFinalizer c (w, run) = (r, (w', run'))"
  obtains "r = Inr ()" "w' = w" "run' = run" "UpdateRunFinalizer \<in> set (Finalizers stored)"
  | stored' where "UpdateRunFinalizer \<notin> set (Finalizers stored)" "R w' = Some stored'" "RunStatus stored' = RunStatus stored"
      "r = Inr () \<Longrightarrow> UpdateRunFinalizer \<in> set (Finalizers stored') \<and> run' = stored'"
proof (cases "UpdateRunFinalizer \<in> set (Finalizers stored)")
  case True
  with that(1) assms show thesis by (simp add: ensureFinalizer_def)
next
  case False
  let ?run = "AddFinalizer UpdateRunFinalizer run"
  have add: "UpdateRunFinalizer \<in> set (Finalizers ?run)" "live ?run" using assms(5) by (simp_all add: AddFinalizer_def)
  obtain q w1 where p: "putUpdateRun c ?run w = (q, w1)" by (metis surj_pair)
  have q: "w' = w1" "r = Inr () \<Longrightarrow> q = Inr run'" using assms(4,6) False p
    by (auto simp: ensureFinalizer_def Let_def split: sum.splits)
  from storesRun_put[OF assms(1) p] add(2) consider e where "q = Inl e" "R w1 = R w"
    | stored' where "R w1 = Some stored'" "RunStatus stored' = RunStatus stored" "Finalizers stored' = Finalizers ?run"
        "\<forall>x. q = Inr x \<longrightarrow> x = stored'"
    using assms(2) by auto
  then show thesis
  proof cases
    case 1 with that(2)[OF False] q assms(2) show thesis by auto
  next
    case 2
    then have "UpdateRunFinalizer \<in> set (Finalizers stored') \<and> run' = stored'" if "r = Inr ()" using q(2)[OF that] add(1) by simp
    with 2 that(2)[OF False] q(1) show thesis by blast
  qed
qed

lemma uninitialized_advanced:
  assumes "storesRun c req R" "R w = Some stored" "planOf c stored = None" "planOf c run0 = None"
    and "UpdateRunFinalizer \<in> set (Finalizers stored)"
  shows "advanced c R run0 (fst (snd (initializeAndDispatch c (w, run))))"
  using movedOn_advanced[OF initializeAndDispatch_moves[OF assms(1-3)] assms(5)] assms(3,4) by simp

lemma reconcileLive_cases:
  assumes "ensureFinalizer c s = (Inr (), (w, run))" "reconcileLive c s = (r, (w', run'))"
  obtains "w' = w"
  | "\<not> IsConditionStatusTrue (RunConditions (RunStatus run) InitializedType) (Generation run)"
    "w' = fst (snd (initializeAndDispatch c (w, run)))"
  | "IsConditionStatusTrue (RunConditions (RunStatus run) InitializedType) (Generation run)"
    "w' = fst (snd (validateAndDispatch c (w, run)))"
  using assms by (simp add: reconcileLive_def bindP_def readP_def returnP_def Let_def split: if_split_asm)

lemma reconcileLive_advanced:
  assumes "storesRun c req R" "R w = Some stored" "guarded c stored" "live stored"
    and "reconcileLive c (w, refreshRun stored) = (r, (w', run'))"
  shows "advanced c R stored w'"
proof -
  obtain q w1 run1 where f: "ensureFinalizer c (w, refreshRun stored) = (q, (w1, run1))" by (metis surj_pair)
  have "live (refreshRun stored)" using assms(4) by (simp add: refreshRun_parts)
  from assms(1,2,4) refreshRun_parts(4) this f show ?thesis
  proof (cases rule: ensureFinalizer_cases)
    case 1
    note keep = unchanged_advanced[of R w stored c stored, OF assms(2) refl assms(3)]
    show ?thesis
    proof (cases "planOf c stored = None")
      case True
      then have "\<not> IsConditionStatusTrue (RunConditions (RunStatus (refreshRun stored)) InitializedType) (Generation (refreshRun stored))"
        using planned_initialized(2)[of c stored] by blast
      with uninitialized_advanced[OF assms(1,2) True True 1(4), of "refreshRun stored"] keep 1 show ?thesis
        by (cases rule: reconcileLive_cases[OF f[unfolded 1(1)] assms(5)]) simp_all
    next
      case False
      have "traced c R stored (w, refreshRun stored)"
        using assms(2) by (simp add: traced_def movedOn_def sameMeta_def refreshRun_plan)
      from traced_validate[OF assms(1) this refreshRun_upToDate] False
      have "movedOn c R stored (fst (snd (validateAndDispatch c (w, refreshRun stored))))"
        by (simp add: refreshRun_plan traced_def)
      from movedOn_advanced[OF this 1(4) refl] keep False planned_initialized(2)[of c stored] 1(2,3) show ?thesis
        by (cases rule: reconcileLive_cases[OF f[unfolded 1(1)] assms(5)]) simp_all
    qed
  next
    case (2 stored')
    from assms(3,4) 2(1) have n: "planOf c stored = None" unfolding guarded_def by blast
    with 2(3) have n': "planOf c stored' = None" by (metis planOf_status)
    have keep: "advanced c R stored w1"
      using unchanged_advanced[of R w1 stored' c stored] 2(2) n n' by (simp add: guarded_def)
    show ?thesis
    proof (cases q)
      case (Inl e) with keep assms(5) f show ?thesis by (simp add: reconcileLive_def bindP_def)
    next
      case (Inr u)
      with 2(4) have fin: "UpdateRunFinalizer \<in> set (Finalizers stored')" and "run1 = stored'" by auto
      have "ensureFinalizer c (w, refreshRun stored) = (Inr (), (w1, run1))" using f Inr by simp
      from this assms(5) show ?thesis
        using uninitialized_advanced[OF assms(1) 2(2) n' n fin, of stored'] keep planned_initialized(1)[OF n'] \<open>run1 = stored'\<close>
        by (cases rule: reconcileLive_cases) simp_all
    qed
  qed
qed

lemma handleDelete_advanced:
  assumes "storesRun c req R" "R w = Some stored" "\<not> live stored"
    and "handleDelete c (refreshRun stored) w = (r, w')"
  shows "R w' = None \<or> advanced c R stored w'"
proof -
  obtain q w1 where d: "deleteApprovals c (Namespace (refreshRun stored)) (Name (refreshRun stored)) w = (q, w1)" by (metis surj_pair)
  let ?run = "RemoveFinalizer UpdateRunFinalizer (refreshRun stored)"
  obtain q2 w2 where p: "putUpdateRun c ?run w1 = (q2, w2)" by (metis surj_pair)
  from storesRun_leaves[OF assms(1)] d assms(2) have R1: "R w1 = Some stored"
    using leavesRun_laws(7)[of c R] unfolding keeps_def by (metis snd_conv)
  from assms(4) d p have "w' = w1 \<or> w' = w2"
    by (cases q; cases q2) (simp_all add: handleDelete_def bindP_def wrapP_def returnP_def)
  moreover have "R w2 = None \<or> advanced c R stored w2"
  proof -
    from storesRun_put[OF assms(1) p] R1 consider "R w2 = None" | "R w2 = Some stored"
      | run where "R w2 = Some run" "RunStatus run = RunStatus stored" "DeletionTimestamp run = DeletionTimestamp stored"
      by auto
    then show ?thesis
    proof cases
      case 3
      with planOf_status[of run stored c] assms(3) show ?thesis by (auto simp: advanced_def guarded_def)
    qed (use assms(3) in \<open>auto simp: advanced_def guarded_def\<close>)
  qed
  moreover have "advanced c R stored w1" using R1 assms(3) by (auto simp: advanced_def guarded_def)
  ultimately show ?thesis by auto
qed

lemma Reconcile_advanced:
  assumes "storesRun c req R" "R w = Some run" "guarded c run"
  shows "\<not> live run \<and> R (snd (ReconcileUpdateRun c req w)) = None \<or> advanced c R run (snd (ReconcileUpdateRun c req w))"
proof -
  obtain q w1 where g: "getUpdateRun c (nn_Namespace req) (nn_Name req) w = (q, w1)" by (metis surj_pair)
  from storesRun_get[OF assms(1) g] assms(2) have R1: "R w1 = Some run" and q: "\<And>x. q = Inr x \<Longrightarrow> x = run" by auto
  show ?thesis
  proof (cases q)
    case (Inl e)
    with g R1 assms(3) show ?thesis by (auto simp: ReconcileUpdateRun_def intro: unchanged_advanced[of R w1 run c run])
  next
    case (Inr x)
    with q have x: "x = run" by simp
    show ?thesis
    proof (cases "live run")
      case True
      obtain r w2 run2 where l: "reconcileLive c (w1, refreshRun run) = (r, (w2, run2))" by (metis surj_pair)
      from reconcileLive_advanced[OF assms(1) R1 assms(3) True l] g Inr x l True show ?thesis
        by (simp add: ReconcileUpdateRun_def Let_def refreshRun_def[symmetric] refreshRun_parts)
    next
      case False
      obtain r w2 where d: "handleDelete c (refreshRun run) w1 = (r, w2)" by (metis surj_pair)
      then have "snd (bindP (handleDelete c (refreshRun run)) (\<lambda>_. returnP noRequeue) w1) = w2"
        by (cases r) (simp_all add: bindP_def returnP_def)
      with handleDelete_advanced[OF assms(1) R1 False d] g Inr x False show ?thesis
        by (simp add: ReconcileUpdateRun_def Let_def refreshRun_def[symmetric] refreshRun_parts)
    qed
  qed
qed

section \<open>Histories\<close>

text \<open>
  The worlds in which a run may be: after it has been created, after reconciliations of the
  controller, and after changes by others, who may change everything but the status, may not
  remove the finalizer of the controller from a live run, and cannot undo a deletion.
\<close>

inductive history :: "'w updateRunClient \<Rightarrow> NamespacedName \<Rightarrow> ('w \<Rightarrow> UpdateRun option) \<Rightarrow> 'w \<Rightarrow> bool" for c req R where
  created: "R w = Some run \<Longrightarrow> planOf c run = None \<Longrightarrow> history c req R w"
| reconciled: "history c req R w \<Longrightarrow> history c req R (snd (ReconcileUpdateRun c req w))"
| changed: "history c req R w \<Longrightarrow> R w = Some run \<Longrightarrow> R w' = Some run' \<Longrightarrow> RunStatus run' = RunStatus run \<Longrightarrow>
    (live run' \<Longrightarrow> live run) \<Longrightarrow>
    (live run' \<Longrightarrow> UpdateRunFinalizer \<in> set (Finalizers run) \<Longrightarrow> UpdateRunFinalizer \<in> set (Finalizers run')) \<Longrightarrow>
    history c req R w'"
| deleted: "history c req R w \<Longrightarrow> R w' = None \<Longrightarrow> history c req R w'"

lemma getNone:
  assumes "storesRun c req R" "R w = None" shows "R (snd (ReconcileUpdateRun c req w)) = None"
proof -
  obtain q w1 where g: "getUpdateRun c (nn_Namespace req) (nn_Name req) w = (q, w1)" by (metis surj_pair)
  from storesRun_get[OF assms(1) g] assms(2) g show ?thesis
    by (cases q) (auto simp: ReconcileUpdateRun_def)
qed

lemma history_orderly:
  assumes "storesRun c req R" "history c req R w" "R w = Some run"
  shows "guarded c run \<and> orderlyPlan (planOf c run)"
  using assms(2,3)
proof (induction arbitrary: run rule: history.induct)
  case (created w run0) then show ?case by (simp add: guarded_def)
next
  case (reconciled w)
  show ?case
  proof (cases "R w")
    case None with getNone[OF assms(1)] reconciled.prems show ?thesis by simp
  next
    case (Some run0)
    from reconciled.IH[OF this] have g: "guarded c run0" "orderlyPlan (planOf c run0)" by simp_all
    from Reconcile_advanced[OF assms(1) Some g(1)] reconciled.prems
    have "advanced c R run0 (snd (ReconcileUpdateRun c req w))" by auto
    with reconciled.prems have "planSteps (planOf c run0) (planOf c run)" "guarded c run" by (auto simp: advanced_def)
    with orderlyPlan_steps g(2) show ?thesis by blast
  qed
next
  case (changed w run0 w' run1)
  from changed.IH[OF changed.hyps(2)] have g: "guarded c run0" "orderlyPlan (planOf c run0)" by simp_all
  from changed.hyps(3) changed.prems have "run1 = run" by simp
  moreover have p: "planOf c run1 = planOf c run0" by (rule planOf_status[OF changed.hyps(4)])
  moreover have "guarded c run1" using g(1) p changed.hyps(5,6) unfolding guarded_def by auto
  ultimately show ?case using g(2) by simp
qed simp

end
