(* ===== verification/Rollout.thy ===== *)
theory Rollout
  imports Overrider Binding_Status Framework
begin

text \<open>
  The rollout controller (\<open>pkg/controllers/rollout/controller.go\<close>): it binds scheduled
  bindings, moves bound ones to the latest resource snapshot and deletes unscheduled ones,
  within the limits of the rolling update strategy. The calls it makes are fields of the
  record \<open>rollout\<close>; an update returns the stored object, whose new generation the status
  update uses. \<open>intstr.GetScaledValueFromIntOrPercent\<close> (rounding up, its error dropped by the
  code) is the field \<open>scaledValue\<close>, and the order in which Go iterates over a map is the field
  \<open>rangeOrder\<close>. Durations do not overflow. An event handler adds at most one request to the
  work queue and is a function to that request.
\<close>

section \<open>Calls\<close>

record 'w rollout =
  reader :: "'w hub"
  overrides :: "'w overrideClient"
  getPlacement :: "string \<Rightarrow> string \<Rightarrow> ('w, Placement) prog"
  clientUpdate :: "Binding \<Rightarrow> ('w, Binding) prog"
  clientStatusUpdate :: "Binding \<Rightarrow> ('w, unit) prog"
  clientPatch :: "Binding \<Rightarrow> Binding \<Rightarrow> ('w, unit) prog"
  clientDelete :: "Binding \<Rightarrow> ('w, unit) prog"
  resources :: manifests
  selectors :: lib
  now :: int
  scaledValue :: "IntOrString option \<Rightarrow> int \<Rightarrow> int"
  rangeOrder :: "(string \<times> Binding) list \<Rightarrow> (string \<times> Binding) list"

record toBeUpdatedBinding =
  currentBinding :: Binding
  desiredBinding :: "Binding option"

text \<open>A loop over a slice whose body calls the API server and may return early with an error.\<close>

fun foldP :: "('a \<Rightarrow> 's \<Rightarrow> ('w, 's) prog) \<Rightarrow> 'a list \<Rightarrow> 's \<Rightarrow> ('w, 's) prog" where
  "foldP f [] s = returnP s"
| "foldP f (x # xs) s = bindP (f x s) (foldP f xs)"

section \<open>Readiness\<close>

definition WorkNotAvailabilityTrackableReason :: string where
  "WorkNotAvailabilityTrackableReason = ''NotAllWorkAreAvailabilityTrackable''"

definition WorkNotAllManifestsTrackableReason :: string where
  "WorkNotAllManifestsTrackableReason = ''WorkNotTrackable''"

definition isBindingReady :: "Binding \<Rightarrow> int \<Rightarrow> int \<times> bool" where
  "isBindingReady b readyTimeCutOff =
     (if IsConditionStatusTrue (GetCondition b ResourceBindingDiffReported) (Generation b) then (0, True)
      else case GetCondition b ResourceBindingAvailable of
             None \<Rightarrow> (- 1, False)
           | Some c \<Rightarrow>
               if IsConditionStatusTrue (Some c) (Generation b) then
                 (if cond_Reason c \<noteq> WorkNotAvailabilityTrackableReason \<and>
                     cond_Reason c \<noteq> WorkNotAllManifestsTrackableReason then (0, True)
                  else let waitTime = cond_LastTransitionTime c - readyTimeCutOff
                       in if waitTime < 0 then (0, True) else (waitTime, False))
               else (- 1, False))"

section \<open>Picking the bindings to roll\<close>

definition createUpdateInfo ::
  "Binding \<Rightarrow> ResourceSnapshot \<Rightarrow> string list \<Rightarrow> NamespacedName list \<Rightarrow> toBeUpdatedBinding" where
  "createUpdateInfo b masterResourceSnapshot cro ro =
     \<lparr>currentBinding = b,
      desiredBinding = Some (b\<lparr>Spec := (Spec b)\<lparr>State := BindingStateBound,
        ResourceSnapshotName := Name masterResourceSnapshot,
        ClusterResourceOverrideSnapshots := cro, ResourceOverrideSnapshots := ro\<rparr>\<rparr>)\<rparr>"

text \<open>The slices and variables the classification loop fills.\<close>

record rollSets =
  schedulerTargetedBinds :: "Binding list"
  readyBindings :: "Binding list"
  canBeReadyBindings :: "Binding list"
  canBeUnavailableBindings :: "Binding list"
  boundingCandidates :: "toBeUpdatedBinding list"
  removeCandidates :: "toBeUpdatedBinding list"
  updateCandidates :: "toBeUpdatedBinding list"
  applyFailedUpdateCandidates :: "toBeUpdatedBinding list"
  upToDateBoundBindings :: "toBeUpdatedBinding list"
  minWaitTime :: int
  allReady :: bool

definition emptyRollSets :: "int \<Rightarrow> rollSets" where
  "emptyRollSets unavailablePeriod =
     \<lparr>schedulerTargetedBinds = [], readyBindings = [], canBeReadyBindings = [],
      canBeUnavailableBindings = [], boundingCandidates = [], removeCandidates = [],
      updateCandidates = [], applyFailedUpdateCandidates = [], upToDateBoundBindings = [],
      minWaitTime = unavailablePeriod, allReady = True\<rparr>"

text \<open>The steps that the cases for unscheduled and bound bindings share.\<close>

definition noteCanBeReady :: "Binding \<Rightarrow> rollSets \<Rightarrow> rollSets" where
  "noteCanBeReady b s =
     (if HasBindingFailed b then s
      else if \<not> IsBindingDiffReported b then s\<lparr>canBeReadyBindings := canBeReadyBindings s @ [b]\<rparr>
      else s)"

definition noteReady :: "Binding \<Rightarrow> int \<Rightarrow> rollSets \<Rightarrow> rollSets" where
  "noteReady b cutoff s =
     (case isBindingReady b cutoff of (waitTime, bindingReady) \<Rightarrow>
        if bindingReady then s\<lparr>readyBindings := readyBindings s @ [b]\<rparr>
        else s\<lparr>allReady := False,
               minWaitTime := (if waitTime \<ge> 0 \<and> waitTime < minWaitTime s then waitTime else minWaitTime s)\<rparr>)"

definition noteUnavailable :: "Binding \<Rightarrow> int \<Rightarrow> rollSets \<Rightarrow> rollSets" where
  "noteUnavailable b cutoff s =
     (if snd (isBindingReady b cutoff)
      then s\<lparr>canBeUnavailableBindings := canBeUnavailableBindings s @ [b]\<rparr> else s)"

definition rollUnscheduled :: "Binding \<Rightarrow> int \<Rightarrow> rollSets \<Rightarrow> rollSets" where
  "rollUnscheduled b cutoff s =
     (let s' = noteReady b cutoff (noteCanBeReady b s)
      in if live b
         then s'\<lparr>removeCandidates := removeCandidates s' @ [\<lparr>currentBinding = b, desiredBinding = None\<rparr>]\<rparr>
         else noteUnavailable b cutoff s')"

definition rollScheduled ::
  "'w rollout \<Rightarrow> ResourceSnapshot \<Rightarrow> OverrideSnapshot list \<Rightarrow> OverrideSnapshot list \<Rightarrow> Binding \<Rightarrow>
   rollSets \<Rightarrow> ('w, rollSets) prog" where
  "rollScheduled r master matchedCROs matchedROs b s =
     (let s' = s\<lparr>schedulerTargetedBinds := schedulerTargetedBinds s @ [b]\<rparr>
      in bindP (PickFromResourceMatchedOverridesForTargetCluster (overrides r) (selectors r)
                  (target b) matchedCROs matchedROs) (\<lambda>(cro, ro).
         returnP (s'\<lparr>boundingCandidates := boundingCandidates s' @ [createUpdateInfo b master cro ro]\<rparr>)))"

definition needsUpdate :: "Binding \<Rightarrow> ResourceSnapshot \<Rightarrow> string list \<Rightarrow> NamespacedName list \<Rightarrow> bool" where
  "needsUpdate b master cro ro =
     (ResourceSnapshotName (Spec b) \<noteq> Name master \<or> ClusterResourceOverrideSnapshots (Spec b) \<noteq> cro \<or>
      ResourceOverrideSnapshots (Spec b) \<noteq> ro)"

definition rollBound ::
  "'w rollout \<Rightarrow> ResourceSnapshot \<Rightarrow> OverrideSnapshot list \<Rightarrow> OverrideSnapshot list \<Rightarrow> int \<Rightarrow> Binding \<Rightarrow>
   rollSets \<Rightarrow> ('w, rollSets) prog" where
  "rollBound r master matchedCROs matchedROs cutoff b s =
     (let s' = noteCanBeReady b (noteReady b cutoff
                 (s\<lparr>schedulerTargetedBinds := schedulerTargetedBinds s @ [b]\<rparr>))
      in if live b then
           bindP (PickFromResourceMatchedOverridesForTargetCluster (overrides r) (selectors r)
                    (target b) matchedCROs matchedROs) (\<lambda>(cro, ro).
           let updateInfo = createUpdateInfo b master cro ro in
           returnP
             (if needsUpdate b master cro ro then
                (if HasBindingFailed b
                 then s'\<lparr>applyFailedUpdateCandidates := applyFailedUpdateCandidates s' @ [updateInfo]\<rparr>
                 else s'\<lparr>updateCandidates := updateCandidates s' @ [updateInfo]\<rparr>)
              else s'\<lparr>upToDateBoundBindings :=
                       upToDateBoundBindings s' @ [\<lparr>currentBinding = b, desiredBinding = None\<rparr>]\<rparr>))
         else returnP (noteUnavailable b cutoff s'))"

definition rollStep ::
  "'w rollout \<Rightarrow> ResourceSnapshot \<Rightarrow> OverrideSnapshot list \<Rightarrow> OverrideSnapshot list \<Rightarrow> int \<Rightarrow> Binding \<Rightarrow>
   rollSets \<Rightarrow> ('w, rollSets) prog" where
  "rollStep r master matchedCROs matchedROs cutoff b s =
     (case State (Spec b) of
        BindingStateUnscheduled \<Rightarrow> returnP (rollUnscheduled b cutoff s)
      | BindingStateScheduled \<Rightarrow> rollScheduled r master matchedCROs matchedROs b s
      | BindingStateBound \<Rightarrow> rollBound r master matchedCROs matchedROs cutoff b s
      | BindingStateOther _ \<Rightarrow> returnP s)"

definition calculateRealTarget :: "Placement \<Rightarrow> Binding list \<Rightarrow> int result" where
  "calculateRealTarget p targeted =
     (case PlacementPolicyOf p of
        None \<Rightarrow> Inl Panic
      | Some policy \<Rightarrow>
          (case Type policy of
             PickAllPlacementType \<Rightarrow> Inr (int (length targeted))
           | PickFixedPlacementType \<Rightarrow> Inr (int (length (ClusterNames policy)))
           | PickNPlacementType \<Rightarrow>
               (case NumberOfClusters policy of None \<Rightarrow> Inl Panic | Some n \<Rightarrow> Inr n)
           | OtherPlacementType _ \<Rightarrow> Inr 0))"

definition calculateMaxToRemove ::
  "'w rollout \<Rightarrow> RollingUpdateConfig \<Rightarrow> int \<Rightarrow> Binding list \<Rightarrow> Binding list \<Rightarrow> int" where
  "calculateMaxToRemove r cfg targetNumber ready canBeUnavailable =
     (let maxUnavailableNumber = scaledValue r (MaxUnavailable cfg) targetNumber;
          minAvailableNumber = targetNumber - maxUnavailableNumber;
          lowerBoundAvailableNumber = int (length ready) - int (length canBeUnavailable)
      in lowerBoundAvailableNumber - minAvailableNumber)"

definition calculateMaxToAdd :: "'w rollout \<Rightarrow> RollingUpdateConfig \<Rightarrow> int \<Rightarrow> Binding list \<Rightarrow> int" where
  "calculateMaxToAdd r cfg targetNumber canBeReady =
     (let maxSurgeNumber = scaledValue r (MaxSurge cfg) targetNumber;
          maxReadyNumber = targetNumber + maxSurgeNumber
      in maxReadyNumber - int (length canBeReady))"

text \<open>
  The removal and update loops share their counter: what the removals leave of the limit goes
  to the updates. The candidates from the unselected index on are the stale ones.
\<close>

definition determineBindingsToUpdate ::
  "'w rollout \<Rightarrow> RollingUpdateConfig \<Rightarrow> int \<Rightarrow> rollSets \<Rightarrow> toBeUpdatedBinding list \<times> toBeUpdatedBinding list" where
  "determineBindingsToUpdate r cfg targetNumber s =
     (let maxNumberToRemove =
            nat (calculateMaxToRemove r cfg targetNumber (readyBindings s) (canBeUnavailableBindings s));
          removed = take maxNumberToRemove (removeCandidates s);
          updateCandidateUnselectedIndex =
            min (maxNumberToRemove - length removed) (length (updateCandidates s));
          maxNumberToAdd = nat (calculateMaxToAdd r cfg targetNumber (canBeReadyBindings s));
          boundingCandidatesUnselectedIndex = min maxNumberToAdd (length (boundingCandidates s))
      in (applyFailedUpdateCandidates s @ removed
            @ take updateCandidateUnselectedIndex (updateCandidates s)
            @ take boundingCandidatesUnselectedIndex (boundingCandidates s),
          drop updateCandidateUnselectedIndex (updateCandidates s)
            @ drop boundingCandidatesUnselectedIndex (boundingCandidates s)))"

record rollPlan =
  toBeUpdated :: "toBeUpdatedBinding list"
  stale :: "toBeUpdatedBinding list"
  upToDate :: "toBeUpdatedBinding list"
  needRoll :: bool
  waitTime :: int

definition secondNs :: int where
  "secondNs = 1000000000"

definition noCandidates :: "rollSets \<Rightarrow> bool" where
  "noCandidates s \<longleftrightarrow>
     length (removeCandidates s) + length (updateCandidates s) + length (boundingCandidates s)
       + length (applyFailedUpdateCandidates s) = 0"

definition pickBindingsToRoll ::
  "'w rollout \<Rightarrow> Binding list \<Rightarrow> ResourceSnapshot \<Rightarrow> Placement \<Rightarrow> OverrideSnapshot list \<Rightarrow>
   OverrideSnapshot list \<Rightarrow> ('w, rollPlan) prog" where
  "pickBindingsToRoll r allBindings master p matchedCROs matchedROs =
     (case RollingUpdate (Strategy p) of
        None \<Rightarrow> failP Panic
      | Some cfg \<Rightarrow>
     case UnavailablePeriodSeconds cfg of
        None \<Rightarrow> failP Panic
      | Some seconds \<Rightarrow>
     bindP (foldP (rollStep r master matchedCROs matchedROs (now r - seconds * secondNs)) allBindings
              (emptyRollSets (seconds * secondNs))) (\<lambda>s.
     let minWait = if allReady s then 0 else minWaitTime s in
     bindP (liftP (calculateRealTarget p (schedulerTargetedBinds s))) (\<lambda>targetNumber.
     if noCandidates s
     then returnP \<lparr>toBeUpdated = [], stale = [], upToDate = upToDateBoundBindings s, needRoll = False,
                   waitTime = minWait\<rparr>
     else let (toUpdate, staleUnselected) = determineBindingsToUpdate r cfg targetNumber s
          in returnP \<lparr>toBeUpdated = toUpdate, stale = staleUnselected, upToDate = upToDateBoundBindings s,
                      needRoll = True, waitTime = minWait\<rparr>)))"

section \<open>Waiting for deletions\<close>

fun separateDeleting ::
  "Binding list \<Rightarrow> string set \<Rightarrow> (string \<times> Binding) list \<Rightarrow> (string set \<times> (string \<times> Binding) list) result" where
  "separateDeleting [] deletingBinding bindingMap = Inr (deletingBinding, bindingMap)"
| "separateDeleting (b # bs) deletingBinding bindingMap =
     (if \<not> live b then separateDeleting bs (insert (target b) deletingBinding) bindingMap
      else case map_of bindingMap (target b) of
             None \<Rightarrow> separateDeleting bs deletingBinding (bindingMap @ [(target b, b)])
           | Some _ \<Rightarrow> Inl ErrUnexpectedBehavior)"

fun checkDeleting :: "string set \<Rightarrow> (string \<times> Binding) list \<Rightarrow> bool result" where
  "checkDeleting deletingBinding [] = Inr False"
| "checkDeleting deletingBinding ((cluster, b) # rest) =
     (if cluster \<in> deletingBinding then
        (if State (Spec b) = BindingStateBound then Inl ErrUnexpectedBehavior
         else if State (Spec b) = BindingStateUnscheduled then
           (if getString (Annotations b) PreviousBindingStateAnnotation = string_of_BindingState BindingStateBound
            then Inl ErrUnexpectedBehavior else Inr True)
         else Inr True)
      else checkDeleting deletingBinding rest)"

definition waitForResourcesToCleanUp :: "'w rollout \<Rightarrow> Binding list \<Rightarrow> bool result" where
  "waitForResourcesToCleanUp r allBindings =
     bindR (separateDeleting allBindings {} []) (\<lambda>(deletingBinding, bindingMap).
       checkDeleting deletingBinding (rangeOrder r bindingMap))"

section \<open>Writing bindings\<close>

definition RolloutNotStartedYetReason :: string where
  "RolloutNotStartedYetReason = ''RolloutNotStartedYet''"

definition RolloutStartedReason :: string where
  "RolloutStartedReason = ''RolloutStarted''"

definition rolloutStartedCondition :: "Binding \<Rightarrow> bool \<Rightarrow> Condition" where
  "rolloutStartedCondition b rolloutStarted =
     (if rolloutStarted
      then \<lparr>cond_Type = ResourceBindingRolloutStarted, cond_Status = ConditionTrue,
            cond_ObservedGeneration = Generation b, cond_LastTransitionTime = 0,
            cond_Reason = RolloutStartedReason,
            cond_Message = ''Detected the new changes on the resources and started the rollout process''\<rparr>
      else \<lparr>cond_Type = ResourceBindingRolloutStarted, cond_Status = ConditionFalse,
            cond_ObservedGeneration = Generation b, cond_LastTransitionTime = 0,
            cond_Reason = RolloutNotStartedYetReason,
            cond_Message = ''The resources cannot be updated to the latest because of the rollout strategy''\<rparr>)"

definition updateBindingStatus :: "'w rollout \<Rightarrow> Binding \<Rightarrow> bool \<Rightarrow> ('w, unit) prog" where
  "updateBindingStatus r b rolloutStarted =
     wrapP updateIgnoreConflictError
       (clientStatusUpdate r
          (b\<lparr>BindingConditions :=
               SetStatusCondition (reader r) (BindingConditions b) (rolloutStartedCondition b rolloutStarted)\<rparr>))"

definition isTargeted :: "Binding \<Rightarrow> bool" where
  "isTargeted b \<longleftrightarrow> State (Spec b) = BindingStateScheduled \<or> State (Spec b) = BindingStateBound"

definition checkAndUpdateStaleBindingsStatus :: "'w rollout \<Rightarrow> Binding list \<Rightarrow> ('w, unit) prog" where
  "checkAndUpdateStaleBindingsStatus r bindings =
     errgroup (\<lambda>b. updateBindingStatus r b True)
       (filter (\<lambda>b. isTargeted b \<and>
          \<not> IsConditionStatusTrue (GetCondition b ResourceBindingRolloutStarted) (Generation b)) bindings)"

definition updateStaleBindingsStatus :: "'w rollout \<Rightarrow> toBeUpdatedBinding list \<Rightarrow> ('w, unit) prog" where
  "updateStaleBindingsStatus r staleBindings =
     errgroup (\<lambda>u. updateBindingStatus r (currentBinding u) False)
       (filter (\<lambda>u. isTargeted (currentBinding u)) staleBindings)"

definition refreshUpToDateBindingStatus :: "'w rollout \<Rightarrow> toBeUpdatedBinding list \<Rightarrow> ('w, unit) prog" where
  "refreshUpToDateBindingStatus r upToDateBindings =
     errgroup (\<lambda>u. updateBindingStatus r (currentBinding u) True) upToDateBindings"

definition rollOne :: "'w rollout \<Rightarrow> toBeUpdatedBinding \<Rightarrow> ('w, unit) prog" where
  "rollOne r u =
     (case State (Spec (currentBinding u)) of
        BindingStateUnscheduled \<Rightarrow>
          (\<lambda>w. case clientDelete r (currentBinding u) w of
                 (Inl e, w') \<Rightarrow> if e \<noteq> ErrAPI NotFound then (Inl (apiServerError False e), w') else (Inr (), w')
               | (Inr u, w') \<Rightarrow> (Inr (), w'))
      | BindingStateOther _ \<Rightarrow> returnP ()
      | _ \<Rightarrow>
          (case desiredBinding u of
             None \<Rightarrow> failP Panic
           | Some d \<Rightarrow>
               bindP (wrapP updateIgnoreConflictError (clientUpdate r d)) (\<lambda>d'.
                 updateBindingStatus r d' True)))"

definition updateRolledBindings :: "'w rollout \<Rightarrow> toBeUpdatedBinding list \<Rightarrow> ('w, unit) prog" where
  "updateRolledBindings r bindings = errgroup (rollOne r) bindings"

definition processApplyStrategyUpdates :: "'w rollout \<Rightarrow> Placement \<Rightarrow> Binding list \<Rightarrow> ('w, bool) prog" where
  "processApplyStrategyUpdates r p allBindings =
     (let applyStrategy = (case StrategyApplyStrategy (Strategy p) of
                             None \<Rightarrow> SetDefaultsApplyStrategy zeroApplyStrategy | Some a \<Rightarrow> a);
          outdated = filter (\<lambda>b. live b \<and> BindingApplyStrategy (Spec b) \<noteq> Some applyStrategy) allBindings
      in bindP (errgroup (\<lambda>b. wrapP (apiServerError False)
                  (clientPatch r (b\<lparr>Spec := (Spec b)\<lparr>BindingApplyStrategy := Some applyStrategy\<rparr>\<rparr>) b)) outdated)
           (\<lambda>_. returnP (outdated \<noteq> [])))"

section \<open>Reconciliation\<close>

definition rollBindings :: "'w rollout \<Rightarrow> NamespacedName \<Rightarrow> Placement \<Rightarrow> Binding list \<Rightarrow> ('w, Result) prog" where
  "rollBindings r req p allBindings =
     bindP (FetchLatestMasterResourceSnapshot (overrides r) (nn_Namespace req) (nn_Name req)) (\<lambda>m.
       case m of
         None \<Rightarrow> returnP noRequeue
       | Some master \<Rightarrow>
     bindP (FetchAllMatchingOverridesForResourceSnapshot (overrides r) (resources r)
              (GetObjectKeyFromRequest req) master) (\<lambda>(matchedCRO, matchedRO).
     bindP (pickBindingsToRoll r allBindings master p matchedCRO matchedRO) (\<lambda>plan.
     if \<not> needRoll plan then
       bindP (checkAndUpdateStaleBindingsStatus r allBindings) (\<lambda>_. returnP noRequeue)
     else
       bindP (updateStaleBindingsStatus r (stale plan)) (\<lambda>_.
       bindP (refreshUpToDateBindingStatus r (upToDate plan)) (\<lambda>_.
       bindP (updateRolledBindings r (toBeUpdated plan)) (\<lambda>_.
       returnP \<lparr>Requeue = True, RequeueAfter = waitTime plan\<rparr>))))))"

definition Reconcile :: "'w rollout \<Rightarrow> NamespacedName \<Rightarrow> ('w, Result) prog" where
  "Reconcile r req =
     (\<lambda>w. case FetchPlacementFromKey (getPlacement r) (GetObjectKeyFromRequest req) w of
        (Inl e, w') \<Rightarrow> if e = ErrAPI NotFound then (Inr noRequeue, w') else (Inl (apiServerError True e), w')
      | (Inr placementObj, w') \<Rightarrow>
          (if \<not> live placementObj then returnP noRequeue
           else
             let p = SetPlacementDefaults placementObj in
             if StrategyType (Strategy p) \<noteq> RollingUpdateRolloutStrategyType then returnP noRequeue
             else
               bindP (ListBindingsFromKey (reader r) (nn_Namespace req) (nn_Name req) False) (\<lambda>allBindings.
               bindP (processApplyStrategyUpdates r p allBindings) (\<lambda>applyStrategyUpdated.
               if applyStrategyUpdated then returnP \<lparr>Requeue = True, RequeueAfter = 0\<rparr>
               else
                 bindP (liftP (waitForResourcesToCleanUp r allBindings)) (\<lambda>wait.
                 if wait then returnP \<lparr>Requeue = False, RequeueAfter = 5 * secondNs\<rparr>
                 else rollBindings r req p allBindings)))) w')"

section \<open>Event handlers\<close>

type_synonym request = "NamespacedName option"

definition request :: "string \<Rightarrow> string \<Rightarrow> request" where
  "request namespace name = Some \<lparr>nn_Name = name, nn_Namespace = namespace\<rparr>"

definition isLatestSnapshot :: "'a ObjectMeta_scheme \<Rightarrow> bool" where
  "isLatestSnapshot o' =
     (case parseBool (getString (Labels o') IsLatestSnapshotLabel) of None \<Rightarrow> False | Some b \<Rightarrow> b)"

definition handleClusterResourceOverrideSnapshot :: "OverrideSnapshot \<Rightarrow> request" where
  "handleClusterResourceOverrideSnapshot snapshot =
     (if \<not> isLatestSnapshot snapshot then None
      else case OverridePlacement snapshot of None \<Rightarrow> None | Some p \<Rightarrow> request '''' (ref_Name p))"

definition handleResourceOverride :: "OverrideSnapshot \<Rightarrow> bool \<Rightarrow> request" where
  "handleResourceOverride ro enqueueCRP =
     (case OverridePlacement ro of
        None \<Rightarrow> None
      | Some p \<Rightarrow>
          if enqueueCRP then (if ref_Scope p = NamespaceScoped then None else request '''' (ref_Name p))
          else if ref_Scope p \<noteq> NamespaceScoped then None
          else request (Namespace ro) (ref_Name p))"

definition handleResourceOverrideSnapshot :: "OverrideSnapshot \<Rightarrow> bool \<Rightarrow> request" where
  "handleResourceOverrideSnapshot snapshot enqueueCRP =
     (if \<not> isLatestSnapshot snapshot then None
      else case OverridePlacement snapshot of
             None \<Rightarrow> None
           | Some p \<Rightarrow>
               if enqueueCRP then (if ref_Scope p = NamespaceScoped then None else request '''' (ref_Name p))
               else if ref_Scope p \<noteq> NamespaceScoped then None
               else request (Namespace snapshot) (ref_Name p))"

definition handleResourceSnapshot :: "ResourceSnapshot \<Rightarrow> request" where
  "handleResourceSnapshot snapshot =
     (if Annotations snapshot ResourceGroupHashAnnotation = None then None
      else if \<not> isLatestSnapshot snapshot then None
      else let placementName = getString (Labels snapshot) PlacementTrackingLabel
           in if length placementName = 0 then None else request (Namespace snapshot) placementName)"

definition enqueueBinding :: "Binding \<Rightarrow> request" where
  "enqueueBinding b =
     (let placementName = getString (Labels b) PlacementTrackingLabel
      in if length placementName = 0 then None else request (Namespace b) placementName)"

definition handleBindingUpdated :: "Binding \<Rightarrow> Binding \<Rightarrow> request" where
  "handleBindingUpdated objectOld objectNew =
     (if Generation objectOld \<noteq> Generation objectNew then enqueueBinding objectNew
      else if list_ex (\<lambda>t. \<not> EqualCondition (GetCondition objectOld t) (GetCondition objectNew t))
                [ResourceBindingDiffReported, ResourceBindingAvailable]
      then enqueueBinding objectNew
      else None)"

text \<open>The update handler of \<open>bindingHandlerFuncs\<close> passes the new object first.\<close>

definition bindingUpdateFunc :: "Binding \<Rightarrow> Binding \<Rightarrow> request" where
  "bindingUpdateFunc eventObjectOld eventObjectNew = handleBindingUpdated eventObjectNew eventObjectOld"

definition handlePlacement :: "Placement \<Rightarrow> Placement \<Rightarrow> request" where
  "handlePlacement newPlacement oldPlacement =
     (if \<not> live newPlacement then None
      else if StrategyType (Strategy newPlacement) \<noteq> StrategyType (Strategy oldPlacement)
      then request (Namespace newPlacement) (Name newPlacement)
      else if StrategyApplyStrategy (Strategy newPlacement) \<noteq> StrategyApplyStrategy (Strategy oldPlacement)
      then request (Namespace newPlacement) (Name newPlacement)
      else None)"

end
