(* ===== verification/Rollout_Props.thy ===== *)
theory Rollout_Props
  imports Rollout Example_Objects
begin

text \<open>
  Properties of the rollout controller: what the classification loop collects, that a round
  keeps the promised number of available bindings, that it stays within the surge limit, that
  every candidate is rolled or reported, that a healthy rollout always moves on and ends, and
  what the cleanup check guarantees.
\<close>

section \<open>The classification loop\<close>

definition running :: "Binding \<Rightarrow> bool" where
  "running b \<longleftrightarrow> State (Spec b) = BindingStateUnscheduled \<or> State (Spec b) = BindingStateBound"

definition readyAt :: "int \<Rightarrow> Binding \<Rightarrow> bool" where
  "readyAt cutoff b \<longleftrightarrow> running b \<and> snd (isBindingReady b cutoff)"

definition mayBeReady :: "Binding \<Rightarrow> bool" where
  "mayBeReady b \<longleftrightarrow> running b \<and> \<not> HasBindingFailed b \<and> \<not> IsBindingDiffReported b"

abbreviation stateIs :: "BindingState \<Rightarrow> Binding \<Rightarrow> bool" where
  "stateIs s b \<equiv> State (Spec b) = s"

text \<open>What processing the bindings \<open>bs\<close> adds to the slices of the loop.\<close>

definition rollExtends :: "int \<Rightarrow> Binding list \<Rightarrow> rollSets \<Rightarrow> rollSets \<Rightarrow> bool" where
  "rollExtends cutoff bs s s' \<longleftrightarrow>
     schedulerTargetedBinds s' = schedulerTargetedBinds s @ filter isTargeted bs \<and>
     readyBindings s' = readyBindings s @ filter (readyAt cutoff) bs \<and>
     canBeReadyBindings s' = canBeReadyBindings s @ filter mayBeReady bs \<and>
     canBeUnavailableBindings s' = canBeUnavailableBindings s @ filter (\<lambda>b. readyAt cutoff b \<and> \<not> live b) bs \<and>
     map currentBinding (boundingCandidates s') =
       map currentBinding (boundingCandidates s) @ filter (stateIs BindingStateScheduled) bs \<and>
     map currentBinding (removeCandidates s') =
       map currentBinding (removeCandidates s) @ filter (\<lambda>b. stateIs BindingStateUnscheduled b \<and> live b) bs \<and>
     (\<exists>up fail fresh.
        map currentBinding (updateCandidates s') = map currentBinding (updateCandidates s) @ up \<and>
        map currentBinding (applyFailedUpdateCandidates s') = map currentBinding (applyFailedUpdateCandidates s) @ fail \<and>
        map currentBinding (upToDateBoundBindings s') = map currentBinding (upToDateBoundBindings s) @ fresh \<and>
        list_all HasBindingFailed fail \<and> list_all (\<lambda>b. \<not> HasBindingFailed b) up \<and>
        mset up + mset fail + mset fresh = mset (filter (\<lambda>b. stateIs BindingStateBound b \<and> live b) bs))"

lemma rollExtends_refl: "rollExtends cutoff [] s s"
  by (simp add: rollExtends_def)

lemma rollExtends_trans:
  assumes "rollExtends cutoff xs s s'" and "rollExtends cutoff ys s' s''"
  shows "rollExtends cutoff (xs @ ys) s s''"
proof -
  obtain u f g where 1: "map currentBinding (updateCandidates s') = map currentBinding (updateCandidates s) @ u"
    "map currentBinding (applyFailedUpdateCandidates s') = map currentBinding (applyFailedUpdateCandidates s) @ f"
    "map currentBinding (upToDateBoundBindings s') = map currentBinding (upToDateBoundBindings s) @ g"
    "list_all HasBindingFailed f" "list_all (\<lambda>b. \<not> HasBindingFailed b) u"
    "mset u + mset f + mset g = mset (filter (\<lambda>b. stateIs BindingStateBound b \<and> live b) xs)"
    using assms(1) unfolding rollExtends_def by blast
  obtain u' f' g' where 2: "map currentBinding (updateCandidates s'') = map currentBinding (updateCandidates s') @ u'"
    "map currentBinding (applyFailedUpdateCandidates s'') = map currentBinding (applyFailedUpdateCandidates s') @ f'"
    "map currentBinding (upToDateBoundBindings s'') = map currentBinding (upToDateBoundBindings s') @ g'"
    "list_all HasBindingFailed f'" "list_all (\<lambda>b. \<not> HasBindingFailed b) u'"
    "mset u' + mset f' + mset g' = mset (filter (\<lambda>b. stateIs BindingStateBound b \<and> live b) ys)"
    using assms(2) unfolding rollExtends_def by blast
  have "mset (u @ u') + mset (f @ f') + mset (g @ g') =
      (mset u + mset f + mset g) + (mset u' + mset f' + mset g')"
    by (simp add: ac_simps)
  then have "mset (u @ u') + mset (f @ f') + mset (g @ g') =
      mset (filter (\<lambda>b. stateIs BindingStateBound b \<and> live b) (xs @ ys))"
    by (simp only: 1(6) 2(6) filter_append mset_append)
  moreover have "list_all HasBindingFailed (f @ f')" "list_all (\<lambda>b. \<not> HasBindingFailed b) (u @ u')"
    using 1 2 by simp_all
  moreover have "map currentBinding (updateCandidates s'') = map currentBinding (updateCandidates s) @ u @ u'"
    "map currentBinding (applyFailedUpdateCandidates s'') = map currentBinding (applyFailedUpdateCandidates s) @ f @ f'"
    "map currentBinding (upToDateBoundBindings s'') = map currentBinding (upToDateBoundBindings s) @ g @ g'"
    using 1 2 by simp_all
  ultimately show ?thesis
    using assms unfolding rollExtends_def by (intro conjI exI[of _ "u @ u'"] exI[of _ "f @ f'"] exI[of _ "g @ g'"]) simp_all
qed

lemmas note_defs = noteReady_def noteCanBeReady_def noteUnavailable_def readyAt_def mayBeReady_def running_def

lemma rollUnscheduled_extends:
  "stateIs BindingStateUnscheduled b \<Longrightarrow> rollExtends cutoff [b] s (rollUnscheduled b cutoff s)"
  by (simp add: rollExtends_def rollUnscheduled_def note_defs isTargeted_def Let_def split: prod.split)

lemma rollScheduled_extends:
  assumes "stateIs BindingStateScheduled b" "rollScheduled r m cros ros b s w = (Inr s', w')"
  shows "rollExtends cutoff [b] s s'"
  using assms
  by (auto simp: rollExtends_def rollScheduled_def note_defs isTargeted_def Let_def bindP_eq createUpdateInfo_def
      split: prod.splits sum.splits)

lemma rollBound_extends:
  assumes "stateIs BindingStateBound b" "rollBound r m cros ros cutoff b s w = (Inr s', w')"
  shows "rollExtends cutoff [b] s s'"
proof -
  let ?s = "noteCanBeReady b (noteReady b cutoff (s\<lparr>schedulerTargetedBinds := schedulerTargetedBinds s @ [b]\<rparr>))"
  have base: "schedulerTargetedBinds ?s = schedulerTargetedBinds s @ filter isTargeted [b]"
    "readyBindings ?s = readyBindings s @ filter (readyAt cutoff) [b]"
    "canBeReadyBindings ?s = canBeReadyBindings s @ filter mayBeReady [b]"
    "canBeUnavailableBindings ?s = canBeUnavailableBindings s"
    "boundingCandidates ?s = boundingCandidates s" "removeCandidates ?s = removeCandidates s"
    "updateCandidates ?s = updateCandidates s" "applyFailedUpdateCandidates ?s = applyFailedUpdateCandidates s"
    "upToDateBoundBindings ?s = upToDateBoundBindings s"
    using assms(1) by (simp_all add: note_defs isTargeted_def split: prod.split)
  show ?thesis
  proof (cases "live b")
    case False
    then have "s' = noteUnavailable b cutoff ?s" using assms(2) unfolding rollBound_def Let_def if_not_P[OF False] by simp
    then show ?thesis using False assms(1) base
      by (simp add: rollExtends_def noteUnavailable_def readyAt_def running_def)
  next
    case True
    then obtain cro ro where "s' =
        (if needsUpdate b m cro ro then
           (if HasBindingFailed b
            then ?s\<lparr>applyFailedUpdateCandidates := applyFailedUpdateCandidates ?s @ [createUpdateInfo b m cro ro]\<rparr>
            else ?s\<lparr>updateCandidates := updateCandidates ?s @ [createUpdateInfo b m cro ro]\<rparr>)
         else ?s\<lparr>upToDateBoundBindings := upToDateBoundBindings ?s @ [\<lparr>currentBinding = b, desiredBinding = None\<rparr>]\<rparr>)"
      using assms(2) by (auto simp: rollBound_def Let_def dest!: bindP_InrD)
    then show ?thesis using True assms(1) base
      by (simp add: rollExtends_def createUpdateInfo_def)
  qed
qed

lemma rollStep_extends:
  assumes "rollStep r m cros ros cutoff b s w = (Inr s', w')"
  shows "rollExtends cutoff [b] s s'"
proof (cases "State (Spec b)")
  case (BindingStateOther x)
  with assms show ?thesis by (simp add: rollExtends_def rollStep_def note_defs isTargeted_def)
qed (use assms rollUnscheduled_extends rollScheduled_extends rollBound_extends in
      \<open>auto simp: rollStep_def\<close>)

lemma rollLoop_extends:
  assumes "foldP (rollStep r m cros ros cutoff) bs s w = (Inr s', w')"
  shows "rollExtends cutoff bs s s'"
  using assms
proof (induction bs arbitrary: s w)
  case (Cons b bs)
  then obtain s1 w1 where "rollStep r m cros ros cutoff b s w = (Inr s1, w1)"
    "foldP (rollStep r m cros ros cutoff) bs s1 w1 = (Inr s', w')"
    by (auto dest!: bindP_InrD)
  then have "rollExtends cutoff ([b] @ bs) s s'"
    by (intro rollExtends_trans[OF rollStep_extends Cons.IH])
  then show ?case by simp
qed (simp add: rollExtends_refl)

lemmas rollExtendsD = rollExtends_def[THEN iffD1]

text \<open>The plan of a round in terms of the slices of the loop.\<close>

lemma pickBindingsToRoll_InrD:
  assumes "pickBindingsToRoll r bs m p cros ros w = (Inr plan, w')"
    and "RollingUpdate (Strategy p) = Some cfg" and "UnavailablePeriodSeconds cfg = Some sec"
  obtains s n where
    "foldP (rollStep r m cros ros (now r - sec * secondNs)) bs (emptyRollSets (sec * secondNs)) w = (Inr s, w')"
    "calculateRealTarget p (schedulerTargetedBinds s) = Inr n"
    "upToDate plan = upToDateBoundBindings s" "needRoll plan \<longleftrightarrow> \<not> noCandidates s"
    "(toBeUpdated plan, stale plan) =
       (if noCandidates s then ([], []) else determineBindingsToUpdate r cfg n s)"
  using assms
  by (auto simp: pickBindingsToRoll_def Let_def liftP_def bindP_eq split: prod.splits sum.splits if_splits)

section \<open>Availability and surge\<close>

lemma length_filter_avoid:
  "distinct xs \<Longrightarrow> int (length xs) - int (length ys) \<le> int (length (filter (\<lambda>x. x \<notin> set ys) xs))"
proof -
  assume d: "distinct xs"
  have "length (filter (\<lambda>x. x \<in> set ys) xs) = card (set xs \<inter> set ys)"
    using d by (simp add: distinct_length_filter Int_def conj_commute)
  also have "\<dots> \<le> length ys" by (meson List.finite_set card_length card_mono inf_le2 le_trans)
  finally show ?thesis using sum_length_filter_compl[of "\<lambda>x. x \<in> set ys" xs] by linarith
qed

lemma length_filter_mono:
  "(\<And>x. x \<in> set xs \<Longrightarrow> P x \<Longrightarrow> Q x) \<Longrightarrow> length (filter P xs) \<le> length (filter Q xs)"
  by (induction xs) (auto simp: le_Suc_eq)

text \<open>The bindings a round disturbs: those it removes and the healthy ones it updates.\<close>

definition disturbed :: "'w rollout \<Rightarrow> RollingUpdateConfig \<Rightarrow> int \<Rightarrow> rollSets \<Rightarrow> toBeUpdatedBinding list" where
  "disturbed r cfg n s =
     (let k = nat (calculateMaxToRemove r cfg n (readyBindings s) (canBeUnavailableBindings s));
          removed = take k (removeCandidates s)
      in removed @ take (min (k - length removed) (length (updateCandidates s))) (updateCandidates s))"

lemma determine_disturbed:
  "determineBindingsToUpdate r cfg n s = (toUpd, st) \<Longrightarrow>
   set toUpd \<subseteq> set (applyFailedUpdateCandidates s) \<union> set (disturbed r cfg n s) \<union> set (boundingCandidates s)"
  by (auto simp: determineBindingsToUpdate_def disturbed_def Let_def dest: in_set_takeD)

lemma disturbed_length:
  "int (length (disturbed r cfg n s)) \<le>
     max 0 (calculateMaxToRemove r cfg n (readyBindings s) (canBeUnavailableBindings s))"
  unfolding disturbed_def Let_def by (simp add: min_def) arith

lemma emptyRollSets_extends:
  assumes "rollExtends cutoff bs (emptyRollSets t) s"
  shows "schedulerTargetedBinds s = filter isTargeted bs" "readyBindings s = filter (readyAt cutoff) bs"
    "canBeReadyBindings s = filter mayBeReady bs"
    "canBeUnavailableBindings s = filter (\<lambda>b. readyAt cutoff b \<and> \<not> live b) bs"
    "map currentBinding (boundingCandidates s) = filter (stateIs BindingStateScheduled) bs"
    "map currentBinding (removeCandidates s) = filter (\<lambda>b. stateIs BindingStateUnscheduled b \<and> live b) bs"
    "list_all (\<lambda>u. HasBindingFailed (currentBinding u)) (applyFailedUpdateCandidates s)"
    "list_all (\<lambda>u. \<not> HasBindingFailed (currentBinding u)) (updateCandidates s)"
    "mset (map currentBinding (updateCandidates s)) + mset (map currentBinding (applyFailedUpdateCandidates s))
       + mset (map currentBinding (upToDateBoundBindings s))
     = mset (filter (\<lambda>b. stateIs BindingStateBound b \<and> live b) bs)"
proof -
  have lists: "map currentBinding (updateCandidates s) = up \<Longrightarrow> list_all (\<lambda>b. \<not> HasBindingFailed b) up \<Longrightarrow>
      list_all (\<lambda>u. \<not> HasBindingFailed (currentBinding u)) (updateCandidates s)"
    "map currentBinding (applyFailedUpdateCandidates s) = up \<Longrightarrow> list_all HasBindingFailed up \<Longrightarrow>
      list_all (\<lambda>u. HasBindingFailed (currentBinding u)) (applyFailedUpdateCandidates s)" for up
    by (auto simp: list_all_iff)
  show "schedulerTargetedBinds s = filter isTargeted bs" "readyBindings s = filter (readyAt cutoff) bs"
    "canBeReadyBindings s = filter mayBeReady bs"
    "canBeUnavailableBindings s = filter (\<lambda>b. readyAt cutoff b \<and> \<not> live b) bs"
    "map currentBinding (boundingCandidates s) = filter (stateIs BindingStateScheduled) bs"
    "map currentBinding (removeCandidates s) = filter (\<lambda>b. stateIs BindingStateUnscheduled b \<and> live b) bs"
    using assms by (simp_all add: rollExtends_def emptyRollSets_def)
  show "list_all (\<lambda>u. HasBindingFailed (currentBinding u)) (applyFailedUpdateCandidates s)"
    "list_all (\<lambda>u. \<not> HasBindingFailed (currentBinding u)) (updateCandidates s)"
    "mset (map currentBinding (updateCandidates s)) + mset (map currentBinding (applyFailedUpdateCandidates s))
       + mset (map currentBinding (upToDateBoundBindings s))
     = mset (filter (\<lambda>b. stateIs BindingStateBound b \<and> live b) bs)"
    using assms lists by (auto simp: rollExtends_def emptyRollSets_def)
qed

lemma ready_minus_deleting:
  "int (length (filter (readyAt c) bs)) - int (length (filter (\<lambda>b. readyAt c b \<and> \<not> live b) bs)) =
   int (length (filter (\<lambda>b. readyAt c b \<and> live b) bs))"
  by (induction bs) auto

lemma pick_plan:
  assumes "pickBindingsToRoll r bs m p cros ros w = (Inr plan, w')"
    and "RollingUpdate (Strategy p) = Some cfg" and "UnavailablePeriodSeconds cfg = Some sec"
    and "calculateRealTarget p (filter isTargeted bs) = Inr n"
  obtains s where
    "foldP (rollStep r m cros ros (now r - sec * secondNs)) bs (emptyRollSets (sec * secondNs)) w = (Inr s, w')"
    "rollExtends (now r - sec * secondNs) bs (emptyRollSets (sec * secondNs)) s"
    "upToDate plan = upToDateBoundBindings s" "needRoll plan \<longleftrightarrow> \<not> noCandidates s"
    "(toBeUpdated plan, stale plan) =
       (if noCandidates s then ([], []) else determineBindingsToUpdate r cfg n s)"
proof -
  from assms(1-3) obtain s n' where
    s: "foldP (rollStep r m cros ros (now r - sec * secondNs)) bs (emptyRollSets (sec * secondNs)) w = (Inr s, w')"
    "calculateRealTarget p (schedulerTargetedBinds s) = Inr n'"
    "upToDate plan = upToDateBoundBindings s" "needRoll plan \<longleftrightarrow> \<not> noCandidates s"
    "(toBeUpdated plan, stale plan) =
       (if noCandidates s then ([], []) else determineBindingsToUpdate r cfg n' s)"
    by (rule pickBindingsToRoll_InrD)
  note e = rollLoop_extends[OF s(1)]
  have "n' = n" using s(2) assms(4) emptyRollSets_extends(1)[OF e] by simp
  with that s e show thesis by simp
qed

text \<open>A ready binding that a round rolls is one of the disturbed ones.\<close>

lemma rolled_ready_disturbed:
  assumes ext: "rollExtends c bs (emptyRollSets t) s"
    and sub: "set upd \<subseteq> set (applyFailedUpdateCandidates s) \<union> set (disturbed r cfg n s) \<union> set (boundingCandidates s)"
    and b: "b \<in> currentBinding ` set upd" "readyAt c b" "\<not> HasBindingFailed b"
  shows "b \<in> set (map currentBinding (disturbed r cfg n s))"
proof -
  note e = emptyRollSets_extends[OF ext]
  from b(1) sub obtain u where u: "currentBinding u = b"
    "u \<in> set (applyFailedUpdateCandidates s) \<or> u \<in> set (disturbed r cfg n s) \<or> u \<in> set (boundingCandidates s)"
    by blast
  have "u \<notin> set (boundingCandidates s)"
  proof
    assume "u \<in> set (boundingCandidates s)"
    then have "b \<in> set (map currentBinding (boundingCandidates s))" using u by force
    then show False using b(2) by (simp add: e(5) readyAt_def running_def)
  qed
  moreover have "u \<notin> set (applyFailedUpdateCandidates s)"
    using u(1) b(3) e(7) by (auto simp: list_all_iff)
  ultimately show ?thesis using u by auto
qed

text \<open>
  C3: A round of the rolling update never takes the number of available bindings below the
  target minus the maximum unavailable number: counting the bindings that are ready, not being
  deleted and not touched by the round, at least that many remain, or all of them where fewer
  were available to begin with. Bindings that report a failure are not ready.
\<close>

theorem rollout_keeps_available:
  assumes "RollingUpdate (Strategy p) = Some cfg" and "UnavailablePeriodSeconds cfg = Some sec"
    and "pickBindingsToRoll r bs m p cros ros w = (Inr plan, w')"
    and "calculateRealTarget p (filter isTargeted bs) = Inr n"
    and "c = now r - sec * secondNs" and "distinct bs"
    and "list_all (\<lambda>b. \<not> (readyAt c b \<and> HasBindingFailed b)) bs"
  shows "min (n - scaledValue r (MaxUnavailable cfg) n) (int (length (filter (\<lambda>b. readyAt c b \<and> live b) bs)))
    \<le> int (length (filter (\<lambda>b. readyAt c b \<and> live b \<and> b \<notin> currentBinding ` set (toBeUpdated plan)) bs))"
proof -
  from assms(3,1,2,4) obtain s where ext: "rollExtends c bs (emptyRollSets (sec * secondNs)) s"
    and plan: "(toBeUpdated plan, stale plan) =
       (if noCandidates s then ([], []) else determineBindingsToUpdate r cfg n s)"
    unfolding assms(5) by (rule pick_plan)
  let ?L = "filter (\<lambda>b. readyAt c b \<and> live b) bs" and ?D = "map currentBinding (disturbed r cfg n s)"
  have "set (toBeUpdated plan) \<subseteq>
      set (applyFailedUpdateCandidates s) \<union> set (disturbed r cfg n s) \<union> set (boundingCandidates s)"
    using plan by (auto split: if_splits dest!: determine_disturbed[OF sym])
  then have "b \<in> set ?D" if "b \<in> set bs" "readyAt c b" "b \<in> currentBinding ` set (toBeUpdated plan)" for b
    using that assms(7) by (intro rolled_ready_disturbed[OF ext]) (auto simp: list_all_iff)
  then have "length (filter (\<lambda>b. b \<notin> set ?D) ?L) \<le>
      length (filter (\<lambda>b. readyAt c b \<and> live b \<and> b \<notin> currentBinding ` set (toBeUpdated plan)) bs)"
    unfolding filter_filter by (intro length_filter_mono) blast
  moreover have "int (length ?L) - int (length ?D) \<le> int (length (filter (\<lambda>b. b \<notin> set ?D) ?L))"
    using assms(6) by (intro length_filter_avoid) simp
  moreover have "int (length ?D) \<le> max 0 (int (length ?L) - (n - scaledValue r (MaxUnavailable cfg) n))"
    using disturbed_length[of r cfg n s] emptyRollSets_extends(2,4)[OF ext] ready_minus_deleting[of c bs]
    by (simp add: calculateMaxToRemove_def Let_def)
  ultimately show ?thesis by linarith
qed

lemma candidate_states:
  assumes ext: "rollExtends c bs (emptyRollSets t) s"
  shows "u \<in> set (boundingCandidates s) \<Longrightarrow> stateIs BindingStateScheduled (currentBinding u)"
    and "u \<in> set (removeCandidates s) \<Longrightarrow> stateIs BindingStateUnscheduled (currentBinding u)"
    and "u \<in> set (updateCandidates s) \<union> set (applyFailedUpdateCandidates s) \<union> set (upToDateBoundBindings s) \<Longrightarrow>
      stateIs BindingStateBound (currentBinding u)"
proof -
  note e = emptyRollSets_extends[OF ext]
  have img: "u \<in> set us \<Longrightarrow> map currentBinding us = xs \<Longrightarrow> currentBinding u \<in> set xs" for us xs by auto
  show "u \<in> set (boundingCandidates s) \<Longrightarrow> stateIs BindingStateScheduled (currentBinding u)"
    by (drule img[OF _ e(5)]) simp
  show "u \<in> set (removeCandidates s) \<Longrightarrow> stateIs BindingStateUnscheduled (currentBinding u)"
    by (drule img[OF _ e(6)]) simp
  assume "u \<in> set (updateCandidates s) \<union> set (applyFailedUpdateCandidates s) \<union> set (upToDateBoundBindings s)"
  then have "currentBinding u \<in># mset (map currentBinding (updateCandidates s))
      + mset (map currentBinding (applyFailedUpdateCandidates s)) + mset (map currentBinding (upToDateBoundBindings s))"
    by auto
  then show "stateIs BindingStateBound (currentBinding u)" unfolding e(9) by simp
qed

text \<open>The shape of the two lists of a plan.\<close>

lemma take_drop_min_length:
  "take (min k (length xs)) xs = take k xs" "drop (min k (length xs)) xs = drop k xs"
  by (simp_all add: min_def)

lemma determine_shape:
  "\<exists>x y. fst (determineBindingsToUpdate r cfg n s) =
     applyFailedUpdateCandidates s @ take x (removeCandidates s) @ take y (updateCandidates s)
       @ take (nat (calculateMaxToAdd r cfg n (canBeReadyBindings s))) (boundingCandidates s) \<and>
   snd (determineBindingsToUpdate r cfg n s) =
     drop y (updateCandidates s)
       @ drop (nat (calculateMaxToAdd r cfg n (canBeReadyBindings s))) (boundingCandidates s)"
  unfolding determineBindingsToUpdate_def Let_def fst_conv snd_conv take_drop_min_length
  by (intro exI conjI) (rule refl)+

text \<open>
  C20: A round binds no more scheduled bindings than the surge limit leaves room for: with the
  bindings that may still become ready they number at most the target plus the maximum surge,
  or the round binds none.
\<close>

theorem rollout_within_surge:
  assumes "RollingUpdate (Strategy p) = Some cfg" and "UnavailablePeriodSeconds cfg = Some sec"
    and "pickBindingsToRoll r bs m p cros ros w = (Inr plan, w')"
    and "calculateRealTarget p (filter isTargeted bs) = Inr n"
  shows "let added = length (filter (\<lambda>u. stateIs BindingStateScheduled (currentBinding u)) (toBeUpdated plan))
    in added = 0 \<or> int (length (filter mayBeReady bs)) + int added \<le> n + scaledValue r (MaxSurge cfg) n"
proof -
  from assms(3,1,2,4) obtain s where ext: "rollExtends (now r - sec * secondNs) bs (emptyRollSets (sec * secondNs)) s"
    and plan: "(toBeUpdated plan, stale plan) =
       (if noCandidates s then ([], []) else determineBindingsToUpdate r cfg n s)"
    by (rule pick_plan)
  note st = candidate_states[OF ext]
  let ?sched = "\<lambda>u. stateIs BindingStateScheduled (currentBinding u)"
  let ?k = "calculateMaxToAdd r cfg n (canBeReadyBindings s)"
  obtain x y where xy: "fst (determineBindingsToUpdate r cfg n s) =
     applyFailedUpdateCandidates s @ take x (removeCandidates s) @ take y (updateCandidates s)
       @ take (nat ?k) (boundingCandidates s)"
    using determine_shape by blast
  have "filter ?sched (applyFailedUpdateCandidates s) = []" "filter ?sched (take x (removeCandidates s)) = []"
    "filter ?sched (take y (updateCandidates s)) = []"
    using st(2,3) by (fastforce simp: filter_empty_conv dest: in_set_takeD)+
  then have "length (filter ?sched (fst (determineBindingsToUpdate r cfg n s))) \<le> nat ?k"
    unfolding xy by simp (rule order_trans[OF length_filter_le], simp)
  then have "length (filter ?sched (toBeUpdated plan)) \<le> nat ?k"
    using arg_cong[OF plan, of fst] by (simp split: if_splits)
  then show ?thesis
    unfolding Let_def calculateMaxToAdd_def emptyRollSets_extends(3)[OF ext] by linarith
qed

text \<open>
  C14: Every binding the scheduler has targeted and that is not being deleted is accounted for
  exactly once: it is rolled in this round, reported as held back by the strategy, or already up
  to date. (A scheduled binding counts even when it is being deleted.)
\<close>

theorem rollout_accounts_for_targeted:
  assumes "RollingUpdate (Strategy p) = Some cfg" and "UnavailablePeriodSeconds cfg = Some sec"
    and "pickBindingsToRoll r bs m p cros ros w = (Inr plan, w')"
  shows "mset (filter isTargeted (map currentBinding (toBeUpdated plan @ stale plan @ upToDate plan))) =
    mset (filter (\<lambda>b. stateIs BindingStateScheduled b \<or> stateIs BindingStateBound b \<and> live b) bs)"
proof -
  from assms(3,1,2) obtain s n where
    loop: "foldP (rollStep r m cros ros (now r - sec * secondNs)) bs (emptyRollSets (sec * secondNs)) w = (Inr s, w')"
    and up: "upToDate plan = upToDateBoundBindings s"
    and plan: "(toBeUpdated plan, stale plan) =
       (if noCandidates s then ([], []) else determineBindingsToUpdate r cfg n s)"
    by (rule pickBindingsToRoll_InrD)
  note ext = rollLoop_extends[OF loop]
  note e = emptyRollSets_extends[OF ext] and st = candidate_states[OF ext]
  let ?c = "map currentBinding"
  let ?rest = "updateCandidates s @ applyFailedUpdateCandidates s @ boundingCandidates s @ upToDateBoundBindings s"
  have "isTargeted (currentBinding u)" if "u \<in> set ?rest" for u
    using that st(1)[of u] st(3)[of u] by (auto simp: isTargeted_def)
  then have "\<forall>b\<in>set (?c xs). isTargeted b" if "set xs \<subseteq> set ?rest" for xs
    using subsetD[OF that] by (simp del: set_append)
  then have keep: "filter isTargeted (?c xs) = ?c xs" if "set xs \<subseteq> set ?rest" for xs
    using that by (intro filter_True)
  have drp: "filter isTargeted (?c (take x (removeCandidates s))) = []" for x
    using st(2) by (auto simp: filter_empty_conv isTargeted_def dest!: in_set_takeD)
  have "mset (filter isTargeted (?c (toBeUpdated plan @ stale plan @ upToDate plan))) = mset (?c ?rest)"
  proof (cases "noCandidates s")
    case True
    then show ?thesis using plan up keep[of "upToDateBoundBindings s"] by (simp add: noCandidates_def)
  next
    case False
    let ?k = "nat (calculateMaxToAdd r cfg n (canBeReadyBindings s))"
    obtain x y where xy: "toBeUpdated plan = applyFailedUpdateCandidates s @ take x (removeCandidates s)
          @ take y (updateCandidates s) @ take ?k (boundingCandidates s)"
      "stale plan = drop y (updateCandidates s) @ drop ?k (boundingCandidates s)"
      using arg_cong[OF plan, of fst] arg_cong[OF plan, of snd] False determine_shape[of r cfg n s]
      by (simp only: fst_conv snd_conv if_False) blast
    have split: "mset (?c (take j xs)) + mset (?c (drop j xs)) = mset (?c xs)" for j and xs :: "toBeUpdatedBinding list"
      by (metis append_take_drop_id map_append mset_append)
    have "mset (filter isTargeted (?c (toBeUpdated plan @ stale plan @ upToDate plan))) =
        mset (?c (applyFailedUpdateCandidates s)) + (mset (?c (take y (updateCandidates s))) + mset (?c (drop y (updateCandidates s))))
        + (mset (?c (take ?k (boundingCandidates s))) + mset (?c (drop ?k (boundingCandidates s))))
        + mset (?c (upToDateBoundBindings s))"
      unfolding xy up using keep[of "applyFailedUpdateCandidates s"] keep[of "take y (updateCandidates s)"]
        keep[of "drop y (updateCandidates s)"] keep[of "take ?k (boundingCandidates s)"]
        keep[of "drop ?k (boundingCandidates s)"] keep[of "upToDateBoundBindings s"] drp[of x]
      by (auto simp: set_take_subset set_drop_subset le_supI1 le_supI2 simp del: mset_map)
    then show ?thesis unfolding split by simp
  qed
  also have "\<dots> = mset (?c (boundingCandidates s)) + (mset (?c (updateCandidates s))
      + mset (?c (applyFailedUpdateCandidates s)) + mset (?c (upToDateBoundBindings s)))"
    by simp
  also have "\<dots> = mset (filter (stateIs BindingStateScheduled) bs) +
      mset (filter (\<lambda>b. stateIs BindingStateBound b \<and> live b) bs)"
    by (simp only: e(5,9))
  also have "\<dots> = mset (filter (\<lambda>b. stateIs BindingStateScheduled b \<or> stateIs BindingStateBound b \<and> live b) bs)"
    by (induction bs) auto
  finally show ?thesis .
qed

section \<open>Progress\<close>

text \<open>A binding that is settled: not being deleted, and if it runs, ready and not failed.\<close>

definition healthy :: "Binding \<Rightarrow> bool" where
  "healthy b \<longleftrightarrow> live b \<and> (isTargeted b \<or> stateIs BindingStateUnscheduled b) \<and>
     (running b \<longrightarrow> (\<forall>cutoff. snd (isBindingReady b cutoff)) \<and> \<not> HasBindingFailed b)"

lemma determine_empty:
  assumes "fst (determineBindingsToUpdate r cfg n s) = []"
  shows "applyFailedUpdateCandidates s = []"
    and "calculateMaxToRemove r cfg n (readyBindings s) (canBeUnavailableBindings s) \<le> 0 \<or>
      removeCandidates s = [] \<and> updateCandidates s = []"
    and "calculateMaxToAdd r cfg n (canBeReadyBindings s) \<le> 0 \<or> boundingCandidates s = []"
  using assms by (auto simp: determineBindingsToUpdate_def Let_def min_def split: if_splits)

lemma healthy_counts:
  assumes "list_all healthy bs"
  shows "filter (\<lambda>b. readyAt c b \<and> \<not> live b) bs = []"
    and "length (filter (readyAt c) bs) =
      length (filter (stateIs BindingStateBound) bs) + length (filter (\<lambda>b. stateIs BindingStateUnscheduled b \<and> live b) bs)"
    and "length (filter mayBeReady bs) \<le> length (filter (readyAt c) bs)"
    and "length (filter isTargeted bs) =
      length (filter (stateIs BindingStateScheduled) bs) + length (filter (stateIs BindingStateBound) bs)"
  using assms by (induction bs) (auto simp: healthy_def readyAt_def running_def mayBeReady_def isTargeted_def)

lemma rollout_progress_aux:
  assumes "RollingUpdate (Strategy p) = Some cfg" and "UnavailablePeriodSeconds cfg = Some sec"
    and "pickBindingsToRoll r bs m p cros ros w = (Inr plan, w')"
    and "n = int (length (filter isTargeted bs))" and "calculateRealTarget p (filter isTargeted bs) = Inr n"
    and "list_all healthy bs"
    and "1 \<le> scaledValue r (MaxUnavailable cfg) n" and "0 \<le> scaledValue r (MaxSurge cfg) n"
    and "needRoll plan"
  shows "toBeUpdated plan \<noteq> []"
proof
  assume empty: "toBeUpdated plan = []"
  from assms(3,1,2,5) obtain s where ext: "rollExtends (now r - sec * secondNs) bs (emptyRollSets (sec * secondNs)) s"
    and need: "needRoll plan \<longleftrightarrow> \<not> noCandidates s"
    and plan: "(toBeUpdated plan, stale plan) =
       (if noCandidates s then ([], []) else determineBindingsToUpdate r cfg n s)"
    by (rule pick_plan)
  note e = emptyRollSets_extends[OF ext] and h = healthy_counts(1-3)[OF assms(6), of "now r - sec * secondNs"] healthy_counts(4)[OF assms(6)]
  have "fst (determineBindingsToUpdate r cfg n s) = []"
    using arg_cong[OF plan, of fst] empty need assms(9) by simp
  note d = determine_empty[OF this]
  let ?S = "length (filter (stateIs BindingStateScheduled) bs)"
  let ?U = "length (filter (\<lambda>b. stateIs BindingStateUnscheduled b \<and> live b) bs)"
  have len: "length (boundingCandidates s) = ?S" "length (removeCandidates s) = ?U"
    using arg_cong[OF e(5), of length] arg_cong[OF e(6), of length] by simp_all
  have rem: "calculateMaxToRemove r cfg n (readyBindings s) (canBeUnavailableBindings s) \<ge> int ?U - int ?S + 1"
    using assms(4,7) h unfolding calculateMaxToRemove_def Let_def e(2,4) by simp
  have add: "calculateMaxToAdd r cfg n (canBeReadyBindings s) \<ge> int ?S - int ?U"
    using assms(4,8) h unfolding calculateMaxToAdd_def Let_def e(3) by simp
  have "boundingCandidates s = [] \<longleftrightarrow> ?S = 0" "removeCandidates s = [] \<longleftrightarrow> ?U = 0"
    using len by (metis length_0_conv)+
  with d rem add have "?S = 0 \<and> ?U = 0 \<and> updateCandidates s = []" by linarith
  with d(1) len need assms(9) show False by (simp add: noCandidates_def)
qed

text \<open>
  C21: A rolling update among settled bindings always moves on: when every running binding is
  ready, the scheduler has targeted as many clusters as the placement asks for, and at least one
  binding may be unavailable, a round that finds something to roll rolls at least one binding.
\<close>

theorem rollout_progress:
  assumes "RollingUpdate (Strategy p) = Some cfg" and "UnavailablePeriodSeconds cfg = Some sec"
    and "pickBindingsToRoll r bs m p cros ros w = (Inr plan, w')"
    and "n = int (length (filter isTargeted bs))" and "calculateRealTarget p (filter isTargeted bs) = Inr n"
    and "list_all healthy bs"
    and "1 \<le> scaledValue r (MaxUnavailable cfg) n" and "0 \<le> scaledValue r (MaxSurge cfg) n"
    and "needRoll plan"
  shows "toBeUpdated plan \<noteq> []"
  by (rule rollout_progress_aux[OF assms])

section \<open>Completion\<close>

text \<open>
  While neither the override snapshots nor the labels of the clusters change, the overrides of
  a cluster are a function of its name. A binding is outdated when it is not bound, or not to
  the latest resource snapshot with those overrides.
\<close>

type_synonym overridesOf = "string \<Rightarrow> string list \<times> NamespacedName list"

definition stableOverrides ::
  "'w rollout \<Rightarrow> OverrideSnapshot list \<Rightarrow> OverrideSnapshot list \<Rightarrow> overridesOf \<Rightarrow> bool" where
  "stableOverrides r cros ros ovr \<longleftrightarrow>
     (\<forall>t w. PickFromResourceMatchedOverridesForTargetCluster (overrides r) (selectors r) t cros ros w = (Inr (ovr t), w))"

definition outdated :: "ResourceSnapshot \<Rightarrow> overridesOf \<Rightarrow> Binding \<Rightarrow> bool" where
  "outdated m ovr b \<longleftrightarrow>
     \<not> stateIs BindingStateBound b \<or> needsUpdate b m (fst (ovr (target b))) (snd (ovr (target b)))"

definition updatesTo :: "ResourceSnapshot \<Rightarrow> overridesOf \<Rightarrow> toBeUpdatedBinding \<Rightarrow> bool" where
  "updatesTo m ovr u \<longleftrightarrow>
     u = createUpdateInfo (currentBinding u) m (fst (ovr (target (currentBinding u)))) (snd (ovr (target (currentBinding u))))"

definition rollShape :: "ResourceSnapshot \<Rightarrow> overridesOf \<Rightarrow> rollSets \<Rightarrow> bool" where
  "rollShape m ovr s \<longleftrightarrow>
     list_all (updatesTo m ovr) (boundingCandidates s) \<and>
     list_all (\<lambda>u. updatesTo m ovr u \<and> outdated m ovr (currentBinding u)) (updateCandidates s) \<and>
     list_all (\<lambda>u. updatesTo m ovr u \<and> outdated m ovr (currentBinding u)) (applyFailedUpdateCandidates s) \<and>
     list_all (\<lambda>u. \<not> outdated m ovr (currentBinding u)) (upToDateBoundBindings s) \<and>
     list_all (\<lambda>u. desiredBinding u = None) (removeCandidates s)"

lemma createUpdateInfo_current [simp]: "currentBinding (createUpdateInfo b m cro ro) = b"
  by (simp add: createUpdateInfo_def)

lemma note_shape [simp]:
  "rollShape m ovr (noteReady b c s) = rollShape m ovr s"
  "rollShape m ovr (noteCanBeReady b s) = rollShape m ovr s"
  "rollShape m ovr (noteUnavailable b c s) = rollShape m ovr s"
  "rollShape m ovr (s\<lparr>schedulerTargetedBinds := x\<rparr>) = rollShape m ovr s"
  by (simp_all add: rollShape_def noteReady_def noteCanBeReady_def noteUnavailable_def split: prod.split)

lemma updatesTo_create: "ovr (target b) = (cro, ro) \<Longrightarrow> updatesTo m ovr (createUpdateInfo b m cro ro)"
  by (simp add: updatesTo_def)

lemma shape_append:
  "rollShape m ovr s \<Longrightarrow> updatesTo m ovr u \<Longrightarrow> rollShape m ovr (s\<lparr>boundingCandidates := boundingCandidates s @ [u]\<rparr>)"
  "rollShape m ovr s \<Longrightarrow> updatesTo m ovr u \<Longrightarrow> outdated m ovr (currentBinding u) \<Longrightarrow>
     rollShape m ovr (s\<lparr>updateCandidates := updateCandidates s @ [u]\<rparr>)"
  "rollShape m ovr s \<Longrightarrow> updatesTo m ovr u \<Longrightarrow> outdated m ovr (currentBinding u) \<Longrightarrow>
     rollShape m ovr (s\<lparr>applyFailedUpdateCandidates := applyFailedUpdateCandidates s @ [u]\<rparr>)"
  "rollShape m ovr s \<Longrightarrow> \<not> outdated m ovr (currentBinding u) \<Longrightarrow>
     rollShape m ovr (s\<lparr>upToDateBoundBindings := upToDateBoundBindings s @ [u]\<rparr>)"
  "rollShape m ovr s \<Longrightarrow> desiredBinding u = None \<Longrightarrow>
     rollShape m ovr (s\<lparr>removeCandidates := removeCandidates s @ [u]\<rparr>)"
  by (simp_all add: rollShape_def)

lemma rollBound_shape:
  assumes "stableOverrides r cros ros ovr" and "rollShape m ovr s" and "stateIs BindingStateBound b"
  shows "\<exists>s'. rollBound r m cros ros c b s w = (Inr s', w) \<and> rollShape m ovr s'"
proof -
  let ?s = "noteCanBeReady b (noteReady b c (s\<lparr>schedulerTargetedBinds := schedulerTargetedBinds s @ [b]\<rparr>))"
  have sh: "rollShape m ovr ?s" using assms(2) by simp
  obtain cro ro where o: "ovr (target b) = (cro, ro)" by fastforce
  note u = updatesTo_create[of ovr b cro ro m, OF o]
  have "outdated m ovr b = needsUpdate b m cro ro" using assms(3) by (simp add: outdated_def o)
  with sh u have "rollShape m ovr
      (if needsUpdate b m cro ro
       then (if HasBindingFailed b
             then ?s\<lparr>applyFailedUpdateCandidates := applyFailedUpdateCandidates ?s @ [createUpdateInfo b m cro ro]\<rparr>
             else ?s\<lparr>updateCandidates := updateCandidates ?s @ [createUpdateInfo b m cro ro]\<rparr>)
       else ?s\<lparr>upToDateBoundBindings := upToDateBoundBindings ?s @ [\<lparr>currentBinding = b, desiredBinding = None\<rparr>]\<rparr>)"
    by (auto intro: shape_append simp del: note_shape)
  moreover have "rollShape m ovr (noteUnavailable b c ?s)" using sh by (simp del: note_shape(1,2,4))
  moreover have "PickFromResourceMatchedOverridesForTargetCluster (overrides r) (selectors r) (target b) cros ros w =
      (Inr (cro, ro), w)" using assms(1) o by (simp add: stableOverrides_def)
  ultimately show ?thesis
    by (cases "live b") (simp_all add: rollBound_def Let_def bindP_eq del: note_shape)
qed

lemma rollStep_shape:
  assumes "stableOverrides r cros ros ovr" and "rollShape m ovr s"
  shows "\<exists>s'. rollStep r m cros ros c b s w = (Inr s', w) \<and> rollShape m ovr s'"
proof (cases "State (Spec b)")
  case BindingStateScheduled
  obtain cro ro where o: "ovr (target b) = (cro, ro)" by fastforce
  have "PickFromResourceMatchedOverridesForTargetCluster (overrides r) (selectors r) (target b) cros ros w =
      (Inr (cro, ro), w)" using assms(1) o by (simp add: stableOverrides_def)
  then show ?thesis using BindingStateScheduled assms(2) updatesTo_create[of ovr b cro ro m, OF o]
    by (auto simp: rollStep_def rollScheduled_def Let_def bindP_eq rollShape_def)
next
  case BindingStateUnscheduled
  then show ?thesis using assms(2) shape_append(5)[of m ovr "noteReady b c (noteCanBeReady b s)"]
    by (simp add: rollStep_def rollUnscheduled_def Let_def)
qed (use assms rollBound_shape[OF assms] in \<open>simp_all add: rollStep_def\<close>)

lemma rollLoop_shape:
  assumes "stableOverrides r cros ros ovr" and "rollShape m ovr s"
  shows "\<exists>s'. foldP (rollStep r m cros ros c) bs s w = (Inr s', w) \<and> rollShape m ovr s'"
  using assms(2)
proof (induction bs arbitrary: s)
  case (Cons b bs)
  then obtain s' where "rollStep r m cros ros c b s w = (Inr s', w)" "rollShape m ovr s'"
    using rollStep_shape[OF assms(1)] by blast
  with Cons.IH[of s'] show ?case by (simp add: bindP_eq)
qed simp

text \<open>
  The bindings after a round: a rolled binding with no desired state has been deleted, any other
  has its desired spec and has settled on its cluster (\<open>settle\<close>), the rest is unchanged.
\<close>

definition rolledBinding :: "(Binding \<Rightarrow> Binding) \<Rightarrow> toBeUpdatedBinding list \<Rightarrow> Binding \<Rightarrow> Binding option" where
  "rolledBinding settle upd b =
     (case find (\<lambda>u. currentBinding u = b) upd of
        None \<Rightarrow> Some b
      | Some u \<Rightarrow> (case desiredBinding u of None \<Rightarrow> None | Some d \<Rightarrow> Some (settle d)))"

definition rolloutRound ::
  "'w rollout \<Rightarrow> ResourceSnapshot \<Rightarrow> Placement \<Rightarrow> OverrideSnapshot list \<Rightarrow> OverrideSnapshot list \<Rightarrow>
   (Binding \<Rightarrow> Binding) \<Rightarrow> 'w \<Rightarrow> Binding list \<Rightarrow> Binding list" where
  "rolloutRound r m p cros ros settle w bs =
     (case fst (pickBindingsToRoll r bs m p cros ros w) of
        Inl e \<Rightarrow> bs
      | Inr plan \<Rightarrow> List.map_filter (rolledBinding settle (toBeUpdated plan)) bs)"

definition settles :: "(Binding \<Rightarrow> Binding) \<Rightarrow> bool" where
  "settles settle \<longleftrightarrow>
     (\<forall>d. live d \<and> stateIs BindingStateBound d \<longrightarrow> Spec (settle d) = Spec d \<and> healthy (settle d))"

text \<open>What a plan does to the bindings it lists, when the overrides are stable.\<close>

definition goodPlan :: "ResourceSnapshot \<Rightarrow> overridesOf \<Rightarrow> Binding list \<Rightarrow> toBeUpdatedBinding list \<Rightarrow> bool" where
  "goodPlan m ovr bs upd \<longleftrightarrow>
     (\<forall>u\<in>set upd. currentBinding u \<in> set bs \<and> outdated m ovr (currentBinding u) \<and>
        (if stateIs BindingStateUnscheduled (currentBinding u) then desiredBinding u = None
         else isTargeted (currentBinding u) \<and> updatesTo m ovr u))"

lemma plan_good:
  assumes shape: "rollShape m ovr s" and ext: "rollExtends c bs (emptyRollSets t) s"
    and upd: "set upd \<subseteq> set (applyFailedUpdateCandidates s) \<union> set (removeCandidates s) \<union>
      set (updateCandidates s) \<union> set (boundingCandidates s)"
  shows "goodPlan m ovr bs upd"
proof -
  note e = emptyRollSets_extends[OF ext]
  have "currentBinding u \<in> set bs \<and> stateIs BindingStateScheduled (currentBinding u) \<and> updatesTo m ovr u"
    if "u \<in> set (boundingCandidates s)" for u
    using arg_cong[OF e(5), of set] that shape by (auto simp: rollShape_def list_all_iff)
  moreover have "currentBinding u \<in> set bs \<and> stateIs BindingStateUnscheduled (currentBinding u) \<and> desiredBinding u = None"
    if "u \<in> set (removeCandidates s)" for u
    using arg_cong[OF e(6), of set] that shape by (auto simp: rollShape_def list_all_iff)
  moreover have "currentBinding u \<in> set bs \<and> stateIs BindingStateBound (currentBinding u) \<and> updatesTo m ovr u \<and>
      outdated m ovr (currentBinding u)"
    if "u \<in> set (updateCandidates s) \<union> set (applyFailedUpdateCandidates s)" for u
  proof -
    have "currentBinding u \<in># mset (filter (\<lambda>b. stateIs BindingStateBound b \<and> live b) bs)"
      using that unfolding e(9)[symmetric] by auto
    then show ?thesis using that shape by (auto simp: rollShape_def list_all_iff)
  qed
  ultimately show ?thesis using upd unfolding goodPlan_def outdated_def isTargeted_def by fastforce
qed

lemma pick_stable:
  assumes "stableOverrides r cros ros ovr" and "RollingUpdate (Strategy p) = Some cfg"
    and "UnavailablePeriodSeconds cfg = Some sec" and "calculateRealTarget p (filter isTargeted bs) = Inr n"
    and "list_all healthy bs"
  obtains plan where "pickBindingsToRoll r bs m p cros ros w = (Inr plan, w)"
    "goodPlan m ovr bs (toBeUpdated plan)" "needRoll plan \<or> list_all (\<lambda>b. \<not> outdated m ovr b) bs"
proof -
  let ?c = "now r - sec * secondNs"
  have "rollShape m ovr (emptyRollSets (sec * secondNs))" by (simp add: rollShape_def emptyRollSets_def)
  then obtain s where s: "foldP (rollStep r m cros ros ?c) bs (emptyRollSets (sec * secondNs)) w = (Inr s, w)"
    "rollShape m ovr s" using rollLoop_shape[OF assms(1)] by blast
  note ext = rollLoop_extends[OF s(1)]
  note e = emptyRollSets_extends[OF ext]
  have "\<exists>plan. pickBindingsToRoll r bs m p cros ros w = (Inr plan, w)"
    using assms(2-4) s(1) e(1)
    by (cases "noCandidates s"; cases "determineBindingsToUpdate r cfg n s")
      (simp_all add: pickBindingsToRoll_def Let_def liftP_def bindP_eq)
  then obtain plan where plan: "pickBindingsToRoll r bs m p cros ros w = (Inr plan, w)" ..
  from pick_plan[OF plan assms(2-4)] s obtain upd:
    "needRoll plan \<longleftrightarrow> \<not> noCandidates s"
    "(toBeUpdated plan, stale plan) = (if noCandidates s then ([], []) else determineBindingsToUpdate r cfg n s)"
    by (metis Inr_inject fst_conv)
  obtain x y where "fst (determineBindingsToUpdate r cfg n s) =
     applyFailedUpdateCandidates s @ take x (removeCandidates s) @ take y (updateCandidates s)
       @ take (nat (calculateMaxToAdd r cfg n (canBeReadyBindings s))) (boundingCandidates s)"
    using determine_shape by blast
  then have "goodPlan m ovr bs (toBeUpdated plan)"
    using arg_cong[OF upd(2), of fst]
    by (intro plan_good[OF s(2) ext]) (auto split: if_splits dest: in_set_takeD)
  moreover have "list_all (\<lambda>b. \<not> outdated m ovr b) bs" if "\<not> needRoll plan"
  proof -
    have none: "boundingCandidates s = []" "removeCandidates s = []" "updateCandidates s = []"
      "applyFailedUpdateCandidates s = []" using that upd(1) by (simp_all add: noCandidates_def)
    have "stateIs BindingStateBound b \<and> live b" if "b \<in> set bs" for b
      using that assms(5) e(5,6) unfolding none
      by (auto simp: list_all_iff healthy_def isTargeted_def filter_empty_conv dest!: sym[of "[]"])
    then have "set bs = set (map currentBinding (upToDateBoundBindings s))"
      using arg_cong[OF e(9), of set_mset] none by auto
    then show ?thesis using s(2) by (auto simp: rollShape_def list_all_iff)
  qed
  ultimately show thesis using that plan by blast
qed


lemma rolled_cases:
  assumes "goodPlan m ovr bs upd" and "settles settle" and "healthy b"
  shows "if b \<notin> currentBinding ` set upd then rolledBinding settle upd b = Some b
    else if stateIs BindingStateUnscheduled b then rolledBinding settle upd b = None
    else isTargeted b \<and> (\<exists>d. rolledBinding settle upd b = Some d \<and> healthy d \<and> target d = target b \<and>
           isTargeted d \<and> \<not> outdated m ovr d)"
proof (cases "find (\<lambda>u. currentBinding u = b) upd")
  case None
  moreover have "b \<notin> currentBinding ` set upd" using None by (auto simp: find_None_iff)
  ultimately show ?thesis by (simp add: rolledBinding_def)
next
  case (Some u)
  then have u: "u \<in> set upd" "currentBinding u = b" by (auto simp: find_Some_iff)
  then have b: "b \<in> currentBinding ` set upd" by blast
  show ?thesis
  proof (cases "stateIs BindingStateUnscheduled b")
    case True
    with u assms(1) Some b show ?thesis by (auto simp: goodPlan_def rolledBinding_def)
  next
    case False
    with u assms(1) have t: "isTargeted b" "updatesTo m ovr u" by (auto simp: goodPlan_def)
    then obtain d where d: "desiredBinding u = Some d" "stateIs BindingStateBound d" "live d" "target d = target b"
      "\<not> needsUpdate d m (fst (ovr (target b))) (snd (ovr (target b)))"
      using u(2) assms(3) by (auto simp: updatesTo_def createUpdateInfo_def needsUpdate_def healthy_def)
    then have "Spec (settle d) = Spec d" "healthy (settle d)" using assms(2) by (auto simp: settles_def)
    with d b t(1) Some False show ?thesis
      by (auto simp: rolledBinding_def outdated_def isTargeted_def needsUpdate_def)
  qed
qed

lemma rolled_list:
  assumes "goodPlan m ovr bs upd" and "settles settle" and "list_all healthy xs"
  shows "list_all healthy (List.map_filter (rolledBinding settle upd) xs) \<and>
    map target (filter isTargeted (List.map_filter (rolledBinding settle upd) xs)) = map target (filter isTargeted xs) \<and>
    length (filter (outdated m ovr) (List.map_filter (rolledBinding settle upd) xs)) \<le>
      length (filter (\<lambda>b. outdated m ovr b \<and> b \<notin> currentBinding ` set upd) xs)"
  using assms(3)
proof (induction xs)
  case (Cons b xs)
  then have "healthy b" by simp
  from rolled_cases[OF assms(1,2) this] Cons show ?case
    by (auto simp: isTargeted_def split: if_splits)
qed simp

lemma calculateRealTarget_length:
  "length xs = length ys \<Longrightarrow> calculateRealTarget p xs = calculateRealTarget p ys"
  by (simp add: calculateRealTarget_def split: option.split PlacementType.split)

lemma rolloutRound_step:
  assumes "stableOverrides r cros ros ovr" and "RollingUpdate (Strategy p) = Some cfg"
    and "UnavailablePeriodSeconds cfg = Some sec" and "n = int (length (filter isTargeted bs))"
    and "calculateRealTarget p (filter isTargeted bs) = Inr n" and "list_all healthy bs"
    and "1 \<le> scaledValue r (MaxUnavailable cfg) n" and "0 \<le> scaledValue r (MaxSurge cfg) n"
    and "settles settle"
  shows "list_all (\<lambda>b. \<not> outdated m ovr b) bs \<or>
    (let bs' = rolloutRound r m p cros ros settle w bs
     in list_all healthy bs' \<and> map target (filter isTargeted bs') = map target (filter isTargeted bs) \<and>
        length (filter (outdated m ovr) bs') < length (filter (outdated m ovr) bs))"
proof -
  obtain plan where plan: "pickBindingsToRoll r bs m p cros ros w = (Inr plan, w)"
    "goodPlan m ovr bs (toBeUpdated plan)" "needRoll plan \<or> list_all (\<lambda>b. \<not> outdated m ovr b) bs"
    by (rule pick_stable[OF assms(1-3,5,6), where m = m and w = w])
  show ?thesis
  proof (cases "needRoll plan")
    case True
    from rollout_progress_aux[OF assms(2,3) plan(1) assms(4-8) True]
    obtain u where u: "u \<in> set (toBeUpdated plan)" by (meson list.set_sel(1))
    then have "currentBinding u \<in> set (filter (outdated m ovr) bs)"
      using plan(2) by (auto simp: goodPlan_def)
    then have "length (filter (\<lambda>b. b \<notin> currentBinding ` set (toBeUpdated plan)) (filter (outdated m ovr) bs)) <
        length (filter (outdated m ovr) bs)"
      using u by (intro length_filter_less) auto
    then have "length (filter (\<lambda>b. outdated m ovr b \<and> b \<notin> currentBinding ` set (toBeUpdated plan)) bs) <
        length (filter (outdated m ovr) bs)" by simp
    with rolled_list[OF plan(2) assms(9,6)] show ?thesis
      by (auto simp: rolloutRound_def plan(1) Let_def)
  qed (use plan(3) in simp)
qed


section \<open>Waiting for deletions\<close>


lemma separateDeleting_eq:
  assumes "distinct (map fst m)"
  shows "separateDeleting bs D m =
    (if distinct (map fst m @ map target (filter live bs))
     then Inr (D \<union> target ` set (filter (\<lambda>b. \<not> live b) bs), m @ map (\<lambda>b. (target b, b)) (filter live bs))
     else Inl ErrUnexpectedBehavior)"
  using assms
proof (induction bs arbitrary: D m)
  case (Cons b bs)
  show ?case
  proof (cases "live b")
    case True
    show ?thesis
    proof (cases "map_of m (target b)")
      case None
      then have "target b \<notin> fst ` set m" by (simp add: map_of_eq_None_iff)
      with True None Cons.prems Cons.IH[of "m @ [(target b, b)]" D] show ?thesis by simp
    next
      case (Some x)
      then have "target b \<in> fst ` set m" by (metis domI dom_map_of_conv_image_fst)
      with True Some show ?thesis by simp
    qed
  next
    case False
    then show ?thesis using Cons.prems Cons.IH[of m "insert (target b) D"] by auto
  qed
qed simp

lemma checkDeleting_False: "checkDeleting D m = Inr False \<longleftrightarrow> (\<forall>(c, b)\<in>set m. c \<notin> D)"
  by (induction D m rule: checkDeleting.induct) auto

text \<open>
  C18: The rollout goes on exactly when no two live bindings have the same target and no live
  binding has the target of one that is being deleted, in whatever order Go iterates over the map
  of bindings.
\<close>

theorem rollout_waits_for_cleanup:
  assumes "\<And>m. set (rangeOrder r m) = set m"
  shows "waitForResourcesToCleanUp r bs = Inr False \<longleftrightarrow>
    distinct (map target (filter live bs)) \<and>
    (\<forall>b\<in>set bs. \<forall>d\<in>set bs. live b \<and> \<not> live d \<longrightarrow> target b \<noteq> target d)"
  using assms
  by (auto simp: waitForResourcesToCleanUp_def separateDeleting_eq checkDeleting_False)

section \<open>Binding events\<close>

text \<open>
  C33: When the work of a rolled binding becomes available at its new generation and the Available
  condition keeps its status and reason, the update event is dropped: the handler is given the
  new object as the old one, and the comparison of conditions is not symmetric. With the objects
  in the declared order the placement is enqueued.
\<close>

theorem refreshed_availability_dropped:
  assumes "Generation old = Generation new"
    and "GetCondition old ResourceBindingDiffReported = GetCondition new ResourceBindingDiffReported"
    and "GetCondition old ResourceBindingAvailable = Some c"
    and "GetCondition new ResourceBindingAvailable = Some (c\<lparr>cond_ObservedGeneration := Generation new\<rparr>)"
    and "cond_Status c = ConditionTrue" and "cond_ObservedGeneration c < Generation new"
  shows "\<not> IsBindingAvailable old \<and> IsBindingAvailable new \<and>
    bindingUpdateFunc old new = None \<and> handleBindingUpdated old new = enqueueBinding new"
  using assms
  by (auto simp: IsBindingAvailable_def bindingUpdateFunc_def handleBindingUpdated_def EqualCondition_def
      IsConditionStatusTrue_def split: option.split)

section \<open>Examples\<close>

definition exampleRollout :: "'w rollout" where
  "exampleRollout =
     \<lparr>reader = exampleHub, overrides = exampleOverrideClient (Inr []),
      getPlacement = \<lambda>_ _. returnP (examplePlacement None),
      clientUpdate = \<lambda>b. returnP (b\<lparr>Generation := Generation b + 1\<rparr>),
      clientStatusUpdate = \<lambda>_. returnP (), clientPatch = \<lambda>_ _. returnP (), clientDelete = \<lambda>_. returnP (),
      resources = \<lparr>UnmarshalObject = \<lambda>_. None, UnmarshalEnvelope = \<lambda>_. None, IsClusterScopedResources = \<lambda>_. True\<rparr>,
      selectors = exampleSelection, now = 0,
      scaledValue = \<lambda>v n. (case v of Some (IntVal k) \<Rightarrow> k | _ \<Rightarrow> (n + 3) div 4), rangeOrder = rev\<rparr>"

definition availableAt :: "int \<Rightarrow> Condition" where
  "availableAt g =
     \<lparr>cond_Type = ResourceBindingAvailable, cond_Status = ConditionTrue, cond_ObservedGeneration = g,
      cond_LastTransitionTime = 0, cond_Reason = ''AllWorkAreAvailable'', cond_Message = ''''\<rparr>"

definition settleAvailable :: "Binding \<Rightarrow> Binding" where
  "settleAvailable b = b\<lparr>BindingConditions := [ResourceBindingAvailable \<mapsto> availableAt (Generation b)]\<rparr>"

definition exampleRunning :: "string \<Rightarrow> BindingState \<Rightarrow> Binding" where
  "exampleRunning c s = settleAvailable (exampleBinding (''crb-'' @ c) c s ''p-1'')"

definition exampleRolling :: Placement where
  "exampleRolling = SetPlacementDefaults (examplePlacement None)"

lemma exampleRolling_facts:
  "RollingUpdate (Strategy exampleRolling) = Some (defaultRollingUpdate None)"
  "UnavailablePeriodSeconds (defaultRollingUpdate None) = Some 60"
  "calculateRealTarget exampleRolling xs = Inr (int (length xs))"
  "scaledValue exampleRollout (MaxUnavailable (defaultRollingUpdate None)) n = (n + 3) div 4"
  "scaledValue exampleRollout (MaxSurge (defaultRollingUpdate None)) n = (n + 3) div 4"
  by (simp_all add: exampleRolling_def SetPlacementDefaults_def examplePlacement_def Let_def defaultRollingUpdate_def
      calculateRealTarget_def policyOfType_def exampleRollout_def)

lemma example_stable: "stableOverrides exampleRollout [] [] (\<lambda>_. ([], []))"
  by (simp add: stableOverrides_def PickFromResourceMatchedOverridesForTargetCluster_def)

lemma settleAvailable_settles: "settles settleAvailable"
  by (simp add: settles_def settleAvailable_def healthy_def isTargeted_def running_def isBindingReady_def
      GetCondition_def HasBindingFailed_def perClusterConditions_def availableAt_def IsConditionStatusTrue_def
      IsConditionStatusFalse_def WorkNotAvailabilityTrackableReason_def WorkNotAllManifestsTrackableReason_def
      binding_condition_defs)

lemma exampleRunning_healthy:
  "healthy (exampleRunning c BindingStateBound)" "healthy (exampleRunning c BindingStateUnscheduled)"
  by (simp_all add: exampleRunning_def exampleBinding_def settleAvailable_def healthy_def isTargeted_def running_def
      isBindingReady_def GetCondition_def HasBindingFailed_def perClusterConditions_def availableAt_def
      IsConditionStatusTrue_def IsConditionStatusFalse_def WorkNotAvailabilityTrackableReason_def
      WorkNotAllManifestsTrackableReason_def binding_condition_defs)

definition exampleTwo :: "Binding list" where
  "exampleTwo = [exampleRunning ''a'' BindingStateBound, exampleRunning ''b'' BindingStateBound]"

abbreviation examplePlan :: "rollPlan \<Rightarrow> bool" where
  "examplePlan plan \<equiv>
     pickBindingsToRoll exampleRollout exampleTwo (exampleSnapshot ''r-1'') exampleRolling [] [] (0 :: nat) = (Inr plan, 0)"

lemma exampleTwo_facts:
  "list_all healthy exampleTwo" "filter isTargeted exampleTwo = exampleTwo" "distinct exampleTwo"
  "length exampleTwo = 2" "list_all (outdated (exampleSnapshot ''r-1'') (\<lambda>_. ([], []))) exampleTwo"
  by (simp_all add: exampleTwo_def exampleRunning_healthy)
    (simp_all add: exampleRunning_def settleAvailable_def exampleBinding_def isTargeted_def outdated_def needsUpdate_def
      exampleSnapshot_def)

lemma healthy_readyAt: "healthy b \<Longrightarrow> running b \<Longrightarrow> readyAt c b \<and> live b \<and> \<not> HasBindingFailed b"
  by (simp add: healthy_def readyAt_def)

lemma exampleTwo_ready:
  "filter (\<lambda>b. readyAt c b \<and> live b) exampleTwo = exampleTwo" "list_all (\<lambda>b. \<not> (readyAt c b \<and> HasBindingFailed b)) exampleTwo"
proof -
  have "readyAt c b \<and> live b \<and> \<not> HasBindingFailed b" if "b \<in> set exampleTwo" for b
    using that exampleRunning_healthy healthy_readyAt
    by (auto simp: exampleTwo_def running_def exampleRunning_def settleAvailable_def exampleBinding_def)
  then show "filter (\<lambda>b. readyAt c b \<and> live b) exampleTwo = exampleTwo"
    "list_all (\<lambda>b. \<not> (readyAt c b \<and> HasBindingFailed b)) exampleTwo"
    by (auto simp: filter_id_conv list_all_iff)
qed

lemma exampleTwo_plan: "\<exists>plan. examplePlan plan \<and> needRoll plan"
proof -
  obtain plan where "examplePlan plan"
    "needRoll plan \<or> list_all (\<lambda>b. \<not> outdated (exampleSnapshot ''r-1'') (\<lambda>_. ([], [])) b) exampleTwo"
    by (rule pick_stable[OF example_stable exampleRolling_facts(1-3) exampleTwo_facts(1)])
  then show ?thesis using exampleTwo_facts(5) by (auto simp: exampleTwo_def)
qed

theorem rollout_keeps_available_witness:
  "\<exists>plan. examplePlan plan \<and>
     1 \<le> length (filter (\<lambda>b. readyAt (- 60 * secondNs) b \<and> live b \<and> b \<notin> currentBinding ` set (toBeUpdated plan)) exampleTwo)"
proof -
  obtain plan where plan: "examplePlan plan" using exampleTwo_plan by blast
  have "- 60 * secondNs = now (exampleRollout :: nat rollout) - 60 * secondNs" by (simp add: exampleRollout_def)
  from rollout_keeps_available[OF exampleRolling_facts(1,2) plan exampleRolling_facts(3) this exampleTwo_facts(3) exampleTwo_ready(2)]
  show ?thesis using plan
    by (intro exI[of _ plan]) (simp add: exampleTwo_facts exampleTwo_ready exampleRolling_facts)
qed

theorem rollout_within_surge_witness:
  "\<exists>plan. examplePlan plan \<and>
     (let added = length (filter (\<lambda>u. stateIs BindingStateScheduled (currentBinding u)) (toBeUpdated plan))
      in added = 0 \<or> int (length (filter mayBeReady exampleTwo)) + int added \<le> 3)"
proof -
  obtain plan where plan: "examplePlan plan" using exampleTwo_plan by blast
  from rollout_within_surge[OF exampleRolling_facts(1,2) plan exampleRolling_facts(3)] plan
  show ?thesis by (intro exI[of _ plan]) (simp add: exampleTwo_facts exampleRolling_facts)
qed

theorem rollout_accounts_for_targeted_witness:
  "\<exists>plan. examplePlan plan \<and>
     mset (filter isTargeted (map currentBinding (toBeUpdated plan @ stale plan @ upToDate plan))) = mset exampleTwo"
proof -
  obtain plan where plan: "examplePlan plan" using exampleTwo_plan by blast
  have "filter (\<lambda>b. stateIs BindingStateScheduled b \<or> stateIs BindingStateBound b \<and> live b) exampleTwo = exampleTwo"
    by (simp add: exampleTwo_def exampleRunning_def settleAvailable_def exampleBinding_def)
  with rollout_accounts_for_targeted[OF exampleRolling_facts(1,2) plan] plan
  show ?thesis by (intro exI[of _ plan]) simp
qed

theorem rollout_progress_witness: "\<exists>plan. examplePlan plan \<and> toBeUpdated plan \<noteq> []"
proof -
  obtain plan where plan: "examplePlan plan" "needRoll plan" using exampleTwo_plan by blast
  have "toBeUpdated plan \<noteq> []"
    by (rule rollout_progress[OF exampleRolling_facts(1,2) plan(1) refl exampleRolling_facts(3) exampleTwo_facts(1)])
      (simp_all add: exampleRolling_facts exampleTwo_facts plan(2))
  with plan show ?thesis by blast
qed


theorem rollout_waits_for_cleanup_witness:
  "waitForResourcesToCleanUp (exampleRollout :: nat rollout) exampleTwo = Inr False"
proof -
  have "set (rangeOrder (exampleRollout :: nat rollout) m) = set m" for m by (simp add: exampleRollout_def)
  from rollout_waits_for_cleanup[OF this] show ?thesis
    by (auto simp: exampleTwo_def exampleRunning_def settleAvailable_def exampleBinding_def)
qed

theorem refreshed_availability_dropped_witness:
  "let new = (exampleRunning ''a'' BindingStateBound)\<lparr>Generation := 2, Labels := [PlacementTrackingLabel \<mapsto> ''crp''],
                BindingConditions := [ResourceBindingAvailable \<mapsto> availableAt 2]\<rparr>;
       old = new\<lparr>BindingConditions := [ResourceBindingAvailable \<mapsto> availableAt 1]\<rparr>
   in bindingUpdateFunc old new = None \<and> handleBindingUpdated old new = request '''' ''crp''"
proof -
  let ?new = "(exampleRunning ''a'' BindingStateBound)\<lparr>Generation := 2, Labels := [PlacementTrackingLabel \<mapsto> ''crp''],
                BindingConditions := [ResourceBindingAvailable \<mapsto> availableAt 2]\<rparr>"
  let ?old = "?new\<lparr>BindingConditions := [ResourceBindingAvailable \<mapsto> availableAt 1]\<rparr>"
  have "bindingUpdateFunc ?old ?new = None \<and> handleBindingUpdated ?old ?new = enqueueBinding ?new"
    using refreshed_availability_dropped[of ?old ?new "availableAt 1"]
    by (simp add: GetCondition_def availableAt_def binding_condition_defs)
  then show ?thesis
    by (simp add: enqueueBinding_def Let_def getString_def exampleRunning_def settleAvailable_def exampleBinding_def)
qed

end
