(* ===== verification/Updaterun_Props.thy ===== *)
theory Updaterun_Props
  imports Updaterun_Reconcile Rollout_Props
begin

text \<open>
  Properties of the staged update run controller as a whole: its reconciler refines the
  specification of staged rollouts, and every history of a run keeps the limits of the stages
  and their order.
\<close>

section \<open>A small fleet\<close>

text \<open>
  A store that holds one run, with optimistic concurrency on its generation, and a fleet of
  three clusters with one stage.
\<close>

definition exampleSetter :: setter where
  "exampleSetter t cs cond = cs(cond_Type cond \<mapsto> cond\<lparr>cond_LastTransitionTime := t\<rparr>)"

definition exampleStage :: StageConfig where
  "exampleStage =
     \<lparr>stage_Name = ''canary'', StageLabelSelector = Some \<lparr>MatchLabels = [], MatchExpressions = []\<rparr>, SortingLabelKey = None,
      MaxConcurrency = Some (IntVal 2), AfterStageTasks = [], BeforeStageTasks = []\<rparr>"

definition examplePolicyUsed :: PolicySnapshot where
  "examplePolicyUsed =
     (examplePolicy (Some (examplePolicySpec PickAllPlacementType)))\<lparr>Labels := [PolicyIndexLabel \<mapsto> ''1''],
       PolicyConditions := [''Scheduled'' \<mapsto> \<lparr>cond_Type = ''Scheduled'', cond_Status = ConditionTrue,
         cond_ObservedGeneration = 1, cond_LastTransitionTime = 0, cond_Reason = '''', cond_Message = ''''\<rparr>]\<rparr>"

definition exampleExternal :: Placement where
  "exampleExternal = (examplePlacement None)\<lparr>Strategy := (Strategy (examplePlacement None))\<lparr>StrategyType := ExternalRolloutStrategyType\<rparr>\<rparr>"

definition exampleRunClient :: "UpdateRun option updateRunClient" where
  "exampleRunClient =
     \<lparr>clock = \<lambda>_. 0, putCondition = exampleSetter, errorText = \<lambda>_. ''error'',
      scaledDown = \<lambda>v n. (case v of Some (IntVal k) \<Rightarrow> Inr k | _ \<Rightarrow> Inr 1),
      urHub = exampleHub\<lparr>hubListBindings := \<lambda>_ _. returnP (map (\<lambda>n. exampleBinding (''crb-'' @ n) n BindingStateScheduled ''p-1'') [''a'', ''b'', ''c''])\<rparr>,
      urOverrides = exampleOverrideClient (Inr []),
      urManifests = \<lparr>UnmarshalObject = \<lambda>_. None, UnmarshalEnvelope = \<lambda>_. None, IsClusterScopedResources = \<lambda>_. True\<rparr>,
      urLib = exampleSelection,
      getUpdateRun = \<lambda>_ _ w. (case w of None \<Rightarrow> Inl (ErrAPI NotFound) | Some run \<Rightarrow> Inr run, w),
      putUpdateRun = \<lambda>run w. (case w of None \<Rightarrow> (Inl (ErrAPI NotFound), None)
        | Some old \<Rightarrow> let stored = run\<lparr>RunStatus := RunStatus old, DeletionTimestamp := DeletionTimestamp old\<rparr> in (Inr stored, Some stored)),
      putUpdateRunStatus = \<lambda>run w. (case w of None \<Rightarrow> (Inl (ErrAPI NotFound), None)
        | Some old \<Rightarrow> if Generation old \<noteq> Generation run then (Inl (ErrAPI Conflict), w)
                      else let stored = old\<lparr>RunStatus := RunStatus run\<rparr> in (Inr stored, Some stored)),
      urGetPlacement = \<lambda>_ _. returnP exampleExternal,
      urListLatestPolicies = \<lambda>_ _. returnP [examplePolicyUsed],
      getUpdateStrategy = \<lambda>_ _. returnP \<lparr>Stages = [exampleStage], DeleteStage = None\<rparr>,
      listClustersMatching = \<lambda>_. returnP (map exampleCluster [''a'', ''b'', ''c'']),
      putBinding = returnP, putBindingStatus = \<lambda>_. returnP (), removeBinding = \<lambda>_. returnP (),
      createApproval = \<lambda>_. returnP (), getApproval = \<lambda>_ _. failP (ErrAPI NotFound), putApprovalStatus = \<lambda>_. returnP (),
      deleteApprovals = \<lambda>_ _. returnP (), selectResources = \<lambda>_. returnP (0, []),
      getOrCreateSnapshot = \<lambda>_ _ _ _. returnP (Some (exampleSnapshot ''crp-0-snapshot''))\<rparr>"

definition exampleRun :: UpdateRun where
  "exampleRun =
     \<lparr>Name = ''run'', Namespace = '''', Labels = Map.empty, Annotations = Map.empty, Finalizers = [],
      Generation = 1, ResourceVersion = 1, DeletionTimestamp = None,
      RunSpec = \<lparr>PlacementName = ''crp'', ResourceSnapshotIndex = '''', StagedUpdateStrategyName = ''strategy'', RunStateOf = StateRun\<rparr>,
      RunStatus = \<lparr>PolicySnapshotIndexUsed = '''', PolicyObservedClusterCount = 0, ResourceSnapshotIndexUsed = '''',
        RunApplyStrategy = None, UpdateStrategySnapshot = None, StagesStatus = None, DeletionStageStatus = None,
        RunConditions = Map.empty\<rparr>\<rparr>"

definition exampleRequest :: NamespacedName where
  "exampleRequest = \<lparr>nn_Name = ''run'', nn_Namespace = ''''\<rparr>"

definition exampleWorld :: "UpdateRun option" where
  "exampleWorld = snd (ReconcileUpdateRun exampleRunClient exampleRequest (Some exampleRun))"

lemma exampleRunClient_leaves: "leavesRun exampleRunClient (\<lambda>w. w)"
  by (simp add: leavesRun_def exampleRunClient_def keeps_def goodSetter_def setsCondition_def exampleSetter_def
      exampleOverrideClient_def exampleHub_def returnP_def failP_def liftP_def) auto

lemma exampleRunClient_stores: "storesRun exampleRunClient exampleRequest (\<lambda>w. w)"
proof -
  have c: "getUpdateRun exampleRunClient ns n = (\<lambda>w. (case w of None \<Rightarrow> Inl (ErrAPI NotFound) | Some run \<Rightarrow> Inr run, w))"
    "putUpdateRun exampleRunClient run = (\<lambda>w. case w of None \<Rightarrow> (Inl (ErrAPI NotFound), None)
        | Some old \<Rightarrow> let stored = run\<lparr>RunStatus := RunStatus old, DeletionTimestamp := DeletionTimestamp old\<rparr> in (Inr stored, Some stored))"
    "putUpdateRunStatus exampleRunClient run = (\<lambda>w. case w of None \<Rightarrow> (Inl (ErrAPI NotFound), None)
        | Some old \<Rightarrow> if Generation old \<noteq> Generation run then (Inl (ErrAPI Conflict), w)
                      else let stored = old\<lparr>RunStatus := RunStatus run\<rparr> in (Inr stored, Some stored))" for ns n run
    by (simp_all add: exampleRunClient_def)
  show ?thesis
    unfolding storesRun_def c Let_def
    using exampleRunClient_leaves
    by (auto simp: sameClusters_def sameMeta_def stagesOf_def deletionClusters_def split: option.splits if_splits)
qed

lemma exampleRun_facts: "planOf exampleRunClient exampleRun = None" "live exampleRun" "guarded exampleRunClient exampleRun"
  by (simp_all add: planOf_def guarded_def exampleRun_def statusOf_def)

lemma exampleWorld_staged: "map_option stagedOf exampleWorld = Some ([[Updating, Updating, Waiting]], [])"
  by code_simp

lemma exampleWorld_limits: "map_option (\<lambda>run. limits exampleRunClient run 0) exampleWorld = Some 2"
  by code_simp

lemma exampleWorld_initialized:
  "map_option (\<lambda>run. statusOf (RunConditions (RunStatus run)) InitializedType) exampleWorld = Some (Some ConditionTrue)"
  by code_simp

section \<open>Properties\<close>

text \<open>
  C1: The reconciler of a staged update run refines the specification of staged rollouts. A
  reconciliation of a stored run, whatever the API calls it makes return and also when the
  final write of the status fails, takes the plan of the run (none before it is initialized;
  then the limits of the stages and the phases of their clusters) to the plan of the stored
  run afterwards by steps of the specification: a plan appears with nothing started; then a
  cluster of a stage is started only when every earlier stage is complete and fewer unfinished
  clusters than the maximal concurrency come before it, a started cluster finishes or fails, and
  the delete stage starts after all the others. The run goes away only when it is being
  deleted.
\<close>

theorem update_run_refines_plan:
  assumes "storesRun c req R" and "R w = Some run" and "guarded c run"
    and "ReconcileUpdateRun c req w = (r, w')"
  shows "(\<not> live run \<and> R w' = None) \<or>
    (\<exists>run'. R w' = Some run' \<and> planSteps (planOf c run) (planOf c run') \<and> guarded c run')"
  using Reconcile_advanced[OF assms(1-3)] assms(4) by (simp add: advanced_def)

theorem update_run_refines_plan_witness:
  "(\<exists>run'. exampleWorld = Some run' \<and> planSteps None (planOf exampleRunClient run')) \<and>
   map_option stagedOf exampleWorld = Some ([[Updating, Updating, Waiting]], [])"
proof -
  obtain r where "ReconcileUpdateRun exampleRunClient exampleRequest (Some exampleRun) = (r, exampleWorld)"
    unfolding exampleWorld_def by (metis prod.collapse)
  from update_run_refines_plan[OF exampleRunClient_stores refl exampleRun_facts(3) this] exampleRun_facts(1,2) exampleWorld_staged
  show ?thesis by auto
qed

text \<open>
  C2: In every history of a staged update run, made of its creation, reconciliations and changes
  of others to everything but its status and finalizer, the stored run keeps the promises of a
  staged rollout once it is initialized: of each stage at most as many clusters as its maximal
  concurrency allows are being updated or have failed, nothing of a stage is started before every
  cluster of all earlier stages has been updated, and the delete stage has not started before
  every cluster of all stages has been updated.
\<close>

theorem update_run_keeps_order:
  assumes "storesRun c req R" and "history c req R w" and "R w = Some run"
    and "statusOf (RunConditions (RunStatus run)) InitializedType = Some ConditionTrue"
  shows "(\<forall>k < length (stagesOf run).
      int (length (filter (\<lambda>cl. phaseOf cl = Updating \<or> phaseOf cl = Failed) (StageClusters (stagesOf run ! k))))
        \<le> max (limits c run k) 0 \<and>
      ((\<forall>cl \<in> set (StageClusters (stagesOf run ! k)). phaseOf cl = Waiting) \<or>
       (\<forall>i < k. \<forall>cl \<in> set (StageClusters (stagesOf run ! i)). phaseOf cl = Updated))) \<and>
    ((\<forall>cl \<in> set (deletionClusters run). phaseOf cl = Waiting) \<or>
      (\<forall>s \<in> set (stagesOf run). \<forall>cl \<in> set (StageClusters s). phaseOf cl = Updated))"
proof -
  from history_orderly[OF assms(1-3)] assms(4) have o: "orderly (limits c run) (stagedOf run)"
    by (simp add: planOf_def)
  have len: "length (fst (stagedOf run)) = length (stagesOf run)"
    and nth: "\<And>k. k < length (stagesOf run) \<Longrightarrow> fst (stagedOf run) ! k = map phaseOf (StageClusters (stagesOf run ! k))"
    by (simp_all add: stagedOf_def)
  have "\<forall>k < length (stagesOf run).
      int (length (filter (\<lambda>cl. phaseOf cl = Updating \<or> phaseOf cl = Failed) (StageClusters (stagesOf run ! k))))
        \<le> max (limits c run k) 0 \<and>
      ((\<forall>cl \<in> set (StageClusters (stagesOf run ! k)). phaseOf cl = Waiting) \<or>
       (\<forall>i < k. \<forall>cl \<in> set (StageClusters (stagesOf run ! i)). phaseOf cl = Updated))"
  proof (intro allI impI conjI)
    fix k assume k: "k < length (stagesOf run)"
    with o len have w: "window (limits c run k) (fst (stagedOf run) ! k)"
      and e: "list_all (\<lambda>p. p = Waiting) (fst (stagedOf run) ! k) \<or> list_all complete (take k (fst (stagedOf run)))"
      by (auto simp: orderly_def)
    from window_inProgress[OF w] nth[OF k] show "int (length (filter (\<lambda>cl. phaseOf cl = Updating \<or> phaseOf cl = Failed)
        (StageClusters (stagesOf run ! k)))) \<le> max (limits c run k) 0"
      by (simp add: inProgress_def filter_map comp_def)
    from e k nth len show "(\<forall>cl \<in> set (StageClusters (stagesOf run ! k)). phaseOf cl = Waiting) \<or>
        (\<forall>i < k. \<forall>cl \<in> set (StageClusters (stagesOf run ! i)). phaseOf cl = Updated)"
      by (auto simp: list_all_length complete_def) (auto simp: list_all_iff in_set_conv_nth)
  qed
  moreover from o have "(\<forall>cl \<in> set (deletionClusters run). phaseOf cl = Waiting) \<or>
      (\<forall>s \<in> set (stagesOf run). \<forall>cl \<in> set (StageClusters s). phaseOf cl = Updated)"
    by (auto simp: orderly_def stagedOf_def list_all_iff complete_def)
  ultimately show ?thesis by (rule conjI)
qed

theorem update_run_keeps_order_witness:
  "\<exists>run. exampleWorld = Some run \<and> limits exampleRunClient run 0 = 2 \<and> length (stagesOf run) = 1 \<and>
     length (filter (\<lambda>cl. phaseOf cl = Updating \<or> phaseOf cl = Failed) (StageClusters (stagesOf run ! 0))) \<le> 2"
proof -
  have h: "history exampleRunClient exampleRequest (\<lambda>w. w) exampleWorld"
    unfolding exampleWorld_def
    by (rule history.reconciled[OF history.created[of "\<lambda>w. w" "Some exampleRun" exampleRun]]) (simp_all add: exampleRun_facts)
  from exampleWorld_staged obtain run where run: "exampleWorld = Some run" "stagedOf run = ([[Updating, Updating, Waiting]], [])" by auto
  then have len: "length (stagesOf run) = 1" by (auto simp: stagedOf_def)
  from exampleWorld_initialized have i: "statusOf (RunConditions (RunStatus run)) InitializedType = Some ConditionTrue"
    unfolding run(1) by simp
  from exampleWorld_limits have lim: "limits exampleRunClient run 0 = 2" unfolding run(1) by simp
  from update_run_keeps_order[OF exampleRunClient_stores h run(1) i] lim len
  have "length (filter (\<lambda>cl. phaseOf cl = Updating \<or> phaseOf cl = Failed) (StageClusters (stagesOf run ! 0))) \<le> 2" by simp
  with run(1) lim len show ?thesis by auto
qed

section \<open>Overrides of a run in a namespace\<close>

lemma PickFrom_no_overrides:
  "PickFromResourceMatchedOverridesForTargetCluster c lib n cros [] w = (Inr (cro, ro), w') \<Longrightarrow> ro = []"
  by (auto simp: PickFromResourceMatchedOverridesForTargetCluster_def returnP_def elim!: bindP_InrE split: if_split_asm)

lemma pickClusterOverrides_none:
  "pickClusterOverrides c cros [] cls w = (Inr cls', w') \<Longrightarrow> list_all (\<lambda>cl. cus_ResourceOverrideSnapshots cl = []) cls'"
  by (induction cls arbitrary: cls' w)
    (auto simp: returnP_def elim!: bindP_InrE dest!: PickFrom_no_overrides split: prod.splits)

lemma pickStageOverrides_none:
  "pickStageOverrides c cros [] ss w = (Inr ss', w') \<Longrightarrow>
     list_all (\<lambda>s. list_all (\<lambda>cl. cus_ResourceOverrideSnapshots cl = []) (StageClusters s)) ss'"
  by (induction ss arbitrary: ss' w)
    (auto simp: returnP_def elim!: bindP_InrE dest: pickClusterOverrides_none)

text \<open>An override for a placement of its own namespace.\<close>

definition forNamespacedPlacement :: "OverrideSnapshot \<Rightarrow> bool" where
  "forNamespacedPlacement ro \<longleftrightarrow>
     Namespace ro \<noteq> '''' \<and> (\<exists>p. OverridePlacement ro = Some p \<and> ref_Scope p = NamespaceScoped)"

lemma namespaced_not_matched:
  assumes "roMatched key possible ro" "CHR ''/'' \<notin> set key" "forNamespacedPlacement ro" shows False
proof -
  have "CHR ''/'' \<in> set (GetObjectKeyFromNamespaceName (Namespace ro) n)" for n
    using assms(3) by (simp add: GetObjectKeyFromNamespaceName_def forNamespacedPlacement_def)
  with assms show ?thesis by (auto simp: roMatched_def forNamespacedPlacement_def)
qed

lemma filter_namespaced:
  "CHR ''/'' \<notin> set key \<Longrightarrow> list_all forNamespacedPlacement l \<Longrightarrow> filter (roMatched key possible) l = []"
  by (induction l) (auto dest: namespaced_not_matched)

lemma Fetch_namespaced:
  assumes "FetchAllMatchingOverridesForResourceSnapshot c mf key master w = (Inr (cros, ros), w')" "CHR ''/'' \<notin> set key"
    and "\<And>w l w'. listLatestResourceOverrideSnapshots c w = (Inr l, w') \<Longrightarrow> list_all forNamespacedPlacement l"
  shows "ros = []"
  using assms(1)
  unfolding FetchAllMatchingOverridesForResourceSnapshot_def case_prod_beta
  by (auto simp: returnP_def filter_namespaced[OF assms(2)] elim!: bindP_InrE split: if_split_asm dest!: assms(3))

text \<open>
  C38: A staged update run ignores every resource override for a placement of its namespace. When
  all the resource overrides are such, a run records none for any of its clusters: the overrides
  are looked up with the bare name of the placement, and the key of a reference to a namespaced
  placement is the name with the namespace in front of it. (The rollout controller looks them
  up with the key that has the namespace.)
\<close>

theorem update_run_ignores_namespaced_overrides:
  assumes "recordOverrideSnapshots c placement (w, run) = (Inr u, (w', run'))"
    and "CHR ''/'' \<notin> set (PlacementName (RunSpec run))"
    and "\<And>w l w'. listLatestResourceOverrideSnapshots (urOverrides c) w = (Inr l, w') \<Longrightarrow> list_all forNamespacedPlacement l"
  shows "list_all (\<lambda>s. list_all (\<lambda>cl. cus_ResourceOverrideSnapshots cl = []) (StageClusters s)) (stagesOf run')"
proof -
  from assms(1) obtain master cros ros w1 w2 w3 stages where
    f: "FetchAllMatchingOverridesForResourceSnapshot (urOverrides c) (urManifests c) (PlacementName (RunSpec run)) master w1 = (Inr (cros, ros), w2)"
    and p: "pickStageOverrides c cros ros (stagesOf run) w2 = (Inr stages, w3)" and s: "stagesOf run' = stages \<or> stagesOf run' = []"
    unfolding recordOverrideSnapshots_def case_prod_beta
    by (auto simp: readP_Inr callP_Inr markP_Inr failP_def stagesOf_def elim!: bindP_InrE split: option.split_asm)
  from Fetch_namespaced[OF f assms(2,3)] p have "pickStageOverrides c cros [] (stagesOf run) w2 = (Inr stages, w3)" by simp
  from pickStageOverrides_none[OF this] s show ?thesis by auto
qed

definition exampleNamespacedOverride :: OverrideSnapshot where
  "exampleNamespacedOverride =
     (exampleOverride ''ro'')\<lparr>Namespace := ''team'',
       OverridePlacement := Some \<lparr>ref_Name = ''rp'', ref_Scope = NamespaceScoped\<rparr>\<rparr>"

definition exampleNamespacedClient :: "UpdateRun option updateRunClient" where
  "exampleNamespacedClient =
     exampleRunClient\<lparr>urOverrides := (exampleOverrideClient (Inr []))\<lparr>listLatestResourceOverrideSnapshots :=
         returnP [exampleNamespacedOverride]\<rparr>,
       getOrCreateSnapshot := \<lambda>_ _ _ _. returnP (Some ((exampleSnapshot ''rp-0-snapshot'')\<lparr>Annotations :=
         [NumberOfResourceSnapshotsAnnotation \<mapsto> ''1'', ResourceGroupHashAnnotation \<mapsto> ''h'']\<rparr>))\<rparr>"

definition exampleNamespacedRun :: UpdateRun where
  "exampleNamespacedRun =
     exampleRun\<lparr>Namespace := ''team'', RunSpec := (RunSpec exampleRun)\<lparr>PlacementName := ''rp''\<rparr>,
       RunStatus := (RunStatus exampleRun)\<lparr>StagesStatus := Some [newStageStatus ''canary'' [''a''] [] []]\<rparr>\<rparr>"

theorem update_run_ignores_namespaced_overrides_witness:
  "case recordOverrideSnapshots exampleNamespacedClient exampleExternal (None, exampleNamespacedRun) of
     (r, (w, run')) \<Rightarrow> r = Inr () \<and> map (\<lambda>s. length (StageClusters s)) (stagesOf run') = [1] \<and>
       list_all (\<lambda>s. list_all (\<lambda>cl. cus_ResourceOverrideSnapshots cl = []) (StageClusters s)) (stagesOf run')"
proof -
  obtain r w' run' where e: "recordOverrideSnapshots exampleNamespacedClient exampleExternal (None, exampleNamespacedRun) = (r, (w', run'))"
    by (metis surj_pair)
  have r: "fst (recordOverrideSnapshots exampleNamespacedClient exampleExternal (None, exampleNamespacedRun)) = Inr ()"
    and n: "map (\<lambda>s. length (StageClusters s))
        (stagesOf (snd (snd (recordOverrideSnapshots exampleNamespacedClient exampleExternal (None, exampleNamespacedRun))))) = [1]"
    by code_simp+
  have l: "list_all forNamespacedPlacement l"
    if "listLatestResourceOverrideSnapshots (urOverrides exampleNamespacedClient) w = (Inr l, w'')" for w l w''
    using that by (auto simp: exampleNamespacedClient_def exampleNamespacedOverride_def forNamespacedPlacement_def returnP_def)
  have k: "CHR ''/'' \<notin> set (PlacementName (RunSpec exampleNamespacedRun))"
    by (simp add: exampleNamespacedRun_def)
  from e r have e': "recordOverrideSnapshots exampleNamespacedClient exampleExternal (None, exampleNamespacedRun) = (Inr (), (w', run'))"
    by simp
  from update_run_ignores_namespaced_overrides[OF e' k l] e' n show ?thesis by simp
qed

end
