(* ===== verification/Eligibility.thy ===== *)
theory Eligibility
  imports Overrider Framework_Base
begin

text \<open>
  Which namespaces, resource types and objects may be placed at all
  (\<open>pkg/utils/resourceeligibility\<close>): the matcher trie over group, version and kind
  (\<open>trie.go\<close>), the parser of the lists an administrator passes as flags (\<open>parse.go\<close>), the
  checkers with their check lists and the checker they wrap (\<open>guard.go\<close>), the built-in deny
  lists (\<open>defaults.go\<close>), and the two checkers the hub agent composes from them
  (\<open>cmd/hubagent/workload/setup.go\<close>). A Go set is a \<open>set\<close>, a map of child nodes is a map and
  a nil map the empty one. The REST mapper is library code, the record \<open>RESTMapper\<close>. Strings
  are ASCII, so that \<open>strings.TrimSpace\<close> removes the six ASCII white space characters.
\<close>

section \<open>Errors with a category\<close>

record GroupVersionResource =
  gvr_Group :: string
  gvr_Version :: string
  gvr_Resource :: string

datatype ErrCategory =
  ErrCategoryUnexpected | ErrCategoryTransient | ErrCategoryAPIServer | ErrCategoryUser
| ErrCategoryUncategorized

datatype Error =
  Error ErrCategory "Error option" string
| NoResourceMatchError GroupVersionResource
| LibraryError string
| PanicError string

definition NewUserError :: "Error option \<Rightarrow> string \<Rightarrow> Error" where
  "NewUserError e desc = Error ErrCategoryUser e desc"

definition NewUnexpectedError :: "Error option \<Rightarrow> string \<Rightarrow> Error" where
  "NewUnexpectedError e desc = Error ErrCategoryUnexpected e desc"

record RESTMapper =
  KindsFor :: "GroupVersionResource \<Rightarrow> Error + GroupVersionKind list"
  IsNoMatchError :: "Error \<Rightarrow> bool"

section \<open>The matcher trie\<close>

definition wildcard :: string where
  "wildcard = ''*''"

datatype gvkMatcherTrie = Node (children: "string \<Rightarrow> gvkMatcherTrie option")

definition emptyTrie :: gvkMatcherTrie where
  "emptyTrie = Node Map.empty"

fun registerEdges :: "string list \<Rightarrow> gvkMatcherTrie \<Rightarrow> gvkMatcherTrie" where
  "registerEdges [] node = node"
| "registerEdges (edge # edges) (Node cs) =
     Node (cs(edge \<mapsto> registerEdges edges (case cs edge of None \<Rightarrow> emptyTrie | Some c \<Rightarrow> c)))"

definition Register :: "GroupVersionKind \<Rightarrow> gvkMatcherTrie \<Rightarrow> Error + gvkMatcherTrie" where
  "Register gvk t =
     (let grp = gvk_Group gvk in
      if grp = wildcard then Inl (NewUserError None ''cannot use wildcards for API groups'')
      else
        let version = (if gvk_Version gvk = '''' then wildcard else gvk_Version gvk);
            kind = (if gvk_Kind gvk = '''' then wildcard else gvk_Kind gvk)
        in Inr (registerEdges [grp, version, kind] t))"

primrec deepCopyNode :: "gvkMatcherTrie \<Rightarrow> gvkMatcherTrie" where
  "deepCopyNode (Node cs) = Node (map_option deepCopyNode \<circ> cs)"

fun walk :: "gvkMatcherTrie \<Rightarrow> string list \<Rightarrow> bool" where
  "walk node [] = True"
| "walk (Node cs) (edge # edges) =
     ((case cs wildcard of None \<Rightarrow> False | Some c \<Rightarrow> walk c edges) \<or>
      (case cs edge of None \<Rightarrow> False | Some c \<Rightarrow> walk c edges))"

definition Match :: "gvkMatcherTrie \<Rightarrow> GroupVersionKind \<Rightarrow> bool" where
  "Match t gvk = walk t [gvk_Group gvk, gvk_Version gvk, gvk_Kind gvk]"

section \<open>Parsing lists of resource types\<close>

definition isSpace :: "char \<Rightarrow> bool" where
  "isSpace c = (c \<in> {CHR '' '', CHR 0x09, CHR 0x0A, CHR 0x0B, CHR 0x0C, CHR 0x0D})"

definition TrimSpace :: "string \<Rightarrow> string" where
  "TrimSpace s = rev (dropWhile isSpace (rev (dropWhile isSpace s)))"

definition coreAPIVersion :: string where
  "coreAPIVersion = ''v1''"

definition newGVK :: "string \<Rightarrow> string \<Rightarrow> string \<Rightarrow> GroupVersionKind" where
  "newGVK g v k = \<lparr>gvk_Group = g, gvk_Version = v, gvk_Kind = k\<rparr>"

fun parseKinds :: "bool \<Rightarrow> string \<Rightarrow> string \<Rightarrow> string list \<Rightarrow> Error + GroupVersionKind list" where
  "parseKinds several g v [] = Inr []"
| "parseKinds several g v (kind # kinds) =
     (if TrimSpace kind = '''' \<and> several then Inl (NewUserError None ''kind cannot be empty'')
      else (case parseKinds several g v kinds of
              Inl e \<Rightarrow> Inl e
            | Inr gvks \<Rightarrow> Inr (newGVK g v (TrimSpace kind) # gvks)))"

definition parseKindSegment :: "string \<Rightarrow> string \<Rightarrow> string \<Rightarrow> Error + GroupVersionKind list" where
  "parseKindSegment g v segment =
     (let kinds = split_on CHR '','' segment in parseKinds (1 < length kinds) g v kinds)"

definition ParseOneGVK :: "string \<Rightarrow> Error + GroupVersionKind list" where
  "ParseOneGVK input =
     (let segments = map TrimSpace (split_on CHR ''/'' input);
          first = hd segments
      in if first = coreAPIVersion then
           (case segments of
              [s] \<Rightarrow> Inr [newGVK '''' coreAPIVersion '''']
            | [s, kinds] \<Rightarrow> parseKindSegment '''' coreAPIVersion kinds
            | _ \<Rightarrow> Inl (NewUserError None
                      ''core API group entry must be in the form of v1 or v1/<kind>[,<kind>...]''))
         else if first = '''' \<or> first = wildcard then
           Inl (NewUserError None ''the API group segment cannot be empty or a wildcard'')
         else
           (case segments of
              [g] \<Rightarrow> Inr [newGVK g '''' '''']
            | [g, v] \<Rightarrow> Inr [newGVK g v '''']
            | [g, v, kinds] \<Rightarrow> parseKindSegment g v kinds
            | _ \<Rightarrow> Inl (NewUserError None ''entry must be in the form of <group>, <group>/<version>, or <group>/<version>/<kind>[,<kind>...]'')))"

fun parseEntries :: "string list \<Rightarrow> Error + GroupVersionKind list" where
  "parseEntries [] = Inr []"
| "parseEntries (entry # entries) =
     (case ParseOneGVK entry of
        Inl e \<Rightarrow> Inl e
      | Inr entryGVKs \<Rightarrow>
          (case parseEntries entries of Inl e \<Rightarrow> Inl e | Inr gvks \<Rightarrow> Inr (entryGVKs @ gvks)))"

definition ParseGVKs :: "string \<Rightarrow> Error + GroupVersionKind list" where
  "ParseGVKs input =
     (let input' = TrimSpace input in
      if input' = '''' then Inr [] else parseEntries (split_on CHR '';'' input'))"

section \<open>Checkers\<close>

datatype NamespaceEligibilityMode = NamespaceEligibilityModeAllowList | NamespaceEligibilityModeDenyList
datatype GVKEligibilityMode = GVKEligibilityModeAllowList | GVKEligibilityModeDenyList

record checkerFields =
  nsEligibilityMode :: NamespaceEligibilityMode
  customNSList :: "string set"
  customNSPrefixList :: "string set"
  gvkEligibilityMode :: GVKEligibilityMode
  customGVKList :: gvkMatcherTrie
  skipNSCheck :: bool
  skipGVKRCheck :: bool
  skipObjectCheck :: bool
  restMapper :: RESTMapper

datatype checker = Checker (own: checkerFields) (wrapped: "checker option")

record CheckerOptions =
  RestMapperOpt :: RESTMapper
  SkipNSCheck :: bool
  SkipGVKRCheck :: bool
  SkipObjectCheck :: bool
  Wrapped :: "checker option"

definition New :: "CheckerOptions \<Rightarrow> checker" where
  "New opts =
     Checker \<lparr>nsEligibilityMode = NamespaceEligibilityModeDenyList, customNSList = {},
       customNSPrefixList = {}, gvkEligibilityMode = GVKEligibilityModeDenyList,
       customGVKList = emptyTrie, skipNSCheck = SkipNSCheck opts,
       skipGVKRCheck = SkipGVKRCheck opts, skipObjectCheck = SkipObjectCheck opts,
       restMapper = RestMapperOpt opts\<rparr> (Wrapped opts)"

definition newNonEmptyStringSet :: "string list \<Rightarrow> string set" where
  "newNonEmptyStringSet items = set (filter (\<lambda>item. item \<noteq> '''') items)"

definition SetNamespaceCheckList ::
  "NamespaceEligibilityMode \<Rightarrow> string list \<Rightarrow> string list \<Rightarrow> checker \<Rightarrow> checker" where
  "SetNamespaceCheckList mode nsNames nsNamePrefixes c =
     Checker ((own c)\<lparr>nsEligibilityMode := mode, customNSList := newNonEmptyStringSet nsNames,
       customNSPrefixList := newNonEmptyStringSet nsNamePrefixes\<rparr>) (wrapped c)"

fun registerAll :: "GroupVersionKind list \<Rightarrow> gvkMatcherTrie \<Rightarrow> Error + gvkMatcherTrie" where
  "registerAll [] t = Inr t"
| "registerAll (gvk # gvks) t =
     (case Register gvk t of Inl e \<Rightarrow> Inl e | Inr t' \<Rightarrow> registerAll gvks t')"

definition SetGVKCheckList ::
  "GVKEligibilityMode \<Rightarrow> GroupVersionKind list \<Rightarrow> checker \<Rightarrow> Error + checker" where
  "SetGVKCheckList mode gvks c =
     (case registerAll gvks emptyTrie of
        Inl e \<Rightarrow> Inl e
      | Inr list \<Rightarrow>
          Inr (Checker ((own c)\<lparr>gvkEligibilityMode := mode, customGVKList := list\<rparr>) (wrapped c)))"

definition Wraps :: "checker \<Rightarrow> checker \<Rightarrow> checker" where
  "Wraps w c = Checker (own c) (Some w)"

primrec DeepCopy :: "checker \<Rightarrow> checker" where
  "DeepCopy (Checker f w) =
     Checker (f\<lparr>customGVKList := deepCopyNode (customGVKList f)\<rparr>) (map_option DeepCopy w)"

definition HasPrefix :: "string \<Rightarrow> string \<Rightarrow> bool" where
  "HasPrefix s prefix = (take (length prefix) s = prefix)"

definition hasAnyPrefix :: "string \<Rightarrow> string set \<Rightarrow> bool" where
  "hasAnyPrefix ns prefixes = (\<exists>prefix\<in>prefixes. HasPrefix ns prefix)"

definition nsEligible :: "checkerFields \<Rightarrow> string \<Rightarrow> bool" where
  "nsEligible f ns =
     (case nsEligibilityMode f of
        NamespaceEligibilityModeAllowList \<Rightarrow>
          ns \<in> customNSList f \<or> hasAnyPrefix ns (customNSPrefixList f)
      | NamespaceEligibilityModeDenyList \<Rightarrow>
          ns \<notin> customNSList f \<and> \<not> hasAnyPrefix ns (customNSPrefixList f))"

fun AllowsNamespace :: "checker \<Rightarrow> string \<Rightarrow> bool" where
  "AllowsNamespace (Checker f w) ns =
     (if ns = '''' then True
      else if skipNSCheck f then
        (case w of Some w' \<Rightarrow> AllowsNamespace w' ns
         | None \<Rightarrow> nsEligibilityMode f \<noteq> NamespaceEligibilityModeAllowList)
      else if \<not> nsEligible f ns then False
      else (case w of Some w' \<Rightarrow> AllowsNamespace w' ns | None \<Rightarrow> True))"

definition gvkEligible :: "checkerFields \<Rightarrow> GroupVersionKind \<Rightarrow> bool" where
  "gvkEligible f gvk =
     (case gvkEligibilityMode f of
        GVKEligibilityModeAllowList \<Rightarrow> Match (customGVKList f) gvk
      | GVKEligibilityModeDenyList \<Rightarrow> \<not> Match (customGVKList f) gvk)"

fun AllowsGVK :: "checker \<Rightarrow> GroupVersionKind \<Rightarrow> bool" where
  "AllowsGVK (Checker f w) gvk =
     (if skipGVKRCheck f then
        (case w of Some w' \<Rightarrow> AllowsGVK w' gvk
         | None \<Rightarrow> gvkEligibilityMode f \<noteq> GVKEligibilityModeAllowList)
      else if \<not> gvkEligible f gvk then False
      else (case w of Some w' \<Rightarrow> AllowsGVK w' gvk | None \<Rightarrow> True))"

fun AllowsGVR :: "checker \<Rightarrow> GroupVersionResource \<Rightarrow> Error + bool" where
  "AllowsGVR (Checker f w) gvr =
     (if skipGVKRCheck f then
        (case w of Some w' \<Rightarrow> AllowsGVR w' gvr
         | None \<Rightarrow> Inr (gvkEligibilityMode f \<noteq> GVKEligibilityModeAllowList))
      else
        (case KindsFor (restMapper f) gvr of
           Inl e \<Rightarrow>
             if IsNoMatchError (restMapper f) e
             then Inl (NewUserError (Some e) ''no match is found given the GVR'')
             else Inl (NewUnexpectedError (Some e) ''failed to map the resource to its kinds'')
         | Inr [] \<Rightarrow>
             Inl (NewUserError (Some (NoResourceMatchError gvr)) ''no match is found given the GVR'')
         | Inr (gvk # gvks) \<Rightarrow>
             if \<not> list_all (AllowsGVK (Checker f w)) (gvk # gvks) then Inr False
             else (case w of Some w' \<Rightarrow> AllowsGVR w' gvr | None \<Rightarrow> Inr True)))"

section \<open>Objects\<close>

datatype fieldValue = StringField string | OtherField

record OwnerReference =
  Controller :: "bool option"

record Object = Unstructured +
  u_DeletionTimestamp :: "int option"
  u_OwnerReferences :: "OwnerReference list"
  u_Labels :: "string \<rightharpoonup> string"
  u_Type :: "fieldValue option"

definition hasControllerOwner :: "Object \<Rightarrow> bool" where
  "hasControllerOwner obj = list_ex (\<lambda>ref. Controller ref = Some True) (u_OwnerReferences obj)"

definition NestedTypeString :: "Object \<Rightarrow> Error + string option" where
  "NestedTypeString obj =
     (case u_Type obj of
        None \<Rightarrow> Inr None
      | Some (StringField s) \<Rightarrow> Inr (Some s)
      | Some OtherField \<Rightarrow> Inl (LibraryError ''accessor error''))"

definition coreKind :: "string \<Rightarrow> GroupVersionKind" where
  "coreKind kind = newGVK '''' ''v1'' kind"

definition NamespaceGVK :: GroupVersionKind where
  "NamespaceGVK = coreKind ''Namespace''"

definition SecretTypeServiceAccountToken :: string where
  "SecretTypeServiceAccountToken = ''kubernetes.io/service-account-token''"

definition objectVerdict :: "Object \<Rightarrow> Error + string option" where
  "objectVerdict obj =
     (if u_DeletionTimestamp obj \<noteq> None then
        Inr (Some ''the resource is being deleted and cannot be placed'')
      else if hasControllerOwner obj then
        Inr (Some ''the resource is under the management of a controller; place the owner object instead if applicable'')
      else if u_GVK obj = coreKind ''ConfigMap'' \<and> u_Name obj = ''kube-root-ca.crt'' then
        Inr (Some ''the built-in CA certificate config map is created automatically in every namespace and cannot be placed'')
      else if u_GVK obj = coreKind ''ServiceAccount'' \<and> u_Name obj = ''default'' then
        Inr (Some ''the default service account is created automatically in every namespace and cannot be placed'')
      else if u_GVK obj = coreKind ''Service'' \<and> u_Namespace obj = ''default'' \<and> u_Name obj = ''kubernetes'' then
        Inr (Some ''the Kubernetes API service is created automatically in the default namespace and cannot be placed'')
      else if u_GVK obj = coreKind ''Secret'' then
        (case NestedTypeString obj of
           Inl e \<Rightarrow> Inl (NewUnexpectedError (Some e) ''failed to retrieve the type of the secret'')
         | Inr secretType \<Rightarrow>
             Inr (if secretType = Some SecretTypeServiceAccountToken
                  then Some ''service account token secrets are created automatically along with their service accounts and cannot be placed''
                  else None))
      else if u_GVK obj = NamespaceGVK \<and> u_Name obj = ''default'' then
        Inr (Some ''the default namespace itself cannot be placed'')
      else Inr None)"

fun AllowsObject :: "checker \<Rightarrow> Object \<Rightarrow> Error + bool \<times> string" where
  "AllowsObject (Checker f w) obj =
     (if skipObjectCheck f then
        (case w of Some w' \<Rightarrow> AllowsObject w' obj | None \<Rightarrow> Inr (True, ''''))
      else
        (case objectVerdict obj of
           Inl e \<Rightarrow> Inl e
         | Inr (Some reason) \<Rightarrow> Inr (False, reason)
         | Inr None \<Rightarrow> (case w of Some w' \<Rightarrow> AllowsObject w' obj | None \<Rightarrow> Inr (True, ''''))))"

section \<open>The built-in checkers\<close>

definition clusterGroup :: string where
  "clusterGroup = ''cluster.kubernetes-fleet.io''"

definition placementGroup :: string where
  "placementGroup = ''placement.kubernetes-fleet.io''"

definition kfPlacementGroup :: string where
  "kfPlacementGroup = ''placement.kubefleet.dev''"

definition kfRolloutGroup :: string where
  "kfRolloutGroup = ''rollout.kubefleet.dev''"

definition NetworkingGroupName :: string where
  "NetworkingGroupName = ''networking.fleet.azure.com''"

definition GVKsDeniedByDefault :: "GroupVersionKind list" where
  "GVKsDeniedByDefault =
     [newGVK clusterGroup '''' '''',
      newGVK '''' '''' ''Node'',
      newGVK '''' '''' ''Pod'',
      newGVK ''events.k8s.io'' '''' '''',
      newGVK ''coordination.k8s.io'' '''' '''',
      newGVK ''metrics.k8s.io'' '''' '''',
      newGVK NetworkingGroupName '''' ''ServiceImport'',
      newGVK NetworkingGroupName '''' ''TrafficManagerProfile'',
      newGVK NetworkingGroupName '''' ''TrafficManagerBackend'',
      newGVK placementGroup '''' ''ClusterResourcePlacement'',
      newGVK placementGroup '''' ''ResourcePlacement'',
      newGVK placementGroup '''' ''ClusterResourceBinding'',
      newGVK placementGroup '''' ''ResourceBinding'',
      newGVK placementGroup '''' ''ClusterResourceSnapshot'',
      newGVK placementGroup '''' ''ResourceSnapshot'',
      newGVK placementGroup '''' ''ClusterSchedulingPolicySnapshot'',
      newGVK placementGroup '''' ''SchedulingPolicySnapshot'',
      newGVK placementGroup '''' ''Work'',
      newGVK placementGroup '''' ''ClusterStagedUpdateRun'',
      newGVK placementGroup '''' ''ClusterStagedUpdateStrategy'',
      newGVK placementGroup '''' ''ClusterApprovalRequest'',
      newGVK placementGroup '''' ''StagedUpdateRun'',
      newGVK placementGroup '''' ''StagedUpdateStrategy'',
      newGVK placementGroup '''' ''ApprovalRequest'',
      newGVK placementGroup '''' ''ClusterResourcePlacementEviction'',
      newGVK placementGroup '''' ''ClusterResourcePlacementDisruptionBudget'',
      newGVK placementGroup '''' ''ClusterResourceOverride'',
      newGVK placementGroup '''' ''ClusterResourceOverrideSnapshot'',
      newGVK placementGroup '''' ''ResourceOverride'',
      newGVK placementGroup '''' ''ResourceOverrideSnapshot'',
      newGVK placementGroup '''' ''ClusterResourcePlacementStatus'',
      newGVK kfPlacementGroup '''' '''',
      newGVK kfRolloutGroup '''' '''']"

definition GVKsDeniedForV1APIs :: "GroupVersionKind list" where
  "GVKsDeniedForV1APIs =
     [newGVK '''' '''' ''Endpoints'',
      newGVK placementGroup '''' ''ClusterResourceEnvelope'',
      newGVK placementGroup '''' ''ResourceEnvelope'']"

definition KubeNSNamePrefix :: string where
  "KubeNSNamePrefix = ''kube-''"

definition FleetNSNamePrefix :: string where
  "FleetNSNamePrefix = ''fleet-''"

definition baseline :: "RESTMapper \<Rightarrow> bool \<Rightarrow> Error + checker" where
  "baseline m skipObject =
     (let c = New \<lparr>RestMapperOpt = m, SkipNSCheck = False, SkipGVKRCheck = False,
                   SkipObjectCheck = skipObject, Wrapped = None\<rparr>;
          c' = SetNamespaceCheckList NamespaceEligibilityModeDenyList []
                 [KubeNSNamePrefix, FleetNSNamePrefix] c
      in case SetGVKCheckList GVKEligibilityModeDenyList GVKsDeniedByDefault c' of
           Inl e \<Rightarrow> Inl (PanicError ''failed to register the default GVK deny list'')
         | Inr c'' \<Rightarrow> Inr c'')"

definition Baseline :: "RESTMapper \<Rightarrow> Error + checker" where
  "Baseline m = baseline m False"

definition DefaultForV0APIs :: "RESTMapper \<Rightarrow> Error + checker" where
  "DefaultForV0APIs m =
     (case baseline m True of
        Inl e \<Rightarrow> Inl e
      | Inr b \<Rightarrow> Inr (New \<lparr>RestMapperOpt = m, SkipNSCheck = True, SkipGVKRCheck = False,
                           SkipObjectCheck = True, Wrapped = Some b\<rparr>))"

definition DefaultForV1APIs :: "RESTMapper \<Rightarrow> Error + checker" where
  "DefaultForV1APIs m =
     (case Baseline m of
        Inl e \<Rightarrow> Inl e
      | Inr b \<Rightarrow>
          (case SetGVKCheckList GVKEligibilityModeDenyList GVKsDeniedForV1APIs
                  (New \<lparr>RestMapperOpt = m, SkipNSCheck = True, SkipGVKRCheck = False,
                        SkipObjectCheck = True, Wrapped = Some b\<rparr>) of
             Inl e \<Rightarrow>
               Inl (PanicError ''failed to register the default GVK deny list for the v1 APIs'')
           | Inr c \<Rightarrow> Inr c))"

section \<open>The checkers of the hub agent\<close>

record PlacementManagementOptions =
  AllowedPropagatingAPIs :: string
  SkippedPropagatingAPIs :: string
  SkippedPropagatingNamespaces :: string

definition userGVKs ::
  "PlacementManagementOptions \<Rightarrow> GVKEligibilityMode \<times> (Error + GroupVersionKind list)" where
  "userGVKs opts =
     (if AllowedPropagatingAPIs opts = ''''
      then (GVKEligibilityModeDenyList, ParseGVKs (SkippedPropagatingAPIs opts))
      else (GVKEligibilityModeAllowList, ParseGVKs (AllowedPropagatingAPIs opts)))"

definition userSkippedNamespaces :: "PlacementManagementOptions \<Rightarrow> string list" where
  "userSkippedNamespaces opts =
     filter (\<lambda>ns. ns \<noteq> '''') (split_on CHR '';'' (SkippedPropagatingNamespaces opts))"

definition customChecker :: "RESTMapper \<Rightarrow> PlacementManagementOptions \<Rightarrow> Error + checker" where
  "customChecker m opts =
     (case userGVKs opts of
        (mode, Inl e) \<Rightarrow> Inl e
      | (mode, Inr gvks) \<Rightarrow>
          let names = userSkippedNamespaces opts;
              c = New \<lparr>RestMapperOpt = m, SkipNSCheck = (length names = 0),
                       SkipGVKRCheck = (length gvks = 0), SkipObjectCheck = True,
                       Wrapped = None\<rparr>
          in SetGVKCheckList mode gvks
               (SetNamespaceCheckList NamespaceEligibilityModeDenyList names [] c))"

definition setupCheckers ::
  "RESTMapper \<Rightarrow> PlacementManagementOptions \<Rightarrow> Error + checker \<times> checker" where
  "setupCheckers m opts =
     (case customChecker m opts of
        Inl e \<Rightarrow> Inl e
      | Inr custom \<Rightarrow>
          (case DefaultForV0APIs m of
             Inl e \<Rightarrow> Inl e
           | Inr v0 \<Rightarrow>
               (case DefaultForV1APIs m of
                  Inl e \<Rightarrow> Inl e
                | Inr v1 \<Rightarrow> Inr (Wraps v0 (DeepCopy custom), Wraps v1 (DeepCopy custom)))))"

section \<open>What a list of entries covers\<close>

definition covers :: "GroupVersionKind \<Rightarrow> GroupVersionKind \<Rightarrow> bool" where
  "covers entry gvk =
     (gvk_Group entry = gvk_Group gvk \<and>
      (gvk_Version entry \<in> {'''', wildcard} \<or> gvk_Version entry = gvk_Version gvk) \<and>
      (gvk_Kind entry \<in> {'''', wildcard} \<or> gvk_Kind entry = gvk_Kind gvk))"

definition pathMatches :: "string list \<Rightarrow> string list \<Rightarrow> bool" where
  "pathMatches path edges = list_all2 (\<lambda>p e. p = wildcard \<or> p = e) path edges"

lemma pathMatches_simps [simp]:
  "pathMatches [] es = (es = [])" "pathMatches ps [] = (ps = [])"
  "pathMatches (p # ps) (e # es) = ((p = wildcard \<or> p = e) \<and> pathMatches ps es)"
  by (simp_all add: pathMatches_def)

lemma walk_emptyTrie [simp]: "edges \<noteq> [] \<Longrightarrow> \<not> walk emptyTrie edges"
  by (cases edges) (simp_all add: emptyTrie_def)

text \<open>
  A walk of the length of the registered path succeeds afterwards when it did before or when
  it follows the new path.
\<close>

lemma walk_registerEdges:
  assumes "length path = length edges" and "edges \<noteq> []"
  shows "walk (registerEdges path t) edges \<longleftrightarrow> walk t edges \<or> pathMatches path edges"
  using assms
proof (induction path t arbitrary: edges rule: registerEdges.induct)
  case (1 node)
  then show ?case by simp
next
  case (2 edge path cs)
  then obtain e es where es: "edges = e # es" by (cases edges) auto
  show ?case
  proof (cases "es = []")
    case True
    with 2 es show ?thesis by (auto split: option.splits)
  next
    case False
    with 2 es have IH: "walk (registerEdges path (case cs edge of None \<Rightarrow> emptyTrie | Some c \<Rightarrow> c)) es \<longleftrightarrow>
        walk (case cs edge of None \<Rightarrow> emptyTrie | Some c \<Rightarrow> c) es \<or> pathMatches path es"
      by simp
    show ?thesis using es IH False by (auto split: option.splits)
  qed
qed

lemma Match_Register:
  "Register gvk t = Inr t' \<Longrightarrow> Match t' g \<longleftrightarrow> Match t g \<or> covers gvk g"
  unfolding Register_def Match_def Let_def
  by (auto split: if_splits simp: walk_registerEdges covers_def)

lemma Match_registerAll:
  "registerAll gvks t = Inr t' \<Longrightarrow> Match t' g \<longleftrightarrow> Match t g \<or> list_ex (\<lambda>e. covers e g) gvks"
proof (induction gvks arbitrary: t)
  case (Cons gvk gvks)
  then show ?case by (auto split: sum.splits dest: Match_Register)
qed simp

lemma registerAll_Inr_iff:
  "(\<exists>t'. registerAll gvks t = Inr t') \<longleftrightarrow> list_all (\<lambda>e. gvk_Group e \<noteq> wildcard) gvks"
  by (induction gvks arbitrary: t) (auto simp: Register_def Let_def split: sum.splits)

lemma Match_emptyTrie [simp]: "\<not> Match emptyTrie g"
  by (simp add: Match_def)

lemma deepCopyNode_id [simp]: "deepCopyNode t = t"
proof (induction t)
  case (Node cs)
  have "map_option deepCopyNode (cs x) = cs x" for x
  proof (cases "cs x")
    case (Some a)
    then have "Some a \<in> range cs" by (metis rangeI)
    from Node [OF this, of a] Some show ?thesis by simp
  qed simp
  then show ?case by (simp add: fun_eq_iff)
qed

lemma DeepCopy_id [simp]: "DeepCopy c = c"
proof (induction c)
  case (Checker f w)
  then have "map_option DeepCopy w = w" by (cases w) auto
  then show ?case by simp
qed

lemma SetGVKCheckList_Inr:
  assumes "list_all (\<lambda>e. gvk_Group e \<noteq> wildcard) gvks"
  obtains t where "SetGVKCheckList mode gvks c =
      Inr (Checker ((own c)\<lparr>gvkEligibilityMode := mode, customGVKList := t\<rparr>) (wrapped c))"
    and "\<And>g. Match t g \<longleftrightarrow> list_ex (\<lambda>e. covers e g) gvks"
proof -
  from assms obtain t where t: "registerAll gvks emptyTrie = Inr t"
    using registerAll_Inr_iff by blast
  show thesis by (rule that [of t]) (simp_all add: SetGVKCheckList_def t Match_registerAll [OF t])
qed

section \<open>Parsed entries name a group\<close>

lemma parseKinds_groups: "parseKinds sev g v ks = Inr gvks \<Longrightarrow> e \<in> set gvks \<Longrightarrow> gvk_Group e = g"
  by (induction ks arbitrary: gvks) (auto simp: newGVK_def split: if_splits sum.splits)

lemma ParseOneGVK_groups:
  assumes "ParseOneGVK input = Inr gvks" and "e \<in> set gvks"
  shows "gvk_Group e \<noteq> wildcard"
proof -
  have core: "'''' \<noteq> wildcard" by (simp add: wildcard_def)
  from assms show ?thesis
    unfolding ParseOneGVK_def Let_def parseKindSegment_def
    by (auto split: if_splits list.splits dest: parseKinds_groups simp: newGVK_def core)
qed

lemma parseEntries_groups:
  "parseEntries entries = Inr gvks \<Longrightarrow> e \<in> set gvks \<Longrightarrow> gvk_Group e \<noteq> wildcard"
  by (induction entries arbitrary: gvks) (auto split: sum.splits dest: ParseOneGVK_groups)

lemma ParseGVKs_groups:
  "ParseGVKs input = Inr gvks \<Longrightarrow> list_all (\<lambda>e. gvk_Group e \<noteq> wildcard) gvks"
  by (auto simp: ParseGVKs_def Let_def list_all_iff split: if_splits dest: parseEntries_groups)

lemma default_lists_groups:
  "list_all (\<lambda>e. gvk_Group e \<noteq> wildcard) GVKsDeniedByDefault"
  "list_all (\<lambda>e. gvk_Group e \<noteq> wildcard) GVKsDeniedForV1APIs"
  by (simp_all add: GVKsDeniedByDefault_def GVKsDeniedForV1APIs_def newGVK_def wildcard_def
      clusterGroup_def placementGroup_def kfPlacementGroup_def kfRolloutGroup_def
      NetworkingGroupName_def)

section \<open>A resource is as eligible as its kinds\<close>

fun sharesMapper :: "RESTMapper \<Rightarrow> checker \<Rightarrow> bool" where
  "sharesMapper m (Checker f w) =
     (restMapper f = m \<and> (case w of None \<Rightarrow> True | Some w' \<Rightarrow> sharesMapper m w'))"

fun consultsMapper :: "checker \<Rightarrow> bool" where
  "consultsMapper (Checker f w) =
     (\<not> skipGVKRCheck f \<or> (case w of None \<Rightarrow> False | Some w' \<Rightarrow> consultsMapper w'))"

definition kindsVerdict ::
  "RESTMapper \<Rightarrow> (GroupVersionKind \<Rightarrow> bool) \<Rightarrow> GroupVersionResource \<Rightarrow> Error + bool" where
  "kindsVerdict m allowed gvr =
     (case KindsFor m gvr of
        Inl e \<Rightarrow>
          if IsNoMatchError m e
          then Inl (NewUserError (Some e) ''no match is found given the GVR'')
          else Inl (NewUnexpectedError (Some e) ''failed to map the resource to its kinds'')
      | Inr gvks \<Rightarrow>
          if gvks = []
          then Inl (NewUserError (Some (NoResourceMatchError gvr)) ''no match is found given the GVR'')
          else Inr (list_all allowed gvks))"

lemma AllowsGVR_Inr:
  assumes "sharesMapper m c" and "KindsFor m gvr = Inr gvks" and "gvks \<noteq> []"
  shows "AllowsGVR c gvr = Inr (list_all (AllowsGVK c) gvks)"
  using assms(1)
proof (induction c)
  case (Checker f w)
  from assms(3) obtain k ks where ks: "gvks = k # ks" by (cases gvks) auto
  have IH: "AllowsGVR w' gvr = Inr (list_all (AllowsGVK w') gvks)" if "w = Some w'" for w'
    using Checker that by auto
  have mono: "AllowsGVK w' g" if "w = Some w'" "AllowsGVK (Checker f w) g" for w' g
    using that by (auto split: if_splits)
  show ?case
  proof (cases w)
    case None
    with Checker.prems assms(2) show ?thesis by (auto simp: ks list_all_iff)
  next
    case (Some w')
    show ?thesis
    proof (cases "skipGVKRCheck f")
      case True
      then have "AllowsGVK (Checker f w) = AllowsGVK w'" using Some by (auto simp: fun_eq_iff)
      with True Some IH show ?thesis by (simp del: AllowsGVK.simps)
    next
      case False
      have "list_all (AllowsGVK w') gvks" if "list_all (AllowsGVK (Checker f w)) gvks"
        using that mono [OF Some] by (auto simp: list_all_iff simp del: AllowsGVK.simps)
      with False Some IH [OF Some] Checker.prems assms(2) show ?thesis
        by (simp add: ks del: AllowsGVK.simps)
    qed
  qed
qed

lemma AllowsGVR_Inl:
  assumes "sharesMapper m c" and "consultsMapper c"
    and "kindsVerdict m allowed gvr = Inl e"
  shows "AllowsGVR c gvr = Inl e"
  using assms(1,2)
proof (induction c)
  case (Checker f w)
  show ?case
  proof (cases "skipGVKRCheck f")
    case True
    with Checker.prems obtain w' where w: "w = Some w'" "sharesMapper m w'" "consultsMapper w'"
      by (cases w) auto
    with Checker.IH have "AllowsGVR w' gvr = Inl e" by simp
    with True w show ?thesis by simp
  next
    case False
    with Checker.prems assms(3) show ?thesis
      by (auto simp: kindsVerdict_def split: sum.splits list.splits if_splits)
  qed
qed

lemma AllowsGVR_kindsVerdict:
  assumes "sharesMapper m c" and "consultsMapper c"
  shows "AllowsGVR c gvr = kindsVerdict m (AllowsGVK c) gvr"
proof (cases "kindsVerdict m (AllowsGVK c) gvr")
  case (Inl e)
  with AllowsGVR_Inl [OF assms Inl] show ?thesis by simp
next
  case (Inr b)
  then obtain gvks where "KindsFor m gvr = Inr gvks" "gvks \<noteq> []"
    by (auto simp: kindsVerdict_def split: sum.splits if_splits)
  with AllowsGVR_Inr [OF assms(1)] show ?thesis by (simp add: kindsVerdict_def)
qed

section \<open>Reading back a printed list\<close>

definition trimmed :: "string \<Rightarrow> bool" where
  "trimmed s = (s \<noteq> [] \<longrightarrow> \<not> isSpace (hd s) \<and> \<not> isSpace (last s))"

definition plainSegment :: "string \<Rightarrow> bool" where
  "plainSegment s = (trimmed s \<and> CHR '';'' \<notin> set s \<and> CHR ''/'' \<notin> set s \<and> CHR '','' \<notin> set s)"

definition printableGVK :: "GroupVersionKind \<Rightarrow> bool" where
  "printableGVK g =
     (plainSegment (gvk_Group g) \<and> plainSegment (gvk_Version g) \<and> plainSegment (gvk_Kind g) \<and>
      (if gvk_Group g = '''' then gvk_Version g = coreAPIVersion
       else gvk_Group g \<noteq> coreAPIVersion \<and> gvk_Group g \<noteq> wildcard))"

definition entryText :: "GroupVersionKind \<Rightarrow> string" where
  "entryText g =
     (if gvk_Group g = '''' then gvk_Version g @ ''/'' @ gvk_Kind g
      else gvk_Group g @ ''/'' @ gvk_Version g @ ''/'' @ gvk_Kind g)"

lemma TrimSpace_trimmed: "trimmed s \<Longrightarrow> TrimSpace s = s"
proof (cases "s = []")
  case False
  assume "trimmed s"
  with False have "dropWhile isSpace s = s" "dropWhile isSpace (rev s) = rev s"
    by (auto simp: trimmed_def dropWhile_eq_self_iff hd_rev)
  then show ?thesis by (simp add: TrimSpace_def)
qed (simp add: TrimSpace_def)

lemma split_on_last: "sep \<notin> set a \<Longrightarrow> sep \<notin> set b \<Longrightarrow> split_on sep (a @ sep # b) = [a, b]"
  by (simp add: split_on_append split_on_absent)

lemma parseKindSegment_plain:
  "plainSegment k \<Longrightarrow> parseKindSegment g v k = Inr [newGVK g v k]"
  by (simp add: parseKindSegment_def plainSegment_def split_on_absent TrimSpace_trimmed)

lemma ParseOneGVK_entryText:
  assumes "printableGVK g"
  shows "ParseOneGVK (entryText g) = Inr [g]"
proof (cases "gvk_Group g = ''''")
  case True
  with assms have k: "plainSegment (gvk_Kind g)" "gvk_Version g = ''v1''"
    by (simp_all add: printableGVK_def coreAPIVersion_def)
  then have "split_on CHR ''/'' (entryText g) = [''v1'', gvk_Kind g]"
    using True by (simp add: entryText_def plainSegment_def split_on_absent)
  moreover have "TrimSpace ''v1'' = ''v1''" by (rule TrimSpace_trimmed) (simp add: trimmed_def isSpace_def)
  ultimately show ?thesis
    using True k by (simp add: ParseOneGVK_def coreAPIVersion_def parseKindSegment_plain
        TrimSpace_trimmed plainSegment_def newGVK_def)
next
  case False
  with assms have segs: "plainSegment (gvk_Group g)" "plainSegment (gvk_Version g)" "plainSegment (gvk_Kind g)"
    and ne: "gvk_Group g \<noteq> coreAPIVersion" "gvk_Group g \<noteq> wildcard"
    by (simp_all add: printableGVK_def)
  then have "split_on CHR ''/'' (entryText g) = [gvk_Group g, gvk_Version g, gvk_Kind g]"
    using False by (simp add: entryText_def plainSegment_def split_on_append split_on_absent)
  moreover have "map TrimSpace [gvk_Group g, gvk_Version g, gvk_Kind g] =
      [gvk_Group g, gvk_Version g, gvk_Kind g]"
    using segs by (simp add: TrimSpace_trimmed plainSegment_def)
  ultimately show ?thesis
    using False ne segs by (simp add: ParseOneGVK_def parseKindSegment_plain newGVK_def)
qed

lemma entryText_plain:
  assumes "printableGVK g"
  shows "entryText g \<noteq> []" "\<not> isSpace (hd (entryText g))" "\<not> isSpace (last (entryText g))"
    "CHR '';'' \<notin> set (entryText g)"
  using assms by (auto simp: printableGVK_def entryText_def plainSegment_def trimmed_def
      coreAPIVersion_def isSpace_def split: if_splits)

lemma split_on_join:
  assumes "xs \<noteq> []" and "\<And>x. x \<in> set xs \<Longrightarrow> sep \<notin> set x"
  shows "split_on sep (joinStrings [sep] xs) = xs"
  using assms by (induction "[sep]" xs rule: joinStrings.induct) (auto simp: split_on_append split_on_absent)

lemma joinStrings_trimmed:
  assumes "xs \<noteq> []" and "\<And>x. x \<in> set xs \<Longrightarrow> x \<noteq> [] \<and> \<not> isSpace (hd x) \<and> \<not> isSpace (last x)"
  shows "joinStrings sep xs \<noteq> [] \<and> \<not> isSpace (hd (joinStrings sep xs)) \<and> \<not> isSpace (last (joinStrings sep xs))"
  using assms by (induction sep xs rule: joinStrings.induct) auto

lemma parseEntries_entryText:
  "list_all printableGVK gvks \<Longrightarrow> parseEntries (map entryText gvks) = Inr gvks"
  by (induction gvks) (simp_all add: ParseOneGVK_entryText)

text \<open>
  C39: Reading back a printed list. A list of resource types written the documented way, one
  group/version/kind per entry (v1/kind for the core group) and a semicolon between entries,
  is parsed to exactly that list, in order.
\<close>

theorem printed_list_is_parsed:
  assumes "list_all printableGVK gvks"
  shows "ParseGVKs (joinStrings '';'' (map entryText gvks)) = Inr gvks"
proof (cases "gvks = []")
  case True
  then show ?thesis by (simp add: ParseGVKs_def TrimSpace_def)
next
  case False
  let ?text = "joinStrings '';'' (map entryText gvks)"
  have elem: "x \<noteq> [] \<and> \<not> isSpace (hd x) \<and> \<not> isSpace (last x)" "CHR '';'' \<notin> set x"
    if "x \<in> set (map entryText gvks)" for x
    using that assms entryText_plain by (auto simp: list_all_iff)
  have "?text \<noteq> [] \<and> trimmed ?text"
    using joinStrings_trimmed [of "map entryText gvks" "'';''"] elem(1) False
    unfolding trimmed_def by fastforce
  then have "ParseGVKs ?text = parseEntries (split_on CHR '';'' ?text)"
    by (simp add: ParseGVKs_def TrimSpace_trimmed)
  also have "split_on CHR '';'' ?text = map entryText gvks"
    using elem(2) False by (intro split_on_join) auto
  finally show ?thesis using assms by (simp add: parseEntries_entryText)
qed

theorem printed_list_is_parsed_witness:
  "ParseGVKs ''apps/v1/Deployment;v1/ConfigMap'' =
     Inr [newGVK ''apps'' ''v1'' ''Deployment'', newGVK '''' ''v1'' ''ConfigMap'']"
proof -
  have "list_all printableGVK [newGVK ''apps'' ''v1'' ''Deployment'', newGVK '''' ''v1'' ''ConfigMap'']"
    by (simp add: printableGVK_def plainSegment_def trimmed_def isSpace_def newGVK_def
        coreAPIVersion_def wildcard_def)
  from printed_list_is_parsed [OF this] show ?thesis by (simp add: entryText_def newGVK_def)
qed

section \<open>What the hub agent lets through\<close>

definition coveredBy :: "GroupVersionKind list \<Rightarrow> GroupVersionKind \<Rightarrow> bool" where
  "coveredBy entries g = list_ex (\<lambda>e. covers e g) entries"

definition userAllowsGVK ::
  "GVKEligibilityMode \<Rightarrow> GroupVersionKind list \<Rightarrow> GroupVersionKind \<Rightarrow> bool" where
  "userAllowsGVK mode gvks g =
     (gvks = [] \<or> (if mode = GVKEligibilityModeAllowList then coveredBy gvks g else \<not> coveredBy gvks g))"

definition hubAllowsNamespace :: "PlacementManagementOptions \<Rightarrow> string \<Rightarrow> bool" where
  "hubAllowsNamespace opts ns =
     (ns = '''' \<or> (ns \<notin> set (userSkippedNamespaces opts) \<and>
        \<not> HasPrefix ns ''kube-'' \<and> \<not> HasPrefix ns ''fleet-''))"

definition allowsLike ::
  "checker \<Rightarrow> RESTMapper \<Rightarrow> (GroupVersionKind \<Rightarrow> bool) \<Rightarrow> (string \<Rightarrow> bool) \<Rightarrow> bool" where
  "allowsLike c m kinds namespaces \<longleftrightarrow>
     AllowsGVK c = kinds \<and> AllowsNamespace c = namespaces \<and> AllowsGVR c = kindsVerdict m kinds"

lemma baseline_layer:
  obtains t where "baseline m skip = Inr (Checker
      \<lparr>nsEligibilityMode = NamespaceEligibilityModeDenyList, customNSList = {},
       customNSPrefixList = {''kube-'', ''fleet-''}, gvkEligibilityMode = GVKEligibilityModeDenyList,
       customGVKList = t, skipNSCheck = False, skipGVKRCheck = False, skipObjectCheck = skip,
       restMapper = m\<rparr> None)"
    and "\<And>g. Match t g \<longleftrightarrow> coveredBy GVKsDeniedByDefault g"
  by (rule SetGVKCheckList_Inr [OF default_lists_groups(1), of GVKEligibilityModeDenyList
        "SetNamespaceCheckList NamespaceEligibilityModeDenyList [] [KubeNSNamePrefix, FleetNSNamePrefix]
          (New \<lparr>RestMapperOpt = m, SkipNSCheck = False, SkipGVKRCheck = False,
             SkipObjectCheck = skip, Wrapped = None\<rparr>)"])
    (auto simp: baseline_def Let_def New_def SetNamespaceCheckList_def newNonEmptyStringSet_def
      KubeNSNamePrefix_def FleetNSNamePrefix_def coveredBy_def intro: that)

lemma default_v0_layer:
  obtains c where "DefaultForV0APIs m = Inr c" "sharesMapper m c" "consultsMapper c"
    and "\<And>g. AllowsGVK c g \<longleftrightarrow> \<not> coveredBy GVKsDeniedByDefault g"
    and "\<And>ns. AllowsNamespace c ns \<longleftrightarrow> ns = '''' \<or> \<not> HasPrefix ns ''kube-'' \<and> \<not> HasPrefix ns ''fleet-''"
  by (rule baseline_layer [of m True])
    (auto simp: DefaultForV0APIs_def New_def nsEligible_def gvkEligible_def hasAnyPrefix_def intro!: that)

lemma default_v1_layer:
  obtains c where "DefaultForV1APIs m = Inr c" "sharesMapper m c" "consultsMapper c"
    and "\<And>g. AllowsGVK c g \<longleftrightarrow> \<not> coveredBy (GVKsDeniedByDefault @ GVKsDeniedForV1APIs) g"
    and "\<And>ns. AllowsNamespace c ns \<longleftrightarrow> ns = '''' \<or> \<not> HasPrefix ns ''kube-'' \<and> \<not> HasPrefix ns ''fleet-''"
proof -
  obtain t where b: "Baseline m = Inr (Checker
      \<lparr>nsEligibilityMode = NamespaceEligibilityModeDenyList, customNSList = {},
       customNSPrefixList = {''kube-'', ''fleet-''}, gvkEligibilityMode = GVKEligibilityModeDenyList,
       customGVKList = t, skipNSCheck = False, skipGVKRCheck = False, skipObjectCheck = False,
       restMapper = m\<rparr> None)" (is "_ = Inr ?b")
    and t: "\<And>g. Match t g \<longleftrightarrow> coveredBy GVKsDeniedByDefault g"
    by (rule baseline_layer [of m False]) (simp add: Baseline_def)
  let ?c = "New \<lparr>RestMapperOpt = m, SkipNSCheck = True, SkipGVKRCheck = False, SkipObjectCheck = True,
      Wrapped = Some ?b\<rparr>"
  obtain t' where t': "SetGVKCheckList GVKEligibilityModeDenyList GVKsDeniedForV1APIs ?c =
      Inr (Checker ((own ?c)\<lparr>gvkEligibilityMode := GVKEligibilityModeDenyList, customGVKList := t'\<rparr>) (wrapped ?c))"
    and m': "\<And>g. Match t' g \<longleftrightarrow> coveredBy GVKsDeniedForV1APIs g"
    using SetGVKCheckList_Inr [OF default_lists_groups(2)] unfolding coveredBy_def by metis
  have "DefaultForV1APIs m =
      Inr (Checker ((own ?c)\<lparr>gvkEligibilityMode := GVKEligibilityModeDenyList, customGVKList := t'\<rparr>) (Some ?b))"
    using t' by (simp add: DefaultForV1APIs_def b) (simp add: New_def)
  then show thesis
    by (rule that) (auto simp: New_def nsEligible_def gvkEligible_def hasAnyPrefix_def t m'
        coveredBy_def list_ex_append)
qed

lemma userGVKs_groups:
  "userGVKs opts = (mode, Inr gvks) \<Longrightarrow> list_all (\<lambda>e. gvk_Group e \<noteq> wildcard) gvks"
  by (auto simp: userGVKs_def split: if_splits dest: ParseGVKs_groups)

lemma customChecker_Inr:
  assumes "userGVKs opts = (mode, Inr gvks)"
  shows "\<exists>custom. customChecker m opts = Inr custom"
proof -
  have "\<exists>c'. SetGVKCheckList mode gvks c = Inr c'" for c
    by (rule SetGVKCheckList_Inr [OF userGVKs_groups [OF assms], of mode c]) blast
  then show ?thesis using assms by (simp add: customChecker_def Let_def)
qed

lemma wrapped_allows:
  assumes "customChecker m opts = Inr custom" and "userGVKs opts = (mode, Inr gvks)"
    and "sharesMapper m b" "consultsMapper b"
    and "\<And>g. AllowsGVK b g \<longleftrightarrow> \<not> coveredBy denied g"
    and "\<And>ns. AllowsNamespace b ns \<longleftrightarrow> ns = '''' \<or> \<not> HasPrefix ns ''kube-'' \<and> \<not> HasPrefix ns ''fleet-''"
  shows "allowsLike (Wraps b custom) m (\<lambda>g. \<not> coveredBy denied g \<and> userAllowsGVK mode gvks g)
      (hubAllowsNamespace opts)"
proof -
  let ?names = "userSkippedNamespaces opts"
  note groups = userGVKs_groups [OF assms(2)]
  let ?c0 = "SetNamespaceCheckList NamespaceEligibilityModeDenyList ?names []
      (New \<lparr>RestMapperOpt = m, SkipNSCheck = (?names = []), SkipGVKRCheck = (gvks = []),
         SkipObjectCheck = True, Wrapped = None\<rparr>)"
  obtain t where t: "\<And>g. Match t g \<longleftrightarrow> coveredBy gvks g"
    and set: "SetGVKCheckList mode gvks ?c0 =
      Inr (Checker ((own ?c0)\<lparr>gvkEligibilityMode := mode, customGVKList := t\<rparr>) (wrapped ?c0))"
    by (rule SetGVKCheckList_Inr [OF groups, of mode ?c0]) (auto simp: coveredBy_def)
  have "customChecker m opts = SetGVKCheckList mode gvks ?c0"
    using assms(2) by (simp add: customChecker_def Let_def)
  with set assms(1) have c: "custom = Checker \<lparr>nsEligibilityMode = NamespaceEligibilityModeDenyList,
        customNSList = newNonEmptyStringSet ?names, customNSPrefixList = {},
        gvkEligibilityMode = mode, customGVKList = t, skipNSCheck = (?names = []),
        skipGVKRCheck = (gvks = []), skipObjectCheck = True, restMapper = m\<rparr> None"
    by (simp add: New_def SetNamespaceCheckList_def newNonEmptyStringSet_def)
  have names: "newNonEmptyStringSet ?names = set ?names"
    by (auto simp: newNonEmptyStringSet_def userSkippedNamespaces_def)
  have gvk: "AllowsGVK (Wraps b custom) = (\<lambda>g. \<not> coveredBy denied g \<and> userAllowsGVK mode gvks g)"
    by (auto simp: fun_eq_iff Wraps_def c assms(5) userAllowsGVK_def gvkEligible_def t
        split: GVKEligibilityMode.splits)
  have ns: "AllowsNamespace (Wraps b custom) = hubAllowsNamespace opts"
    by (auto simp: fun_eq_iff Wraps_def c assms(6) hubAllowsNamespace_def nsEligible_def names
        hasAnyPrefix_def)
  have "sharesMapper m (Wraps b custom)" "consultsMapper (Wraps b custom)"
    using assms(3,4) by (simp_all add: Wraps_def c)
  from AllowsGVR_kindsVerdict [OF this] gvk ns show ?thesis
    by (simp add: allowsLike_def fun_eq_iff)
qed

text \<open>
  C9: What the hub agent lets through. The set-up of the eligibility checkers fails exactly
  when the administrator's list of resource types does not parse, with that error. Otherwise
  the checker of the v0 APIs allows a kind when no built-in entry denies it and the list of
  the administrator (allow list if one is given, deny list otherwise, no restriction when it
  is empty) agrees; the checker of the v1 APIs also denies the v1 entries. Both allow a
  namespace unless it is skipped by the administrator or starts with kube- or fleet-, and a
  resource when the mapper knows at least one kind of it and every one of its kinds is allowed.
\<close>

theorem hub_agent_eligibility:
  "case userGVKs opts of
     (mode, Inl e) \<Rightarrow> setupCheckers m opts = Inl e
   | (mode, Inr gvks) \<Rightarrow>
       (\<exists>v0 v1. setupCheckers m opts = Inr (v0, v1) \<and>
          allowsLike v0 m
            (\<lambda>g. \<not> coveredBy GVKsDeniedByDefault g \<and> userAllowsGVK mode gvks g)
            (hubAllowsNamespace opts) \<and>
          allowsLike v1 m
            (\<lambda>g. \<not> coveredBy (GVKsDeniedByDefault @ GVKsDeniedForV1APIs) g \<and>
                 userAllowsGVK mode gvks g)
            (hubAllowsNamespace opts))"
proof -
  obtain mode r where r: "userGVKs opts = (mode, r)" by (metis surj_pair)
  show ?thesis
  proof (cases r)
    case (Inl e)
    then show ?thesis using r by (simp add: setupCheckers_def customChecker_def)
  next
    case (Inr gvks)
    then have u: "userGVKs opts = (mode, Inr gvks)" using r by simp
    obtain custom where c: "customChecker m opts = Inr custom"
      using customChecker_Inr [OF u] by blast
    obtain v0 where v0: "DefaultForV0APIs m = Inr v0" and w0: "allowsLike (Wraps v0 custom) m
        (\<lambda>g. \<not> coveredBy GVKsDeniedByDefault g \<and> userAllowsGVK mode gvks g) (hubAllowsNamespace opts)"
    proof (rule default_v0_layer [of m])
      fix v assume v: "DefaultForV0APIs m = Inr v" "sharesMapper m v" "consultsMapper v"
        "\<And>g. AllowsGVK v g \<longleftrightarrow> \<not> coveredBy GVKsDeniedByDefault g"
        "\<And>ns. AllowsNamespace v ns \<longleftrightarrow> ns = '''' \<or> \<not> HasPrefix ns ''kube-'' \<and> \<not> HasPrefix ns ''fleet-''"
      show thesis by (rule that [OF v(1) wrapped_allows [OF c u v(2-5)]])
    qed
    obtain v1 where v1: "DefaultForV1APIs m = Inr v1" and w1: "allowsLike (Wraps v1 custom) m
        (\<lambda>g. \<not> coveredBy (GVKsDeniedByDefault @ GVKsDeniedForV1APIs) g \<and> userAllowsGVK mode gvks g)
        (hubAllowsNamespace opts)"
    proof (rule default_v1_layer [of m])
      fix v assume v: "DefaultForV1APIs m = Inr v" "sharesMapper m v" "consultsMapper v"
        "\<And>g. AllowsGVK v g \<longleftrightarrow> \<not> coveredBy (GVKsDeniedByDefault @ GVKsDeniedForV1APIs) g"
        "\<And>ns. AllowsNamespace v ns \<longleftrightarrow> ns = '''' \<or> \<not> HasPrefix ns ''kube-'' \<and> \<not> HasPrefix ns ''fleet-''"
      show thesis by (rule that [OF v(1) wrapped_allows [OF c u v(2-5)]])
    qed
    show ?thesis using u c v0 v1 w0 w1 by (simp add: setupCheckers_def)
  qed
qed

end
