(* ===== verification/Selection.thy ===== *)
theory Selection
  imports Eligibility "HOL-Library.AList"
begin

text \<open>
  Selection of the resources of a placement
  (\<open>pkg/utils/controller/resource_selector_resolver.go\<close>): the two passes over the selectors,
  the objects of one selector or of a whole namespace, the objects that are never propagated,
  and the order of the selected resources, together with the resource types the informer
  manager tracks (\<open>pkg/utils/informer/informermanager.go\<close>). The map of tracked types is an
  association list whose order is the one Go iterates in. The caches behind the listers, the
  REST mapping, the label selectors and the conversion of a secret are library code: fields of
  \<open>informerManager\<close> and \<open>ResourceSelectorResolver\<close>; \<open>lister.List\<close> on all namespaces has the
  namespace \<open>None\<close>. The serialization of a selected object is a parameter of \<open>SelectResourcesForPlacement\<close>.
\<close>

section \<open>Selectors and resolver\<close>

datatype SelectionScope =
  NamespaceOnly | NamespaceWithResources | NamespaceWithResourceSelectors | OtherScope string

record ResourceSelectorTerm =
  rst_Group :: string
  rst_Version :: string
  rst_Kind :: string
  rst_Name :: string
  rst_LabelSelector :: "LabelSelector option"
  rst_SelectionScope :: SelectionScope

record APIResourceMeta =
  arm_GroupVersionKind :: GroupVersionKind
  arm_GroupVersionResource :: GroupVersionResource
  IsClusterScoped :: bool
  isStaticResource :: bool
  isPresent :: bool

record informerManager =
  apiResources :: "(GroupVersionKind \<times> APIResourceMeta) list"
  IsInformerSynced :: "GroupVersionResource \<Rightarrow> bool"
  ListObjects :: "GroupVersionResource \<Rightarrow> string option \<Rightarrow> ((string \<rightharpoonup> string) \<Rightarrow> bool) \<Rightarrow> Object list result"
  GetObject :: "GroupVersionResource \<Rightarrow> string option \<Rightarrow> string \<Rightarrow> Object result"

definition im_IsClusterScopedResources :: "informerManager \<Rightarrow> GroupVersionKind \<Rightarrow> bool" where
  "im_IsClusterScopedResources im gvk =
     (case map_of (apiResources im) gvk of None \<Rightarrow> False | Some resMeta \<Rightarrow> IsClusterScoped resMeta)"

definition GetNameSpaceScopedResources :: "informerManager \<Rightarrow> GroupVersionResource list" where
  "GetNameSpaceScopedResources im =
     map (arm_GroupVersionResource \<circ> snd)
       (filter (\<lambda>(_, r). isPresent r \<and> \<not> isStaticResource r \<and> \<not> IsClusterScoped r) (apiResources im))"

definition AddStaticResource :: "APIResourceMeta \<Rightarrow> informerManager \<Rightarrow> informerManager" where
  "AddStaticResource r im =
     im\<lparr>apiResources := AList.update (arm_GroupVersionKind r) (r\<lparr>isStaticResource := True\<rparr>) (apiResources im)\<rparr>"

definition CreateInformerForResource :: "APIResourceMeta \<Rightarrow> informerManager \<Rightarrow> informerManager" where
  "CreateInformerForResource r im =
     (let gvk = arm_GroupVersionKind r in
      case map_of (apiResources im) gvk of
        None \<Rightarrow>
          im\<lparr>apiResources := AList.update gvk (r\<lparr>isPresent := True, isStaticResource := False\<rparr>) (apiResources im)\<rparr>
      | Some dynRes \<Rightarrow>
          if isPresent dynRes then im
          else im\<lparr>apiResources := AList.update gvk (dynRes\<lparr>isPresent := True\<rparr>) (apiResources im)\<rparr>)"

record ResourceSelectorResolver =
  ResourceEligibilityChecker :: checker
  InformerManager :: informerManager
  RESTMapping :: "string \<Rightarrow> string \<Rightarrow> string \<Rightarrow> GroupVersionResource result"
  EnableWorkload :: bool
  AsSelector :: "LabelSelector \<Rightarrow> ((string \<rightharpoonup> string) \<Rightarrow> bool) result"
  SecretTypeOf :: "Object \<Rightarrow> string result"
  IsNoMatch :: "Error \<Rightarrow> bool"

definition selectorGVK :: "ResourceSelectorTerm \<Rightarrow> GroupVersionKind" where
  "selectorGVK s = newGVK (rst_Group s) (rst_Version s) (rst_Kind s)"

definition coreGVR :: "string \<Rightarrow> GroupVersionResource" where
  "coreGVR r = \<lparr>gvr_Group = '''', gvr_Version = ''v1'', gvr_Resource = r\<rparr>"

definition NamespaceGVR :: GroupVersionResource where
  "NamespaceGVR = coreGVR ''namespaces''"

definition ServiceGVR :: GroupVersionResource where
  "ServiceGVR = coreGVR ''services''"

definition defaultNSName :: string where
  "defaultNSName = ''default''"

section \<open>Loops\<close>

text \<open>A loop that keeps some elements, and one that appends what a call returns; both stop at an error.\<close>

fun filterR :: "('a \<Rightarrow> bool result) \<Rightarrow> 'a list \<Rightarrow> 'a list result" where
  "filterR p [] = Inr []"
| "filterR p (x # xs) =
     bindR (p x) (\<lambda>keep. bindR (filterR p xs) (\<lambda>ys. Inr (if keep then x # ys else ys)))"

fun concatR :: "('a \<Rightarrow> 'b list result) \<Rightarrow> 'a list \<Rightarrow> 'b list result" where
  "concatR f [] = Inr []"
| "concatR f (x # xs) = bindR (f x) (\<lambda>ys. bindR (concatR f xs) (\<lambda>zs. Inr (ys @ zs)))"

section \<open>Objects that are never propagated\<close>

definition appsKind :: "string \<Rightarrow> GroupVersionKind" where
  "appsKind kind = newGVK ''apps'' ''v1'' kind"

definition EndpointSliceGVK :: GroupVersionKind where
  "EndpointSliceGVK = newGVK ''discovery.k8s.io'' ''v1'' ''EndpointSlice''"

definition LabelManagedBy :: string where
  "LabelManagedBy = ''endpointslice.kubernetes.io/managed-by''"

definition shouldPropagate :: "ResourceSelectorResolver \<Rightarrow> Object \<Rightarrow> bool result" where
  "shouldPropagate rs obj =
     (let gvk = u_GVK obj in
      if gvk = appsKind ''ReplicaSet'' \<or> gvk = appsKind ''ControllerRevision'' then
        Inr (\<not> 0 < length (u_OwnerReferences obj))
      else if gvk = coreKind ''ConfigMap'' then Inr (u_Name obj \<noteq> ''kube-root-ca.crt'')
      else if gvk = coreKind ''ServiceAccount'' then Inr (u_Name obj \<noteq> ''default'')
      else if gvk = coreKind ''Secret'' then
        (case SecretTypeOf rs obj of
           Inl e \<Rightarrow> Inl ErrUnexpectedBehavior
         | Inr t \<Rightarrow> Inr (t \<noteq> SecretTypeServiceAccountToken))
      else if gvk = coreKind ''PersistentVolumeClaim'' then Inr (\<not> EnableWorkload rs)
      else if gvk = coreKind ''Endpoints'' then
        (case GetObject (InformerManager rs) ServiceGVR (Some (u_Namespace obj)) (u_Name obj) of
           Inl e \<Rightarrow>
             if IsNotFound (Some e) then Inr True
             else (case NewAPIServerError True (Some e) of
                     None \<Rightarrow> Inr False | Some e' \<Rightarrow> Inl e')
         | Inr service \<Rightarrow> Inr False)
      else if gvk = EndpointSliceGVK then Inr (u_Labels obj LabelManagedBy = None)
      else Inr True)"

definition ShouldPropagateObj :: "ResourceSelectorResolver \<Rightarrow> Object \<Rightarrow> bool result" where
  "ShouldPropagateObj rs obj =
     (if u_DeletionTimestamp obj \<noteq> None then Inr False
      else if u_GVK obj = NamespaceGVK \<and>
              \<not> AllowsNamespace (ResourceEligibilityChecker rs) (u_Name obj) then Inl ErrUserError
      else if u_GVK obj = NamespaceGVK \<and> u_Name obj = defaultNSName then Inl ErrUserError
      else shouldPropagate rs obj)"

section \<open>Fetching the objects of a selector\<close>

definition IgnoreNotFound :: "go_error \<Rightarrow> go_error option" where
  "IgnoreNotFound e = (if IsNotFound (Some e) then None else Some e)"

definition selectorOf :: "ResourceSelectorResolver \<Rightarrow> ResourceSelectorTerm \<Rightarrow> ((string \<rightharpoonup> string) \<Rightarrow> bool) result" where
  "selectorOf rs selector =
     (case rst_LabelSelector selector of
        None \<Rightarrow> Inr (\<lambda>_. True)
      | Some ls \<Rightarrow> wrapR (\<lambda>_. ErrUnexpectedBehavior) (AsSelector rs ls))"

definition cachedList ::
  "ResourceSelectorResolver \<Rightarrow> GroupVersionResource \<Rightarrow> string option \<Rightarrow> ((string \<rightharpoonup> string) \<Rightarrow> bool) \<Rightarrow> Object list result"
where
  "cachedList rs gvr ns sel =
     wrapR (\<lambda>e. the (NewAPIServerError True (Some e))) (ListObjects (InformerManager rs) gvr ns sel)"

text \<open>The resources of one tracked type in a namespace.\<close>

definition fetchTracked :: "ResourceSelectorResolver \<Rightarrow> string \<Rightarrow> GroupVersionResource \<Rightarrow> Object list result" where
  "fetchTracked rs ns gvr =
     (case AllowsGVR (ResourceEligibilityChecker rs) gvr of
        Inl e \<Rightarrow> if IsNoMatch rs e then Inr [] else Inl ErrUnexpectedBehavior
      | Inr eligible \<Rightarrow>
          if \<not> eligible then Inr []
          else if \<not> IsInformerSynced (InformerManager rs) gvr then Inl ErrExpectedBehavior
          else bindR (cachedList rs gvr (Some ns) (\<lambda>_. True)) (filterR (ShouldPropagateObj rs)))"

definition fetchAllResourcesInOneNamespace :: "ResourceSelectorResolver \<Rightarrow> string \<Rightarrow> Object list result" where
  "fetchAllResourcesInOneNamespace rs ns =
     (if \<not> AllowsNamespace (ResourceEligibilityChecker rs) ns then Inl ErrUserError
      else if ns = defaultNSName then Inl ErrUserError
      else
        (case GetObject (InformerManager rs) NamespaceGVR None ns of
           Inl e \<Rightarrow>
             (case NewAPIServerError True (IgnoreNotFound e) of None \<Rightarrow> Inr [] | Some e' \<Rightarrow> Inl e')
         | Inr obj \<Rightarrow>
             if u_DeletionTimestamp obj \<noteq> None then Inr []
             else bindR (concatR (fetchTracked rs ns) (GetNameSpaceScopedResources (InformerManager rs)))
                    (\<lambda>objs. Inr (obj # objs))))"

definition fetchNamespaceResources :: "ResourceSelectorResolver \<Rightarrow> ResourceSelectorTerm \<Rightarrow> Object list result" where
  "fetchNamespaceResources rs selector =
     (if rst_Name selector \<noteq> '''' then fetchAllResourcesInOneNamespace rs (rst_Name selector)
      else
        bindR (selectorOf rs selector) (\<lambda>sel.
        bindR (cachedList rs NamespaceGVR None sel) (\<lambda>namespaces.
        concatR (\<lambda>ns. fetchAllResourcesInOneNamespace rs (u_Name ns)) namespaces)))"

definition fetchResources ::
  "ResourceSelectorResolver \<Rightarrow> ResourceSelectorTerm \<Rightarrow> NamespacedName \<Rightarrow> Object list result" where
  "fetchResources rs selector key =
     (case RESTMapping rs (rst_Group selector) (rst_Kind selector) (rst_Version selector) of
        Inl e \<Rightarrow> Inl ErrUserError
      | Inr gvr \<Rightarrow>
          let isNamespacedResource = (\<not> im_IsClusterScopedResources (InformerManager rs) (selectorGVK selector));
              ns = (if isNamespacedResource then Some (nn_Namespace key) else None)
          in if isNamespacedResource \<and> nn_Namespace key = '''' then Inl ErrUserError
             else if \<not> isNamespacedResource \<and> nn_Namespace key \<noteq> '''' then Inl ErrUserError
             else if \<not> IsInformerSynced (InformerManager rs) gvr then Inl ErrExpectedBehavior
             else if rst_Name selector \<noteq> '''' then
               (case GetObject (InformerManager rs) gvr ns (rst_Name selector) of
                  Inl e \<Rightarrow>
                    (case NewAPIServerError True (IgnoreNotFound e) of None \<Rightarrow> Inr [] | Some e' \<Rightarrow> Inl e')
                | Inr obj \<Rightarrow>
                    bindR (ShouldPropagateObj rs obj) (\<lambda>shouldInclude.
                    Inr (if shouldInclude then [obj] else [])))
             else
               bindR (selectorOf rs selector) (\<lambda>sel.
               bindR (cachedList rs gvr ns sel) (filterR (ShouldPropagateObj rs))))"

definition fetchSelectedNamespace ::
  "ResourceSelectorResolver \<Rightarrow> ResourceSelectorTerm \<Rightarrow> string \<Rightarrow> string option result" where
  "fetchSelectedNamespace rs selector placementName =
     bindR (fetchResources rs selector \<lparr>nn_Name = placementName, nn_Namespace = ''''\<rparr>) (\<lambda>objs.
     Inr (case objs of [] \<Rightarrow> None | obj # _ \<Rightarrow> Some (u_Name obj)))"

section \<open>The order of the selected resources\<close>

definition resourceSortOrder :: "(string \<times> int) list" where
  "resourceSortOrder =
     [(''PriorityClass'', 0), (''Namespace'', 1), (''NetworkPolicy'', 2), (''ResourceQuota'', 3),
      (''LimitRange'', 4), (''PodDisruptionBudget'', 5), (''ServiceAccount'', 6), (''Secret'', 7),
      (''ConfigMap'', 8), (''StorageClass'', 9), (''PersistentVolume'', 10),
      (''PersistentVolumeClaim'', 11), (''CustomResourceDefinition'', 12), (''ClusterRole'', 13),
      (''ClusterRoleBinding'', 14), (''Role'', 15), (''RoleBinding'', 16), (''Service'', 17),
      (''DaemonSet'', 18), (''Pod'', 19), (''ReplicationController'', 20), (''ReplicaSet'', 21),
      (''Deployment'', 22), (''HorizontalPodAutoscaler'', 23), (''StatefulSet'', 24), (''Job'', 25),
      (''CronJob'', 26), (''IngressClass'', 27), (''Ingress'', 28), (''APIService'', 29),
      (''MutatingWebhookConfiguration'', 30), (''ValidatingWebhookConfiguration'', 31)]"

text \<open>\<open>GroupVersion.String\<close> and \<open>GroupVersionKind.String\<close> of the API machinery.\<close>

definition groupVersionString :: "GroupVersionKind \<Rightarrow> string" where
  "groupVersionString gvk =
     (if gvk_Group gvk \<noteq> '''' then gvk_Group gvk @ ''/'' @ gvk_Version gvk else gvk_Version gvk)"

definition gvkString :: "GroupVersionKind \<Rightarrow> string" where
  "gvkString gvk = gvk_Group gvk @ ''/'' @ gvk_Version gvk @ '', Kind='' @ gvk_Kind gvk"

definition objectKey :: "Object \<Rightarrow> string" where
  "objectKey obj = u_Namespace obj @ ''/'' @ u_Name obj"

definition lessByGVK :: "bool \<Rightarrow> Object \<Rightarrow> Object \<Rightarrow> bool" where
  "lessByGVK ignoreKind obj1 obj2 =
     (let text = (if ignoreKind then groupVersionString else gvkString);
          gvk1 = text (u_GVK obj1);
          gvk2 = text (u_GVK obj2)
      in if gvk1 = gvk2 then objectKey obj1 < objectKey obj2 else gvk1 < gvk2)"

definition resourceLess :: "Object \<Rightarrow> Object \<Rightarrow> bool" where
  "resourceLess obj1 obj2 =
     (case (map_of resourceSortOrder (gvk_Kind (u_GVK obj1)), map_of resourceSortOrder (gvk_Kind (u_GVK obj2))) of
        (None, None) \<Rightarrow> lessByGVK False obj1 obj2
      | (None, Some _) \<Rightarrow> False
      | (Some _, None) \<Rightarrow> True
      | (Some i, Some j) \<Rightarrow> if i = j then lessByGVK True obj1 obj2 else i < j)"

definition sortResources :: "Object list \<Rightarrow> Object list" where
  "sortResources = sort_by resourceLess"

section \<open>Gathering\<close>

definition identifierOf :: "Object \<Rightarrow> ResourceIdentifier" where
  "identifierOf obj =
     \<lparr>ri_Group = gvk_Group (u_GVK obj), ri_Version = gvk_Version (u_GVK obj), ri_Kind = gvk_Kind (u_GVK obj),
      ri_Name = u_Name obj, ri_Namespace = u_Namespace obj\<rparr>"

definition restrictsNamespace :: "NamespacedName \<Rightarrow> ResourceSelectorTerm \<Rightarrow> bool" where
  "restrictsNamespace key selector =
     (selectorGVK selector = NamespaceGVK \<and> nn_Namespace key = '''' \<and>
      rst_SelectionScope selector = NamespaceWithResourceSelectors)"

definition firstPass ::
  "ResourceSelectorResolver \<Rightarrow> NamespacedName \<Rightarrow> ResourceSelectorTerm list \<Rightarrow> string result" where
  "firstPass rs key selectors =
     (case find (restrictsNamespace key) selectors of
        None \<Rightarrow> Inr ''''
      | Some selector \<Rightarrow>
          bindR (fetchSelectedNamespace rs selector (nn_Name key)) (\<lambda>found.
          case found of None \<Rightarrow> Inl ErrUserError | Some namespace \<Rightarrow> Inr namespace))"

definition fetchSelector ::
  "ResourceSelectorResolver \<Rightarrow> NamespacedName \<Rightarrow> string \<Rightarrow> ResourceSelectorTerm \<Rightarrow> Object list result" where
  "fetchSelector rs key selectedNamespace selector =
     (let gvk = selectorGVK selector in
      if gvk = NamespaceGVK then
        (if nn_Namespace key \<noteq> '''' then Inl ErrUserError
         else if rst_SelectionScope selector \<in> {NamespaceOnly, NamespaceWithResourceSelectors}
         then fetchResources rs selector key
         else fetchNamespaceResources rs selector)
      else if nn_Namespace key = '''' \<and> \<not> im_IsClusterScopedResources (InformerManager rs) gvk
      then fetchResources rs selector \<lparr>nn_Name = nn_Name key, nn_Namespace = selectedNamespace\<rparr>
      else fetchResources rs selector key)"

definition addResource :: "Object \<Rightarrow> Object list \<Rightarrow> Object list result" where
  "addResource obj resources =
     (if identifierOf obj \<in> identifierOf ` set resources then Inl ErrUserError
      else Inr (resources @ [obj]))"

definition gatherSelector ::
  "ResourceSelectorResolver \<Rightarrow> NamespacedName \<Rightarrow> string \<Rightarrow> ResourceSelectorTerm \<Rightarrow> Object list \<Rightarrow> Object list result"
where
  "gatherSelector rs key selectedNamespace selector resources =
     (if \<not> AllowsGVK (ResourceEligibilityChecker rs) (selectorGVK selector) then Inr resources
      else bindR (fetchSelector rs key selectedNamespace selector) (\<lambda>objs.
           foldR addResource objs resources))"

definition gatherSelectedResource ::
  "ResourceSelectorResolver \<Rightarrow> NamespacedName \<Rightarrow> ResourceSelectorTerm list \<Rightarrow> Object list result" where
  "gatherSelectedResource rs key selectors =
     bindR (firstPass rs key selectors) (\<lambda>selectedNamespace.
     bindR (foldR (gatherSelector rs key selectedNamespace) selectors []) (\<lambda>resources.
     Inr (sortResources resources)))"

definition isEnvelope :: "Object \<Rightarrow> bool" where
  "isEnvelope obj =
     (gvk_Group (u_GVK obj) = placementGroup \<and>
      gvk_Kind (u_GVK obj) \<in> {''ClusterResourceEnvelope'', ''ResourceEnvelope''})"

definition SelectResourcesForPlacement ::
  "ResourceSelectorResolver \<Rightarrow> (Object \<Rightarrow> 'c result) \<Rightarrow> NamespacedName \<Rightarrow> ResourceSelectorTerm list \<Rightarrow>
     (nat \<times> 'c list \<times> ResourceIdentifier list) result"
where
  "SelectResourcesForPlacement rs generateResourceContent key selectors =
     bindR (gatherSelectedResource rs key selectors) (\<lambda>objs.
     bindR (concatR (\<lambda>obj. bindR (generateResourceContent obj) (\<lambda>rc. Inr [rc])) objs) (\<lambda>resources.
     Inr (length (filter isEnvelope objs), resources, map identifierOf objs)))"

end
