(* ===== verification/Selection_Props.thy ===== *)
theory Selection_Props
  imports Selection
begin

text \<open>
  Properties of resource selection: the order of the selected resources is a strict order that
  separates objects with different identifiers, so that the selection does not depend on the
  order in which caches and maps enumerate objects; and what every selected object satisfies.
\<close>

section \<open>The comparison of resources\<close>

definition kindRank :: "Object \<Rightarrow> int" where
  "kindRank obj = (case map_of resourceSortOrder (gvk_Kind (u_GVK obj)) of None \<Rightarrow> 32 | Some i \<Rightarrow> i)"

definition gvkText :: "Object \<Rightarrow> string" where
  "gvkText obj =
     (if map_of resourceSortOrder (gvk_Kind (u_GVK obj)) = None then gvkString (u_GVK obj)
      else groupVersionString (u_GVK obj))"

lemma resourceSortOrder_range: "map_of resourceSortOrder k = Some i \<Longrightarrow> i < 32"
  by (drule map_of_SomeD) (auto simp: resourceSortOrder_def)

lemma resourceSortOrder_inj:
  assumes "map_of resourceSortOrder k = Some i" and "map_of resourceSortOrder k' = Some i"
  shows "k = k'"
proof -
  have "distinct (map snd resourceSortOrder)" by (simp add: resourceSortOrder_def)
  moreover have "(k, i) \<in> set resourceSortOrder" "(k', i) \<in> set resourceSortOrder"
    using assms by (auto dest: map_of_SomeD)
  ultimately show ?thesis by (metis eq_key_imp_eq_value distinct_map inj_onD prod.inject snd_conv)
qed

lemma resourceLess_lex:
  "resourceLess a b \<longleftrightarrow>
     kindRank a < kindRank b \<or> (\<not> kindRank b < kindRank a \<and>
       (gvkText a < gvkText b \<or> (\<not> gvkText b < gvkText a \<and> objectKey a < objectKey b)))"
  by (auto simp: resourceLess_def kindRank_def gvkText_def lessByGVK_def Let_def
      dest: resourceSortOrder_range split: option.splits)

interpretation resources: strict_order resourceLess
proof -
  have "strict_order (\<lambda>a b. kindRank a < kindRank b \<or> (\<not> kindRank b < kindRank a \<and>
       (gvkText a < gvkText b \<or> (\<not> gvkText b < gvkText a \<and> objectKey a < objectKey b))))"
    by (intro strict_order_lex strict_order_key)
  then show "strict_order resourceLess" unfolding resourceLess_lex [abs_def] .
qed

text \<open>Names that the API server accepts: no slash where the keys put one, no comma in a version.\<close>

definition validNames :: "Object \<Rightarrow> bool" where
  "validNames obj =
     (CHR ''/'' \<notin> set (gvk_Group (u_GVK obj)) \<and> CHR ''/'' \<notin> set (gvk_Version (u_GVK obj)) \<and>
      CHR '','' \<notin> set (gvk_Version (u_GVK obj)) \<and> CHR ''/'' \<notin> set (u_Namespace obj))"

lemma append_sep_inject:
  "sep \<notin> set a \<Longrightarrow> sep \<notin> set b \<Longrightarrow> a @ sep # s = b @ sep # t \<longleftrightarrow> a = b \<and> s = t"
proof (induction a arbitrary: b)
  case Nil
  then show ?case by (cases b) auto
next
  case (Cons x a)
  then show ?case by (cases b) auto
qed

lemma groupVersionString_inject:
  assumes "groupVersionString g = groupVersionString h"
    and "CHR ''/'' \<notin> set (gvk_Group g)" "CHR ''/'' \<notin> set (gvk_Version g)"
    and "CHR ''/'' \<notin> set (gvk_Group h)" "CHR ''/'' \<notin> set (gvk_Version h)"
  shows "gvk_Group g = gvk_Group h \<and> gvk_Version g = gvk_Version h"
proof -
  have slash: "CHR ''/'' \<in> set (groupVersionString x) \<longleftrightarrow> gvk_Group x \<noteq> ''''"
    if "CHR ''/'' \<notin> set (gvk_Version x)" for x
    using that by (auto simp: groupVersionString_def)
  from assms(1) have "gvk_Group g = '''' \<longleftrightarrow> gvk_Group h = ''''"
    using slash [OF assms(3)] slash [OF assms(5)] by simp
  with assms show ?thesis
    by (cases "gvk_Group g = ''''") (simp_all add: groupVersionString_def append_sep_inject)
qed

lemma gvkString_inject:
  assumes "gvkString g = gvkString h"
    and "CHR ''/'' \<notin> set (gvk_Group g)" "CHR '','' \<notin> set (gvk_Version g)"
    and "CHR ''/'' \<notin> set (gvk_Group h)" "CHR '','' \<notin> set (gvk_Version h)"
  shows "gvk_Group g = gvk_Group h \<and> gvk_Version g = gvk_Version h \<and> gvk_Kind g = gvk_Kind h"
  using assms by (simp add: gvkString_def append_sep_inject)

lemma resourceLess_separates:
  assumes "validNames a" and "validNames b" and "identifierOf a \<noteq> identifierOf b"
  shows "resourceLess a b \<or> resourceLess b a"
proof (rule ccontr)
  assume "\<not> (resourceLess a b \<or> resourceLess b a)"
  then have eq: "kindRank a = kindRank b" "gvkText a = gvkText b" "objectKey a = objectKey b"
    unfolding resourceLess_lex by auto
  from eq(3) assms(1,2) have key: "u_Namespace a = u_Namespace b" "u_Name a = u_Name b"
    by (auto simp: objectKey_def validNames_def append_sep_inject)
  have "u_GVK a = u_GVK b"
  proof (cases "map_of resourceSortOrder (gvk_Kind (u_GVK a))")
    case None
    with eq(1) have "map_of resourceSortOrder (gvk_Kind (u_GVK b)) = None"
      by (auto simp: kindRank_def dest: resourceSortOrder_range split: option.splits)
    with None eq(2) assms(1,2) show ?thesis
      by (auto simp: gvkText_def validNames_def dest: gvkString_inject)
  next
    case (Some i)
    with eq(1) have b: "map_of resourceSortOrder (gvk_Kind (u_GVK b)) = Some i"
      by (auto simp: kindRank_def dest: resourceSortOrder_range split: option.splits)
    then have "gvk_Kind (u_GVK a) = gvk_Kind (u_GVK b)" using Some resourceSortOrder_inj by blast
    with Some b eq(2) assms(1,2) show ?thesis
      by (auto simp: gvkText_def validNames_def dest: groupVersionString_inject)
  qed
  with key assms(3) show False by (simp add: identifierOf_def)
qed

section \<open>Loops that do not depend on the order\<close>

lemma filterR_Inr:
  "filterR p xs = Inr ys \<longleftrightarrow> (\<forall>x\<in>set xs. \<exists>b. p x = Inr b) \<and> ys = filter (\<lambda>x. p x = Inr True) xs"
proof (induction xs arbitrary: ys)
  case (Cons x xs)
  show ?case
  proof (cases "p x")
    case (Inr b)
    then show ?thesis using Cons by (cases b) (auto simp: bindR_eq_Inr)
  qed simp
qed auto

lemma concatR_Inr:
  "concatR f xs = Inr ys \<longleftrightarrow> (\<forall>x\<in>set xs. \<exists>zs. f x = Inr zs) \<and> ys = concat (map (projr \<circ> f) xs)"
proof (induction xs arbitrary: ys)
  case (Cons x xs)
  then show ?case by (cases "f x") (auto simp: bindR_eq_Inr)
qed auto

definition permR :: "'a list result \<Rightarrow> 'a list result \<Rightarrow> bool" where
  "permR r r' \<longleftrightarrow> (\<forall>ys. r = Inr ys \<longrightarrow> (\<exists>ys'. r' = Inr ys' \<and> mset ys' = mset ys))"

lemma permR_refl [simp]: "permR r r"
  by (simp add: permR_def)

lemma permR_wrapR: "permR r r' \<Longrightarrow> permR (wrapR w r) (wrapR w r')"
  by (auto simp: permR_def)

lemma permR_bindR:
  assumes "permR r r'" and "\<And>xs ys. r = Inr xs \<Longrightarrow> mset ys = mset xs \<Longrightarrow> permR (f xs) (g ys)"
  shows "permR (bindR r f) (bindR r' g)"
  using assms unfolding permR_def by (fastforce simp: bindR_eq_Inr)

lemma permR_filterR: "mset ys = mset xs \<Longrightarrow> permR (filterR p xs) (filterR p ys)"
  unfolding permR_def filterR_Inr by (metis mset_eq_setD mset_filter)

lemma permR_concatR:
  assumes "mset ys = mset xs" and "\<And>x. x \<in> set xs \<Longrightarrow> permR (f x) (g x)"
  shows "permR (concatR f xs) (concatR g ys)"
  unfolding permR_def
proof (intro allI impI)
  fix zs assume "concatR f xs = Inr zs"
  then have ok: "\<forall>x\<in>set xs. \<exists>zs. f x = Inr zs" and zs: "zs = concat (map (projr \<circ> f) xs)"
    by (simp_all add: concatR_Inr)
  have g: "(\<exists>zs. g x = Inr zs) \<and> mset (projr (g x)) = mset (projr (f x))" if "x \<in> set xs" for x
    using ok assms(2) [OF that] that unfolding permR_def by (metis sum.sel(2))
  have "set ys = set xs" using assms(1) by (metis set_mset_mset)
  then have "concatR g ys = Inr (concat (map (projr \<circ> g) ys))" using g by (simp add: concatR_Inr)
  moreover have "mset (concat (map (projr \<circ> g) ys)) = mset zs"
  proof -
    have "mset (concat (map (projr \<circ> g) ys)) = (\<Sum>x\<in>#mset ys. mset (projr (g x)))"
      by (simp add: mset_concat comp_def flip: sum_mset_sum_list)
    also have "\<dots> = (\<Sum>x\<in>#mset xs. mset (projr (f x)))"
      using g by (auto simp: assms(1) intro!: arg_cong [where f = sum_mset] image_mset_cong)
    also have "\<dots> = mset zs" by (simp add: zs mset_concat comp_def flip: sum_mset_sum_list)
    finally show ?thesis .
  qed
  ultimately show "\<exists>zs'. concatR g ys = Inr zs' \<and> mset zs' = mset zs" by blast
qed

lemma foldR_addResource:
  "distinct (map identifierOf res) \<Longrightarrow> foldR addResource objs res = Inr r \<longleftrightarrow>
     distinct (map identifierOf (res @ objs)) \<and> r = res @ objs"
proof (induction objs arbitrary: res)
  case (Cons obj objs)
  then show ?case
    by (cases "identifierOf obj \<in> identifierOf ` set res") (auto simp: addResource_def)
qed auto

section \<open>The same caches, enumerated in another order\<close>

definition reordered :: "ResourceSelectorResolver \<Rightarrow> ResourceSelectorResolver \<Rightarrow> bool" where
  "reordered rs rs' \<longleftrightarrow>
     (\<exists>im. rs' = rs\<lparr>InformerManager := im\<rparr> \<and>
        mset (apiResources im) = mset (apiResources (InformerManager rs)) \<and>
        distinct (map fst (apiResources im)) \<and>
        IsInformerSynced im = IsInformerSynced (InformerManager rs) \<and>
        GetObject im = GetObject (InformerManager rs) \<and>
        (\<forall>gvr ns sel. permR (ListObjects (InformerManager rs) gvr ns sel) (ListObjects im gvr ns sel)))"

lemma reordered_fields:
  assumes "reordered rs rs'"
  shows "ResourceEligibilityChecker rs' = ResourceEligibilityChecker rs" "RESTMapping rs' = RESTMapping rs"
    "EnableWorkload rs' = EnableWorkload rs" "AsSelector rs' = AsSelector rs"
    "SecretTypeOf rs' = SecretTypeOf rs" "IsNoMatch rs' = IsNoMatch rs"
    "IsInformerSynced (InformerManager rs') = IsInformerSynced (InformerManager rs)"
    "GetObject (InformerManager rs') = GetObject (InformerManager rs)"
  using assms by (auto simp: reordered_def)

lemma reordered_scope:
  assumes "reordered rs rs'"
  shows "im_IsClusterScopedResources (InformerManager rs') = im_IsClusterScopedResources (InformerManager rs)"
    and "mset (GetNameSpaceScopedResources (InformerManager rs')) =
      mset (GetNameSpaceScopedResources (InformerManager rs))"
proof -
  from assms obtain im where im: "InformerManager rs' = im" "distinct (map fst (apiResources im))"
    "mset (apiResources im) = mset (apiResources (InformerManager rs))"
    by (auto simp: reordered_def)
  then have "distinct (map fst (apiResources (InformerManager rs)))"
    by (metis mset_eq_imp_distinct_iff mset_map)
  with im have "map_of (apiResources im) = map_of (apiResources (InformerManager rs))"
    by (intro map_of_inject_set [THEN iffD2]) (simp_all flip: set_mset_mset)
  with im show "im_IsClusterScopedResources (InformerManager rs') =
      im_IsClusterScopedResources (InformerManager rs)"
    by (simp add: im_IsClusterScopedResources_def fun_eq_iff)
  show "mset (GetNameSpaceScopedResources (InformerManager rs')) =
      mset (GetNameSpaceScopedResources (InformerManager rs))"
    using im by (simp add: GetNameSpaceScopedResources_def mset_filter)
qed

lemma reordered_ShouldPropagateObj:
  assumes "reordered rs rs'"
  shows "ShouldPropagateObj rs' = ShouldPropagateObj rs"
  unfolding ShouldPropagateObj_def [abs_def] shouldPropagate_def [abs_def] reordered_fields [OF assms] ..

lemma reordered_cachedList: "reordered rs rs' \<Longrightarrow> permR (cachedList rs gvr ns sel) (cachedList rs' gvr ns sel)"
  unfolding cachedList_def by (rule permR_wrapR) (auto simp: reordered_def)

lemma reordered_fetchTracked:
  assumes "reordered rs rs'"
  shows "permR (fetchTracked rs ns gvr) (fetchTracked rs' ns gvr)"
proof -
  have "permR (bindR (cachedList rs gvr (Some ns) sel) (filterR p)) (bindR (cachedList rs' gvr (Some ns) sel) (filterR p))"
    for sel p
    by (intro permR_bindR permR_filterR reordered_cachedList assms)
  then show ?thesis
    by (simp add: fetchTracked_def reordered_fields [OF assms] reordered_ShouldPropagateObj [OF assms]
        split: sum.split)
qed

lemma reordered_fetchAll:
  assumes "reordered rs rs'"
  shows "permR (fetchAllResourcesInOneNamespace rs ns) (fetchAllResourcesInOneNamespace rs' ns)"
proof -
  have "permR (bindR (concatR (fetchTracked rs ns) (GetNameSpaceScopedResources (InformerManager rs))) (\<lambda>objs. Inr (obj # objs)))
      (bindR (concatR (fetchTracked rs' ns) (GetNameSpaceScopedResources (InformerManager rs'))) (\<lambda>objs. Inr (obj # objs)))"
    for obj
    by (intro permR_bindR permR_concatR reordered_fetchTracked reordered_scope assms) (simp add: permR_def)
  then show ?thesis
    by (simp add: fetchAllResourcesInOneNamespace_def reordered_fields [OF assms] split: sum.split)
qed

lemma reordered_selectorOf:
  assumes "reordered rs rs'"
  shows "selectorOf rs' = selectorOf rs"
  unfolding selectorOf_def [abs_def] reordered_fields [OF assms] ..

lemma permR_same_bind:
  "(\<And>x. r = Inr x \<Longrightarrow> permR (f x) (g x)) \<Longrightarrow> permR (bindR r f) (bindR r g)"
  by (cases r) (auto simp: permR_def)

lemma reordered_fetchNamespaceResources:
  assumes "reordered rs rs'"
  shows "permR (fetchNamespaceResources rs selector) (fetchNamespaceResources rs' selector)"
  unfolding fetchNamespaceResources_def reordered_selectorOf [OF assms]
  by (auto intro!: reordered_fetchAll [OF assms] permR_same_bind permR_bindR permR_concatR
      reordered_cachedList [OF assms])

lemma reordered_fetchResources:
  assumes "reordered rs rs'"
  shows "permR (fetchResources rs selector key) (fetchResources rs' selector key)"
proof -
  have "permR
      (bindR (selectorOf rs selector) (\<lambda>sel. bindR (cachedList rs gvr ns sel) (filterR (ShouldPropagateObj rs))))
      (bindR (selectorOf rs selector) (\<lambda>sel. bindR (cachedList rs' gvr ns sel) (filterR (ShouldPropagateObj rs))))"
    for gvr ns
    by (intro permR_same_bind permR_bindR permR_filterR reordered_cachedList assms)
  then show ?thesis
    by (simp add: fetchResources_def Let_def reordered_fields [OF assms] reordered_selectorOf [OF assms]
        reordered_scope [OF assms] reordered_ShouldPropagateObj [OF assms] split: sum.split)
qed

lemma reordered_fetchResources_named:
  assumes "reordered rs rs'" and "rst_Name selector \<noteq> ''''"
  shows "fetchResources rs' selector key = fetchResources rs selector key"
  using assms(2) by (simp add: fetchResources_def Let_def reordered_fields [OF assms(1)]
      reordered_scope [OF assms(1)] reordered_ShouldPropagateObj [OF assms(1)] split: sum.split)

lemma reordered_fetchSelector:
  "reordered rs rs' \<Longrightarrow> permR (fetchSelector rs key ns selector) (fetchSelector rs' key ns selector)"
  by (simp add: fetchSelector_def Let_def reordered_scope reordered_fetchResources
      reordered_fetchNamespaceResources)

text \<open>The selectors that restrict the namespace name it, which the API server validates.\<close>

definition namedScopes :: "ResourceSelectorTerm list \<Rightarrow> bool" where
  "namedScopes selectors =
     list_all (\<lambda>s. rst_SelectionScope s = NamespaceWithResourceSelectors \<longrightarrow> rst_Name s \<noteq> '''') selectors"

lemma reordered_firstPass:
  assumes "reordered rs rs'" and "namedScopes selectors"
  shows "firstPass rs' key selectors = firstPass rs key selectors"
proof (cases "find (restrictsNamespace key) selectors")
  case (Some selector)
  then have "selector \<in> set selectors" "restrictsNamespace key selector"
    by (auto simp: find_Some_iff in_set_conv_nth)
  with assms(2) have "rst_Name selector \<noteq> ''''"
    by (auto simp: namedScopes_def restrictsNamespace_def list_all_iff)
  with Some show ?thesis
    by (simp add: firstPass_def fetchSelectedNamespace_def reordered_fetchResources_named [OF assms(1)])
qed (simp add: firstPass_def)

lemma gatherSelector_perm:
  assumes "reordered rs rs'" and "gatherSelector rs key ns selector res = Inr r"
    and "mset res' = mset res" and "distinct (map identifierOf res)"
  shows "\<exists>r'. gatherSelector rs' key ns selector res' = Inr r' \<and> mset r' = mset r"
    and "distinct (map identifierOf r)"
proof -
  have d: "distinct (map identifierOf res')"
    using assms(3,4) by (metis mset_eq_imp_distinct_iff mset_map)
  show "\<exists>r'. gatherSelector rs' key ns selector res' = Inr r' \<and> mset r' = mset r"
  proof (cases "AllowsGVK (ResourceEligibilityChecker rs) (selectorGVK selector)")
    case True
    with assms(2) obtain objs where objs: "fetchSelector rs key ns selector = Inr objs"
      and r: "foldR addResource objs res = Inr r"
      by (auto simp: gatherSelector_def bindR_eq_Inr)
    from reordered_fetchSelector [OF assms(1), of key ns selector] objs
    obtain objs' where objs': "fetchSelector rs' key ns selector = Inr objs'" "mset objs' = mset objs"
      by (auto simp: permR_def)
    from r assms(4) have "distinct (map identifierOf (res @ objs))" "r = res @ objs"
      by (simp_all add: foldR_addResource)
    moreover from this(1) have "distinct (map identifierOf (res' @ objs'))"
      using objs'(2) assms(3) by (metis mset_append mset_eq_imp_distinct_iff mset_map)
    ultimately have "foldR addResource objs' res' = Inr (res' @ objs')" "mset (res' @ objs') = mset r"
      using d objs'(2) assms(3) by (simp_all add: foldR_addResource)
    with True objs'(1) show ?thesis
      by (simp add: gatherSelector_def reordered_fields [OF assms(1)])
  next
    case False
    with assms(2,3) show ?thesis by (simp add: gatherSelector_def reordered_fields [OF assms(1)])
  qed
  show "distinct (map identifierOf r)"
    using assms(2,4) by (auto simp: gatherSelector_def bindR_eq_Inr foldR_addResource split: if_splits)
qed

lemma gatherSelectors_perm:
  assumes "reordered rs rs'" and "foldR (gatherSelector rs key ns) selectors res = Inr r"
    and "mset res' = mset res" and "distinct (map identifierOf res)"
  shows "(\<exists>r'. foldR (gatherSelector rs' key ns) selectors res' = Inr r' \<and> mset r' = mset r) \<and>
    distinct (map identifierOf r)"
  using assms(2-)
proof (induction selectors arbitrary: res res')
  case (Cons selector selectors)
  from Cons.prems(1) obtain r1 where r1: "gatherSelector rs key ns selector res = Inr r1"
    "foldR (gatherSelector rs key ns) selectors r1 = Inr r"
    by (auto simp: bindR_eq_Inr)
  note step = gatherSelector_perm [OF assms(1) r1(1) Cons.prems(2,3)]
  from step(1) obtain r1' where "gatherSelector rs' key ns selector res' = Inr r1'" "mset r1' = mset r1"
    by blast
  with Cons.IH [OF r1(2) _ step(2), of r1'] show ?case by simp
qed auto

text \<open>
  C7: The selection does not depend on enumeration order. When a resource selection succeeds,
  it returns the same list, element by element, with any other enumeration order of the informer
  caches and of the map of tracked resource types. The hypotheses: selectors that restrict the
  namespace name it, and the selected objects have names the API server accepts.
\<close>

theorem selection_ignores_enumeration_order:
  assumes "reordered rs rs'" and "namedScopes selectors"
    and "gatherSelectedResource rs key selectors = Inr objs" and "list_all validNames objs"
  shows "gatherSelectedResource rs' key selectors = Inr objs"
proof -
  from assms(3) obtain ns r where ns: "firstPass rs key selectors = Inr ns"
    and r: "foldR (gatherSelector rs key ns) selectors [] = Inr r" and objs: "objs = sortResources r"
    by (auto simp: gatherSelectedResource_def bindR_eq_Inr)
  from gatherSelectors_perm [OF assms(1) r, of "[]"] obtain r'
    where r': "foldR (gatherSelector rs' key ns) selectors [] = Inr r'" "mset r' = mset r"
      and d: "distinct (map identifierOf r)"
    by auto
  have valid: "validNames x" if "x \<in> set r" for x
    using that assms(4) objs by (simp add: list_all_iff sortResources_def)
  have sep: "resourceLess a b \<or> resourceLess b a" if "a \<in> set r" "b \<in> set r" "a \<noteq> b" for a b
    using that d valid by (intro resourceLess_separates) (auto simp: distinct_map dest: inj_onD)
  have "sortResources r' = sortResources r"
    unfolding sortResources_def using r'(2) sep
    by (intro resources.sort_by_unique) (simp_all add: resources.sorted_sort_by)
  then show ?thesis
    using ns r' objs reordered_firstPass [OF assms(1,2)] by (simp add: gatherSelectedResource_def)
qed

section \<open>What a selected object satisfies\<close>

text \<open>
  What the selection relies on of the libraries: the cache of a resource type holds objects of
  its kind \<open>K gvr\<close>, reads are within the namespace asked for (a cluster-scoped object has none),
  a named read returns that name, the REST mapping of a kind is a type that holds it, and the
  mapper of the checkers lists the kind among the kinds of its type.
\<close>

definition inScope :: "ResourceSelectorResolver \<Rightarrow> string option \<Rightarrow> Object \<Rightarrow> bool" where
  "inScope rs ns obj =
     (case ns of
        Some n \<Rightarrow> u_Namespace obj = n
      | None \<Rightarrow> im_IsClusterScopedResources (InformerManager rs) (u_GVK obj) \<longrightarrow> u_Namespace obj = '''')"

definition cachesByKind :: "(GroupVersionResource \<Rightarrow> GroupVersionKind) \<Rightarrow> ResourceSelectorResolver \<Rightarrow> bool" where
  "cachesByKind K rs \<longleftrightarrow>
     (\<forall>gvr ns sel objs obj. ListObjects (InformerManager rs) gvr ns sel = Inr objs \<longrightarrow> obj \<in> set objs \<longrightarrow>
        u_GVK obj = K gvr \<and> inScope rs ns obj) \<and>
     (\<forall>gvr ns name obj. GetObject (InformerManager rs) gvr ns name = Inr obj \<longrightarrow>
        u_GVK obj = K gvr \<and> inScope rs ns obj \<and> u_Name obj = name) \<and>
     (\<forall>g k v gvr. RESTMapping rs g k v = Inr gvr \<longrightarrow> K gvr = newGVK g v k) \<and>
     K NamespaceGVR = NamespaceGVK \<and> im_IsClusterScopedResources (InformerManager rs) NamespaceGVK \<and>
     (\<exists>m. sharesMapper m (ResourceEligibilityChecker rs) \<and> consultsMapper (ResourceEligibilityChecker rs) \<and>
        (\<forall>gvr gvks. KindsFor m gvr = Inr gvks \<longrightarrow> gvks \<noteq> [] \<longrightarrow> K gvr \<in> set gvks))"

definition namespaceOK :: "checker \<Rightarrow> string \<Rightarrow> bool" where
  "namespaceOK c ns = (AllowsNamespace c ns \<and> ns \<noteq> defaultNSName)"

definition placeable :: "ResourceSelectorResolver \<Rightarrow> Object \<Rightarrow> bool" where
  "placeable rs obj =
     (u_DeletionTimestamp obj = None \<and> AllowsGVK (ResourceEligibilityChecker rs) (u_GVK obj) \<and>
      (u_GVK obj = NamespaceGVK \<longrightarrow> namespaceOK (ResourceEligibilityChecker rs) (u_Name obj)))"

definition inAllowedNamespace :: "ResourceSelectorResolver \<Rightarrow> Object \<Rightarrow> bool" where
  "inAllowedNamespace rs obj =
     (u_Namespace obj = '''' \<or> namespaceOK (ResourceEligibilityChecker rs) (u_Namespace obj))"

lemma filterR_subset: "filterR p xs = Inr ys \<Longrightarrow> y \<in> set ys \<Longrightarrow> y \<in> set xs \<and> p y = Inr True"
  by (auto simp: filterR_Inr)

lemma concatR_elem: "concatR f xs = Inr ys \<Longrightarrow> y \<in> set ys \<Longrightarrow> \<exists>x\<in>set xs. \<exists>zs. f x = Inr zs \<and> y \<in> set zs"
  by (fastforce simp: concatR_Inr)

lemma ShouldPropagateObj_True:
  "ShouldPropagateObj rs obj = Inr True \<Longrightarrow> u_DeletionTimestamp obj = None \<and>
     (u_GVK obj = NamespaceGVK \<longrightarrow> namespaceOK (ResourceEligibilityChecker rs) (u_Name obj))"
  by (auto simp: ShouldPropagateObj_def namespaceOK_def split: if_splits)

lemma cachedList_elem:
  assumes "cachesByKind K rs" and "cachedList rs gvr ns sel = Inr objs" and "obj \<in> set objs"
  shows "u_GVK obj = K gvr \<and> inScope rs ns obj"
  using assms unfolding cachedList_def wrapR_simps cachesByKind_def by blast

lemma GetObject_elem:
  assumes "cachesByKind K rs" and "GetObject (InformerManager rs) gvr ns name = Inr obj"
  shows "u_GVK obj = K gvr \<and> inScope rs ns obj \<and> u_Name obj = name"
  using assms unfolding cachesByKind_def by blast

lemma AllowsGVR_kind:
  assumes "cachesByKind K rs" and "AllowsGVR (ResourceEligibilityChecker rs) gvr = Inr True"
  shows "AllowsGVK (ResourceEligibilityChecker rs) (K gvr)"
proof -
  from assms(1) obtain m where m: "sharesMapper m (ResourceEligibilityChecker rs)"
      "consultsMapper (ResourceEligibilityChecker rs)"
    and K: "\<And>gvr gvks. KindsFor m gvr = Inr gvks \<Longrightarrow> gvks \<noteq> [] \<Longrightarrow> K gvr \<in> set gvks"
    unfolding cachesByKind_def by blast
  from assms(2) have "kindsVerdict m (AllowsGVK (ResourceEligibilityChecker rs)) gvr = Inr True"
    by (simp add: AllowsGVR_kindsVerdict [OF m])
  with K show ?thesis by (auto simp: kindsVerdict_def list_all_iff split: sum.splits if_splits)
qed

lemma fetchTracked_elem:
  assumes "cachesByKind K rs" and "fetchTracked rs ns gvr = Inr objs" and "obj \<in> set objs"
  shows "placeable rs obj \<and> u_Namespace obj = ns"
proof -
  from assms(2,3) obtain cached where gvr: "AllowsGVR (ResourceEligibilityChecker rs) gvr = Inr True"
    and cached: "cachedList rs gvr (Some ns) (\<lambda>_. True) = Inr cached"
    and objs: "filterR (ShouldPropagateObj rs) cached = Inr objs"
    by (auto simp: fetchTracked_def bindR_eq_Inr split: sum.splits if_splits)
  from filterR_subset [OF objs assms(3)] cachedList_elem [OF assms(1) cached]
  have "u_GVK obj = K gvr" "inScope rs (Some ns) obj" "ShouldPropagateObj rs obj = Inr True" by auto
  with AllowsGVR_kind [OF assms(1) gvr] ShouldPropagateObj_True show ?thesis
    by (auto simp: placeable_def inScope_def)
qed

lemma fetchAll_elem:
  assumes "cachesByKind K rs" and "AllowsGVK (ResourceEligibilityChecker rs) NamespaceGVK"
    and "fetchAllResourcesInOneNamespace rs ns = Inr objs" and "obj \<in> set objs"
  shows "placeable rs obj \<and> inAllowedNamespace rs obj"
proof -
  from assms(3,4) obtain nsObj tracked where ok: "namespaceOK (ResourceEligibilityChecker rs) ns"
    and get: "GetObject (InformerManager rs) NamespaceGVR None ns = Inr nsObj"
    and live: "u_DeletionTimestamp nsObj = None"
    and tracked: "concatR (fetchTracked rs ns) (GetNameSpaceScopedResources (InformerManager rs)) = Inr tracked"
    and objs: "objs = nsObj # tracked"
    by (auto simp: fetchAllResourcesInOneNamespace_def bindR_eq_Inr namespaceOK_def
        split: if_splits sum.splits option.splits)
  have K: "K NamespaceGVR = NamespaceGVK" "im_IsClusterScopedResources (InformerManager rs) NamespaceGVK"
    using assms(1) unfolding cachesByKind_def by blast+
  show ?thesis
  proof (cases "obj = nsObj")
    case True
    with GetObject_elem [OF assms(1) get] K assms(2) ok live show ?thesis
      by (auto simp: placeable_def inAllowedNamespace_def inScope_def)
  next
    case False
    with objs assms(4) concatR_elem [OF tracked] fetchTracked_elem [OF assms(1)] ok show ?thesis
      unfolding inAllowedNamespace_def by (metis set_ConsD)
  qed
qed

lemma fetchNamespaceResources_elem:
  assumes "cachesByKind K rs" and "AllowsGVK (ResourceEligibilityChecker rs) NamespaceGVK"
    and "fetchNamespaceResources rs selector = Inr objs" and "obj \<in> set objs"
  shows "placeable rs obj \<and> inAllowedNamespace rs obj"
proof (cases "rst_Name selector = ''''")
  case True
  with assms(3) obtain namespaces :: "Object list" where
    "concatR (\<lambda>ns. fetchAllResourcesInOneNamespace rs (u_Name ns)) namespaces = Inr objs"
    by (auto simp: fetchNamespaceResources_def bindR_eq_Inr)
  from concatR_elem [OF this assms(4)] show ?thesis using fetchAll_elem [OF assms(1,2)] by blast
next
  case False
  with assms show ?thesis by (auto simp: fetchNamespaceResources_def dest: fetchAll_elem)
qed

lemma fetchResources_object:
  assumes "cachesByKind K rs" and "fetchResources rs selector key = Inr objs" and "obj \<in> set objs"
  shows "u_GVK obj = selectorGVK selector \<and> u_Namespace obj = nn_Namespace key \<and>
    ShouldPropagateObj rs obj = Inr True"
proof -
  from assms(2) obtain gvr
    where map: "RESTMapping rs (rst_Group selector) (rst_Kind selector) (rst_Version selector) = Inr gvr"
    by (auto simp: fetchResources_def split: sum.splits)
  define ns where "ns = (if \<not> im_IsClusterScopedResources (InformerManager rs) (selectorGVK selector)
      then Some (nn_Namespace key) else None)"
  have K: "K gvr = selectorGVK selector"
    using assms(1) map unfolding cachesByKind_def selectorGVK_def by blast
  have scoped: "ns = None \<Longrightarrow> nn_Namespace key = ''''"
    using assms(2) map by (auto simp: fetchResources_def Let_def ns_def split: if_splits)
  have "u_GVK obj = K gvr \<and> inScope rs ns obj \<and> ShouldPropagateObj rs obj = Inr True"
  proof (cases "rst_Name selector = ''''")
    case True
    with assms(2) map obtain sel cached where cached: "cachedList rs gvr ns sel = Inr cached"
      "filterR (ShouldPropagateObj rs) cached = Inr objs"
      by (auto simp: fetchResources_def Let_def bindR_eq_Inr ns_def split: if_splits)
    with cachedList_elem [OF assms(1) cached(1)] filterR_subset [OF cached(2) assms(3)] show ?thesis
      by blast
  next
    case False
    with assms(2,3) map have "GetObject (InformerManager rs) gvr ns (rst_Name selector) = Inr obj"
      "ShouldPropagateObj rs obj = Inr True"
      by (auto simp: fetchResources_def Let_def bindR_eq_Inr ns_def split: if_splits sum.splits option.splits)
    with GetObject_elem [OF assms(1)] show ?thesis by blast
  qed
  with K scoped show ?thesis by (auto simp: inScope_def ns_def split: if_splits)
qed

lemma fetchResources_elem:
  assumes "cachesByKind K rs" and "fetchResources rs selector key = Inr objs" and "obj \<in> set objs"
    and "AllowsGVK (ResourceEligibilityChecker rs) (selectorGVK selector)"
  shows "placeable rs obj \<and> u_Namespace obj = nn_Namespace key"
  using fetchResources_object [OF assms(1-3)] ShouldPropagateObj_True [of rs obj] assms(4)
  by (auto simp: placeable_def)

text \<open>What the second pass may add, for the namespace the first pass found.\<close>

definition selectable :: "ResourceSelectorResolver \<Rightarrow> NamespacedName \<Rightarrow> Object \<Rightarrow> bool" where
  "selectable rs key obj =
     (placeable rs obj \<and>
      (if nn_Namespace key = '''' then inAllowedNamespace rs obj else u_Namespace obj = nn_Namespace key))"

lemma firstPass_namespace:
  assumes "cachesByKind K rs" and "firstPass rs key selectors = Inr ns"
  shows "ns = '''' \<or> namespaceOK (ResourceEligibilityChecker rs) ns"
proof (cases "find (restrictsNamespace key) selectors")
  case (Some selector)
  then have gvk: "selectorGVK selector = NamespaceGVK"
    by (auto simp: find_Some_iff restrictsNamespace_def)
  from Some assms(2) obtain found where
    fetch: "fetchResources rs selector \<lparr>nn_Name = nn_Name key, nn_Namespace = ''''\<rparr> = Inr found"
    and ns: "(case (case found of [] \<Rightarrow> None | obj # _ \<Rightarrow> Some (u_Name obj)) of
        None \<Rightarrow> Inl ErrUserError | Some namespace \<Rightarrow> Inr namespace) = Inr ns"
    by (auto simp: firstPass_def fetchSelectedNamespace_def bindR_eq_Inr)
  from ns obtain obj objs where found: "found = obj # objs" "ns = u_Name obj" by (cases found) auto
  with fetchResources_object [OF assms(1) fetch, of obj] gvk show ?thesis
    using ShouldPropagateObj_True [of rs obj] by simp
qed (use assms(2) in \<open>simp add: firstPass_def\<close>)

lemma fetchSelector_elem:
  assumes "cachesByKind K rs" and "AllowsGVK (ResourceEligibilityChecker rs) (selectorGVK selector)"
    and "fetchSelector rs key ns selector = Inr objs" and "obj \<in> set objs"
    and "ns = '''' \<or> namespaceOK (ResourceEligibilityChecker rs) ns"
  shows "selectable rs key obj"
proof (cases "selectorGVK selector = NamespaceGVK")
  case True
  with assms show ?thesis
    by (auto simp: fetchSelector_def selectable_def inAllowedNamespace_def split: if_splits
        dest: fetchResources_elem fetchNamespaceResources_elem)
next
  case False
  with assms show ?thesis
    by (auto simp: fetchSelector_def selectable_def inAllowedNamespace_def split: if_splits
        dest: fetchResources_elem)
qed

lemma gatherSelectors_elem:
  assumes "cachesByKind K rs" and "ns = '''' \<or> namespaceOK (ResourceEligibilityChecker rs) ns"
    and "foldR (gatherSelector rs key ns) selectors res = Inr r" and "distinct (map identifierOf res)"
    and "list_all (selectable rs key) res"
  shows "list_all (selectable rs key) r \<and> distinct (map identifierOf r)"
  using assms(3-)
proof (induction selectors arbitrary: res)
  case (Cons selector selectors)
  from Cons.prems(1) obtain r1 where r1: "gatherSelector rs key ns selector res = Inr r1"
    "foldR (gatherSelector rs key ns) selectors r1 = Inr r"
    by (auto simp: bindR_eq_Inr)
  have "list_all (selectable rs key) r1 \<and> distinct (map identifierOf r1)"
  proof (cases "AllowsGVK (ResourceEligibilityChecker rs) (selectorGVK selector)")
    case True
    with r1(1) obtain objs where "fetchSelector rs key ns selector = Inr objs"
      "foldR addResource objs res = Inr r1"
      by (auto simp: gatherSelector_def bindR_eq_Inr)
    with fetchSelector_elem [OF assms(1) True] assms(2) Cons.prems(2,3) show ?thesis
      by (auto simp: foldR_addResource list_all_iff)
  next
    case False
    with r1(1) Cons.prems show ?thesis by (simp add: gatherSelector_def)
  qed
  with Cons.IH [OF r1(2)] show ?case by blast
qed simp

text \<open>
  C8: What is selected. Every selected object is live and of a kind the eligibility checker
  allows, a selected namespace is allowed and not the default one, and no object is selected
  twice. For a cluster-scoped placement the namespace of a selected object is allowed as well;
  for a namespaced placement it is the namespace of the placement. The hypothesis is what the
  libraries promise of caches and mappings.
\<close>

theorem selected_objects_are_placeable:
  assumes "cachesByKind K rs" and "gatherSelectedResource rs key selectors = Inr objs"
  shows "list_all (selectable rs key) objs \<and> distinct (map identifierOf objs) \<and> sorted_by resourceLess objs"
proof -
  from assms(2) obtain ns r where ns: "firstPass rs key selectors = Inr ns"
    and r: "foldR (gatherSelector rs key ns) selectors [] = Inr r" and objs: "objs = sortResources r"
    by (auto simp: gatherSelectedResource_def bindR_eq_Inr)
  from gatherSelectors_elem [OF assms(1) firstPass_namespace [OF assms(1) ns] r]
  have "list_all (selectable rs key) r" "distinct (map identifierOf r)" by simp_all
  then show ?thesis
    using resources.sorted_sort_by by (simp add: objs sortResources_def list_all_iff)
qed

section \<open>An example\<close>

definition exampleKind :: "GroupVersionResource \<Rightarrow> GroupVersionKind" where
  "exampleKind gvr =
     (if gvr = coreGVR ''configmaps'' then coreKind ''ConfigMap''
      else if gvr = NamespaceGVR then NamespaceGVK else newGVK '''' '''' '''')"

definition exampleMapper :: RESTMapper where
  "exampleMapper =
     \<lparr>KindsFor = \<lambda>gvr. if exampleKind gvr = newGVK '''' '''' '''' then Inl (NoResourceMatchError gvr)
                      else Inr [exampleKind gvr],
      IsNoMatchError = \<lambda>e. case e of NoResourceMatchError _ \<Rightarrow> True | _ \<Rightarrow> False\<rparr>"

definition exampleChecker :: checker where
  "exampleChecker = projr (DefaultForV0APIs exampleMapper)"

definition exampleTracked :: "GroupVersionKind \<Rightarrow> string \<Rightarrow> bool \<Rightarrow> GroupVersionKind \<times> APIResourceMeta" where
  "exampleTracked gvk r clusterScoped =
     (gvk, \<lparr>arm_GroupVersionKind = gvk, arm_GroupVersionResource = coreGVR r,
            IsClusterScoped = clusterScoped, isStaticResource = False, isPresent = True\<rparr>)"

definition exampleMatches :: "GroupVersionResource \<Rightarrow> string option \<Rightarrow> Object \<Rightarrow> bool" where
  "exampleMatches gvr ns obj =
     (u_GVK obj = exampleKind gvr \<and>
      (case ns of Some n \<Rightarrow> u_Namespace obj = n
       | None \<Rightarrow> u_GVK obj = NamespaceGVK \<longrightarrow> u_Namespace obj = ''''))"

definition exampleResolver :: "Object list \<Rightarrow> Object list \<Rightarrow> ResourceSelectorResolver" where
  "exampleResolver objs listed =
     \<lparr>ResourceEligibilityChecker = exampleChecker,
      InformerManager =
        \<lparr>apiResources =
           [exampleTracked NamespaceGVK ''namespaces'' True,
            exampleTracked (coreKind ''ConfigMap'') ''configmaps'' False],
         IsInformerSynced = \<lambda>_. True,
         ListObjects = \<lambda>gvr ns sel.
           Inr (filter (\<lambda>obj. exampleMatches gvr ns obj \<and> sel (u_Labels obj)) listed),
         GetObject = \<lambda>gvr ns name.
           (case find (\<lambda>obj. exampleMatches gvr ns obj \<and> u_Name obj = name) objs of
              None \<Rightarrow> Inl (ErrAPI NotFound) | Some obj \<Rightarrow> Inr obj)\<rparr>,
      RESTMapping = \<lambda>g k v.
        if newGVK g v k = coreKind ''ConfigMap'' then Inr (coreGVR ''configmaps'')
        else if newGVK g v k = NamespaceGVK then Inr NamespaceGVR
        else Inl (ErrPlain ''no match''),
      EnableWorkload = False, AsSelector = \<lambda>_. Inr (\<lambda>_. True), SecretTypeOf = \<lambda>_. Inr '''',
      IsNoMatch = \<lambda>_. True\<rparr>"

definition exampleObject :: "string \<Rightarrow> string \<Rightarrow> string \<Rightarrow> Object" where
  "exampleObject kind ns name =
     \<lparr>u_GVK = coreKind kind, u_Namespace = ns, u_Name = name, u_DeletionTimestamp = None,
      u_OwnerReferences = [], u_Labels = Map.empty, u_Type = None\<rparr>"

definition exampleSelector :: "string \<Rightarrow> string \<Rightarrow> ResourceSelectorTerm" where
  "exampleSelector kind name =
     \<lparr>rst_Group = '''', rst_Version = ''v1'', rst_Kind = kind, rst_Name = name,
      rst_LabelSelector = None, rst_SelectionScope = NamespaceWithResources\<rparr>"

definition exampleNamespaceObjects :: "Object list" where
  "exampleNamespaceObjects =
     [exampleObject ''ConfigMap'' ''app'' ''b'', exampleObject ''ConfigMap'' ''app'' ''kube-root-ca.crt'',
      exampleObject ''Namespace'' '''' ''app'', exampleObject ''ConfigMap'' ''app'' ''a'']"

lemma exampleResolver_cachesByKind: "cachesByKind exampleKind (exampleResolver objs listed)"
proof -
  obtain c where c: "DefaultForV0APIs exampleMapper = Inr c" "sharesMapper exampleMapper c" "consultsMapper c"
    by (rule default_v0_layer [of exampleMapper])
  have ns: "coreGVR ''configmaps'' \<noteq> NamespaceGVR" by (simp add: NamespaceGVR_def coreGVR_def)
  have scope: "im_IsClusterScopedResources (InformerManager (exampleResolver objs listed)) gvk \<longleftrightarrow> gvk = NamespaceGVK" for gvk
    by (auto simp: im_IsClusterScopedResources_def exampleResolver_def exampleTracked_def NamespaceGVK_def
        coreKind_def newGVK_def)
  have kinds: "exampleKind gvr \<in> set gvks" if "KindsFor exampleMapper gvr = Inr gvks" for gvr gvks
    using that by (auto simp: exampleMapper_def split: if_splits)
  have mapper: "\<exists>m. sharesMapper m (ResourceEligibilityChecker (exampleResolver objs listed)) \<and>
      consultsMapper (ResourceEligibilityChecker (exampleResolver objs listed)) \<and>
      (\<forall>gvr gvks. KindsFor m gvr = Inr gvks \<longrightarrow> gvks \<noteq> [] \<longrightarrow> exampleKind gvr \<in> set gvks)"
    using c kinds by (intro exI [of _ exampleMapper]) (simp add: exampleResolver_def exampleChecker_def)
  show ?thesis
    unfolding cachesByKind_def inScope_def scope using mapper ns
    by (auto simp: exampleResolver_def exampleMatches_def find_Some_iff exampleKind_def
        split: option.splits if_splits)
qed

lemma exampleResolver_reordered:
  assumes "mset listed' = mset listed"
  shows "reordered (exampleResolver objs listed) (exampleResolver objs listed')"
  unfolding reordered_def
proof (intro exI conjI allI)
  show "exampleResolver objs listed' =
      (exampleResolver objs listed)\<lparr>InformerManager := InformerManager (exampleResolver objs listed')\<rparr>"
    by (simp add: exampleResolver_def)
  show "permR (ListObjects (InformerManager (exampleResolver objs listed)) gvr ns sel)
      (ListObjects (InformerManager (exampleResolver objs listed')) gvr ns sel)" for gvr ns sel
    using assms by (simp add: exampleResolver_def permR_def mset_filter)
qed (simp_all add: exampleResolver_def exampleTracked_def NamespaceGVK_def coreKind_def newGVK_def)

definition gathersExample :: "Object list result \<Rightarrow> bool" where
  "gathersExample r =
     (case r of
        Inl _ \<Rightarrow> False
      | Inr objs \<Rightarrow>
          list_all validNames objs \<and>
          map (\<lambda>obj. (u_Namespace obj, u_Name obj)) objs = [('''', ''app''), (''app'', ''a''), (''app'', ''b'')])"

lemma example_gathered:
  "gathersExample (gatherSelectedResource (exampleResolver exampleNamespaceObjects exampleNamespaceObjects)
     \<lparr>nn_Name = ''crp'', nn_Namespace = ''''\<rparr> [exampleSelector ''Namespace'' ''app''])"
  by code_simp

theorem selection_ignores_enumeration_order_witness:
  "gathersExample (gatherSelectedResource (exampleResolver exampleNamespaceObjects (rev exampleNamespaceObjects))
     \<lparr>nn_Name = ''crp'', nn_Namespace = ''''\<rparr> [exampleSelector ''Namespace'' ''app''])"
proof -
  let ?rs = "exampleResolver exampleNamespaceObjects"
  let ?key = "\<lparr>nn_Name = ''crp'', nn_Namespace = ''''\<rparr>" and ?sel = "[exampleSelector ''Namespace'' ''app'']"
  obtain objs where objs: "gatherSelectedResource (?rs exampleNamespaceObjects) ?key ?sel = Inr objs"
    and valid: "list_all validNames objs"
    using example_gathered by (auto simp: gathersExample_def split: sum.splits)
  have "namedScopes ?sel" by (simp add: namedScopes_def exampleSelector_def)
  from selection_ignores_enumeration_order [OF exampleResolver_reordered this objs valid,
      of "rev exampleNamespaceObjects"]
  show ?thesis using example_gathered objs by simp
qed

theorem selected_objects_are_placeable_witness:
  "\<exists>objs. gatherSelectedResource (exampleResolver exampleNamespaceObjects exampleNamespaceObjects)
      \<lparr>nn_Name = ''crp'', nn_Namespace = ''''\<rparr> [exampleSelector ''Namespace'' ''app''] = Inr objs \<and>
    length objs = 3 \<and>
    list_all (selectable (exampleResolver exampleNamespaceObjects exampleNamespaceObjects)
      \<lparr>nn_Name = ''crp'', nn_Namespace = ''''\<rparr>) objs"
proof -
  let ?rs = "exampleResolver exampleNamespaceObjects exampleNamespaceObjects"
  let ?key = "\<lparr>nn_Name = ''crp'', nn_Namespace = ''''\<rparr>" and ?sel = "[exampleSelector ''Namespace'' ''app'']"
  obtain objs where objs: "gatherSelectedResource ?rs ?key ?sel = Inr objs" "length objs = 3"
    using example_gathered by (auto simp: gathersExample_def dest: arg_cong [where f = length] split: sum.splits)
  with selected_objects_are_placeable [OF exampleResolver_cachesByKind objs(1)] show ?thesis by blast
qed


end
