(* ===== verification/Policy_Rotation.thy ===== *)
theory Policy_Rotation
  imports Policy_Snapshots
begin

text \<open>
  How the placement controller keeps one active scheduling policy snapshot per placement
  (\<open>pkg/controllers/placement/controller.go\<close>, \<open>getOrCreateSchedulingPolicySnapshot\<close> and what it
  calls). The calls of the API server are the record \<open>policyClient\<close>; the hash of a policy
  (SHA-256 of its JSON text) and the check of \<open>SetControllerReference\<close> are fields of it.
\<close>

section \<open>Rotating the snapshots\<close>

record 'w policyClient =
  pcListLatest :: "string \<Rightarrow> string \<Rightarrow> ('w, PolicySnapshot list) prog"
  pcListAll :: "string \<Rightarrow> string \<Rightarrow> ('w, PolicySnapshot list) prog"
  pcUpdate :: "PolicySnapshot \<Rightarrow> ('w, PolicySnapshot) prog"
  pcDelete :: "PolicySnapshot \<Rightarrow> ('w, unit) prog"
  pcCreate :: "PolicySnapshot \<Rightarrow> ('w, PolicySnapshot) prog"
  HashOf :: "PlacementPolicy option \<Rightarrow> string result"
  SetControllerReference :: "Placement \<Rightarrow> PolicySnapshot \<Rightarrow> unit result"

abbreviation unexpected :: "'a result \<Rightarrow> 'a result" where
  "unexpected \<equiv> wrapR (\<lambda>_. ErrUnexpectedBehavior)"

definition policyIndex :: "PolicySnapshot \<Rightarrow> int" where
  "policyIndex s = (case ParsePolicyIndexFromLabel s of Inl _ \<Rightarrow> -1 | Inr i \<Rightarrow> i)"

text \<open>
  The comparison collects the parse errors of the items it is given, so a list of one item is
  never parsed.
\<close>

definition listSortedSchedulingPolicySnapshots ::
  "'w policyClient \<Rightarrow> Placement \<Rightarrow> ('w, PolicySnapshot list) prog" where
  "listSortedSchedulingPolicySnapshots r placementObj =
     bindP (wrapP (apiServerError True) (pcListAll r (Namespace placementObj) (Name placementObj))) (\<lambda>items.
       if length items > 1 \<and> list_ex (\<lambda>s. isl (ParsePolicyIndexFromLabel s)) items
       then failP ErrUnexpectedBehavior
       else returnP (sort_by (\<lambda>a b. policyIndex a < policyIndex b) items))"

text \<open>The snapshot in use and its index: the active one, or else the one with the largest index.\<close>

definition lookupLatestSchedulingPolicySnapshot ::
  "'w policyClient \<Rightarrow> Placement \<Rightarrow> ('w, PolicySnapshot option \<times> int) prog" where
  "lookupLatestSchedulingPolicySnapshot r placement =
     (\<lambda>w. case LookupLatestPolicySnapshot (pcListLatest r) (Namespace placement) (Name placement) w of
        (Inr activeSnapshot, w') \<Rightarrow>
          liftP (bindR (unexpected (ParsePolicyIndexFromLabel activeSnapshot)) (\<lambda>i. Inr (Some activeSnapshot, i))) w'
      | (Inl e, w') \<Rightarrow>
          if e = ErrNoLatestPolicySnapshot then
            bindP (listSortedSchedulingPolicySnapshots r placement) (\<lambda>sortedList.
              if sortedList = [] then returnP (None, -1)
              else liftP (bindR (unexpected (ParsePolicyIndexFromLabel (last sortedList)))
                            (\<lambda>i. Inr (Some (last sortedList), i)))) w'
          else (Inl e, w'))"

text \<open>
  The latest snapshot with the label and the annotations it should have, and if that changed it.
  A number kept in an annotation is read, compared with the wanted one and replaced.
\<close>

definition syncCount :: "string \<Rightarrow> int \<Rightarrow> PolicySnapshot \<Rightarrow> (PolicySnapshot \<times> bool) result" where
  "syncCount key n s =
     bindR (unexpected (annotationCount key s)) (\<lambda>old.
       Inr (if old \<noteq> n then (s\<lparr>Annotations := (Annotations s)(key \<mapsto> itoa n)\<rparr>, True) else (s, False)))"

definition refreshedSnapshot :: "Placement \<Rightarrow> PolicySnapshot \<Rightarrow> (PolicySnapshot \<times> bool) result" where
  "refreshedSnapshot placementObj latest =
     (let u1 = getString (Labels latest) IsLatestSnapshotLabel \<noteq> formatBool True;
          s1 = (if u1 then latest\<lparr>Labels := (Labels latest)(IsLatestSnapshotLabel \<mapsto> formatBool True)\<rparr>
                else latest)
      in bindR (syncCount CRPGenerationAnnotation (Generation placementObj) s1) (\<lambda>(s2, u2).
         case requestedCount placementObj of
           None \<Rightarrow> Inr (s2, u1 \<or> u2)
         | Some newCount \<Rightarrow>
             bindR (syncCount NumberOfClustersAnnotation newCount s2) (\<lambda>(s3, u3). Inr (s3, u1 \<or> u2 \<or> u3))))"

definition ensureLatestPolicySnapshot ::
  "'w policyClient \<Rightarrow> Placement \<Rightarrow> PolicySnapshot \<Rightarrow> ('w, PolicySnapshot) prog" where
  "ensureLatestPolicySnapshot r placementObj latest =
     bindP (liftP (refreshedSnapshot placementObj latest)) (\<lambda>(latest', needUpdate).
       if \<not> needUpdate then returnP latest'
       else wrapP updateIgnoreConflictError (pcUpdate r latest'))"

text \<open>A deletion that finds nothing counts as done.\<close>

definition deleteSnapshot :: "'w policyClient \<Rightarrow> PolicySnapshot \<Rightarrow> ('w, unit) prog" where
  "deleteSnapshot r s =
     (\<lambda>w. case pcDelete r s w of
        (Inl e, w') \<Rightarrow> if e = ErrAPI NotFound then (Inr (), w') else (Inl (apiServerError False e), w')
      | (Inr _, w') \<Rightarrow> (Inr (), w'))"

fun deleteSnapshots :: "'w policyClient \<Rightarrow> PolicySnapshot list \<Rightarrow> ('w, unit) prog" where
  "deleteSnapshots r [] = returnP ()"
| "deleteSnapshots r (s # ss) = bindP (deleteSnapshot r s) (\<lambda>_. deleteSnapshots r ss)"

text \<open>The loop runs over the indices up to \<open>len(items) - revisionHistoryLimit\<close> without a bound check.\<close>

definition deleteRedundantSchedulingPolicySnapshots ::
  "'w policyClient \<Rightarrow> Placement \<Rightarrow> int \<Rightarrow> ('w, unit) prog" where
  "deleteRedundantSchedulingPolicySnapshots r placementObj revisionHistoryLimit =
     bindP (listSortedSchedulingPolicySnapshots r placementObj) (\<lambda>items.
       if int (length items) < revisionHistoryLimit then returnP ()
       else bindP (deleteSnapshots r (take (nat (int (length items) - revisionHistoryLimit + 1)) items)) (\<lambda>_.
            if int (length items) - revisionHistoryLimit \<ge> int (length items) then failP Panic else returnP ()))"

definition markInactive :: "'w policyClient \<Rightarrow> string \<Rightarrow> PolicySnapshot option \<Rightarrow> ('w, unit) prog" where
  "markInactive r policyHash latest =
     (case latest of
        Some s \<Rightarrow>
          if PolicyHash s \<noteq> policyHash \<and> getString (Labels s) IsLatestSnapshotLabel = formatBool True
          then bindP (wrapP updateIgnoreConflictError
                        (pcUpdate r (s\<lparr>Labels := (Labels s)(IsLatestSnapshotLabel \<mapsto> formatBool False)\<rparr>))) (\<lambda>_. returnP ())
          else returnP ()
      | None \<Rightarrow> returnP ())"

definition schedulingPolicy :: "Placement \<Rightarrow> PlacementPolicy option" where
  "schedulingPolicy placementObj = map_option (\<lambda>p. p\<lparr>NumberOfClusters := None\<rparr>) (PlacementPolicyOf placementObj)"

definition getOrCreateSchedulingPolicySnapshot ::
  "'w policyClient \<Rightarrow> Placement \<Rightarrow> int \<Rightarrow> ('w, PolicySnapshot) prog" where
  "getOrCreateSchedulingPolicySnapshot r placementObj revisionHistoryLimit =
     bindP (liftP (unexpected (HashOf r (schedulingPolicy placementObj)))) (\<lambda>policyHash.
     bindP (lookupLatestSchedulingPolicySnapshot r placementObj) (\<lambda>(latestPolicySnapshot, latestPolicySnapshotIndex).
     if map_option PolicyHash latestPolicySnapshot = Some policyHash
     then ensureLatestPolicySnapshot r placementObj (the latestPolicySnapshot)
     else
       bindP (markInactive r policyHash latestPolicySnapshot) (\<lambda>_.
       bindP (deleteRedundantSchedulingPolicySnapshots r placementObj revisionHistoryLimit) (\<lambda>_.
       let newPolicySnapshot = BuildPolicySnapshot placementObj (latestPolicySnapshotIndex + 1) policyHash
       in bindP (liftP (unexpected (SetControllerReference r placementObj newPolicySnapshot))) (\<lambda>_.
          wrapP (apiServerError False) (pcCreate r newPolicySnapshot))))))"

section \<open>One active snapshot\<close>

definition active :: "PolicySnapshot \<Rightarrow> bool" where
  "active s \<longleftrightarrow> Labels s IsLatestSnapshotLabel = Some (formatBool True)"

text \<open>
  What the controller maintains of the snapshots of a placement: a snapshot is named after its
  index, at most one is active, and no other has a larger index than the active one.
\<close>

definition wellKept :: "Placement \<Rightarrow> PolicySnapshot list \<Rightarrow> bool" where
  "wellKept p l \<longleftrightarrow>
     distinct (map Name l) \<and>
     list_all (\<lambda>s. case ParsePolicyIndexFromLabel s of
                     Inl _ \<Rightarrow> False | Inr i \<Rightarrow> Name s = Name p @ ''-'' @ itoa i) l \<and>
     length (filter active l) \<le> 1 \<and>
     list_all (\<lambda>s. active s \<longrightarrow> list_all (\<lambda>t. policyIndex t \<le> policyIndex s) l) l"

text \<open>
  The contract of the API server for the snapshots \<open>S w\<close> of the placement, the controller being
  their only writer: a list shows them, a label selector filters them, an update replaces the
  one of that name and a deletion removes it, and a create adds one whose name is new. A call
  that reports an error may or may not have taken effect.
\<close>

definition sameSnapshot :: "PolicySnapshot \<Rightarrow> PolicySnapshot \<Rightarrow> bool" where
  "sameSnapshot s s' \<longleftrightarrow>
     Name s' = Name s \<and> Labels s' = Labels s \<and> Annotations s' = Annotations s \<and>
     Policy s' = Policy s \<and> PolicyHash s' = PolicyHash s"

definition replaceSnapshot :: "PolicySnapshot \<Rightarrow> PolicySnapshot list \<Rightarrow> PolicySnapshot list" where
  "replaceSnapshot s l = map (\<lambda>x. if Name x = Name s then s else x) l"

definition removeSnapshot :: "PolicySnapshot \<Rightarrow> PolicySnapshot list \<Rightarrow> PolicySnapshot list" where
  "removeSnapshot s l = filter (\<lambda>x. Name x \<noteq> Name s) l"

definition storesSnapshots :: "'w policyClient \<Rightarrow> string \<Rightarrow> string \<Rightarrow> ('w \<Rightarrow> PolicySnapshot list) \<Rightarrow> bool" where
  "storesSnapshots r ns name S \<longleftrightarrow>
     (\<forall>w res w'. pcListAll r ns name w = (res, w') \<longrightarrow>
        S w' = S w \<and> (\<forall>l. res = Inr l \<longrightarrow> mset l = mset (S w))) \<and>
     (\<forall>w res w'. pcListLatest r ns name w = (res, w') \<longrightarrow>
        S w' = S w \<and> (\<forall>l. res = Inr l \<longrightarrow> mset l = mset (filter active (S w)))) \<and>
     (\<forall>s w res w'. pcUpdate r s w = (res, w') \<longrightarrow>
        (\<exists>s'. sameSnapshot s s' \<and>
           (res = Inr s' \<and> S w' = replaceSnapshot s' (S w) \<or>
            isl res \<and> (S w' = S w \<or> S w' = replaceSnapshot s' (S w))))) \<and>
     (\<forall>s w res w'. pcDelete r s w = (res, w') \<longrightarrow>
        S w' = removeSnapshot s (S w) \<or> (S w' = S w \<and> isl res \<and> res \<noteq> Inl (ErrAPI NotFound))) \<and>
     (\<forall>s w res w'. pcCreate r s w = (res, w') \<longrightarrow>
        (\<exists>s'. sameSnapshot s s' \<and>
           (res = Inr s' \<and> S w' = s' # S w \<and> Name s \<notin> Name ` set (S w) \<or>
            isl res \<and> (S w' = S w \<or> S w' = s' # S w \<and> Name s \<notin> Name ` set (S w)))))"

lemma storesSnapshots_list:
  "storesSnapshots r ns name S \<Longrightarrow> pcListAll r ns name w = (res, w') \<Longrightarrow>
   S w' = S w \<and> (\<forall>l. res = Inr l \<longrightarrow> mset l = mset (S w))"
  "storesSnapshots r ns name S \<Longrightarrow> pcListLatest r ns name w = (res, w') \<Longrightarrow>
   S w' = S w \<and> (\<forall>l. res = Inr l \<longrightarrow> mset l = mset (filter active (S w)))"
  unfolding storesSnapshots_def by presburger+

lemma storesSnapshots_update:
  "storesSnapshots r ns name S \<Longrightarrow> pcUpdate r s w = (res, w') \<Longrightarrow>
   (\<exists>s'. sameSnapshot s s' \<and>
      (res = Inr s' \<and> S w' = replaceSnapshot s' (S w) \<or>
       isl res \<and> (S w' = S w \<or> S w' = replaceSnapshot s' (S w))))"
  unfolding storesSnapshots_def by presburger

lemma storesSnapshots_delete:
  "storesSnapshots r ns name S \<Longrightarrow> pcDelete r s w = (res, w') \<Longrightarrow>
   S w' = removeSnapshot s (S w) \<or> (S w' = S w \<and> isl res \<and> res \<noteq> Inl (ErrAPI NotFound))"
  unfolding storesSnapshots_def by presburger

lemma storesSnapshots_create:
  "storesSnapshots r ns name S \<Longrightarrow> pcCreate r s w = (res, w') \<Longrightarrow>
   (\<exists>s'. sameSnapshot s s' \<and>
      (res = Inr s' \<and> S w' = s' # S w \<and> Name s \<notin> Name ` set (S w) \<or>
       isl res \<and> (S w' = S w \<or> S w' = s' # S w \<and> Name s \<notin> Name ` set (S w))))"
  unfolding storesSnapshots_def by presburger

subsection \<open>Lists of snapshots\<close>

lemma length_filter_distinct:
  "distinct l \<Longrightarrow> length (filter P l) \<le> 1 \<longleftrightarrow> (\<forall>s\<in>set l. \<forall>t\<in>set l. P s \<longrightarrow> P t \<longrightarrow> s = t)"
  using card_le_Suc0_iff_eq[of "set (filter P l)"] distinct_card[of "filter P l"] by auto

definition named :: "Placement \<Rightarrow> PolicySnapshot \<Rightarrow> bool" where
  "named p s \<longleftrightarrow> ParsePolicyIndexFromLabel s = Inr (policyIndex s) \<and>
     Name s = Name p @ ''-'' @ itoa (policyIndex s)"

lemma wellKept_iff:
  "wellKept p l \<longleftrightarrow>
     distinct (map Name l) \<and> (\<forall>s\<in>set l. named p s) \<and>
     (\<forall>s\<in>set l. \<forall>t\<in>set l. active s \<longrightarrow> active t \<longrightarrow> s = t) \<and>
     (\<forall>s\<in>set l. \<forall>t\<in>set l. active s \<longrightarrow> policyIndex t \<le> policyIndex s)"
proof -
  have "(case ParsePolicyIndexFromLabel s of Inl _ \<Rightarrow> False | Inr i \<Rightarrow> Name s = Name p @ ''-'' @ itoa i) = named p s" for s
    by (simp add: named_def policyIndex_def split: sum.split)
  moreover have "distinct (map Name l) \<Longrightarrow> distinct l" by (simp add: distinct_map)
  ultimately show ?thesis
    by (auto simp: wellKept_def list_all_iff length_filter_distinct simp del: One_nat_def)
qed

lemma wellKept_filter: "wellKept p l \<Longrightarrow> wellKept p (filter P l)"
  by (auto simp: wellKept_iff distinct_map_filter)

text \<open>The sorted list of well kept snapshots ends with the one of the largest index.\<close>

lemma sorted_last_largest:
  assumes "sorted_by (\<lambda>a b. policyIndex a < policyIndex b) l" "t \<in> set l"
  shows "policyIndex t \<le> policyIndex (last l)"
proof -
  obtain xs where l: "l = xs @ [last l]" using assms(2) by (metis append_butlast_last_id empty_iff list.set(1))
  then have "t \<in> set xs \<or> t = last l" using assms(2) by (metis Un_iff empty_iff list.set(1) set_ConsD set_append)
  moreover have "sorted_by (\<lambda>a b. policyIndex a < policyIndex b) (xs @ [last l])" using assms(1) l by simp
  ultimately show ?thesis by (auto simp: sorted_wrt_append not_less)
qed

lemma sameSnapshot_simps:
  "sameSnapshot s s' \<Longrightarrow> active s' = active s" "sameSnapshot s s' \<Longrightarrow> policyIndex s' = policyIndex s"
  "sameSnapshot s s' \<Longrightarrow> named p s' = named p s" "sameSnapshot s s' \<Longrightarrow> Name s' = Name s"
  by (simp_all add: sameSnapshot_def active_def policyIndex_def named_def ParsePolicyIndexFromLabel_def)

text \<open>Replacing a snapshot by one of the same index that is active only where no other is.\<close>

lemma wellKept_replace:
  assumes "wellKept p l" "s \<in> set l" "sameSnapshot s1 s'" "Name s1 = Name s" "Labels s1 PolicyIndexLabel = Labels s PolicyIndexLabel"
    and "active s1 \<Longrightarrow> (\<forall>t\<in>set l. active t \<longrightarrow> t = s) \<and> (\<forall>t\<in>set l. policyIndex t \<le> policyIndex s)"
  shows "wellKept p (replaceSnapshot s' l)"
proof -
  have n: "Name s' = Name s" "policyIndex s' = policyIndex s" "named p s' = named p s" "active s' = active s1"
    using assms(3-5) sameSnapshot_simps[OF assms(3)]
    by (simp_all add: policyIndex_def named_def ParsePolicyIndexFromLabel_def getString_def)
  have u: "t \<in> set l \<Longrightarrow> Name t = Name s \<Longrightarrow> t = s" for t
    using assms(1,2) by (auto simp: wellKept_iff distinct_map dest: inj_onD)
  have names: "map Name (replaceSnapshot s' l) = map Name l"
    by (simp add: replaceSnapshot_def n)
  have members: "x \<in> set (replaceSnapshot s' l) \<Longrightarrow> x = s' \<or> (x \<in> set l \<and> x \<noteq> s)" for x
    using u by (auto simp: replaceSnapshot_def n)
  show ?thesis
    unfolding wellKept_iff names
    using assms(1,2,6) members n unfolding wellKept_iff by metis
qed

lemma replaceSnapshot_length [simp]: "length (replaceSnapshot s l) = length l"
  by (simp add: replaceSnapshot_def)

subsection \<open>The operations\<close>

lemma listSorted_result:
  assumes "storesSnapshots r (Namespace p) (Name p) S" "listSortedSchedulingPolicySnapshots r p w = (res, w')"
  shows "S w' = S w" "res = Inr l \<Longrightarrow> mset l = mset (S w) \<and> sorted_by (\<lambda>a b. policyIndex a < policyIndex b) l"
proof -
  obtain res1 w1 where c: "pcListAll r (Namespace p) (Name p) w = (res1, w1)" by fastforce
  have so: "strict_order (\<lambda>a b. policyIndex a < policyIndex b)" by (rule strict_order_key)
  note law = storesSnapshots_list(1)[OF assms(1) c]
  show "S w' = S w"
    using assms(2) c law by (auto simp: listSortedSchedulingPolicySnapshots_def bindP_def wrapP_def split: sum.splits if_splits prod.splits)
  show "res = Inr l \<Longrightarrow> mset l = mset (S w) \<and> sorted_by (\<lambda>a b. policyIndex a < policyIndex b) l"
    using assms(2) c law strict_order.sorted_sort_by[OF so]
    by (auto simp: listSortedSchedulingPolicySnapshots_def bindP_def wrapP_def split: sum.splits if_splits prod.splits)
qed

lemma deleteSnapshot_result:
  assumes "storesSnapshots r ns name S" "deleteSnapshot r s w = (res, w')"
  shows "S w' = removeSnapshot s (S w) \<or> (S w' = S w \<and> isl res)"
  using assms(2) storesSnapshots_delete[OF assms(1), of s w]
  by (auto simp: deleteSnapshot_def split: prod.splits sum.splits if_splits)

lemma deleteSnapshots_result:
  assumes "storesSnapshots r ns name S"
  shows "deleteSnapshots r ss w = (res, w') \<Longrightarrow>
    \<exists>D \<subseteq> Name ` set ss. S w' = filter (\<lambda>x. Name x \<notin> D) (S w) \<and> (isl res \<or> D = Name ` set ss)"
proof (induction ss arbitrary: w)
  case (Cons s ss)
  obtain res1 w1 where d: "deleteSnapshot r s w = (res1, w1)" by fastforce
  note one = deleteSnapshot_result[OF assms d]
  show ?case
  proof (cases res1)
    case (Inl e)
    then have "S w' = S w1" "isl res" using Cons.prems d by (auto simp: bindP_def)
    with one show ?thesis
      by (intro exI[of _ "if S w1 = S w then {} else {Name s}"]) (auto simp: removeSnapshot_def)
  next
    case (Inr u)
    then have "S w1 = removeSnapshot s (S w)" "deleteSnapshots r ss w1 = (res, w')"
      using Cons.prems d one by (auto simp: bindP_def)
    moreover from Cons.IH[OF this(2)] obtain D where "D \<subseteq> Name ` set ss"
      "S w' = filter (\<lambda>x. Name x \<notin> D) (S w1)" "isl res \<or> D = Name ` set ss" by blast
    ultimately show ?thesis
      by (intro exI[of _ "insert (Name s) D"]) (auto simp: removeSnapshot_def intro: filter_cong)
  qed
qed simp

lemma filter_names_take:
  "distinct (map Name l) \<Longrightarrow> filter (\<lambda>x. Name x \<notin> Name ` set (take k l)) l = drop k l"
proof -
  assume d: "distinct (map Name l)"
  have "filter (\<lambda>x. Name x \<notin> Name ` set (take k l)) (take k l) = []" by (auto simp: filter_empty_conv)
  moreover have "filter (\<lambda>x. Name x \<notin> Name ` set (take k l)) (drop k l) = drop k l"
    using d by (subst (asm) append_take_drop_id[of k l, symmetric]) (auto simp: filter_id_conv simp del: append_take_drop_id)
  ultimately show ?thesis by (metis append_Nil append_take_drop_id filter_append)
qed

lemma deleteRedundant_result:
  assumes "storesSnapshots r (Namespace p) (Name p) S" "wellKept p (S w)"
    and "deleteRedundantSchedulingPolicySnapshots r p limit w = (res, w')"
  shows "\<exists>P. S w' = filter P (S w) \<and> (isl res \<or> int (length (S w')) < limit)"
proof -
  obtain res1 w1 where ls: "listSortedSchedulingPolicySnapshots r p w = (res1, w1)" by fastforce
  note law = listSorted_result[OF assms(1) ls]
  show ?thesis
  proof (cases res1)
    case (Inl e)
    then have "S w' = S w" "isl res" using assms(3) ls law by (auto simp: deleteRedundantSchedulingPolicySnapshots_def bindP_def)
    then show ?thesis by (intro exI[of _ "\<lambda>_. True"]) simp
  next
    case (Inr l)
    define k where "k = nat (int (length l) - limit + 1)"
    from Inr law have m: "mset l = mset (S w)" "S w1 = S w" by auto
    then have len: "length l = length (S w)" by (metis size_mset)
    obtain res2 w2 where ds: "deleteSnapshots r (take k l) w1 = (res2, w2)" by fastforce
    from deleteSnapshots_result[OF assms(1) ds] m obtain D where
      D: "D \<subseteq> Name ` set (take k l)" "S w2 = filter (\<lambda>x. Name x \<notin> D) (S w)" "isl res2 \<or> D = Name ` set (take k l)"
      by auto
    have "mset (map Name l) = mset (map Name (S w))" using m by simp
    then have "distinct (map Name l)" using assms(2) unfolding wellKept_iff by (metis mset_eq_imp_distinct_iff)
    then have "mset (filter (\<lambda>x. Name x \<notin> Name ` set (take k l)) (S w)) = mset (drop k l)"
      using filter_names_take[of l k] m by (metis mset_filter)
    then have "length (filter (\<lambda>x. Name x \<notin> Name ` set (take k l)) (S w)) = length l - k"
      by (metis length_drop size_mset)
    then have "isl res2 \<or> length (S w2) = length l - k" using D by auto
    moreover have "int (length l) < limit \<and> w' = w1 \<or> int (length l) \<ge> limit \<and> w' = w2 \<and> (isl res \<or> \<not> isl res2 \<and> limit > 0)"
      using assms(3) ls Inr ds
      by (auto simp: deleteRedundantSchedulingPolicySnapshots_def bindP_def k_def split: sum.splits prod.splits if_splits)
    ultimately show ?thesis using D m len by (auto simp: k_def intro: exI[of _ "\<lambda>_. True"])
  qed
qed

lemma lookupLatest_result:
  assumes "storesSnapshots r (Namespace p) (Name p) S" "wellKept p (S w)"
    and "lookupLatestSchedulingPolicySnapshot r p w = (res, w')"
  shows "S w' = S w" and "res = Inr (None, i) \<Longrightarrow> S w = [] \<and> i = -1"
    and "res = Inr (Some s, i) \<Longrightarrow> s \<in> set (S w) \<and> policyIndex s = i \<and>
      (\<forall>t\<in>set (S w). policyIndex t \<le> i) \<and> (\<forall>t\<in>set (S w). active t \<longrightarrow> t = s)"
proof -
  obtain res1 w1 where c: "pcListLatest r (Namespace p) (Name p) w = (res1, w1)" by fastforce
  obtain res2 w2 where ls: "listSortedSchedulingPolicySnapshots r p w1 = (res2, w2)" by fastforce
  note law = storesSnapshots_list(2)[OF assms(1) c] listSorted_result[OF assms(1) ls]
  note unfold = lookupLatestSchedulingPolicySnapshot_def LookupLatestPolicySnapshot_def bindP_def wrapP_def
  show "S w' = S w"
    using assms(3) c ls law
    by (auto simp: unfold apiServerError_def split: sum.splits prod.splits list.splits if_splits)
  show "res = Inr (None, i) \<Longrightarrow> S w = [] \<and> i = -1"
    using assms(3) c ls law
    by (auto simp: unfold bindR_def wrapR_def split: sum.splits prod.splits list.splits if_splits)
  assume r: "res = Inr (Some s, i)"
  consider "res1 = Inr [s]" "ParsePolicyIndexFromLabel s = Inr i"
    | l where "res1 = Inr []" "res2 = Inr l" "l \<noteq> []" "s = last l" "ParsePolicyIndexFromLabel s = Inr i"
    | "isl res1"
    using assms(3) c ls r
    by (auto simp: unfold bindR_def wrapR_def split: sum.splits prod.splits list.splits if_splits)
  then show "s \<in> set (S w) \<and> policyIndex s = i \<and>
      (\<forall>t\<in>set (S w). policyIndex t \<le> i) \<and> (\<forall>t\<in>set (S w). active t \<longrightarrow> t = s)"
  proof cases
    case 1
    then have "mset [s] = mset (filter active (S w))" using law by auto
    then have "s \<in> set (filter active (S w))" by (metis list.set_intros(1) set_mset_mset)
    then have "s \<in> set (S w)" "active s" by auto
    moreover have "policyIndex s = i" using 1 by (simp add: policyIndex_def)
    ultimately show ?thesis using assms(2) unfolding wellKept_iff by blast
  next
    case 2
    then have "filter active (S w) = []" "mset l = mset (S w)"
      "sorted_by (\<lambda>a b. policyIndex a < policyIndex b) l" using law by auto
    moreover from this have "set l = set (S w)" by (metis set_mset_mset)
    moreover have "policyIndex s = i" using 2 by (simp add: policyIndex_def)
    ultimately show ?thesis
      using 2 sorted_last_largest[of l] last_in_set[of l] by (auto simp: filter_empty_conv)
  next
    case 3
    then show ?thesis using assms(3) c r
      by (auto simp: unfold apiServerError_def error_defs isl_def split: if_splits option.splits)
  qed
qed

text \<open>Integers of the API that are read back from an annotation.\<close>

definition renderable :: "Placement \<Rightarrow> bool" where
  "renderable p \<longleftrightarrow>
     0 \<le> Generation p \<and> Generation p < 2 ^ 63 \<and>
     (case requestedCount p of None \<Rightarrow> True | Some n \<Rightarrow> 0 \<le> n \<and> n < 2 ^ 31)"

text \<open>The snapshot says what the placement wants of it.\<close>

definition upToDate :: "Placement \<Rightarrow> string \<Rightarrow> PolicySnapshot \<Rightarrow> bool" where
  "upToDate p h s \<longleftrightarrow>
     active s \<and> PolicyHash s = h \<and>
     ExtractObservedPlacementGenerationFromPolicySnapshot s = Inr (Generation p) \<and>
     (case requestedCount p of None \<Rightarrow> True | Some n \<Rightarrow> ExtractNumOfClustersFromPolicySnapshot s = Inr n)"

lemma upToDate_same: "sameSnapshot s s' \<Longrightarrow> upToDate p h s' = upToDate p h s"
  by (cases "requestedCount p") (simp_all add: upToDate_def sameSnapshot_def active_def annotationCount_def
      ExtractObservedPlacementGenerationFromPolicySnapshot_def ExtractNumOfClustersFromPolicySnapshot_def)

lemma count_generation_keys: "NumberOfClustersAnnotation \<noteq> CRPGenerationAnnotation"
  "IsLatestSnapshotLabel \<noteq> PolicyIndexLabel"
  by (simp_all add: label_defs)

lemma syncCount_result:
  assumes "syncCount key n s = Inr (s', u)" "0 \<le> n" "n < 2 ^ 63"
  shows "annotationCount key s' = Inr n \<and> Name s' = Name s \<and> Labels s' = Labels s \<and> PolicyHash s' = PolicyHash s \<and>
    (\<forall>k. k \<noteq> key \<longrightarrow> annotationCount k s' = annotationCount k s) \<and> (u \<or> s' = s)"
proof -
  have "annotationCount k (s\<lparr>Annotations := (Annotations s)(key \<mapsto> itoa n)\<rparr>) =
      (if k = key then Inr n else annotationCount k s)" for k
    using assms(2,3) by (simp add: annotationCount_def atoi_itoa)
  with assms(1) show ?thesis by (auto simp: syncCount_def bindR_eq_Inr split: if_splits)
qed

lemma refreshedSnapshot_result:
  assumes "renderable p" "refreshedSnapshot p s = Inr (s', u)"
  shows "upToDate p (PolicyHash s) s' \<and> Name s' = Name s \<and>
    Labels s' PolicyIndexLabel = Labels s PolicyIndexLabel \<and> (u \<or> s' = s)"
proof -
  define u1 where "u1 = (getString (Labels s) IsLatestSnapshotLabel \<noteq> formatBool True)"
  define s1 where "s1 = (if u1 then s\<lparr>Labels := (Labels s)(IsLatestSnapshotLabel \<mapsto> formatBool True)\<rparr> else s)"
  have s1: "active s1" "Name s1 = Name s" "Labels s1 PolicyIndexLabel = Labels s PolicyIndexLabel"
    "PolicyHash s1 = PolicyHash s" "u1 \<or> s1 = s"
    using count_generation_keys
    by (auto simp: s1_def u1_def active_def getString_def formatBool_def split: option.splits)
  have eq: "refreshedSnapshot p s =
      bindR (syncCount CRPGenerationAnnotation (Generation p) s1) (\<lambda>(s2, u2).
        case requestedCount p of
          None \<Rightarrow> Inr (s2, u1 \<or> u2)
        | Some newCount \<Rightarrow>
            bindR (syncCount NumberOfClustersAnnotation newCount s2) (\<lambda>(s3, u3). Inr (s3, u1 \<or> u2 \<or> u3)))"
    unfolding refreshedSnapshot_def Let_def s1_def u1_def ..
  obtain s2 u2 where s2: "syncCount CRPGenerationAnnotation (Generation p) s1 = Inr (s2, u2)"
    using assms(2) by (auto simp: eq bindR_eq_Inr)
  have "0 \<le> Generation p" "Generation p < 2 ^ 63" using assms(1) by (auto simp: renderable_def)
  note r2 = syncCount_result[OF s2 this]
  show ?thesis
  proof (cases "requestedCount p")
    case None
    then show ?thesis
      using assms(2) s1 s2 r2 by (auto simp: eq upToDate_def active_def ExtractObservedPlacementGenerationFromPolicySnapshot_def)
  next
    case (Some n)
    then obtain s3 u3 where s3: "syncCount NumberOfClustersAnnotation n s2 = Inr (s3, u3)" "s' = s3" "u = (u1 \<or> u2 \<or> u3)"
      using assms(2) s2 by (auto simp: eq bindR_eq_Inr)
    have "0 \<le> n" "n < 2 ^ 63" using Some assms(1) by (auto simp: renderable_def)
    note r3 = syncCount_result[OF s3(1) this]
    show ?thesis using Some s1 s3 r2 r3 count_generation_keys
      by (auto simp: upToDate_def active_def
        ExtractObservedPlacementGenerationFromPolicySnapshot_def ExtractNumOfClustersFromPolicySnapshot_def)
  qed
qed

subsection \<open>The rotation as a whole\<close>

lemma ensureLatest_result:
  assumes "storesSnapshots r (Namespace p) (Name p) S" "wellKept p (S w)" "renderable p"
    and s: "s \<in> set (S w)" "\<forall>t\<in>set (S w). policyIndex t \<le> policyIndex s" "\<forall>t\<in>set (S w). active t \<longrightarrow> t = s"
    and "ensureLatestPolicySnapshot r p s w = (res, w')"
  shows "wellKept p (S w') \<and> length (S w') = length (S w) \<and>
    (\<forall>s'. res = Inr s' \<longrightarrow> s' \<in> set (S w') \<and> upToDate p (PolicyHash s) s')"
proof (cases "refreshedSnapshot p s")
  case (Inl e)
  then show ?thesis using assms(2,7) by (auto simp: ensureLatestPolicySnapshot_def bindP_def)
next
  case (Inr v)
  obtain s1 u where v: "v = (s1, u)" by fastforce
  note ref = refreshedSnapshot_result[OF assms(3) Inr[unfolded v]]
  show ?thesis
  proof (cases u)
    case False
    then show ?thesis using assms(2,7) s(1) ref Inr v by (auto simp: ensureLatestPolicySnapshot_def liftP_bind)
  next
    case True
    obtain res1 w1 where c: "pcUpdate r s1 w = (res1, w1)" by fastforce
    have w': "w' = w1" "\<And>x. res = Inr x \<longleftrightarrow> res1 = Inr x" 
      using assms(7) True Inr v c by (auto simp: ensureLatestPolicySnapshot_def liftP_bind wrapP_def)
    from storesSnapshots_update[OF assms(1) c] obtain s' where s': "sameSnapshot s1 s'"
      "res1 = Inr s' \<and> S w1 = replaceSnapshot s' (S w) \<or> isl res1 \<and> (S w1 = S w \<or> S w1 = replaceSnapshot s' (S w))"
      by blast
    have "wellKept p (replaceSnapshot s' (S w))"
      using wellKept_replace[OF assms(2) s(1) s'(1)] ref s by simp
    moreover have "s' \<in> set (replaceSnapshot s' (S w))"
      using s(1) ref sameSnapshot_simps(4)[OF s'(1)] by (force simp: replaceSnapshot_def)
    ultimately show ?thesis using w' s' assms(2) ref upToDate_same[OF s'(1)] by auto
  qed
qed

lemma markInactive_result:
  assumes "storesSnapshots r ns name S" "wellKept p (S w)" "markInactive r h l w = (res, w')"
    and "l = None \<Longrightarrow> S w = []"
    and "\<And>s. l = Some s \<Longrightarrow> s \<in> set (S w) \<and> PolicyHash s \<noteq> h \<and> (\<forall>t\<in>set (S w). active t \<longrightarrow> t = s)"
  shows "wellKept p (S w') \<and> map policyIndex (S w') = map policyIndex (S w) \<and> (isl res \<or> (\<forall>t\<in>set (S w'). \<not> active t))"
proof (cases "\<exists>s. l = Some s \<and> getString (Labels s) IsLatestSnapshotLabel = formatBool True")
  case True
  then obtain s where l: "l = Some s" "getString (Labels s) IsLatestSnapshotLabel = formatBool True" by blast
  note s = assms(5)[OF l(1)]
  let ?s = "s\<lparr>Labels := (Labels s)(IsLatestSnapshotLabel \<mapsto> formatBool False)\<rparr>"
  obtain res1 w1 where c: "pcUpdate r ?s w = (res1, w1)" by fastforce
  have w': "w' = w1" "isl res = isl res1"
    using assms(3) l s c by (cases res1; auto simp: markInactive_def bindP_def wrapP_def)+
  from storesSnapshots_update[OF assms(1) c] obtain s' where s': "sameSnapshot ?s s'"
    "res1 = Inr s' \<and> S w1 = replaceSnapshot s' (S w) \<or> isl res1 \<and> (S w1 = S w \<or> S w1 = replaceSnapshot s' (S w))"
    by blast
  have na: "\<not> active ?s" by (simp add: active_def formatBool_def)
  have n: "Name s' = Name s" "policyIndex s' = policyIndex s" "\<not> active s'"
    using sameSnapshot_simps[OF s'(1)] na count_generation_keys
    by (simp_all add: policyIndex_def ParsePolicyIndexFromLabel_def getString_def)
  have wk: "wellKept p (replaceSnapshot s' (S w))"
    using assms(2) s(1) s'(1) na count_generation_keys by (intro wellKept_replace[where s = s and ?s1.0 = ?s]) auto
  have "\<forall>t\<in>set (S w). Name t = Name s \<longrightarrow> t = s"
    using assms(2) s by (auto simp: wellKept_iff distinct_map dest: inj_onD)
  then have idx: "map policyIndex (replaceSnapshot s' (S w)) = map policyIndex (S w)"
    and "\<forall>t\<in>set (replaceSnapshot s' (S w)). \<not> active t"
    using n s by (auto simp: replaceSnapshot_def)
  then show ?thesis using w' s' assms(2) wk by auto
next
  case False
  then have "w' = w" using assms(3) by (auto simp: markInactive_def split: option.splits)
  moreover have "\<forall>t\<in>set (S w). \<not> active t"
    using False assms(4,5) by (cases l) (auto simp: active_def getString_def formatBool_def split: option.splits)
  ultimately show ?thesis using assms(2) by blast
qed

lemma create_result:
  assumes "storesSnapshots r ns name S" "wellKept p (S w)" "renderable p" "0 \<le> i" "i < 2 ^ 63"
    and "\<forall>t\<in>set (S w). \<not> active t \<and> policyIndex t < i"
    and "pcCreate r (BuildPolicySnapshot p i h) w = (res, w')"
  shows "wellKept p (S w') \<and> length (S w') \<le> Suc (length (S w)) \<and>
    (\<forall>s. res = Inr s \<longrightarrow> s \<in> set (S w') \<and> upToDate p h s)"
proof -
  let ?n = "BuildPolicySnapshot p i h"
  have n: "policyIndex ?n = i" "named p ?n" "active ?n"
    using BuildPolicySnapshot_index[OF assms(4,5), of p h]
    by (simp_all add: policyIndex_def named_def active_def)
      (simp_all add: BuildPolicySnapshot_def count_generation_keys)
  have up: "upToDate p h ?n"
    using n(3) BuildPolicySnapshot_generation[of p i h] BuildPolicySnapshot_count[of p _ i h] assms(3)
    by (auto simp: upToDate_def renderable_def split: option.splits) (simp_all add: BuildPolicySnapshot_def)
  from storesSnapshots_create[OF assms(1,7)] obtain s' where s': "sameSnapshot ?n s'"
    "res = Inr s' \<and> S w' = s' # S w \<and> Name ?n \<notin> Name ` set (S w) \<or>
     isl res \<and> (S w' = S w \<or> S w' = s' # S w \<and> Name ?n \<notin> Name ` set (S w))" by blast
  note same = sameSnapshot_simps[OF s'(1)]
  have "wellKept p (s' # S w)" if "Name ?n \<notin> Name ` set (S w)"
    using assms(2,6) that n same unfolding wellKept_iff by (auto simp: less_imp_le)
  then show ?thesis using s' assms(2) up upToDate_same[OF s'(1)] by auto
qed

lemma rotation_result:
  assumes "storesSnapshots r (Namespace p) (Name p) S" "wellKept p (S w)" "renderable p" "i < 2 ^ 63 - 1" "1 \<le> limit"
    and N: "l = None \<Longrightarrow> S w = [] \<and> i = -1"
    and L: "\<And>s. l = Some s \<Longrightarrow> s \<in> set (S w) \<and> PolicyHash s \<noteq> h \<and> (\<forall>t\<in>set (S w). active t \<longrightarrow> t = s) \<and>
          0 \<le> i \<and> (\<forall>t\<in>set (S w). policyIndex t \<le> i)"
    and run: "bindP (markInactive r h l) (\<lambda>_. bindP (deleteRedundantSchedulingPolicySnapshots r p limit) (\<lambda>_.
        bindP (liftP (unexpected (SetControllerReference r p (BuildPolicySnapshot p (i + 1) h)))) (\<lambda>_.
        wrapP (apiServerError False) (pcCreate r (BuildPolicySnapshot p (i + 1) h))))) w = (res, w')"
  shows "wellKept p (S w') \<and> int (length (S w')) \<le> max limit (int (length (S w))) \<and>
    (\<forall>s. res = Inr s \<longrightarrow> s \<in> set (S w') \<and> upToDate p h s)"
proof -
  obtain res1 w1 where m: "markInactive r h l w = (res1, w1)" by fastforce
  obtain res2 w2 where d: "deleteRedundantSchedulingPolicySnapshots r p limit w1 = (res2, w2)" by fastforce
  obtain res3 w3 where c: "pcCreate r (BuildPolicySnapshot p (i + 1) h) w2 = (res3, w3)" by fastforce
  have m': "wellKept p (S w1) \<and> map policyIndex (S w1) = map policyIndex (S w) \<and>
      (isl res1 \<or> (\<forall>t\<in>set (S w1). \<not> active t))"
    using N L by (intro markInactive_result[OF assms(1,2) m]) auto
  then have len: "length (S w1) = length (S w)" and idx: "policyIndex ` set (S w1) = policyIndex ` set (S w)"
    by (metis length_map, metis list.set_map)
  from deleteRedundant_result[OF assms(1) _ d] m' obtain P where
    d': "S w2 = filter P (S w1)" "isl res2 \<or> int (length (S w2)) < limit" by blast
  have i: "0 \<le> i + 1" "i + 1 < 2 ^ 63" "\<forall>t\<in>set (S w). policyIndex t < i + 1"
    using assms(4) N L by (cases l; force)+
  have w2: "wellKept p (S w2)" "length (S w2) \<le> length (S w)"
    using wellKept_filter[of p "S w1" P] m' d'(1) len by (auto intro: le_trans[OF length_filter_le])
  consider "isl res" "w' = w1" | "isl res" "w' = w2" | "\<not> isl res1" "\<not> isl res2" "w' = w3" "\<And>s. res = Inr s \<longleftrightarrow> res3 = Inr s"
    using run m d c by (auto simp: bindP_def wrapP_def split: sum.splits)
  then show ?thesis
  proof cases
    case 3
    have "policyIndex t < i + 1" if "t \<in> set (S w2)" for t
    proof -
      have "policyIndex t \<in> policyIndex ` set (S w)" using that d'(1) idx by (metis filter_is_subset imageI subsetD)
      then show ?thesis using i(3) by auto
    qed
    then have "\<forall>t\<in>set (S w2). \<not> active t \<and> policyIndex t < i + 1" using 3 m' d'(1) by auto
    from create_result[OF assms(1) w2(1) assms(3) i(1,2) this c] 3 d'(2) show ?thesis by fastforce
  qed (use m' len w2 in \<open>auto simp: isl_def\<close>)
qed

lemma active_singleton:
  assumes "wellKept p l" "s \<in> set l" "active s" shows "filter active l = [s]"
proof -
  have "length (filter active l) \<le> 1" "s \<in> set (filter active l)" using assms by (auto simp: wellKept_def)
  then show ?thesis by (cases "filter active l") auto
qed


text \<open>A store of snapshots that follows the contract, with one active snapshot of an old policy.\<close>

definition exampleSnapshots :: "PolicySnapshot list policyClient" where
  "exampleSnapshots =
     \<lparr>pcListLatest = \<lambda>_ _ w. (Inr (filter active w), w), pcListAll = \<lambda>_ _ w. (Inr w, w),
      pcUpdate = \<lambda>s w. (Inr s, replaceSnapshot s w), pcDelete = \<lambda>s w. (Inr (), removeSnapshot s w),
      pcCreate = \<lambda>s w. if Name s \<in> Name ` set w then (Inl (ErrAPI AlreadyExists), w) else (Inr s, s # w),
      HashOf = \<lambda>p. Inr (case p of None \<Rightarrow> ''none'' | Some _ \<Rightarrow> ''some''),
      SetControllerReference = \<lambda>_ _. Inr ()\<rparr>"

definition exampleKept :: "PolicySnapshot list" where
  "exampleKept = [BuildPolicySnapshot (examplePlacement None) 0 ''none'']"

lemma exampleSnapshots_stores: "storesSnapshots exampleSnapshots ns name (\<lambda>w. w)"
  by (auto simp: storesSnapshots_def exampleSnapshots_def sameSnapshot_def split: if_splits)

lemma exampleKept_wellKept: "wellKept (examplePlacement q) exampleKept"
  using BuildPolicySnapshot_index[of 0 "examplePlacement None" "''none''"]
  by (simp add: wellKept_def exampleKept_def BuildPolicySnapshot_def examplePlacement_def)

definition rotatedExample :: "PolicySnapshot result \<times> PolicySnapshot list" where
  "rotatedExample =
     getOrCreateSchedulingPolicySnapshot exampleSnapshots
       (examplePlacement (Some (examplePolicySpec PickAllPlacementType))) 1 exampleKept"


end
