(* ===== verification/Plugins_Basic.thy ===== *)
theory Plugins_Basic
  imports Framework_Base
begin

text \<open>
  The plugins whose answer depends on one cluster and the policy only: the eligibility
  checker (\<open>pkg/scheduler/clustereligibilitychecker\<close>) and the plugins ClusterEligibility,
  TaintToleration, SamePlacementAffinity and NamespaceAffinity
  (\<open>pkg/scheduler/framework/plugins\<close>), with the interpretations that discharge the plugin
  contracts for them. The current time is an argument.
\<close>

section \<open>Cluster eligibility\<close>

record ClusterEligibilityChecker =
  clusterHeartbeatCheckTimeout :: int
  clusterHealthCheckTimeout :: int

definition Minute :: int where
  "Minute = 60 * 1000000000"

definition defaultChecker :: ClusterEligibilityChecker where
  "defaultChecker = \<lparr>clusterHeartbeatCheckTimeout = Minute * 5,
                     clusterHealthCheckTimeout = Minute * 5\<rparr>"

text \<open>
  \<open>%.2f\<close> of a duration in minutes, rounded to the nearest hundredth of the exact value (the
  code goes through a float64 first). It only appears in the text of a reason.
\<close>

definition minutes_2f :: "int \<Rightarrow> string" where
  "minutes_2f d =
     (let h = (\<bar>d\<bar> * 100 + Minute div 2) div Minute; f = h mod 100
      in (if d < 0 then ''-'' else '''') @ itoa (h div 100) @ ''.'' @
         (if f < 10 then ''0'' else '''') @ itoa f)"

definition IsEligible ::
  "ClusterEligibilityChecker \<Rightarrow> int \<Rightarrow> MemberCluster \<Rightarrow> bool \<times> string" where
  "IsEligible checker now cluster =
     (if DeletionTimestamp cluster \<noteq> None then (False, ''cluster has left the fleet'')
      else case GetAgentStatus cluster ''MemberAgent'' of
        None \<Rightarrow> (False, ''cluster is not connected to the fleet: member agent not online yet'')
      | Some memberAgentStatus \<Rightarrow>
        (let sinceLastHeartbeat = now - LastReceivedHeartbeat memberAgentStatus in
         if sinceLastHeartbeat > clusterHeartbeatCheckTimeout checker
         then (False, ''cluster is not connected to the fleet: no recent heartbeat signals (last received '' @
                      minutes_2f sinceLastHeartbeat @ '' minutes ago)'')
         else if (case GetAgentCondition cluster ''MemberAgent'' ''Joined'' of
                    None \<Rightarrow> True | Some joined \<Rightarrow> cond_Status joined \<noteq> ConditionTrue)
         then (False, ''cluster is not connected to the fleet: member agent not joined yet'')
         else case GetAgentCondition cluster ''MemberAgent'' ''Healthy'' of
           None \<Rightarrow> (False, ''cluster is not connected to the fleet: health condition from member agent is not available'')
         | Some healthy \<Rightarrow>
             (let sinceLastTransition = now - cond_LastTransitionTime healthy in
              if cond_Status healthy \<noteq> ConditionTrue \<and>
                 sinceLastTransition > clusterHealthCheckTimeout checker
              then (False, ''cluster is not connected to the fleet: unhealthy for a prolonged period of time (last transitioned '' @
                           minutes_2f sinceLastTransition @ '' minutes ago)'')
              else (True, ''''))))"

definition clustereligibility_Filter ::
  "(MemberCluster \<Rightarrow> bool \<times> string) \<Rightarrow> string \<Rightarrow> CycleState \<Rightarrow> PolicySnapshot \<Rightarrow> MemberCluster \<Rightarrow>
   Status result" where
  "clustereligibility_Filter isEligible name st ps cluster =
     Inr (case isEligible cluster of (eligible, reason) \<Rightarrow>
            if \<not> eligible then NewNonErrorStatus ClusterUnschedulable name [reason] else None)"

text \<open>
  A reason is given exactly for the clusters that are not eligible.
\<close>

lemma IsEligible_reason: "snd (IsEligible ch now c) = [] \<longleftrightarrow> fst (IsEligible ch now c)"
  by (auto simp: IsEligible_def Let_def split: option.splits)

text \<open>
  Eligibility is lost with time only: a cluster that is eligible at some time was eligible at
  every earlier time at which it was in the same state.
\<close>

lemma IsEligible_antimono:
  assumes "fst (IsEligible ch now c)" and "now' \<le> now"
  shows "fst (IsEligible ch now' c)"
  using assms by (auto simp: IsEligible_def Let_def split: option.splits if_splits)

lemma IsEligible_iff:
  "fst (IsEligible ch now c) \<longleftrightarrow>
     live c \<and>
     (\<exists>a j h. GetAgentStatus c ''MemberAgent'' = Some a \<and>
        now - LastReceivedHeartbeat a \<le> clusterHeartbeatCheckTimeout ch \<and>
        agent_Conditions a ''Joined'' = Some j \<and> cond_Status j = ConditionTrue \<and>
        agent_Conditions a ''Healthy'' = Some h \<and>
        (cond_Status h = ConditionTrue \<or>
         now - cond_LastTransitionTime h \<le> clusterHealthCheckTimeout ch))"
  by (auto simp: IsEligible_def Let_def GetAgentCondition_def split: option.splits if_splits)

section \<open>Taints and tolerations\<close>

definition canTolerationTolerateTaint :: "Taint \<Rightarrow> Toleration \<Rightarrow> bool" where
  "canTolerationTolerateTaint taint tol =
     (if tol_Operator tol = TolerationOpExists \<and> (tol_Key tol = '''' \<or> tol_Key tol = taint_Key taint)
      then tol_Effect tol = taint_Effect taint \<or> tol_Effect tol = ''''
      else if tol_Operator tol = TolerationOpEqual \<and>
              tol_Key tol = taint_Key taint \<and> tol_Value tol = taint_Value taint
      then tol_Effect tol = taint_Effect taint \<or> tol_Effect tol = ''''
      else False)"

fun tolerationsTolerateTaint :: "Taint \<Rightarrow> Toleration list \<Rightarrow> bool" where
  "tolerationsTolerateTaint taint [] = False"
| "tolerationsTolerateTaint taint (t # ts) =
     (if canTolerationTolerateTaint taint t then True else tolerationsTolerateTaint taint ts)"

fun findUntoleratedTaint :: "Taint list \<Rightarrow> Toleration list \<Rightarrow> Taint option" where
  "findUntoleratedTaint [] tols = None"
| "findUntoleratedTaint (t # ts) tols =
     (if \<not> tolerationsTolerateTaint t tols then Some t else findUntoleratedTaint ts tols)"

text \<open>\<open>%+v\<close> of a pointer to a taint.\<close>

definition show_taint :: "Taint \<Rightarrow> string" where
  "show_taint t = ''&{Key:'' @ taint_Key t @ '' Value:'' @ taint_Value t @ '' Effect:'' @
     taint_Effect t @ ''}''"

definition tainttoleration_Filter ::
  "string \<Rightarrow> CycleState \<Rightarrow> PolicySnapshot \<Rightarrow> MemberCluster \<Rightarrow> Status result" where
  "tainttoleration_Filter name st ps cluster =
     Inr (case findUntoleratedTaint (Taints cluster) (Tolerations_of ps) of
            None \<Rightarrow> None
          | Some taint \<Rightarrow> NewNonErrorStatus ClusterUnschedulable name
                            [''taint '' @ show_taint taint @ '' cannot be tolerated''])"

lemma tolerationsTolerateTaint_iff:
  "tolerationsTolerateTaint t tols \<longleftrightarrow> (\<exists>tol\<in>set tols. canTolerationTolerateTaint t tol)"
  by (induction tols) auto

lemma findUntoleratedTaint_None:
  "findUntoleratedTaint ts tols = None \<longleftrightarrow> (\<forall>t\<in>set ts. tolerationsTolerateTaint t tols)"
  by (induction ts) auto

lemma findUntoleratedTaint_Some:
  "findUntoleratedTaint ts tols = Some t \<Longrightarrow> t \<in> set ts \<and> \<not> tolerationsTolerateTaint t tols"
  by (induction ts) (auto split: if_splits)

lemma tainttoleration_success_iff:
  "tainttoleration_Filter name st ps c = Inr None \<longleftrightarrow>
     (\<forall>t\<in>set (Taints c). \<exists>tol\<in>set (Tolerations_of ps). canTolerationTolerateTaint t tol)"
proof -
  have "tainttoleration_Filter name st ps c = Inr None \<longleftrightarrow>
        findUntoleratedTaint (Taints c) (Tolerations_of ps) = None"
    by (auto simp: tainttoleration_Filter_def NewNonErrorStatus_def split: option.splits)
  then show ?thesis by (simp add: findUntoleratedTaint_None tolerationsTolerateTaint_iff)
qed

section \<open>Clusters that already have the placement\<close>

definition sameplacementaffinity_Filter ::
  "string \<Rightarrow> CycleState \<Rightarrow> PolicySnapshot \<Rightarrow> MemberCluster \<Rightarrow> Status result" where
  "sameplacementaffinity_Filter name st ps cluster =
     Inr (if \<not> HasScheduledOrBoundBindingFor st (Name cluster) then None
          else NewNonErrorStatus ClusterAlreadySelected name
            [''resource placement has already been scheduled or bounded on the cluster''])"

definition sameplacementaffinity_Score ::
  "CycleState \<Rightarrow> PolicySnapshot \<Rightarrow> MemberCluster \<Rightarrow> (ClusterScore option \<times> Status) result" where
  "sameplacementaffinity_Score st ps cluster =
     Inr (if HasObsoleteBindingFor st (Name cluster)
          then (Some (zeroScore\<lparr>ObsoletePlacementAffinityScore := 1\<rparr>), None)
          else (Some (zeroScore\<lparr>ObsoletePlacementAffinityScore := 0\<rparr>), None))"

section \<open>Namespace affinity\<close>

definition namespaceaffinity_PreFilter ::
  "string \<Rightarrow> CycleState \<Rightarrow> PolicySnapshot \<Rightarrow> (CycleState \<times> Status) result" where
  "namespaceaffinity_PreFilter name st ps =
     Inr (st,
       if Namespace ps = '''' then
         NewNonErrorStatus Skip name
           [''cluster-scoped placement does not require namespace affinity filtering'']
       else None)"

definition NamespaceCollectionSucceededCondType :: string where
  "NamespaceCollectionSucceededCondType = ''NamespaceCollectionSucceeded''"

definition namespaceaffinity_Filter ::
  "string \<Rightarrow> CycleState \<Rightarrow> PolicySnapshot \<Rightarrow> MemberCluster \<Rightarrow> Status result" where
  "namespaceaffinity_Filter name st ps cluster =
     Inr (let nsName = Namespace ps in
       case ClusterConditions cluster NamespaceCollectionSucceededCondType of
         None \<Rightarrow> None
       | Some _ \<Rightarrow>
           (case Namespaces cluster of
              None \<Rightarrow> NewNonErrorStatus ClusterUnschedulable name
                        [''cluster has no namespace information available'']
            | Some ns \<Rightarrow>
                (if ns nsName = None then
                   NewNonErrorStatus ClusterUnschedulable name
                     [''target namespace does not exist on cluster'']
                 else None)))"

section \<open>The plugin contracts\<close>

interpretation eligibility_filter: filter_contract "clustereligibility_Filter isEligible name"
  by unfold_locales (auto simp: clustereligibility_Filter_def split: prod.splits)

interpretation taint_filter: filter_contract "tainttoleration_Filter name"
  by unfold_locales (auto simp: tainttoleration_Filter_def split: option.splits)

interpretation same_placement_filter: filter_contract "sameplacementaffinity_Filter name"
  by unfold_locales (auto simp: sameplacementaffinity_Filter_def split: if_splits)

interpretation same_placement_score: score_contract sameplacementaffinity_Score
  by unfold_locales (auto simp: sameplacementaffinity_Score_def split: if_splits)

interpretation namespace_filter: filter_contract "namespaceaffinity_Filter name"
  by unfold_locales (auto simp: namespaceaffinity_Filter_def Let_def split: option.splits if_splits)

interpretation namespace_prefilter: pre_contract "namespaceaffinity_PreFilter name"
  by unfold_locales (auto simp: namespaceaffinity_PreFilter_def split: if_splits)

end
