(* ===== verification/Plugin_Topology.thy ===== *)
theory Plugin_Topology
  imports Framework_Base Example_Objects
begin

text \<open>
  The TopologySpreadConstraints plugin
  (\<open>pkg/scheduler/framework/plugins/topologyspreadconstraints\<close>): counting the bindings per
  topology domain, the prediction of the skew change that one more binding causes, the
  evaluation of all constraints, and the five extension points of the plugin. Scores are
  32-bit integers.
\<close>

section \<open>Counting by domain\<close>

record bindingCounterByDomain =
  counter :: "string \<rightharpoonup> int"
  smallest :: int
  secondSmallest :: int
  largest :: int

fun countLoop :: "CycleState \<Rightarrow> string \<Rightarrow> MemberCluster list \<Rightarrow> (string \<rightharpoonup> int) \<Rightarrow> (string \<rightharpoonup> int)" where
  "countLoop st key [] m = m"
| "countLoop st key (c # cs) m =
     (case Labels c key of
        None \<Rightarrow> countLoop st key cs m
      | Some name \<Rightarrow>
          (let n = (case m name of None \<Rightarrow> 0 | Some n \<Rightarrow> n);
               m' = (if m name = None then m(name \<mapsto> 0) else m)
           in countLoop st key cs
                (if HasScheduledOrBoundBindingFor st (Name c) then m'(name \<mapsto> n + 1) else m')))"

text \<open>The domains among the clusters; the order in which Go ranges over a map does not
  matter, as the counts are sorted.\<close>

definition domains :: "string \<Rightarrow> MemberCluster list \<Rightarrow> string list" where
  "domains key cs = remdups (List.map_filter (\<lambda>c. Labels c key) cs)"

definition specialCounts :: "int list \<Rightarrow> int \<times> int \<times> int" where
  "specialCounts srt =
     (if length srt = 0 then (- 1, - 1, - 1)
      else if length srt = 1 then (srt ! 0, srt ! 0, srt ! 0)
      else if length srt = 2 then
        (if srt ! 0 < srt ! 1 then (srt ! 0, srt ! 1, srt ! 1) else (srt ! 0, srt ! 0, srt ! 0))
      else (srt ! 0, srt ! 1, srt ! (length srt - 1)))"

definition countByDomain ::
  "MemberCluster list \<Rightarrow> CycleState \<Rightarrow> string \<Rightarrow> bindingCounterByDomain" where
  "countByDomain cs st key =
     (let m = countLoop st key cs Map.empty;
          srt = sort (map (\<lambda>d. the (m d)) (domains key cs))
      in case specialCounts srt of (sm, ssm, lg) \<Rightarrow>
           \<lparr>counter = m, smallest = sm, secondSmallest = ssm, largest = lg\<rparr>)"

definition willViolate ::
  "bindingCounterByDomain \<Rightarrow> string \<Rightarrow> int \<Rightarrow> (bool \<times> int) result" where
  "willViolate ct name maxSkew =
     (case counter ct name of
        None \<Rightarrow> Inl (ErrPlain ''domain is not registered in the counter'')
      | Some cnt \<Rightarrow>
          (if cnt < smallest ct \<or> cnt > largest ct
           then Inl (ErrPlain ''the counter has invalid special counts'')
           else let currentSkew = largest ct - smallest ct in
             if largest ct = smallest ct then Inr (currentSkew + 1 > maxSkew, 1)
             else if cnt = smallest ct \<and> smallest ct \<noteq> secondSmallest ct
             then Inr (currentSkew - 1 > maxSkew, - 1)
             else if cnt = largest ct then Inr (currentSkew + 1 > maxSkew, 1)
             else Inr (currentSkew > maxSkew, 0)))"

section \<open>Evaluating the constraints\<close>

definition classifyConstraints ::
  "TopologySpreadConstraint list \<Rightarrow> TopologySpreadConstraint list \<times> TopologySpreadConstraint list" where
  "classifyConstraints cs =
     (filter (\<lambda>c. WhenUnsatisfiable c \<noteq> ScheduleAnyway) cs,
      filter (\<lambda>c. WhenUnsatisfiable c = ScheduleAnyway) cs)"

definition skewChangeScoreFactor :: int where
  "skewChangeScoreFactor = - 1"

definition maxSkewViolationPenality :: int where
  "maxSkewViolationPenality = 1000"

type_synonym evaluation = "(string \<rightharpoonup> string list) \<times> (string \<rightharpoonup> int)"

definition addScore :: "(string \<rightharpoonup> int) \<Rightarrow> string \<Rightarrow> int \<Rightarrow> (string \<rightharpoonup> int)" where
  "addScore ss n d =
     ss(n \<mapsto> wrap32 ((case ss n of None \<Rightarrow> 0 | Some s \<Rightarrow> s) + d))"

definition maxSkewOf :: "TopologySpreadConstraint \<Rightarrow> int" where
  "maxSkewOf c = (case MaxSkew c of None \<Rightarrow> 1 | Some k \<Rightarrow> k)"

text \<open>\<open>%q\<close> of a label key, which contains neither quotes nor control characters.\<close>

definition quoted :: "string \<Rightarrow> string" where
  "quoted s = [CHR 0x22] @ s @ [CHR 0x22]"

text \<open>
  The body of the first inner loop. The message of a violation reads the maximum skew through
  its pointer, which may be nil.
\<close>

definition evaluateDoNotSchedule ::
  "TopologySpreadConstraint \<Rightarrow> bindingCounterByDomain \<Rightarrow> MemberCluster \<Rightarrow> evaluation \<Rightarrow>
   evaluation result" where
  "evaluateDoNotSchedule constraint domainCounter cluster ev =
     (case ev of (vs, ss) \<Rightarrow>
        if vs (Name cluster) \<noteq> None then Inr ev
        else case Labels cluster (TopologyKey constraint) of
          None \<Rightarrow> Inr (vs, addScore ss (Name cluster) 0)
        | Some val \<Rightarrow>
            bindR (willViolate domainCounter val (maxSkewOf constraint)) (\<lambda>(violated, skewChange).
              if violated then
                (case MaxSkew constraint of
                   None \<Rightarrow> Inl Panic
                 | Some k \<Rightarrow>
                     Inr (vs(Name cluster \<mapsto>
                            [''violated doNotSchedule topology spread constraint '' @
                             quoted (TopologyKey constraint) @ '' (max skew '' @ itoa k @ '')'']),
                          ss(Name cluster := None)))
              else Inr (vs,
                        addScore ss (Name cluster) (skewChange * skewChangeScoreFactor))))"

definition evaluateScheduleAnyway ::
  "TopologySpreadConstraint \<Rightarrow> bindingCounterByDomain \<Rightarrow> MemberCluster \<Rightarrow> evaluation \<Rightarrow>
   evaluation result" where
  "evaluateScheduleAnyway constraint domainCounter cluster ev =
     (case ev of (vs, ss) \<Rightarrow>
        if vs (Name cluster) \<noteq> None then Inr ev
        else case Labels cluster (TopologyKey constraint) of
          None \<Rightarrow> Inr (vs, addScore ss (Name cluster) 0)
        | Some val \<Rightarrow>
            bindR (willViolate domainCounter val (maxSkewOf constraint)) (\<lambda>(violated, skewChange).
              if violated
              then Inr (vs, addScore ss (Name cluster) (- maxSkewViolationPenality))
              else Inr (vs,
                        addScore ss (Name cluster) (skewChange * skewChangeScoreFactor))))"

definition evaluateAllConstraints ::
  "CycleState \<Rightarrow> TopologySpreadConstraint list \<Rightarrow> TopologySpreadConstraint list \<Rightarrow>
   evaluation result" where
  "evaluateAllConstraints st doNotSchedule scheduleAnyway =
     (let cs = ListClusters st in
      bindR (foldR (\<lambda>constraint.
               foldR (evaluateDoNotSchedule constraint
                        (countByDomain cs st (TopologyKey constraint))) cs)
               doNotSchedule (Map.empty, Map.empty))
        (foldR (\<lambda>constraint.
           foldR (evaluateScheduleAnyway constraint
                    (countByDomain cs st (TopologyKey constraint))) cs)
           scheduleAnyway))"

definition prepareTopologySpreadConstraintsPluginState ::
  "CycleState \<Rightarrow> TopologySpreadConstraint list \<Rightarrow> topologyPluginState result" where
  "prepareTopologySpreadConstraintsPluginState st constraints =
     (case classifyConstraints constraints of (doNotSchedule, scheduleAnyway) \<Rightarrow>
        bindR (evaluateAllConstraints st doNotSchedule scheduleAnyway) (\<lambda>(vs, ss).
          Inr \<lparr>doNotScheduleConstraints = doNotSchedule,
               scheduleAnywayConstraints = scheduleAnyway,
               violations = vs, scores = ss\<rparr>))"

section \<open>Extension points\<close>

definition readTopologyState :: "string \<Rightarrow> CycleState \<Rightarrow> topologyPluginState result" where
  "readTopologyState name st =
     bindR (Read st name) (\<lambda>v.
       case v of TopologyState t \<Rightarrow> Inr t
       | _ \<Rightarrow> Inl (ErrPlain ''failed to cast value to the right type''))"

definition topology_PostBatch ::
  "string \<Rightarrow> CycleState \<Rightarrow> PolicySnapshot \<Rightarrow> (int \<times> Status) result" where
  "topology_PostBatch name st ps =
     Inr (case Policy ps of
            None \<Rightarrow> (0, FromError (ErrPlain ''policy does not exist'') name [''failed to get policy''])
          | Some p \<Rightarrow>
              (if TopologySpreadConstraints p = []
               then (0, NewNonErrorStatus Skip name [''no topology spread constraint is present''])
               else (1, None)))"

text \<open>A nil dereference while preparing the state is a crash, not an error status.\<close>

definition topology_PreFilter ::
  "string \<Rightarrow> CycleState \<Rightarrow> PolicySnapshot \<Rightarrow> (CycleState \<times> Status) result" where
  "topology_PreFilter name st ps =
     (case Policy ps of
        None \<Rightarrow> Inr (st, NewNonErrorStatus Skip name [''policy does not exist''])
      | Some p \<Rightarrow>
          (if TopologySpreadConstraints p = []
           then Inr (st, NewNonErrorStatus Skip name [''no topology spread constraint is present''])
           else case prepareTopologySpreadConstraintsPluginState st (TopologySpreadConstraints p) of
             Inl Panic \<Rightarrow> Inl Panic
           | Inl e \<Rightarrow> Inr (st, FromError e name [''failed to prepare plugin state''])
           | Inr t \<Rightarrow>
               Inr (Write st name (TopologyState t),
                 if doNotScheduleConstraints t = []
                 then NewNonErrorStatus Skip name
                        [''no DoNotSchedule topology spread constraint is present'']
                 else None)))"

definition topology_Filter ::
  "string \<Rightarrow> CycleState \<Rightarrow> PolicySnapshot \<Rightarrow> MemberCluster \<Rightarrow> Status result" where
  "topology_Filter name st ps cluster =
     Inr (case readTopologyState name st of
            Inl e \<Rightarrow> FromError e name [''failed to read plugin state'']
          | Inr t \<Rightarrow>
              (case violations t (Name cluster) of
                 Some rs \<Rightarrow> NewNonErrorStatus ClusterUnschedulable name rs
               | None \<Rightarrow> None))"

text \<open>Only the emptiness of the score map is used, which for the maps the plugin writes is
  decided on the clusters of the cycle.\<close>

definition noScores :: "CycleState \<Rightarrow> (string \<rightharpoonup> int) \<Rightarrow> bool" where
  "noScores st m = list_all (\<lambda>c. m (Name c) = None) (ListClusters st)"

definition topology_PreScore ::
  "string \<Rightarrow> CycleState \<Rightarrow> PolicySnapshot \<Rightarrow> (CycleState \<times> Status) result" where
  "topology_PreScore name st ps =
     Inr (st,
       case Policy ps of
         None \<Rightarrow> FromError (ErrPlain ''policy does not exist'') name [''failed to get policy'']
       | Some p \<Rightarrow>
           (if TopologySpreadConstraints p = []
            then NewNonErrorStatus Skip name [''no topology spread constraint is present'']
            else case readTopologyState name st of
              Inl e \<Rightarrow> FromError e name [''failed to read plugin state'']
            | Inr t \<Rightarrow>
                (if noScores st (scores t)
                 then NewNonErrorStatus Skip name [''no available scores''] else None)))"

definition topology_Score ::
  "string \<Rightarrow> CycleState \<Rightarrow> PolicySnapshot \<Rightarrow> MemberCluster \<Rightarrow>
   (ClusterScore option \<times> Status) result" where
  "topology_Score name st ps cluster =
     Inr (case readTopologyState name st of
            Inl e \<Rightarrow> (None, FromError e name [''failed to read plugin state''])
          | Inr t \<Rightarrow>
              (case scores t (Name cluster) of
                 None \<Rightarrow> (None, FromError (ErrPlain ''no score found for cluster'') name [])
               | Some s \<Rightarrow> (Some (zeroScore\<lparr>cs_TopologySpreadScore := s\<rparr>), None)))"

section \<open>The counter\<close>

text \<open>Specification: the number of bindings in a domain, and the skew of a spread.\<close>

definition bindings_in :: "CycleState \<Rightarrow> string \<Rightarrow> MemberCluster list \<Rightarrow> string \<Rightarrow> int" where
  "bindings_in st key cs d =
     int (length (filter (\<lambda>c. Labels c key = Some d \<and> HasScheduledOrBoundBindingFor st (Name c)) cs))"

definition skew :: "('a \<Rightarrow> int) \<Rightarrow> 'a set \<Rightarrow> int" where
  "skew f D = Max (f ` D) - Min (f ` D)"

lemma set_domains: "set (domains key cs) = {d. \<exists>c\<in>set cs. Labels c key = Some d}"
  unfolding domains_def by (induction cs) (auto simp: List.map_filter_simps split: option.splits)

lemma countLoop_eq:
  "countLoop st key cs m d =
     (if m d = None \<and> d \<notin> set (domains key cs) then None
      else Some ((case m d of None \<Rightarrow> 0 | Some n \<Rightarrow> n) + bindings_in st key cs d))"
proof (induction cs arbitrary: m)
  case Nil
  show ?case by (simp add: domains_def bindings_in_def List.map_filter_simps split: option.splits)
next
  case (Cons c cs)
  show ?case
  proof (cases "Labels c key")
    case None
    then show ?thesis by (simp add: Cons.IH set_domains bindings_in_def)
  next
    case (Some name)
    then show ?thesis
      by (cases "name = d"; cases "HasScheduledOrBoundBindingFor st (Name c)")
         (auto simp: Cons.IH set_domains bindings_in_def Let_def split: option.splits)
  qed
qed

lemma counter_countByDomain:
  "counter (countByDomain cs st key) d =
     (if d \<in> set (domains key cs) then Some (bindings_in st key cs d) else None)"
  by (simp add: countByDomain_def Let_def countLoop_eq split: prod.splits)

abbreviation sorted_counts :: "CycleState \<Rightarrow> string \<Rightarrow> MemberCluster list \<Rightarrow> int list" where
  "sorted_counts st key cs \<equiv> sort (map (bindings_in st key cs) (domains key cs))"

lemma countByDomain_special:
  "(smallest (countByDomain cs st key), secondSmallest (countByDomain cs st key),
    largest (countByDomain cs st key)) = specialCounts (sorted_counts st key cs)"
proof -
  have "map (\<lambda>d. the (countLoop st key cs Map.empty d)) (domains key cs) =
        map (bindings_in st key cs) (domains key cs)"
    by (rule map_cong) (simp_all add: countLoop_eq)
  then show ?thesis
    unfolding countByDomain_def Let_def by (simp only: split: prod.splits) simp
qed

text \<open>The three special counts of a sorted list with at least two elements.\<close>

lemma specialCounts_eq:
  assumes "sorted xs" and "2 \<le> length xs"
  shows "specialCounts xs = (xs ! 0, xs ! 1, last xs)"
proof -
  have "last xs = xs ! (length xs - 1)" using assms(2) by (intro last_conv_nth) auto
  moreover have "xs ! 0 \<le> xs ! 1" using assms by (intro sorted_nth_mono) auto
  ultimately show ?thesis using assms(2) by (auto simp: specialCounts_def)
qed

lemma sorted_extremes:
  assumes "sorted xs" and "xs \<noteq> []"
  shows "xs ! 0 = Min (set xs)" and "last xs = Max (set xs)"
proof -
  show "xs ! 0 = Min (set xs)"
    using assms by (intro Min_eqI[symmetric]) (auto simp: in_set_conv_nth intro: sorted_nth_mono)
  have "y \<le> last xs" if "y \<in> set xs" for y
    using assms that by (auto simp: in_set_conv_nth last_conv_nth intro: sorted_nth_mono)
  then show "last xs = Max (set xs)"
    using assms by (intro Max_eqI[symmetric]) auto
qed

text \<open>
  The second smallest count tells whether the smallest one belongs to one domain only.
\<close>

lemma second_unique:
  assumes ds: "distinct ds" "2 \<le> length ds" and xs: "xs = sort (map f ds)"
    and d: "d \<in> set ds" "f d = xs ! 0"
  shows "xs ! 0 \<noteq> xs ! 1 \<longleftrightarrow> (\<forall>d'\<in>set ds - {d}. f d' \<noteq> xs ! 0)"
proof -
  obtain a b ys where abs: "xs = a # b # ys"
    using ds(2) xs by (metis One_nat_def Suc_1 Suc_le_length_iff length_map length_sort)
  have srt: "sorted xs" using xs by simp
  have cnt: "count (mset xs) a = card {x \<in> set ds. f x = a}"
  proof -
    have "count (mset xs) a = length (filter (\<lambda>x. f x = a) ds)"
      unfolding xs by (induction ds) auto
    then show ?thesis using ds(1) by (simp add: distinct_length_filter Int_def conj_commute)
  qed
  have fin: "finite {x \<in> set ds. f x = a}" by simp
  have mem: "d \<in> {x \<in> set ds. f x = a}" using d abs by simp
  have one: "card {x \<in> set ds. f x = a} = 1 \<longleftrightarrow> (\<forall>d'\<in>set ds - {d}. f d' \<noteq> a)"
  proof
    assume "card {x \<in> set ds. f x = a} = 1"
    then obtain x where "{x \<in> set ds. f x = a} = {x}" by (rule card_1_singletonE)
    with mem have "{x \<in> set ds. f x = a} = {d}" by (simp only: singleton_iff)
    then show "\<forall>d'\<in>set ds - {d}. f d' \<noteq> a" by blast
  next
    assume "\<forall>d'\<in>set ds - {d}. f d' \<noteq> a"
    with mem have "{x \<in> set ds. f x = a} = {d}" by blast
    then show "card {x \<in> set ds. f x = a} = 1" by simp
  qed
  show ?thesis
  proof (cases "a = b")
    case True
    then have "2 \<le> count (mset xs) a" using abs by simp
    with cnt one True abs show ?thesis by auto
  next
    case False
    with srt abs have "\<forall>y\<in>set (b # ys). a < y" by auto
    then have "count (mset xs) a = 1" using abs by (auto simp: count_eq_zero_iff)
    with cnt one False abs show ?thesis by auto
  qed
qed

section \<open>The predicted skew change\<close>

text \<open>The maximum and the minimum after one more binding in a domain.\<close>

lemma Max_upd:
  assumes "finite D" and "d \<in> D"
  shows "Max ((f(d := f d + 1 :: int)) ` D) = (if f d = Max (f ` D) then Max (f ` D) + 1 else Max (f ` D))"
proof -
  define M where "M = Max (f ` D)"
  have le: "f x \<le> M" if "x \<in> D" for x using that assms by (simp add: M_def)
  have "M \<in> f ` D" unfolding M_def using assms by (intro Max_in) auto
  then obtain m where m: "m \<in> D" "M = f m" by blast
  define g where "g = f(d := f d + 1)"
  have "Max (g ` D) = (if f d = M then M + 1 else M)"
  proof (rule Max_eqI)
    show "finite (g ` D)" using assms by simp
    show "y \<le> (if f d = M then M + 1 else M)" if "y \<in> g ` D" for y
      using that le assms(2) by (force simp: g_def)
    show "(if f d = M then M + 1 else M) \<in> g ` D"
    proof (cases "f d = M")
      case True
      then have "g d = M + 1" by (simp add: g_def)
      with assms(2) True show ?thesis by (metis image_eqI)
    next
      case False
      then have "g m = M" using m by (auto simp: g_def)
      with m False show ?thesis by (metis image_eqI)
    qed
  qed
  then show ?thesis by (simp only: M_def g_def)
qed

lemma Min_upd:
  assumes "finite D" and "d \<in> D"
  shows "Min ((f(d := f d + 1 :: int)) ` D) =
    (if \<forall>d'\<in>D - {d}. f d' \<noteq> Min (f ` D) then Min (f ` D) + 1 else Min (f ` D))"
proof -
  define M where "M = Min (f ` D)"
  have le: "M \<le> f x" if "x \<in> D" for x using that assms by (simp add: M_def)
  have "M \<in> f ` D" unfolding M_def using assms by (intro Min_in) auto
  then obtain m where m: "m \<in> D" "M = f m" by blast
  define g where "g = f(d := f d + 1)"
  have "Min (g ` D) = (if \<forall>d'\<in>D - {d}. f d' \<noteq> M then M + 1 else M)"
  proof (cases "\<forall>d'\<in>D - {d}. f d' \<noteq> M")
    case True
    with m have fd: "f d = M" by auto
    have "M + 1 \<le> g x" if "x \<in> D" for x
    proof (cases "x = d")
      case False
      then have "f x \<noteq> M" using True that by blast
      with le[OF that] False show ?thesis by (simp add: g_def)
    qed (simp add: g_def fd)
    moreover have "M + 1 = g d" using fd by (simp add: g_def)
    ultimately show ?thesis using True assms by (auto intro!: Min_eqI)
  next
    case False
    then obtain d' where d': "d' \<in> D" "d' \<noteq> d" "f d' = M" by auto
    have "M \<le> g x" if "x \<in> D" for x using le[OF that] by (cases "x = d") (auto simp: g_def)
    moreover have "M = g d'" using d' by (simp add: g_def)
    ultimately have "Min (g ` D) = M" using d' assms by (auto intro!: Min_eqI)
    with False show ?thesis by (simp only: if_False)
  qed
  then show ?thesis by (simp only: M_def g_def)
qed

lemma countByDomain_extremes:
  assumes "2 \<le> length (domains key cs)"
  shows "smallest (countByDomain cs st key) = Min (bindings_in st key cs ` set (domains key cs))"
    and "largest (countByDomain cs st key) = Max (bindings_in st key cs ` set (domains key cs))"
    and "secondSmallest (countByDomain cs st key) = sorted_counts st key cs ! 1"
    and "sorted_counts st key cs ! 0 = Min (bindings_in st key cs ` set (domains key cs))"
proof -
  let ?xs = "sorted_counts st key cs"
  have len: "2 \<le> length ?xs" using assms(1) by simp
  then have ne: "?xs \<noteq> []" by (metis list.size(3) not_numeral_le_zero)
  have "specialCounts ?xs = (?xs ! 0, ?xs ! 1, last ?xs)"
    using specialCounts_eq[OF _ len] by simp
  moreover have "?xs ! 0 = Min (set ?xs)" "last ?xs = Max (set ?xs)"
    using sorted_extremes[of ?xs] ne by simp_all
  ultimately show "smallest (countByDomain cs st key) = Min (bindings_in st key cs ` set (domains key cs))"
    "largest (countByDomain cs st key) = Max (bindings_in st key cs ` set (domains key cs))"
    "secondSmallest (countByDomain cs st key) = ?xs ! 1"
    "?xs ! 0 = Min (bindings_in st key cs ` set (domains key cs))"
    using countByDomain_special[of cs st key] by simp_all
qed

lemma unique_smallest:
  assumes "2 \<le> length (domains key cs)" and "d \<in> set (domains key cs)"
    and "bindings_in st key cs d = Min (bindings_in st key cs ` set (domains key cs))"
  shows "smallest (countByDomain cs st key) \<noteq> secondSmallest (countByDomain cs st key) \<longleftrightarrow>
    (\<forall>d'\<in>set (domains key cs) - {d}.
       bindings_in st key cs d' \<noteq> Min (bindings_in st key cs ` set (domains key cs)))"
  using second_unique[of "domains key cs" _ "bindings_in st key cs" d] assms
    countByDomain_extremes[OF assms(1), of st]
  by (simp add: domains_def)

lemma willViolate_skew:
  assumes "2 \<le> length (domains key cs)" and "d \<in> set (domains key cs)"
  shows "willViolate (countByDomain cs st key) d maxSkew =
    (let f = bindings_in st key cs; D = set (domains key cs); f' = f(d := f d + 1)
     in Inr (skew f' D > maxSkew, skew f' D - skew f D))"
proof -
  define f where "f = bindings_in st key cs"
  define D where "D = set (domains key cs)"
  define ct where "ct = countByDomain cs st key"
  have d: "d \<in> D" and fin: "finite D" using assms(2) by (auto simp: D_def)
  have cnt: "counter ct d = Some (f d)"
    using assms(2) by (simp add: ct_def counter_countByDomain f_def)
  have sm: "smallest ct = Min (f ` D)" and lg: "largest ct = Max (f ` D)"
    using countByDomain_extremes[OF assms(1), of st] by (simp_all add: ct_def f_def D_def)
  have range: "Min (f ` D) \<le> f d" "f d \<le> Max (f ` D)" using d fin by simp_all
  have uniq: "f d = Min (f ` D) \<Longrightarrow>
      smallest ct \<noteq> secondSmallest ct \<longleftrightarrow> (\<forall>d'\<in>D - {d}. f d' \<noteq> Min (f ` D))"
    using unique_smallest[OF assms, of st] by (simp add: ct_def f_def D_def)
  have nmin: "f d \<noteq> Min (f ` D) \<Longrightarrow> \<not> (\<forall>d'\<in>D - {d}. f d' \<noteq> Min (f ` D))"
    using Min_in[of "f ` D"] fin d by fastforce
  have eq: "Min (f ` D) = Max (f ` D) \<Longrightarrow> \<not> (\<forall>d'\<in>D - {d}. f d' \<noteq> Min (f ` D))"
  proof -
    assume "Min (f ` D) = Max (f ` D)"
    then have "f x = Min (f ` D)" if "x \<in> D" for x
      using that fin by (metis Max_ge Min_le antisym finite_imageI image_eqI)
    moreover have "card D = length (domains key cs)"
      by (simp add: D_def domains_def length_remdups_card_conv)
    then have "\<not> D \<subseteq> {d}" using assms(1) card_mono[of "{d}" D] by auto
    ultimately show ?thesis by blast
  qed
  define mn mx where "mn = Min (f ` D)" and "mx = Max (f ` D)"
  define U where "U = (\<forall>d'\<in>D - {d}. f d' \<noteq> mn)"
  note names = mn_def[symmetric] mx_def[symmetric] U_def[symmetric]
  have upd: "skew (f(d := f d + 1)) D = (if f d = mx then mx + 1 else mx) - (if U then mn + 1 else mn)"
    unfolding skew_def Max_upd[OF fin d] Min_upd[OF fin d] names ..
  have "willViolate ct d maxSkew =
      Inr (skew (f(d := f d + 1)) D > maxSkew, skew (f(d := f d + 1)) D - (mx - mn))"
    unfolding upd using cnt range uniq nmin eq sm lg unfolding names
    by (cases "f d = mn"; cases "f d = mx"; cases U) (auto simp: willViolate_def Let_def)
  then show ?thesis
    unfolding f_def[symmetric] D_def[symmetric] ct_def[symmetric] Let_def
    by (simp add: skew_def mn_def mx_def)
qed

text \<open>
  C12: The prediction for one more binding in a domain, computed from the three special
  counts only, is exact as soon as there are two domains: it never fails, the reported change
  is the change of the real skew (largest minus smallest count over all domains) and a
  violation is reported exactly when the real new skew exceeds the maximum.
\<close>

theorem willViolate_exact:
  assumes "2 \<le> length (domains key cs)" and "d \<in> set (domains key cs)"
  shows "willViolate (countByDomain cs st key) d maxSkew =
    (let f = bindings_in st key cs; D = set (domains key cs); f' = f(d := f d + 1)
     in Inr (skew f' D > maxSkew, skew f' D - skew f D))"
  by (rule willViolate_skew[OF assms])

definition exampleZoned :: "MemberCluster list" where
  "exampleZoned = [(exampleCluster ''a'')\<lparr>Labels := [''zone'' \<mapsto> ''east'']\<rparr>,
                   (exampleCluster ''b'')\<lparr>Labels := [''zone'' \<mapsto> ''west'']\<rparr>]"

definition exampleState :: CycleState where
  "exampleState =
     NewCycleState exampleZoned [] [[exampleBinding ''b-a'' ''a'' BindingStateBound ''p-1'']]"

lemma exampleZoned_domains: "domains ''zone'' exampleZoned = [''east'', ''west'']"
  by (simp add: domains_def exampleZoned_def exampleCluster_def List.map_filter_simps)

theorem willViolate_exact_witness:
  "domains ''zone'' exampleZoned = [''east'', ''west''] \<and>
   willViolate (countByDomain exampleZoned exampleState ''zone'') ''east'' 1 =
     (let f = bindings_in exampleState ''zone'' exampleZoned; D = {''east'', ''west''};
          f' = f(''east'' := f ''east'' + 1)
      in Inr (skew f' D > 1, skew f' D - skew f D))"
  using willViolate_exact[of "''zone''" exampleZoned "''east''" exampleState 1]
  by (simp add: exampleZoned_domains)

section \<open>The evaluation of all constraints\<close>

text \<open>A cluster breaks a constraint when one more binding on it is a violation.\<close>

definition breaks :: "CycleState \<Rightarrow> TopologySpreadConstraint \<Rightarrow> MemberCluster \<Rightarrow> bool" where
  "breaks st con c =
     (case Labels c (TopologyKey con) of
        None \<Rightarrow> False
      | Some d \<Rightarrow>
          (case willViolate (countByDomain (ListClusters st) st (TopologyKey con)) d (maxSkewOf con) of
             Inl _ \<Rightarrow> False | Inr (violated, _) \<Rightarrow> violated))"

lemma willViolate_total:
  assumes "d \<in> set (domains key cs)"
  shows "\<exists>v k. willViolate (countByDomain cs st key) d maxSkew = Inr (v, k)"
proof (cases "2 \<le> length (domains key cs)")
  case True
  from willViolate_skew[OF this assms, of st maxSkew] show ?thesis by (simp add: Let_def)
next
  case False
  then obtain d' where "domains key cs = [d']"
    using assms by (cases "domains key cs"; cases "tl (domains key cs)") auto
  with assms have ds: "domains key cs = [d]" by simp
  with countByDomain_special[of cs st key] have
    "smallest (countByDomain cs st key) = bindings_in st key cs d"
    "largest (countByDomain cs st key) = bindings_in st key cs d"
    by (simp_all add: specialCounts_def)
  with ds show ?thesis by (simp add: willViolate_def counter_countByDomain Let_def)
qed

abbreviation tracked :: "evaluation \<Rightarrow> string set" where
  "tracked ev \<equiv> dom (fst ev) \<union> dom (snd ev)"

definition separated :: "evaluation \<Rightarrow> bool" where
  "separated ev \<longleftrightarrow> (\<forall>n. fst ev n = None \<or> snd ev n = None)"

lemma dom_addScore [simp]: "dom (addScore ss n k) = insert n (dom ss)"
  by (auto simp: addScore_def)

lemma separated_addScore: "separated (vs, ss) \<Longrightarrow> vs n = None \<Longrightarrow> separated (vs, addScore ss n k)"
  by (auto simp: separated_def addScore_def)

lemma separated_upd: "separated (vs, ss) \<Longrightarrow> separated (vs(n \<mapsto> r), ss(n := None))"
  by (auto simp: separated_def)

lemma evaluateDoNotSchedule_step:
  assumes "MaxSkew con \<noteq> None" and "c \<in> set (ListClusters st)" and "separated ev"
  shows "\<exists>ev'. evaluateDoNotSchedule con (countByDomain (ListClusters st) st (TopologyKey con)) c ev = Inr ev' \<and>
     separated ev' \<and> tracked ev' = tracked ev \<union> {Name c} \<and>
     dom (fst ev') = dom (fst ev) \<union> (if breaks st con c then {Name c} else {})"
proof (cases ev)
  case (Pair vs ss)
  show ?thesis
  proof (cases "Labels c (TopologyKey con)")
    case None
    with assms Pair show ?thesis
      by (auto simp: evaluateDoNotSchedule_def breaks_def separated_addScore separated_upd)
  next
    case (Some d)
    then have "d \<in> set (domains (TopologyKey con) (ListClusters st))"
      using assms(2) by (auto simp: set_domains)
    then obtain v k where
      "willViolate (countByDomain (ListClusters st) st (TopologyKey con)) d (maxSkewOf con) = Inr (v, k)"
      using willViolate_total by blast
    with assms Pair Some show ?thesis
      by (auto simp: evaluateDoNotSchedule_def breaks_def separated_addScore separated_upd)
  qed
qed

lemma evaluateScheduleAnyway_step:
  assumes "c \<in> set (ListClusters st)" and "separated ev"
  shows "\<exists>ev'. evaluateScheduleAnyway con (countByDomain (ListClusters st) st (TopologyKey con)) c ev = Inr ev' \<and>
     separated ev' \<and> tracked ev' = tracked ev \<union> {Name c} \<and> dom (fst ev') = dom (fst ev) \<union> {}"
proof (cases ev)
  case (Pair vs ss)
  show ?thesis
  proof (cases "Labels c (TopologyKey con)")
    case None
    with assms Pair show ?thesis
      by (auto simp: evaluateScheduleAnyway_def separated_addScore)
  next
    case (Some d)
    then have "d \<in> set (domains (TopologyKey con) (ListClusters st))"
      using assms(1) by (auto simp: set_domains)
    then obtain v k where
      "willViolate (countByDomain (ListClusters st) st (TopologyKey con)) d (maxSkewOf con) = Inr (v, k)"
      using willViolate_total by blast
    with assms Pair Some show ?thesis
      by (auto simp: evaluateScheduleAnyway_def separated_addScore)
  qed
qed

text \<open>A fold whose steps never fail and add to two monotone quantities.\<close>

lemma foldR_collect:
  assumes "\<And>x s. x \<in> set xs \<Longrightarrow> P s \<Longrightarrow>
      \<exists>s'. f x s = Inr s' \<and> P s' \<and> A s' = A s \<union> a x \<and> B s' = B s \<union> b x"
    and "P s"
  shows "\<exists>s'. foldR f xs s = Inr s' \<and> P s' \<and> A s' = A s \<union> \<Union> (a ` set xs) \<and> B s' = B s \<union> \<Union> (b ` set xs)"
  using assms
proof (induction xs arbitrary: s)
  case (Cons x xs)
  then obtain s1 where s1: "f x s = Inr s1" "P s1" "A s1 = A s \<union> a x" "B s1 = B s \<union> b x"
    by (meson list.set_intros(1))
  have "\<exists>s'. foldR f xs s1 = Inr s' \<and> P s' \<and> A s' = A s1 \<union> \<Union> (a ` set xs) \<and> B s' = B s1 \<union> \<Union> (b ` set xs)"
    by (rule Cons.IH) (use Cons.prems s1 in auto)
  with s1 show ?case by (auto simp: Un_assoc)
qed simp

text \<open>One constraint, over all the clusters of the cycle; then all of them.\<close>

abbreviation clusterNames :: "CycleState \<Rightarrow> string set" where
  "clusterNames st \<equiv> Name ` set (ListClusters st)"

definition brokenBy :: "CycleState \<Rightarrow> TopologySpreadConstraint \<Rightarrow> string set" where
  "brokenBy st con = Name ` {c \<in> set (ListClusters st). breaks st con c}"

lemma doNotSchedule_constraint:
  assumes "MaxSkew con \<noteq> None" and "separated ev"
  shows "\<exists>ev'. foldR (evaluateDoNotSchedule con (countByDomain (ListClusters st) st (TopologyKey con)))
       (ListClusters st) ev = Inr ev' \<and> separated ev' \<and>
     tracked ev' = tracked ev \<union> clusterNames st \<and> dom (fst ev') = dom (fst ev) \<union> brokenBy st con"
proof -
  have "\<exists>ev'. foldR (evaluateDoNotSchedule con (countByDomain (ListClusters st) st (TopologyKey con)))
       (ListClusters st) ev = Inr ev' \<and> separated ev' \<and>
     tracked ev' = tracked ev \<union> (\<Union>c\<in>set (ListClusters st). {Name c}) \<and>
     dom (fst ev') = dom (fst ev) \<union> (\<Union>c\<in>set (ListClusters st). if breaks st con c then {Name c} else {})"
    by (rule foldR_collect[where P = separated and A = tracked and B = "\<lambda>ev. dom (fst ev)"
          and a = "\<lambda>c. {Name c}" and b = "\<lambda>c. if breaks st con c then {Name c} else {}"
          and s = ev, OF _ assms(2)])
       (rule evaluateDoNotSchedule_step[OF assms(1)])
  moreover have "(\<Union>c\<in>set (ListClusters st). {Name c}) = clusterNames st" by blast
  moreover have "(\<Union>c\<in>set (ListClusters st). if breaks st con c then {Name c} else {}) = brokenBy st con"
    by (auto simp: brokenBy_def)
  ultimately show ?thesis by simp
qed

lemma scheduleAnyway_constraint:
  assumes "separated ev"
  shows "\<exists>ev'. foldR (evaluateScheduleAnyway con (countByDomain (ListClusters st) st (TopologyKey con)))
       (ListClusters st) ev = Inr ev' \<and> separated ev' \<and>
     tracked ev' = tracked ev \<union> clusterNames st \<and> dom (fst ev') = dom (fst ev) \<union> {}"
proof -
  have "\<exists>ev'. foldR (evaluateScheduleAnyway con (countByDomain (ListClusters st) st (TopologyKey con)))
       (ListClusters st) ev = Inr ev' \<and> separated ev' \<and>
     tracked ev' = tracked ev \<union> (\<Union>c\<in>set (ListClusters st). {Name c}) \<and>
     dom (fst ev') = dom (fst ev) \<union> (\<Union>c\<in>set (ListClusters st). {})"
    by (rule foldR_collect[where P = separated and A = tracked and B = "\<lambda>ev. dom (fst ev)"
          and a = "\<lambda>c. {Name c}" and b = "\<lambda>c. {}" and s = ev, OF _ assms])
       (rule evaluateScheduleAnyway_step)
  moreover have "(\<Union>c\<in>set (ListClusters st). {Name c}) = clusterNames st" by blast
  ultimately show ?thesis by simp
qed

lemma evaluateAllConstraints_spec:
  assumes "\<forall>con\<in>set dns. MaxSkew con \<noteq> None"
  shows "\<exists>ev. evaluateAllConstraints st dns sa = Inr ev \<and> separated ev \<and>
    tracked ev = (if dns = [] \<and> sa = [] then {} else clusterNames st) \<and>
    dom (fst ev) = \<Union> (brokenBy st ` set dns)"
proof -
  let ?e0 = "(Map.empty, Map.empty) :: evaluation"
  let ?D = "\<lambda>con. foldR (evaluateDoNotSchedule con
    (countByDomain (ListClusters st) st (TopologyKey con))) (ListClusters st)"
  let ?S = "\<lambda>con. foldR (evaluateScheduleAnyway con
    (countByDomain (ListClusters st) st (TopologyKey con))) (ListClusters st)"
  have "\<exists>ev. foldR ?D dns ?e0 = Inr ev \<and> separated ev \<and>
      tracked ev = tracked ?e0 \<union> \<Union> ((\<lambda>_. clusterNames st) ` set dns) \<and>
      dom (fst ev) = dom (fst ?e0) \<union> \<Union> (brokenBy st ` set dns)"
    by (rule foldR_collect[where P = separated and A = tracked and B = "\<lambda>ev. dom (fst ev)"
          and a = "\<lambda>_. clusterNames st" and b = "brokenBy st" and s = ?e0])
       (rule doNotSchedule_constraint, use assms in \<open>auto simp: separated_def\<close>)
  then obtain ev1 where ev1: "foldR ?D dns ?e0 = Inr ev1" "separated ev1"
    "tracked ev1 = \<Union> ((\<lambda>_. clusterNames st) ` set dns)" "dom (fst ev1) = \<Union> (brokenBy st ` set dns)"
    by auto
  have "\<exists>ev. foldR ?S sa ev1 = Inr ev \<and> separated ev \<and>
      tracked ev = tracked ev1 \<union> \<Union> ((\<lambda>_. clusterNames st) ` set sa) \<and>
      dom (fst ev) = dom (fst ev1) \<union> \<Union> ((\<lambda>_. {}) ` set sa)"
    by (rule foldR_collect[where P = separated and A = tracked and B = "\<lambda>ev. dom (fst ev)"
          and a = "\<lambda>_. clusterNames st" and b = "\<lambda>_. {}" and s = ev1, OF _ ev1(2)])
       (rule scheduleAnyway_constraint)
  with ev1 show ?thesis by (auto simp: evaluateAllConstraints_def Let_def)
qed

section \<open>The plugin as a whole\<close>

definition constraints_of :: "PolicySnapshot \<Rightarrow> TopologySpreadConstraint list" where
  "constraints_of ps = (case Policy ps of None \<Rightarrow> [] | Some p \<Rightarrow> TopologySpreadConstraints p)"

lemma Write_keeps_view [simp]:
  "ListClusters (Write st k v) = ListClusters st"
  "HasScheduledOrBoundBindingFor (Write st k v) = HasScheduledOrBoundBindingFor st"
  by (auto simp: ListClusters_def Write_def HasScheduledOrBoundBindingFor_def)

lemma readTopologyState_Write [simp]: "readTopologyState n (Write st n (TopologyState t)) = Inr t"
  by (simp add: readTopologyState_def)

lemma topology_PreFilter_state:
  assumes "constraints_of ps \<noteq> []" and "\<forall>con\<in>set (constraints_of ps). MaxSkew con \<noteq> None"
  shows "\<exists>t s. topology_PreFilter name st ps = Inr (Write st name (TopologyState t), s) \<and>
    code s \<in> {Success, Skip} \<and>
    (code s = Skip \<longleftrightarrow> (\<forall>con\<in>set (constraints_of ps). WhenUnsatisfiable con = ScheduleAnyway)) \<and>
    dom (violations t) = \<Union> (brokenBy st ` {con \<in> set (constraints_of ps). WhenUnsatisfiable con \<noteq> ScheduleAnyway}) \<and>
    dom (scores t) = clusterNames st - dom (violations t)"
proof -
  define cons where "cons = constraints_of ps"
  define dns sa where "dns = filter (\<lambda>c. WhenUnsatisfiable c \<noteq> ScheduleAnyway) cons"
    and "sa = filter (\<lambda>c. WhenUnsatisfiable c = ScheduleAnyway) cons"
  obtain p where p: "Policy ps = Some p" "TopologySpreadConstraints p = cons" "cons \<noteq> []"
    using assms(1) by (auto simp: cons_def constraints_of_def split: option.splits)
  have ne: "\<not> (dns = [] \<and> sa = [])"
    using p(3) by (cases cons) (auto simp: dns_def sa_def split: if_splits)
  have "\<forall>con\<in>set dns. MaxSkew con \<noteq> None" using assms(2) by (auto simp: dns_def cons_def)
  from evaluateAllConstraints_spec[OF this, of st sa] obtain ev where
    ev: "evaluateAllConstraints st dns sa = Inr ev" "separated ev"
      "tracked ev = clusterNames st" "dom (fst ev) = \<Union> (brokenBy st ` set dns)"
    unfolding if_not_P[OF ne] by blast
  define t where "t = \<lparr>doNotScheduleConstraints = dns, scheduleAnywayConstraints = sa,
    violations = fst ev, scores = snd ev\<rparr>"
  have prep: "prepareTopologySpreadConstraintsPluginState st cons = Inr t"
    by (simp add: prepareTopologySpreadConstraintsPluginState_def classifyConstraints_def
        dns_def[symmetric] sa_def[symmetric] ev(1) t_def case_prod_beta)
  define s where "s = (if dns = [] then NewNonErrorStatus Skip name
    [''no DoNotSchedule topology spread constraint is present''] else None)"
  have pre: "topology_PreFilter name st ps = Inr (Write st name (TopologyState t), s)"
    unfolding topology_PreFilter_def p(1) option.case p(2) if_not_P[OF p(3)] prep sum.case
    by (simp add: s_def t_def)
  have "dom (fst ev) \<inter> dom (snd ev) = {}"
    using ev(2) by (simp only: separated_def disjoint_iff domIff not_not) iprover
  with ev(3) have "dom (scores t) = clusterNames st - dom (violations t)"
    unfolding t_def by auto
  moreover have "set dns = {con \<in> set cons. WhenUnsatisfiable con \<noteq> ScheduleAnyway}"
    by (auto simp: dns_def)
  with ev(4) have "dom (violations t) =
      \<Union> (brokenBy st ` {con \<in> set cons. WhenUnsatisfiable con \<noteq> ScheduleAnyway})"
    unfolding t_def by simp
  moreover have "code s = Skip \<longleftrightarrow> (\<forall>con\<in>set cons. WhenUnsatisfiable con = ScheduleAnyway)"
    by (auto simp: s_def dns_def filter_empty_conv)
  moreover have "code s \<in> {Success, Skip}" by (simp add: s_def)
  ultimately show ?thesis using pre unfolding cons_def by blast
qed

text \<open>
  C23: When every constraint has a maximum skew, PreFilter never fails, and after it each
  cluster of the cycle is either rejected by Filter, which happens exactly when one more
  binding on it would break a DoNotSchedule constraint, or it passes Filter and Score gives
  it a score. So the error branches of Filter and Score that the code calls unreachable are
  unreachable.
\<close>

theorem topology_filter_or_score:
  assumes "constraints_of ps \<noteq> []" and "\<forall>con\<in>set (constraints_of ps). MaxSkew con \<noteq> None"
    and "c \<in> set (ListClusters st)"
  shows "\<exists>st' s. topology_PreFilter name st ps = Inr (st', s) \<and> \<not> IsInteralError s \<and>
    (if \<exists>con\<in>set (constraints_of ps). WhenUnsatisfiable con \<noteq> ScheduleAnyway \<and>
          Name c \<in> brokenBy st con
     then \<exists>f. topology_Filter name st' ps c = Inr f \<and> IsClusterUnschedulable f
     else topology_Filter name st' ps c = Inr None \<and>
          (\<exists>v. topology_Score name st' ps c = Inr (Some v, None)))"
proof -
  from topology_PreFilter_state[OF assms(1,2), of name st] obtain t s where
    pre: "topology_PreFilter name st ps = Inr (Write st name (TopologyState t), s)"
    and s: "code s \<in> {Success, Skip}"
    and vs: "dom (violations t) =
      \<Union> (brokenBy st ` {con \<in> set (constraints_of ps). WhenUnsatisfiable con \<noteq> ScheduleAnyway})"
    and ss: "dom (scores t) = clusterNames st - dom (violations t)"
    by (elim exE conjE) (rule that)
  have iff: "(\<exists>con\<in>set (constraints_of ps). WhenUnsatisfiable con \<noteq> ScheduleAnyway \<and>
      Name c \<in> brokenBy st con) \<longleftrightarrow> Name c \<in> dom (violations t)"
    unfolding vs by (simp add: Bex_def)
  have ok: "\<not> IsInteralError s" using s by (auto simp: status_simps)
  have "if Name c \<in> dom (violations t)
     then \<exists>f. topology_Filter name (Write st name (TopologyState t)) ps c = Inr f \<and> IsClusterUnschedulable f
     else topology_Filter name (Write st name (TopologyState t)) ps c = Inr None \<and>
          (\<exists>v. topology_Score name (Write st name (TopologyState t)) ps c = Inr (Some v, None))"
  proof (cases "violations t (Name c)")
    case None
    then have "Name c \<in> dom (scores t)" unfolding ss using assms(3) by (simp add: domIff)
    then obtain v where "scores t (Name c) = Some v" by auto
    with None show ?thesis by (simp add: topology_Filter_def topology_Score_def domIff)
  next
    case (Some r)
    then show ?thesis by (simp add: topology_Filter_def status_simps domIff)
  qed
  with pre ok show ?thesis unfolding iff by (intro exI conjI)
qed

text \<open>
  Two clusters, one binding: a second binding in the east would give a skew of 2.
\<close>

definition exampleConstraint :: TopologySpreadConstraint where
  "exampleConstraint = \<lparr>MaxSkew = Some 1, TopologyKey = ''zone'', WhenUnsatisfiable = DoNotSchedule\<rparr>"

theorem topology_filter_or_score_witness:
  "let ps = examplePolicy (Some ((examplePolicySpec PickNPlacementType)
              \<lparr>TopologySpreadConstraints := [exampleConstraint]\<rparr>));
       c = hd exampleZoned
   in \<exists>st' s. topology_PreFilter ''T'' exampleState ps = Inr (st', s) \<and> \<not> IsInteralError s \<and>
      (if Name c \<in> brokenBy exampleState exampleConstraint
       then \<exists>f. topology_Filter ''T'' st' ps c = Inr f \<and> IsClusterUnschedulable f
       else topology_Filter ''T'' st' ps c = Inr None \<and>
            (\<exists>v. topology_Score ''T'' st' ps c = Inr (Some v, None)))"
proof -
  let ?ps = "examplePolicy (Some ((examplePolicySpec PickNPlacementType)
              \<lparr>TopologySpreadConstraints := [exampleConstraint]\<rparr>))"
  have cons: "constraints_of ?ps = [exampleConstraint]"
    by (simp add: constraints_of_def examplePolicy_def)
  have mk: "MaxSkew exampleConstraint \<noteq> None" "WhenUnsatisfiable exampleConstraint \<noteq> ScheduleAnyway"
    by (simp_all add: exampleConstraint_def)
  have c: "hd exampleZoned \<in> set (ListClusters exampleState)"
    by (simp add: exampleState_def exampleZoned_def NewCycleState_def ListClusters_def)
  have iff: "(\<exists>con\<in>set (constraints_of ?ps). WhenUnsatisfiable con \<noteq> ScheduleAnyway \<and>
      Name (hd exampleZoned) \<in> brokenBy exampleState con) \<longleftrightarrow>
      Name (hd exampleZoned) \<in> brokenBy exampleState exampleConstraint"
    by (simp add: cons mk)
  show ?thesis
    unfolding Let_def
    by (rule topology_filter_or_score[of ?ps, OF _ _ c, of "''T''", unfolded iff]) (simp_all add: cons mk)
qed

lemma nil_max_skew_loop:
  assumes "MaxSkew con = None" and "set xs \<subseteq> set (ListClusters st)" and "\<exists>c\<in>set xs. breaks st con c"
  shows "foldR (evaluateDoNotSchedule con (countByDomain (ListClusters st) st (TopologyKey con)))
           xs (Map.empty, ss) = Inl Panic"
  using assms(2,3)
proof (induction xs arbitrary: ss)
  case (Cons c xs)
  show ?case
  proof (cases "Labels c (TopologyKey con)")
    case None
    then have "\<not> breaks st con c" by (simp add: breaks_def)
    with Cons None show ?thesis by (simp add: evaluateDoNotSchedule_def)
  next
    case (Some d)
    then have "d \<in> set (domains (TopologyKey con) (ListClusters st))"
      using Cons.prems(1) by (auto simp: set_domains)
    then obtain v k where w:
      "willViolate (countByDomain (ListClusters st) st (TopologyKey con)) d (maxSkewOf con) = Inr (v, k)"
      using willViolate_total by blast
    then have "breaks st con c = v" using Some by (simp add: breaks_def)
    with Cons w Some assms(1) show ?thesis by (cases v) (auto simp: evaluateDoNotSchedule_def)
  qed
qed simp

text \<open>
  C36: A DoNotSchedule constraint without a maximum skew is evaluated with the default of 1,
  but as soon as some cluster of the cycle would break it the evaluation dereferences the nil
  maximum skew for the message and crashes instead of rejecting the cluster.
\<close>

theorem nil_max_skew_panics:
  assumes "MaxSkew con = None" and "c \<in> set (ListClusters st)" and "breaks st con c"
  shows "evaluateAllConstraints st (con # dns) sa = Inl Panic"
proof -
  have "foldR (evaluateDoNotSchedule con (countByDomain (ListClusters st) st (TopologyKey con)))
      (ListClusters st) (Map.empty, Map.empty) = Inl Panic"
    by (rule nil_max_skew_loop) (use assms in auto)
  then show ?thesis by (simp add: evaluateAllConstraints_def Let_def)
qed

lemma exampleState_breaks: "breaks exampleState (exampleConstraint\<lparr>MaxSkew := None\<rparr>) (hd exampleZoned)"
proof -
  have cl: "ListClusters exampleState = exampleZoned"
    by (simp add: exampleState_def NewCycleState_def ListClusters_def)
  have has: "HasScheduledOrBoundBindingFor exampleState n \<longleftrightarrow> n = ''a''" for n
    by (simp add: exampleState_def exampleBinding_def)
  have f: "bindings_in exampleState ''zone'' exampleZoned =
      (\<lambda>d. if d = ''east'' then 1 else 0)"
    by (rule ext) (simp add: bindings_in_def has exampleZoned_def exampleCluster_def)
  have "willViolate (countByDomain exampleZoned exampleState ''zone'') ''east'' 1 = Inr (True, 1)"
    using willViolate_skew[of "''zone''" exampleZoned "''east''" exampleState 1]
    by (simp add: exampleZoned_domains f Let_def skew_def)
  moreover have "Labels (hd exampleZoned) ''zone'' = Some ''east''"
    by (simp add: exampleZoned_def exampleCluster_def)
  ultimately show ?thesis
    unfolding breaks_def cl by (simp add: exampleConstraint_def maxSkewOf_def)
qed

theorem nil_max_skew_panics_witness:
  "breaks exampleState (exampleConstraint\<lparr>MaxSkew := None\<rparr>) (hd exampleZoned) \<and>
   evaluateAllConstraints exampleState [exampleConstraint\<lparr>MaxSkew := None\<rparr>] [] = Inl Panic"
  using nil_max_skew_panics[OF _ _ exampleState_breaks, of "[]" "[]"] exampleState_breaks
  by (simp add: exampleConstraint_def exampleState_def exampleZoned_def NewCycleState_def
      ListClusters_def)

text \<open>The plugin contracts.\<close>

interpretation topology_prefilter: pre_contract "topology_PreFilter name"
  by unfold_locales
    (auto simp: topology_PreFilter_def split: option.splits if_splits sum.splits go_error.splits)

interpretation topology_filter: filter_contract "topology_Filter name"
  by unfold_locales (auto simp: topology_Filter_def split: sum.splits option.splits)

interpretation topology_prescore: pre_contract "topology_PreScore name"
  by unfold_locales
    (auto simp: topology_PreScore_def split: option.splits if_splits sum.splits)

interpretation topology_score: score_contract "topology_Score name"
  by unfold_locales (auto simp: topology_Score_def split: sum.splits option.splits)

end
