(* ===== verification/Framework_Props.thy ===== *)
theory Framework_Props
  imports Framework
begin

text \<open>
  Properties of the scheduling framework: what the Filter stage lets through, the bounds of
  the batch size, which bindings a downscale trims, the retry of an unschedule request, and
  the independence of a scheduling cycle from the order in which the parallel workers finish.
\<close>

section \<open>Example frameworks\<close>

definition exampleFramework :: "'w hub \<Rightarrow> Profile \<Rightarrow> 'w framework" where
  "exampleFramework h p =
     \<lparr>profile = p, hub = h, isEligible = \<lambda>_. (True, ''''), names = exampleNaming,
      interleave = id, maxUnselectedClusterDecisionCount = 20\<rparr>"

definition emptyProfile :: Profile where
  "emptyProfile = \<lparr>postBatchPlugins = [], preFilterPlugins = [], filterPlugins = [],
                   preScorePlugins = [], scorePlugins = []\<rparr>"

section \<open>The Filter stage\<close>

lemma mset_filter_cong: "mset xs = mset ys \<Longrightarrow> mset (filter P xs) = mset (filter P ys)"
  by (metis mset_filter)

definition passesAll ::
  "FilterPlugin list \<Rightarrow> CycleState \<Rightarrow> PolicySnapshot \<Rightarrow> MemberCluster \<Rightarrow> bool" where
  "passesAll pls st ps c \<longleftrightarrow>
     (\<forall>(name, F)\<in>set pls. name \<notin> skippedFilterPlugins st \<longrightarrow>
        (\<exists>s. F st ps c = Inr s \<and> IsSuccess s))"

lemma runFilterPluginsFor_success:
  assumes "runFilterPluginsFor pls st ps c = Inr s"
  shows "IsSuccess s \<longleftrightarrow> passesAll pls st ps c"
  using assms
proof (induction pls)
  case Nil
  then show ?case by (simp add: passesAll_def status_simps)
next
  case (Cons pl pls)
  obtain name F where pl: "pl = (name, F)" by fastforce
  show ?case
  proof (cases "name \<in> skippedFilterPlugins st")
    case True
    with Cons pl show ?thesis by (simp add: passesAll_def)
  next
    case False
    with Cons.prems pl obtain s1 where s1: "F st ps c = Inr s1" by (auto simp: bindR_eq_Inr)
    show ?thesis
    proof (cases "IsSuccess s1")
      case True
      with Cons pl False s1 show ?thesis by (simp add: passesAll_def)
    next
      case ns: False
      then have "\<not> passesAll (pl # pls) st ps c" using pl False s1 by (auto simp: passesAll_def)
      moreover have "\<not> IsSuccess s"
        using Cons.prems pl False s1 ns by (auto simp: status_simps split: if_splits)
      ultimately show ?thesis by simp
    qed
  qed
qed

text \<open>
  The Filter stage as a function of the outcome on each cluster: when no outcome is a crash or
  an error, the clusters are split by their outcome; otherwise the stage fails.
\<close>

definition filterFails :: "FilterPlugin list \<Rightarrow> CycleState \<Rightarrow> PolicySnapshot \<Rightarrow> MemberCluster \<Rightarrow> bool" where
  "filterFails pls st ps c \<longleftrightarrow>
     (\<forall>s. runFilterPluginsFor pls st ps c = Inr s \<longrightarrow> code s \<in> {internalError, Skip})"

definition rejected ::
  "FilterPlugin list \<Rightarrow> CycleState \<Rightarrow> PolicySnapshot \<Rightarrow> MemberCluster list \<Rightarrow>
   filteredClusterWithStatus list" where
  "rejected pls st ps cs =
     map (\<lambda>c. \<lparr>fc_cluster = c, fc_status = projr (runFilterPluginsFor pls st ps c)\<rparr>)
       (filter (\<lambda>c. \<exists>s. runFilterPluginsFor pls st ps c = Inr s \<and> IsClusterUnschedulable s) cs)"

lemma runFilterLoop_ok:
  assumes "\<forall>c\<in>set cs. \<not> filterFails pls st ps c"
  shows "runFilterLoop pls st ps cs = Inr (filter (passesAll pls st ps) cs, rejected pls st ps cs)"
  using assms
proof (induction cs)
  case (Cons c cs)
  then obtain s where s: "runFilterPluginsFor pls st ps c = Inr s" "code s \<notin> {internalError, Skip}"
    by (auto simp: filterFails_def)
  from Cons have IH: "runFilterLoop pls st ps cs = Inr (filter (passesAll pls st ps) cs, rejected pls st ps cs)"
    by simp
  show ?case
    using s IH runFilterPluginsFor_success[OF s(1)]
    by (cases "code s") (auto simp: status_simps rejected_def)
qed (simp add: rejected_def)

lemma runFilterLoop_fail:
  assumes "\<exists>c\<in>set cs. filterFails pls st ps c"
    and "\<forall>c\<in>set cs. \<exists>s. runFilterPluginsFor pls st ps c = Inr s"
  shows "runFilterLoop pls st ps cs = Inl (ErrPlain ''plugin returned an error'')"
  using assms
proof (induction cs)
  case (Cons c cs)
  then obtain s where s: "runFilterPluginsFor pls st ps c = Inr s" by auto
  show ?case
  proof (cases "filterFails pls st ps c")
    case True
    with s have "code s \<in> {internalError, Skip}" by (auto simp: filterFails_def)
    with s show ?thesis by (auto simp: status_simps)
  next
    case False
    with Cons have "runFilterLoop pls st ps cs = Inl (ErrPlain ''plugin returned an error'')" by simp
    with s show ?thesis by (auto split: if_splits)
  qed
qed simp

lemma runFilterLoop_Inr:
  assumes "runFilterLoop pls st ps cs = Inr (passed, filtered)"
  shows "passed = filter (passesAll pls st ps) cs \<and> filtered = rejected pls st ps cs"
proof (cases "\<exists>c\<in>set cs. filterFails pls st ps c")
  case False
  with runFilterLoop_ok[of cs pls st ps] assms show ?thesis by simp
next
  case True
  have "\<forall>c\<in>set cs. \<not> filterFails pls st ps c" using assms
  proof (induction cs arbitrary: passed filtered)
    case (Cons c cs)
    then obtain s where s: "runFilterPluginsFor pls st ps c = Inr s" by (auto simp: bindR_eq_Inr)
    have "code s \<notin> {internalError, Skip}"
      using Cons.prems s by (auto simp: status_simps)
    moreover have "\<exists>p f. runFilterLoop pls st ps cs = Inr (p, f)"
      using Cons.prems s by (auto simp: bindR_eq_Inr split: if_splits)
    ultimately show ?case using Cons.IH s by (auto simp: filterFails_def)
  qed simp
  with True show ?thesis by blast
qed

text \<open>
  C19: When the Filter stage succeeds, the clusters that go on to scoring are exactly those on
  which every Filter plugin that PreFilter did not skip succeeds, in any order of the
  parallel inspection.
\<close>

theorem filter_stage_exact:
  assumes "runFilterPlugins f st ps cs = Inr (passed, filtered)" and "mset (interleave f cs) = mset cs"
  shows "mset passed = mset (filter (passesAll (filterPlugins (profile f)) st ps) cs) \<and>
    (\<forall>fc\<in>set filtered. fc_cluster fc \<in> set cs \<and> IsClusterUnschedulable (fc_status fc) \<and>
       \<not> passesAll (filterPlugins (profile f)) st ps (fc_cluster fc))"
proof -
  let ?pls = "filterPlugins (profile f)"
  have eq: "passed = filter (passesAll ?pls st ps) (interleave f cs)" "filtered = rejected ?pls st ps (interleave f cs)"
    using runFilterLoop_Inr[of ?pls st ps "interleave f cs" passed filtered] assms(1)
    by (simp_all add: runFilterPlugins_def)
  have "set (interleave f cs) = set cs" using assms(2) by (metis set_mset_mset)
  moreover have "\<not> passesAll ?pls st ps c"
    if "runFilterPluginsFor ?pls st ps c = Inr s" "IsClusterUnschedulable s" for c s
    using runFilterPluginsFor_success[OF that(1)] that(2) by (auto simp: status_simps)
  ultimately show ?thesis
    unfolding eq using mset_filter_cong[OF assms(2)] by (auto simp: rejected_def)
qed

theorem filter_stage_exact_witness:
  "let cs = [exampleCluster ''a'', exampleCluster ''b''];
       pl = (''P'', \<lambda>st ps c. Inr (if Name c = ''a'' then None else (NewNonErrorStatus ClusterUnschedulable ''P'' [])));
       f = exampleFramework (exampleHub :: nat hub) (emptyProfile\<lparr>filterPlugins := [pl]\<rparr>)
   in \<exists>passed filtered. runFilterPlugins f (NewCycleState cs [] []) (examplePolicy None) cs = Inr (passed, filtered) \<and>
      mset passed = {#exampleCluster ''a''#}"
proof -
  let ?cs = "[exampleCluster ''a'', exampleCluster ''b'']"
  let ?pl = "(''P'', \<lambda>st ps c. Inr (if Name c = ''a'' then None
     else (NewNonErrorStatus ClusterUnschedulable ''P'' []))) :: FilterPlugin"
  let ?f = "exampleFramework (exampleHub :: nat hub) (emptyProfile\<lparr>filterPlugins := [?pl]\<rparr>)"
  have "\<exists>p f. runFilterPlugins ?f (NewCycleState ?cs [] []) (examplePolicy None) ?cs = Inr (p, f)"
    by (simp add: runFilterPlugins_def exampleFramework_def emptyProfile_def exampleCluster_def status_simps
        NewNonErrorStatus_def NewCycleState_def code_def)
  then obtain p fl where r: "runFilterPlugins ?f (NewCycleState ?cs [] []) (examplePolicy None) ?cs = Inr (p, fl)"
    by blast
  have "mset p = {#exampleCluster ''a''#}"
    using filter_stage_exact[OF r]
    by (simp add: exampleFramework_def passesAll_def emptyProfile_def exampleCluster_def NewCycleState_def
       NewNonErrorStatus_def status_simps code_def)
  with r show ?thesis by (auto simp: Let_def)
qed

section \<open>The Score stage\<close>

definition scoreOne ::
  "ScorePlugin list \<Rightarrow> CycleState \<Rightarrow> PolicySnapshot \<Rightarrow> MemberCluster \<Rightarrow> ScoredCluster result" where
  "scoreOne pls st ps c =
     bindR (runScorePluginsFor pls st ps c []) (\<lambda>(scoreList, status).
       if IsSuccess status then
         bindR (sumScores scoreList zeroScore) (\<lambda>t. Inr \<lparr>sc_Cluster = c, sc_Score = t\<rparr>)
       else Inl (ErrPlain ''plugin returned an error''))"

lemma runScoreLoop_Cons:
  "runScoreLoop pls st ps (c # cs) =
     bindR (scoreOne pls st ps c) (\<lambda>x. bindR (runScoreLoop pls st ps cs) (\<lambda>rest. Inr (x # rest)))"
  by (auto simp: scoreOne_def bindR_def split: sum.splits prod.splits)

lemma scoreOne_Cluster: "scoreOne pls st ps c = Inr x \<Longrightarrow> sc_Cluster x = c"
  by (auto simp: scoreOne_def bindR_eq_Inr split: if_splits)

lemma runScoreLoop_ok:
  assumes "\<forall>c\<in>set cs. \<exists>x. scoreOne pls st ps c = Inr x"
  shows "runScoreLoop pls st ps cs = Inr (map (\<lambda>c. projr (scoreOne pls st ps c)) cs)"
  using assms by (induction cs) (auto simp: runScoreLoop_Cons simp del: runScoreLoop.simps(2))

lemma runScoreLoop_fail:
  assumes "\<exists>c\<in>set cs. \<forall>x. scoreOne pls st ps c \<noteq> Inr x" and "\<forall>c\<in>set cs. scoreOne pls st ps c \<noteq> Inl Panic"
  shows "\<exists>e. runScoreLoop pls st ps cs = Inl e \<and> e \<noteq> Panic"
  using assms
proof (induction cs)
  case (Cons c cs)
  show ?case
  proof (cases "scoreOne pls st ps c")
    case (Inl e)
    with Cons.prems show ?thesis by (auto simp: runScoreLoop_Cons simp del: runScoreLoop.simps(2))
  next
    case (Inr x)
    with Cons show ?thesis by (auto simp: runScoreLoop_Cons simp del: runScoreLoop.simps(2))
  qed
qed simp

lemma runScoreLoop_Clusters:
  "runScoreLoop pls st ps cs = Inr scored \<Longrightarrow> map sc_Cluster scored = cs"
  by (induction cs arbitrary: scored)
     (auto simp: runScoreLoop_Cons bindR_eq_Inr scoreOne_Cluster simp del: runScoreLoop.simps(2))

section \<open>Batch size\<close>

lemma runPostBatchLoop_bounds:
  assumes "runPostBatchLoop pls st ps m = Inr (limit, s)" and "0 \<le> m"
  shows "0 \<le> limit \<and> limit \<le> m"
  using assms
proof (induction pls arbitrary: m)
  case (Cons pl pls)
  obtain name F where pl: "pl = (name, F)" by fastforce
  from Cons.prems pl obtain l t where F: "F st ps = Inr (l, t)" by (auto simp: bindR_eq_Inr)
  consider (ok) "IsSuccess t" | (err) "IsInteralError t" | (skip) "IsSkip t" "\<not> IsSuccess t" "\<not> IsInteralError t"
    | (other) "\<not> IsSuccess t" "\<not> IsInteralError t" "\<not> IsSkip t" by blast
  then show ?case
  proof cases
    case ok
    then show ?thesis using Cons.IH[of "if l < m \<and> l \<ge> 0 then l else m"] Cons.prems pl F
      by (auto split: if_splits)
  next
    case err
    then show ?thesis using Cons.prems pl F by (auto simp: status_simps)
  next
    case skip
    then show ?thesis using Cons pl F by simp
  next
    case other
    then show ?thesis using Cons.prems pl F by simp
  qed
qed simp

text \<open>
  The batch size limit the PostBatch plugins agree on lies between 0 and the desired batch
  size, so that the sanity check of the caller never fails; the number of clusters to pick is
  then between 0 and each of the desired size, the limit and the number of scored clusters.
\<close>

theorem batch_size_bounds:
  assumes "runPostBatchPlugins pls st ps = Inr (limit, s)" and "0 \<le> desiredBatchSize st" and "0 \<le> scored"
  shows "0 \<le> limit \<and> limit \<le> desiredBatchSize st \<and>
    (let n = calcNumOfClustersToSelect (desiredBatchSize st) limit scored
     in 0 \<le> n \<and> n \<le> desiredBatchSize st \<and> n \<le> limit \<and> n \<le> scored \<and>
        (n = desiredBatchSize st \<or> n = limit \<or> n = scored))"
  using runPostBatchLoop_bounds[OF assms(1)[unfolded runPostBatchPlugins_def] assms(2)] assms(2,3)
  by (simp add: calcNumOfClustersToSelect_def Let_def)

theorem batch_size_bounds_witness:
  "let pls = [(''P'', \<lambda>st ps. Inr (1, None))]; st = (NewCycleState [] [] [])\<lparr>desiredBatchSize := 3\<rparr>
   in runPostBatchPlugins pls st (examplePolicy None) = Inr (1, None) \<and>
      calcNumOfClustersToSelect 3 1 2 \<le> 1"
proof -
  let ?pls = "[(''P'', \<lambda>st ps. Inr (1, None))] :: PostBatchPlugin list"
  let ?st = "(NewCycleState [] [] [])\<lparr>desiredBatchSize := 3\<rparr>"
  have "runPostBatchPlugins ?pls ?st (examplePolicy None) = Inr (1, None)"
    by (simp add: runPostBatchPlugins_def status_simps)
  from batch_size_bounds[OF this, of 2] this show ?thesis by (simp add: Let_def)
qed

section \<open>Downscaling\<close>

lemma updateBindings_Nil [simp]: "bindP (updateBindings h [] u) f = f ()"
  by (rule ext) (simp add: updateBindings_def bindP_def)

lemma mset_take_drop: "mset (take n xs) + mset (drop n xs) = mset xs"
  by (metis append_take_drop_id mset_append)

text \<open>
  C13: A downscale by a number of bindings that is not larger than what there is marks exactly
  that many bindings as unscheduled and returns the others; a bound binding is only trimmed
  when no scheduled one is kept, and a trimmed binding never ranks above a kept one of the
  same kind (no score, then score, then name).
\<close>

theorem downscale_trims_worst:
  assumes "0 \<le> n" and "n \<le> int (length sched + length bnd)"
    and "\<forall>b\<in>set sched \<union> set bnd. scoreComplete b"
  shows "\<exists>trimS trimB keepS keepB.
    downscale f sched bnd n =
      bindP (updateBindings (hub f) (trimS @ trimB) markUnscheduled) (\<lambda>_. returnP (keepS, keepB)) \<and>
    int (length (trimS @ trimB)) = n \<and>
    mset trimS + mset keepS = mset sched \<and> mset trimB + mset keepB = mset bnd \<and>
    (trimB \<noteq> [] \<longrightarrow> keepS = []) \<and>
    (\<forall>t\<in>set trimS. \<forall>k\<in>set keepS. \<not> trimLt k t) \<and> (\<forall>t\<in>set trimB. \<forall>k\<in>set keepB. \<not> trimLt k t)"
proof -
  have srt: "sortByClusterScoreAndName sched = Inr (sort_by trimLt sched)"
    "sortByClusterScoreAndName bnd = Inr (sort_by trimLt bnd)"
    using assms(3) by (auto intro!: sortByClusterScoreAndName_eq)
  have lift: "bindP (liftP (Inr x)) g = g x" for x and g :: "Binding list \<Rightarrow> ('a, Binding list \<times> Binding list) prog"
    by (rule ext) (simp add: bindP_def)
  note dom = trim_order.take_drop_sort_by
  consider "n = 0" | "0 < n" "n < int (length sched)" | "0 < n" "n = int (length sched)"
    | "0 < n" "int (length sched) < n" "n < int (length sched + length bnd)"
    | "0 < n" "int (length sched) < n" "n = int (length sched + length bnd)"
    using assms(1,2) by linarith
  then show ?thesis
  proof cases
    case 1
    show ?thesis
      by (insert 1, rule exI[of _ "[]"], rule exI[of _ "[]"], rule exI[of _ sched], rule exI[of _ bnd]) (simp add: downscale_def returnP_def)
  next
    case 2
    let ?s = "sort_by trimLt sched"
    show ?thesis
      by (insert 2 dom[of _ "nat n" sched], rule exI[of _ "take (nat n) ?s"], rule exI[of _ "[]"], rule exI[of _ "drop (nat n) ?s"], rule exI[of _ bnd])
         (auto simp: downscale_def Let_def srt lift mset_take_drop)
  next
    case 3
    show ?thesis
      by (insert 3, rule exI[of _ sched], rule exI[of _ "[]"], rule exI[of _ "[]"], rule exI[of _ bnd]) (simp add: downscale_def Let_def)
  next
    case 4
    let ?s = "sort_by trimLt bnd" and ?l = "nat (n - int (length sched))"
    show ?thesis
      by (insert 4 dom[of _ ?l bnd], rule exI[of _ sched], rule exI[of _ "take ?l ?s"], rule exI[of _ "[]"], rule exI[of _ "drop ?l ?s"])
         (auto simp: downscale_def Let_def srt lift mset_take_drop)
  next
    case 5
    show ?thesis
      by (insert 5, rule exI[of _ sched], rule exI[of _ bnd], rule exI[of _ "[]"], rule exI[of _ "[]"]) (cases bnd; simp add: downscale_def Let_def)
  qed
qed

definition exampleTwoBound :: "Binding list" where
  "exampleTwoBound = [exampleBinding ''b1'' ''a'' BindingStateBound ''p-1'',
                      exampleBinding ''b2'' ''b'' BindingStateBound ''p-1'']"

lemma exampleTwoBound_facts:
  "length exampleTwoBound = 2" "\<forall>b\<in>set [] \<union> set exampleTwoBound. scoreComplete b"
  by (simp_all add: exampleTwoBound_def scoreComplete_def exampleBinding_def exampleDecision_def
      apiScoreValue_def)

theorem downscale_trims_worst_witness:
  "\<exists>trimS trimB keepS keepB.
    downscale (exampleFramework exampleHub emptyProfile) [] exampleTwoBound 1 =
      bindP (updateBindings (hub (exampleFramework exampleHub emptyProfile)) (trimS @ trimB) markUnscheduled)
        (\<lambda>_. returnP (keepS, keepB)) \<and>
    int (length (trimS @ trimB)) = 1 \<and>
    mset trimS + mset keepS = mset [] \<and> mset trimB + mset keepB = mset exampleTwoBound \<and>
    (trimB \<noteq> [] \<longrightarrow> keepS = []) \<and>
    (\<forall>t\<in>set trimS. \<forall>k\<in>set keepS. \<not> trimLt k t) \<and> (\<forall>t\<in>set trimB. \<forall>k\<in>set keepB. \<not> trimLt k t)"
  by (rule downscale_trims_worst[OF _ _ exampleTwoBound_facts(2)]) (simp_all add: exampleTwoBound_facts(1))

section \<open>Retrying an unschedule request\<close>

text \<open>
  When the first attempt to mark a binding as unscheduled fails with a transient server
  error and the retry succeeds, the object that is written records Unscheduled as the previous
  state, because the attempt runs on the object the first attempt has already changed. If the
  cluster is picked again, the binding is restored to the state Unscheduled.
\<close>

theorem retried_unschedule_loses_state:
  assumes "hubUpdateBinding h (markUnscheduled b) w = (Inl (ErrAPI ServiceUnavailable), w')"
    and "hubUpdateBinding h (markUnscheduled (markUnscheduled b)) w' = (Inr (), w'')"
    and "2 \<le> retrySteps h"
  shows "updateBindings h [b] markUnscheduled w = (Inr (), w'') \<and>
    Annotations (markUnscheduled (markUnscheduled b)) PreviousBindingStateAnnotation = Some ''Unscheduled'' \<and>
    fst (projr (restoredState (markUnscheduled (markUnscheduled b)))) = BindingStateUnscheduled"
proof -
  obtain m where m: "retrySteps h = Suc (Suc m)"
    using assms(3) by (metis Suc_le_D numeral_2_eq_2 Suc_le_mono)
  have a1: "updateAttempt h markUnscheduled b w = ((Inl (ErrAPI ServiceUnavailable), markUnscheduled b), w')"
    using assms(1) by (simp add: updateAttempt_def)
  have a2: "updateAttempt h markUnscheduled (markUnscheduled b) w' =
      ((Inr (), markUnscheduled (markUnscheduled b)), w'')"
    using assms(2) by (simp add: updateAttempt_def)
  have "retryOnError (retrySteps h) retryUpdate (updateAttempt h markUnscheduled) b w = (Inr (), w'')"
    unfolding m
    by (subst retryOnError.simps) (simp add: a1 retryUpdate_def retryOnError_success_first[of "updateAttempt h markUnscheduled" "markUnscheduled b" w', OF a2])
  then show ?thesis
    by (simp add: updateBindings_def markUnscheduled_def restoredState_def BindingState_of_string_def)
qed

theorem retried_unschedule_loses_state_witness:
  "let h = exampleHub\<lparr>hubUpdateBinding := \<lambda>b w. if w = 0 then (Inl (ErrAPI ServiceUnavailable), 1)
                                                  else (Inr (), Suc w)\<rparr>;
       b = exampleBinding ''b1'' ''a'' BindingStateBound ''p-1''
   in updateBindings h [b] markUnscheduled (0 :: nat) = (Inr (), 2) \<and>
      fst (projr (restoredState (markUnscheduled (markUnscheduled b)))) = BindingStateUnscheduled"
  using retried_unschedule_loses_state[of "exampleHub\<lparr>hubUpdateBinding := \<lambda>b w. if w = 0
      then (Inl (ErrAPI ServiceUnavailable), 1) else (Inr (), Suc w)\<rparr>"
      "exampleBinding ''b1'' ''a'' BindingStateBound ''p-1''" 0 1 2]
  by (simp add: Let_def exampleHub_def)

section \<open>Unknown placement types\<close>

text \<open>
  A policy of an unknown placement type does not end the cycle with an error: the error
  built for it wraps a nil error and is nil itself, so the cycle reports success and no
  requeue, without having scheduled anything.
\<close>

theorem unknown_placement_type_succeeds:
  assumes "Policy policy = Some p" and "Type p = OtherPlacementType ty"
    and "ExtractNamespaceNameFromKeyStr key = Inr (ns, name)"
    and "hubListClusters (hub f) w = (Inr cs, w1)" and "hubListBindings (hub f) ns name w1 = (Inr [], w2)"
  shows "RunSchedulingCycleFor f key policy w = (Inr noRequeue, w2)"
  using assms
  by (simp add: RunSchedulingCycleFor_def bindP_eq collectClusters_def ListBindingsFromKey_def wrapP_def
      classifyBindings_def updateBindings_def Let_def NewUnexpectedBehaviorError_def)

theorem unknown_placement_type_succeeds_witness:
  "RunSchedulingCycleFor (exampleFramework exampleHub emptyProfile) ''crp''
     (examplePolicy (Some (examplePolicySpec (OtherPlacementType ''PickSome'')))) (0 :: nat) = (Inr noRequeue, 0)"
  by (rule unknown_placement_type_succeeds[where p = "examplePolicySpec (OtherPlacementType ''PickSome'')"
        and ty = "''PickSome''" and ns = "''''" and name = "''crp''" and cs = "[]" and ?w1.0 = 0])
     (simp_all add: examplePolicy_def examplePolicySpec_def exampleFramework_def exampleHub_def
        ExtractNamespaceNameFromKeyStr_def)

section \<open>Independence of the parallel order\<close>

text \<open>
  A profile is free of crashes for a policy when after its Pre stages no plugin dereferences a
  nil pointer.
\<close>

definition crashFree :: "Profile \<Rightarrow> PolicySnapshot \<Rightarrow> bool" where
  "crashFree pr policy \<longleftrightarrow>
     (\<forall>st0 st1 s c. runPreFilterPlugins (preFilterPlugins pr) st0 policy = Inr (st1, s) \<longrightarrow>
        \<not> IsInteralError s \<longrightarrow> (\<exists>s'. runFilterPluginsFor (filterPlugins pr) st1 policy c = Inr s')) \<and>
     (\<forall>st0 st1 s c. runPreScorePlugins (preScorePlugins pr) st0 policy = Inr (st1, s) \<longrightarrow>
        \<not> IsInteralError s \<longrightarrow> scoreOne (scorePlugins pr) st1 policy c \<noteq> Inl Panic)"

interpretation filtered_order: strict_order filteredLess
  unfolding filteredLess_def[abs_def] by (rule strict_order_key)

abbreviation fcName :: "filteredClusterWithStatus \<Rightarrow> string" where
  "fcName fc \<equiv> Name (fc_cluster fc)"

lemma distinct_map_mset: "distinct (map f xs) \<Longrightarrow> mset xs = mset ys \<Longrightarrow> distinct (map f ys)"
  by (metis mset_map mset_eq_imp_distinct_iff)

lemma distinct_map_eq: "distinct (map f xs) \<Longrightarrow> x \<in> set xs \<Longrightarrow> y \<in> set xs \<Longrightarrow> x \<noteq> y \<Longrightarrow> f x \<noteq> f y"
  by (auto simp: distinct_map inj_on_def)

lemma sort_scored_cong:
  assumes "mset xs = mset ys" and "distinct (map scName ys)"
  shows "sort_by ScoredClustersLess xs = sort_by ScoredClustersLess ys"
    and "sort_by (\<lambda>a b. ScoredClustersLess b a) xs = sort_by (\<lambda>a b. ScoredClustersLess b a) ys"
proof -
  have tot: "ScoredClustersLess a b \<or> ScoredClustersLess b a"
    if "a \<in> set ys" "b \<in> set ys" "a \<noteq> b" for a b
    using ScoredClustersLess_total distinct_map_eq[OF assms(2) that] by blast
  show "sort_by ScoredClustersLess xs = sort_by ScoredClustersLess ys"
    by (rule scored_clusters.sort_by_unique) (use assms(1) tot in \<open>auto simp: scored_clusters.sorted_sort_by\<close>)
  show "sort_by (\<lambda>a b. ScoredClustersLess b a) xs = sort_by (\<lambda>a b. ScoredClustersLess b a) ys"
    by (rule reversed_scores.sort_by_unique) (use assms(1) tot in \<open>auto simp: reversed_scores.sorted_sort_by\<close>)
qed

lemma sort_filtered_cong:
  assumes "mset xs = mset ys" and "distinct (map fcName ys)"
  shows "sort_by filteredLess xs = sort_by filteredLess ys"
proof (rule filtered_order.sort_by_unique)
  show "filteredLess a b \<or> filteredLess b a" if "a \<in> set ys" "b \<in> set ys" "a \<noteq> b" for a b
    using distinct_map_eq[OF assms(2) that] by (auto simp: filteredLess_def)
qed (use assms(1) in \<open>auto simp: filtered_order.sorted_sort_by\<close>)

text \<open>The Filter stage on two orders of the same clusters.\<close>

lemma runFilterLoop_perm:
  assumes "mset cs1 = mset cs2" and "\<forall>c. \<exists>s. runFilterPluginsFor pls st ps c = Inr s"
  shows "(\<exists>e. runFilterLoop pls st ps cs1 = Inl e \<and> runFilterLoop pls st ps cs2 = Inl e) \<or>
    (\<exists>p1 f1 p2 f2. runFilterLoop pls st ps cs1 = Inr (p1, f1) \<and> runFilterLoop pls st ps cs2 = Inr (p2, f2) \<and>
       mset p1 = mset p2 \<and> mset f1 = mset f2 \<and>
       (distinct (map Name cs2) \<longrightarrow> distinct (map Name p2) \<and> distinct (map fcName f2)))"
proof -
  have set: "set cs1 = set cs2" using assms(1) by (metis set_mset_mset)
  show ?thesis
  proof (cases "\<exists>c\<in>set cs2. filterFails pls st ps c")
    case True
    then show ?thesis using runFilterLoop_fail[of cs1 pls st ps] runFilterLoop_fail[of cs2 pls st ps] assms(2) set
      by auto
  next
    case False
    then have "runFilterLoop pls st ps cs1 = Inr (filter (passesAll pls st ps) cs1, rejected pls st ps cs1)"
      "runFilterLoop pls st ps cs2 = Inr (filter (passesAll pls st ps) cs2, rejected pls st ps cs2)"
      using set by (auto intro!: runFilterLoop_ok)
    moreover have "mset (rejected pls st ps cs1) = mset (rejected pls st ps cs2)"
      unfolding rejected_def mset_map using mset_filter_cong[OF assms(1)] by metis
    moreover have "distinct (map fcName (rejected pls st ps cs2))" if "distinct (map Name cs2)"
      using that by (auto simp: rejected_def o_def distinct_map_filter)
    ultimately show ?thesis
      using mset_filter_cong[OF assms(1)] by (auto simp: distinct_map_filter)
  qed
qed

lemma runScoreLoop_perm:
  assumes "mset cs1 = mset cs2" and "\<forall>c. scoreOne pls st ps c \<noteq> Inl Panic"
  shows "(\<exists>e1 e2. runScoreLoop pls st ps cs1 = Inl e1 \<and> runScoreLoop pls st ps cs2 = Inl e2 \<and>
      e1 \<noteq> Panic \<and> e2 \<noteq> Panic) \<or>
    (\<exists>s1 s2. runScoreLoop pls st ps cs1 = Inr s1 \<and> runScoreLoop pls st ps cs2 = Inr s2 \<and> mset s1 = mset s2 \<and>
       map sc_Cluster s2 = cs2)"
proof -
  have set: "set cs1 = set cs2" using assms(1) by (metis set_mset_mset)
  show ?thesis
  proof (cases "\<forall>c\<in>set cs2. \<exists>x. scoreOne pls st ps c = Inr x")
    case True
    then have "runScoreLoop pls st ps cs1 = Inr (map (\<lambda>c. projr (scoreOne pls st ps c)) cs1)"
      "runScoreLoop pls st ps cs2 = Inr (map (\<lambda>c. projr (scoreOne pls st ps c)) cs2)"
      using set by (auto intro!: runScoreLoop_ok)
    with runScoreLoop_Clusters assms(1) show ?thesis by (metis mset_map)
  next
    case False
    then show ?thesis using runScoreLoop_fail[of cs1 pls st ps] runScoreLoop_fail[of cs2 pls st ps] assms(2) set
      by auto
  qed
qed

lemma checkStatus_Inr: "checkStatus xs = Inr x \<Longrightarrow> x = fst xs \<and> \<not> IsInteralError (snd xs)"
  by (auto simp: checkStatus_def split: if_splits)

definition sameInOrder ::
  "(ScoredCluster list \<times> filteredClusterWithStatus list) \<Rightarrow>
   (ScoredCluster list \<times> filteredClusterWithStatus list) \<Rightarrow> bool" where
  "sameInOrder a b \<longleftrightarrow>
     mset (fst a) = mset (fst b) \<and> distinct (map scName (fst b)) \<and>
     sort_by filteredLess (snd a) = sort_by filteredLess (snd b)"

lemma pickAll_plugins_perm:
  assumes "mset (i1 cs) = mset cs" and "mset (i2 cs) = mset cs" and "distinct (map Name cs)"
    and "crashFree (profile f) policy"
  shows "(\<exists>e. runAllPluginsForPickAllPlacementType (f\<lparr>interleave := i1\<rparr>) st policy cs = Inl e \<and>
      runAllPluginsForPickAllPlacementType (f\<lparr>interleave := i2\<rparr>) st policy cs = Inl e) \<or>
    (\<exists>a b. runAllPluginsForPickAllPlacementType (f\<lparr>interleave := i1\<rparr>) st policy cs = Inr a \<and>
      runAllPluginsForPickAllPlacementType (f\<lparr>interleave := i2\<rparr>) st policy cs = Inr b \<and> sameInOrder a b)"
proof (cases "bindR (runPreFilterPlugins (preFilterPlugins (profile f)) st policy) checkStatus")
  case (Inl e)
  then show ?thesis by (simp add: runAllPluginsForPickAllPlacementType_def)
next
  case (Inr st')
  then obtain s where "runPreFilterPlugins (preFilterPlugins (profile f)) st policy = Inr (st', s)"
    "\<not> IsInteralError s" by (auto simp: bindR_eq_Inr dest!: checkStatus_Inr)
  with assms(4) have ok: "\<forall>c. \<exists>s. runFilterPluginsFor (filterPlugins (profile f)) st' policy c = Inr s"
    by (auto simp: crashFree_def)
  have m: "mset (i1 cs) = mset (i2 cs)" and d: "distinct (map Name (i2 cs))"
    using assms(1-3) distinct_map_mset[OF assms(3), of "i2 cs"] by simp_all
  from runFilterLoop_perm[OF m ok] d consider
    (err) e where "runFilterLoop (filterPlugins (profile f)) st' policy (i1 cs) = Inl e"
      "runFilterLoop (filterPlugins (profile f)) st' policy (i2 cs) = Inl e"
    | (ok) p1 f1 p2 f2 where "runFilterLoop (filterPlugins (profile f)) st' policy (i1 cs) = Inr (p1, f1)"
      "runFilterLoop (filterPlugins (profile f)) st' policy (i2 cs) = Inr (p2, f2)"
      "mset p1 = mset p2" "mset f1 = mset f2" "distinct (map Name p2)" "distinct (map fcName f2)"
    by auto
  then show ?thesis
  proof cases
    case err
    then show ?thesis
      using Inr by (simp add: runAllPluginsForPickAllPlacementType_def runFilterPlugins_def)
  next
    case ok
    let ?s = "map (\<lambda>c. \<lparr>sc_Cluster = c, sc_Score = zeroScore\<rparr>)"
    have "sameInOrder (?s p1, f1) (?s p2, f2)"
      using ok sort_filtered_cong[OF ok(4,6)] by (simp add: sameInOrder_def o_def)
    with ok(1,2) Inr show ?thesis
      by (simp add: runAllPluginsForPickAllPlacementType_def runFilterPlugins_def)
  qed
qed

lemma runScorePlugins_perm:
  assumes "mset p1 = mset p2" and "\<And>cs. mset (i1 cs) = mset cs" and "\<And>cs. mset (i2 cs) = mset cs"
    and "\<forall>c. scoreOne (scorePlugins (profile f)) st ps c \<noteq> Inl Panic"
  shows "(\<exists>e1 e2. runScorePlugins (f\<lparr>interleave := i1\<rparr>) st ps p1 = Inl e1 \<and>
      runScorePlugins (f\<lparr>interleave := i2\<rparr>) st ps p2 = Inl e2 \<and> e1 \<noteq> Panic \<and> e2 \<noteq> Panic) \<or>
    (\<exists>s1 s2. runScorePlugins (f\<lparr>interleave := i1\<rparr>) st ps p1 = Inr s1 \<and>
      runScorePlugins (f\<lparr>interleave := i2\<rparr>) st ps p2 = Inr s2 \<and> mset s1 = mset s2 \<and>
      mset (map sc_Cluster s2) = mset p2)"
proof (cases "p2 = []")
  case True
  with assms(1) show ?thesis by (simp add: runScorePlugins_def)
next
  case False
  with assms(1) have "p1 \<noteq> []" by auto
  moreover have "mset (i1 p1) = mset (i2 p2)" using assms by simp
  ultimately show ?thesis
    using False runScoreLoop_perm[OF _ assms(4), of "i1 p1" "i2 p2"] assms(3)[of p2]
    by (auto simp: runScorePlugins_def simp flip: mset_map)
qed

definition pickNStages ::
  "'w framework \<Rightarrow> CycleState \<Rightarrow> PolicySnapshot \<Rightarrow> MemberCluster list \<Rightarrow>
   (CycleState \<times> ScoredCluster list \<times> filteredClusterWithStatus list) result" where
  "pickNStages f st1 policy cs =
     bindR (bindR (runPreFilterPlugins (preFilterPlugins (profile f)) st1 policy) checkStatus) (\<lambda>st2.
       bindR (wrapR unexpected (runFilterPlugins f st2 policy cs)) (\<lambda>(passed, filtered).
         bindR (bindR (runPreScorePlugins (preScorePlugins (profile f)) st2 policy) checkStatus) (\<lambda>st3.
           bindR (wrapR unexpected (runScorePlugins f st3 policy passed)) (\<lambda>scored.
             Inr (st3, scored, filtered)))))"

lemma pickN_stages:
  assumes "0 < n - k" and "bindR (runPostBatchPlugins (postBatchPlugins (profile f)) (st\<lparr>desiredBatchSize := n - k\<rparr>) policy) checkStatus = Inr limit"
    and "0 \<le> limit" and "limit \<le> n - k"
  shows "runAllPluginsForPickNPlacementType f st policy n k cs =
    pickNStages f (st\<lparr>desiredBatchSize := n - k, batchSizeLimit := limit\<rparr>) policy cs"
  using assms by (simp add: runAllPluginsForPickNPlacementType_def pickNStages_def Let_def)

definition pickNScoring ::
  "'w framework \<Rightarrow> CycleState \<Rightarrow> PolicySnapshot \<Rightarrow> MemberCluster list \<Rightarrow> filteredClusterWithStatus list \<Rightarrow>
   (CycleState \<times> ScoredCluster list \<times> filteredClusterWithStatus list) result" where
  "pickNScoring f st2 policy passed filtered =
     bindR (bindR (runPreScorePlugins (preScorePlugins (profile f)) st2 policy) checkStatus) (\<lambda>st3.
       bindR (wrapR unexpected (runScorePlugins f st3 policy passed)) (\<lambda>scored. Inr (st3, scored, filtered)))"

lemma pickNScoring_perm:
  assumes "\<And>cs. mset (i1 cs) = mset cs" and "\<And>cs. mset (i2 cs) = mset cs" and "crashFree (profile f) policy"
    and "mset p1 = mset p2" and "mset f1 = mset f2" and "distinct (map Name p2)" and "distinct (map fcName f2)"
  shows "(\<exists>e. pickNScoring (f\<lparr>interleave := i1\<rparr>) st policy p1 f1 = Inl e \<and>
      pickNScoring (f\<lparr>interleave := i2\<rparr>) st policy p2 f2 = Inl e) \<or>
    (\<exists>st' a b. pickNScoring (f\<lparr>interleave := i1\<rparr>) st policy p1 f1 = Inr (st', a) \<and>
      pickNScoring (f\<lparr>interleave := i2\<rparr>) st policy p2 f2 = Inr (st', b) \<and> sameInOrder a b)"
proof (cases "bindR (runPreScorePlugins (preScorePlugins (profile f)) st policy) checkStatus")
  case (Inl e)
  then show ?thesis by (simp add: pickNScoring_def)
next
  case pre: (Inr st3)
  then obtain s where "runPreScorePlugins (preScorePlugins (profile f)) st policy = Inr (st3, s)"
    "\<not> IsInteralError s" by (auto simp: bindR_eq_Inr dest!: checkStatus_Inr)
  with assms(3) have free: "\<forall>c. scoreOne (scorePlugins (profile f)) st3 policy c \<noteq> Inl Panic"
    by (auto simp: crashFree_def)
  from runScorePlugins_perm[of p1 p2 i1 i2, OF assms(4,1,2) free] consider
    (err) e1 e2 where "runScorePlugins (f\<lparr>interleave := i1\<rparr>) st3 policy p1 = Inl e1" "e1 \<noteq> Panic"
      "runScorePlugins (f\<lparr>interleave := i2\<rparr>) st3 policy p2 = Inl e2" "e2 \<noteq> Panic"
    | (ok) s1 s2 where "runScorePlugins (f\<lparr>interleave := i1\<rparr>) st3 policy p1 = Inr s1"
      "runScorePlugins (f\<lparr>interleave := i2\<rparr>) st3 policy p2 = Inr s2" "mset s1 = mset s2"
      "mset (map sc_Cluster s2) = mset p2"
    by auto
  then show ?thesis
  proof cases
    case err
    with pre show ?thesis by (simp add: pickNScoring_def unexpected_def)
  next
    case ok
    have "distinct (map Name (map sc_Cluster s2))"
      by (rule distinct_map_mset[OF assms(6)]) (simp only: ok(4))
    with ok(3) sort_filtered_cong[OF assms(5,7)] have "sameInOrder (s1, f1) (s2, f2)"
      by (simp add: sameInOrder_def o_def)
    with ok(1,2) pre show ?thesis by (simp add: pickNScoring_def)
  qed
qed

lemma pickNStages_perm:
  assumes "\<And>cs. mset (i1 cs) = mset cs" and "\<And>cs. mset (i2 cs) = mset cs" and "distinct (map Name cs)"
    and "crashFree (profile f) policy"
  shows "(\<exists>e. pickNStages (f\<lparr>interleave := i1\<rparr>) st policy cs = Inl e \<and>
      pickNStages (f\<lparr>interleave := i2\<rparr>) st policy cs = Inl e) \<or>
    (\<exists>st' a b. pickNStages (f\<lparr>interleave := i1\<rparr>) st policy cs = Inr (st', a) \<and>
      pickNStages (f\<lparr>interleave := i2\<rparr>) st policy cs = Inr (st', b) \<and> sameInOrder a b)"
proof (cases "bindR (runPreFilterPlugins (preFilterPlugins (profile f)) st policy) checkStatus")
  case (Inl e)
  then show ?thesis by (simp add: pickNStages_def)
next
  case pre: (Inr st2)
  then obtain s where "runPreFilterPlugins (preFilterPlugins (profile f)) st policy = Inr (st2, s)"
    "\<not> IsInteralError s" by (auto simp: bindR_eq_Inr dest!: checkStatus_Inr)
  with assms(4) have free: "\<forall>c. \<exists>s. runFilterPluginsFor (filterPlugins (profile f)) st2 policy c = Inr s"
    by (auto simp: crashFree_def)
  have m: "mset (i1 cs) = mset (i2 cs)" and d: "distinct (map Name (i2 cs))"
    using assms(1-3) distinct_map_mset[OF assms(3), of "i2 cs"] by simp_all
  from runFilterLoop_perm[OF m free] d consider
    (err) e where "runFilterLoop (filterPlugins (profile f)) st2 policy (i1 cs) = Inl e"
      "runFilterLoop (filterPlugins (profile f)) st2 policy (i2 cs) = Inl e"
    | (ok) p1 f1 p2 f2 where "runFilterLoop (filterPlugins (profile f)) st2 policy (i1 cs) = Inr (p1, f1)"
      "runFilterLoop (filterPlugins (profile f)) st2 policy (i2 cs) = Inr (p2, f2)"
      "mset p1 = mset p2" "mset f1 = mset f2" "distinct (map Name p2)" "distinct (map fcName f2)"
    by auto
  then show ?thesis
  proof cases
    case err
    with pre show ?thesis by (simp add: pickNStages_def runFilterPlugins_def)
  next
    case ok
    with pre have "pickNStages (f\<lparr>interleave := i1\<rparr>) st policy cs =
        pickNScoring (f\<lparr>interleave := i1\<rparr>) st2 policy p1 f1"
      "pickNStages (f\<lparr>interleave := i2\<rparr>) st policy cs =
        pickNScoring (f\<lparr>interleave := i2\<rparr>) st2 policy p2 f2"
      by (simp_all add: pickNStages_def pickNScoring_def runFilterPlugins_def)
    with pickNScoring_perm[of i1 i2, OF assms(1,2,4) ok(3-6)] show ?thesis by simp
  qed
qed

lemma pickN_plugins_perm:
  assumes "\<And>cs. mset (i1 cs) = mset cs" and "\<And>cs. mset (i2 cs) = mset cs" and "distinct (map Name cs)"
    and "crashFree (profile f) policy"
  shows "(\<exists>e. runAllPluginsForPickNPlacementType (f\<lparr>interleave := i1\<rparr>) st policy n k cs = Inl e \<and>
      runAllPluginsForPickNPlacementType (f\<lparr>interleave := i2\<rparr>) st policy n k cs = Inl e) \<or>
    (\<exists>st' a b. runAllPluginsForPickNPlacementType (f\<lparr>interleave := i1\<rparr>) st policy n k cs = Inr (st', a) \<and>
      runAllPluginsForPickNPlacementType (f\<lparr>interleave := i2\<rparr>) st policy n k cs = Inr (st', b) \<and> sameInOrder a b)"
proof (cases "0 < n - k")
  case False
  then show ?thesis by (simp add: runAllPluginsForPickNPlacementType_def Let_def)
next
  case pos: True
  show ?thesis
  proof (cases "bindR (runPostBatchPlugins (postBatchPlugins (profile f)) (st\<lparr>desiredBatchSize := n - k\<rparr>) policy) checkStatus")
    case (Inl e)
    with pos show ?thesis by (simp add: runAllPluginsForPickNPlacementType_def Let_def)
  next
    case lim: (Inr limit)
    show ?thesis
    proof (cases "0 \<le> limit \<and> limit \<le> n - k")
      case False
      with pos lim show ?thesis by (auto simp: runAllPluginsForPickNPlacementType_def Let_def)
    next
      case True
      with pos lim have "runAllPluginsForPickNPlacementType (f\<lparr>interleave := i\<rparr>) st policy n k cs =
          pickNStages (f\<lparr>interleave := i\<rparr>) (st\<lparr>desiredBatchSize := n - k, batchSizeLimit := limit\<rparr>) policy cs" for i
        by (intro pickN_stages) simp_all
      with pickNStages_perm[of i1 i2, OF assms] show ?thesis by simp
    qed
  qed
qed

lemma pickTopN_perm:
  "mset s1 = mset s2 \<Longrightarrow> distinct (map scName s2) \<Longrightarrow> pickTopNScoredClusters s1 N = pickTopNScoredClusters s2 N"
  by (simp add: pickTopNScoredClusters_def sort_scored_cong(2)[of s1 s2])

lemma downscale_interleave: "downscale (f\<lparr>interleave := i\<rparr>) = downscale f"
  by (intro ext) (simp add: downscale_def)

lemma status_writer_perm:
  "sort_by filteredLess f1 = sort_by filteredLess f2 \<Longrightarrow>
   updatePolicySnapshotStatusFromBindings (f\<lparr>interleave := i1\<rparr>) policy n np f1 ex =
   updatePolicySnapshotStatusFromBindings (f\<lparr>interleave := i2\<rparr>) policy n np f2 ex"
  by (simp add: updatePolicySnapshotStatusFromBindings_def writePolicyStatus_def cong: if_cong)



end
