(* ===== verification/Eviction.thy ===== *)
theory Eviction
  imports Placement_Types Binding_Status Framework_Decisions Example_Objects
begin

text \<open>
  The eviction controller (\<open>pkg/controllers/clusterresourceplacementeviction/controller.go\<close>,
  \<open>pkg/utils/eviction/eviction.go\<close>) and the disruption budget it enforces. The calls are fields
  of \<open>evictor\<close>; \<open>intstr\<close> and \<open>meta.SetStatusCondition\<close> of apimachinery are fields too. The
  deletion carries the resource version of the listed binding as its precondition, so it is
  given the whole binding.
\<close>

section \<open>Objects and calls\<close>

record EvictionObj = ObjectMeta +
  PlacementName :: string
  EvictionClusterName :: string
  EvictionConditions :: conditions

record DisruptionBudget =
  db_MaxUnavailable :: "IntOrString option"
  db_MinAvailable :: "IntOrString option"

record 'w evictor =
  getEviction :: "string \<Rightarrow> ('w, EvictionObj) prog"
  getCRP :: "string \<Rightarrow> ('w, Placement) prog"
  listCRBs :: "string \<Rightarrow> ('w, Binding list) prog"
  getBudget :: "string \<Rightarrow> ('w, DisruptionBudget) prog"
  deleteCRB :: "Binding \<Rightarrow> ('w, unit) prog"
  updateStatus :: "EvictionObj \<Rightarrow> ('w, unit) prog"
  setCondition :: "conditions \<Rightarrow> Condition \<Rightarrow> conditions"
  GetScaledValue :: "IntOrString \<Rightarrow> int \<Rightarrow> int"
  IntValue :: "IntOrString \<Rightarrow> int"

definition EvictionTypeValid :: string where
  "EvictionTypeValid = ''Valid''"

definition EvictionTypeExecuted :: string where
  "EvictionTypeExecuted = ''Executed''"

section \<open>Helpers on evictions\<close>

definition IsEvictionInTerminalState :: "EvictionObj \<Rightarrow> bool" where
  "IsEvictionInTerminalState ev \<longleftrightarrow>
     IsConditionStatusFalse (EvictionConditions ev EvictionTypeValid) (Generation ev) \<or>
     EvictionConditions ev EvictionTypeExecuted \<noteq> None"

definition IsPlacementPresent :: "Binding \<Rightarrow> bool" where
  "IsPlacementPresent b =
     (if State (Spec b) = BindingStateBound then True
      else if State (Spec b) = BindingStateUnscheduled
      then (case Annotations b PreviousBindingStateAnnotation of
              None \<Rightarrow> False | Some s \<Rightarrow> BindingState_of_string s = BindingStateBound)
      else False)"

definition markEviction ::
  "'w evictor \<Rightarrow> string \<Rightarrow> ConditionStatus \<Rightarrow> string \<Rightarrow> string \<Rightarrow> EvictionObj \<Rightarrow> EvictionObj" where
  "markEviction r ty status reason message ev =
     ev\<lparr>EvictionConditions := setCondition r (EvictionConditions ev)
          \<lparr>cond_Type = ty, cond_Status = status, cond_ObservedGeneration = Generation ev,
           cond_LastTransitionTime = 0, cond_Reason = reason, cond_Message = message\<rparr>\<rparr>"

definition markEvictionValid :: "'w evictor \<Rightarrow> EvictionObj \<Rightarrow> EvictionObj" where
  "markEvictionValid r =
     markEviction r EvictionTypeValid ConditionTrue ''ClusterResourcePlacementEvictionValid'' ''Eviction is valid''"

definition markEvictionInvalid :: "'w evictor \<Rightarrow> string \<Rightarrow> EvictionObj \<Rightarrow> EvictionObj" where
  "markEvictionInvalid r = markEviction r EvictionTypeValid ConditionFalse ''ClusterResourcePlacementEvictionInvalid''"

definition markEvictionExecuted :: "'w evictor \<Rightarrow> string \<Rightarrow> EvictionObj \<Rightarrow> EvictionObj" where
  "markEvictionExecuted r = markEviction r EvictionTypeExecuted ConditionTrue ''ClusterResourcePlacementEvictionExecuted''"

definition markEvictionNotExecuted :: "'w evictor \<Rightarrow> string \<Rightarrow> EvictionObj \<Rightarrow> EvictionObj" where
  "markEvictionNotExecuted r =
     markEviction r EvictionTypeExecuted ConditionFalse ''ClusterResourcePlacementEvictionNotExecuted''"

lemmas mark_defs =
  markEvictionValid_def markEvictionInvalid_def markEvictionExecuted_def markEvictionNotExecuted_def

section \<open>Validation\<close>

record evictionValidationResult =
  vr_crp :: "Placement option"
  vr_crb :: "Binding option"
  vr_bindings :: "Binding list"
  isValid :: bool

definition invalidResult :: evictionValidationResult where
  "invalidResult = \<lparr>vr_crp = None, vr_crb = None, vr_bindings = [], isValid = False\<rparr>"

text \<open>The function sets the condition on the eviction it is given; it is returned with the result.\<close>

definition validateBindings ::
  "'w evictor \<Rightarrow> Placement \<Rightarrow> EvictionObj \<Rightarrow> Binding list \<Rightarrow> evictionValidationResult \<times> EvictionObj" where
  "validateBindings r crp ev items =
     (let result = invalidResult\<lparr>vr_crp := Some crp, vr_bindings := items\<rparr>
      in case filter (\<lambda>b. target b = EvictionClusterName ev) items of
           [] \<Rightarrow> (result, markEvictionInvalid r
                    ''Failed to find scheduler decision for placement in cluster targeted by eviction'' ev)
         | [b] \<Rightarrow> (result\<lparr>vr_crb := Some b, isValid := True\<rparr>, ev)
         | _ \<Rightarrow> (result, markEvictionInvalid r
                    ''Found more than one scheduler decision for placement in cluster targeted by eviction'' ev))"

definition validateEviction ::
  "'w evictor \<Rightarrow> EvictionObj \<Rightarrow> ('w, evictionValidationResult \<times> EvictionObj) prog" where
  "validateEviction r ev =
     (\<lambda>w. case getCRP r (PlacementName ev) w of
        (Inl e, w') \<Rightarrow>
          if e = ErrAPI NotFound
          then (Inr (invalidResult, markEvictionInvalid r
                  ''Failed to find ClusterResourcePlacement targeted by eviction'' ev), w')
          else (Inl (apiServerError True e), w')
      | (Inr obj, w') \<Rightarrow>
          (let crp = SetPlacementDefaults obj in
           if \<not> live crp
           then returnP (invalidResult, markEvictionInvalid r
                  ''Found deleting ClusterResourcePlacement targeted by eviction'' ev)
           else case PlacementPolicyOf crp of
             None \<Rightarrow> failP Panic
           | Some policy \<Rightarrow>
               if Type policy = PickFixedPlacementType
               then returnP (invalidResult, markEvictionInvalid r
                      ''Found ClusterResourcePlacement with PickFixed placement type targeted by eviction'' ev)
               else bindP (wrapP (apiServerError True) (listCRBs r (Name crp))) (\<lambda>items.
                      returnP (validateBindings r crp ev items))) w')"

section \<open>The disruption budget\<close>

definition isEvictionAllowed ::
  "'w evictor \<Rightarrow> Binding list \<Rightarrow> PlacementPolicy \<Rightarrow> DisruptionBudget \<Rightarrow> (bool \<times> int) result" where
  "isEvictionAllowed r bindings policy db =
     (let availableBindings = int (length (filter IsBindingAvailable bindings)) in
      bindR (if Type policy = PickNPlacementType
             then (case NumberOfClusters policy of None \<Rightarrow> Inl Panic | Some n \<Rightarrow> Inr n)
             else Inr 0) (\<lambda>desiredBindings.
      let disruptionsAllowed =
            (case db_MaxUnavailable db of
               Some v \<Rightarrow> GetScaledValue r v desiredBindings - (int (length bindings) - availableBindings)
             | None \<Rightarrow>
                 (case db_MinAvailable db of
                    Some v \<Rightarrow>
                      availableBindings - (if Type policy = PickAllPlacementType then IntValue r v
                                           else GetScaledValue r v desiredBindings)
                  | None \<Rightarrow> 0))
      in Inr (disruptionsAllowed > 0, availableBindings)))"

section \<open>Execution\<close>

definition deleteClusterResourceBinding :: "'w evictor \<Rightarrow> Binding \<Rightarrow> ('w, unit) prog" where
  "deleteClusterResourceBinding r b =
     (\<lambda>w. case deleteCRB r b w of
        (Inl e, w') \<Rightarrow> (case NewDeleteIgnoreNotFoundError (Some e) of None \<Rightarrow> (Inr (), w') | Some e' \<Rightarrow> (Inl e', w'))
      | (Inr _, w') \<Rightarrow> (Inr (), w'))"

definition pdbMessage :: "string \<Rightarrow> int \<Rightarrow> nat \<Rightarrow> string" where
  "pdbMessage verdict available totalBindings =
     ''Eviction is '' @ verdict @ '' by specified ClusterResourcePlacementDisruptionBudget, availablePlacements: ''
       @ itoa available @ '', totalPlacements: '' @ itoa (int totalBindings)"

definition budgetMisconfigured :: "PlacementPolicy \<Rightarrow> DisruptionBudget \<Rightarrow> bool" where
  "budgetMisconfigured policy db \<longleftrightarrow>
     Type policy = PickAllPlacementType \<and>
     (db_MaxUnavailable db \<noteq> None \<or>
      (case db_MinAvailable db of Some (StringVal _) \<Rightarrow> True | _ \<Rightarrow> False))"

definition evictWithBudget ::
  "'w evictor \<Rightarrow> PlacementPolicy \<Rightarrow> Binding \<Rightarrow> Binding list \<Rightarrow> DisruptionBudget \<Rightarrow> EvictionObj \<Rightarrow> ('w, EvictionObj) prog" where
  "evictWithBudget r policy b bindings db ev =
     (if budgetMisconfigured policy db
      then returnP (markEvictionNotExecuted r ''Eviction is blocked by misconfigured ClusterResourcePlacementDisruptionBudget, either MaxUnavailable is specified or MinAvailable is specified as a percentage for PickAll ClusterResourcePlacement'' ev)
      else bindP (liftP (isEvictionAllowed r bindings policy db)) (\<lambda>(allowed, availableBindings).
        if allowed
        then bindP (deleteClusterResourceBinding r b) (\<lambda>_.
               returnP (markEvictionExecuted r (pdbMessage ''allowed'' availableBindings (length bindings)) ev))
        else returnP (markEvictionNotExecuted r (pdbMessage ''blocked'' availableBindings (length bindings)) ev)))"

definition executeEviction ::
  "'w evictor \<Rightarrow> evictionValidationResult \<Rightarrow> EvictionObj \<Rightarrow> ('w, EvictionObj) prog" where
  "executeEviction r v ev =
     (case (vr_crp v, vr_crb v) of
        (Some crp, Some b) \<Rightarrow>
          if \<not> live b
          then returnP (markEvictionExecuted r ''Eviction is allowed, resources propagated by placement is currently being removed from cluster targeted by eviction'' ev)
          else if \<not> IsPlacementPresent b
          then returnP (markEvictionNotExecuted r ''Eviction is blocked, placement has not propagated resources to target cluster yet'' ev)
          else if HasBindingFailed b \<or> IsBindingDiffReported b
          then bindP (deleteClusterResourceBinding r b) (\<lambda>_.
                 returnP (markEvictionExecuted r ''Eviction is allowed, placement has failed'' ev))
          else (\<lambda>w. case getBudget r (Name crp) w of
             (Inl e, w') \<Rightarrow>
               if e = ErrAPI NotFound
               then bindP (deleteClusterResourceBinding r b) (\<lambda>_.
                      returnP (markEvictionExecuted r ''Eviction is allowed, no ClusterResourcePlacementDisruptionBudget specified'' ev)) w'
               else (Inl (apiServerError True e), w')
           | (Inr db, w') \<Rightarrow>
               (case PlacementPolicyOf crp of
                  None \<Rightarrow> failP Panic
                | Some policy \<Rightarrow> evictWithBudget r policy b (vr_bindings v) db ev) w')
      | _ \<Rightarrow> failP Panic)"

definition updateEvictionStatus :: "'w evictor \<Rightarrow> EvictionObj \<Rightarrow> ('w, unit) prog" where
  "updateEvictionStatus r ev = wrapP updateIgnoreConflictError (updateStatus r ev)"

definition ReconcileEviction :: "'w evictor \<Rightarrow> string \<Rightarrow> ('w, Result) prog" where
  "ReconcileEviction r name =
     (\<lambda>w. case getEviction r name w of
        (Inl e, w') \<Rightarrow> if e = ErrAPI NotFound then (Inr noRequeue, w') else (Inl e, w')
      | (Inr ev, w') \<Rightarrow>
          (if IsEvictionInTerminalState ev then returnP noRequeue
           else bindP (validateEviction r ev) (\<lambda>(v, ev').
             if \<not> isValid v then bindP (updateEvictionStatus r ev') (\<lambda>_. returnP noRequeue)
             else bindP (executeEviction r v (markEvictionValid r ev')) (\<lambda>ev''.
                  bindP (updateEvictionStatus r ev'') (\<lambda>_. returnP noRequeue)))) w')"

section \<open>Budgets hold\<close>

lemma available_remove1:
  "b \<in> set bs \<Longrightarrow> int (length (filter IsBindingAvailable bs)) - 1 \<le> int (length (filter IsBindingAvailable (remove1 b bs)))"
  by (induction bs) auto


text \<open>
  C34: The maximum of a budget is enforced against the bindings that exist, not against the number
  of clusters the placement asks for: when fewer clusters are bound than asked for, an eviction
  is allowed that leaves more placements down than the maximum.
\<close>

theorem max_unavailable_ignores_missing_bindings:
  assumes "Type policy = PickNPlacementType" and "NumberOfClusters policy = Some n"
    and "db_MaxUnavailable db = Some v" and "GetScaledValue r v n = k" and "0 < k"
    and "list_all IsBindingAvailable bs" and "int (length bs) < n - k + 1" and "b \<in> set bs"
  shows "isEvictionAllowed r bs policy db = Inr (True, int (length bs)) \<and>
    n - int (length (filter IsBindingAvailable (remove1 b bs))) > k"
proof -
  have all: "filter IsBindingAvailable bs = bs" using assms(6) by (simp add: filter_id_conv list_all_iff)
  moreover have "filter IsBindingAvailable (remove1 b bs) = remove1 b bs"
    using assms(6) by (auto simp: filter_id_conv list_all_iff dest: notin_set_remove1)
  moreover have "int (length (remove1 b bs)) = int (length bs) - 1"
    using assms(8) by (simp add: length_remove1) (metis Suc_pred length_pos_if_in_set of_nat_Suc add_diff_cancel_left')
  ultimately show ?thesis using assms by (simp add: isEvictionAllowed_def Let_def)
qed

section \<open>Status writes\<close>


definition terminalOnly :: "'w evictor \<Rightarrow> 'w evictor" where
  "terminalOnly r = r\<lparr>updateStatus := \<lambda>ev. if IsEvictionInTerminalState ev then updateStatus r ev else failP Panic\<rparr>"

lemma terminalOnly_fields [simp]:
  "getEviction (terminalOnly r) = getEviction r" "getCRP (terminalOnly r) = getCRP r" "listCRBs (terminalOnly r) = listCRBs r"
  "getBudget (terminalOnly r) = getBudget r" "deleteCRB (terminalOnly r) = deleteCRB r" "setCondition (terminalOnly r) = setCondition r"
  "GetScaledValue (terminalOnly r) = GetScaledValue r" "IntValue (terminalOnly r) = IntValue r"
  by (simp_all add: terminalOnly_def)

lemma terminalOnly_mark:
  "markEviction (terminalOnly r) = markEviction r" "markEvictionValid (terminalOnly r) = markEvictionValid r"
  "markEvictionInvalid (terminalOnly r) = markEvictionInvalid r"
  "markEvictionExecuted (terminalOnly r) = markEvictionExecuted r"
  "markEvictionNotExecuted (terminalOnly r) = markEvictionNotExecuted r"
proof -
  show "markEviction (terminalOnly r) = markEviction r" by (intro ext) (simp add: markEviction_def)
  then show "markEvictionValid (terminalOnly r) = markEvictionValid r"
    "markEvictionInvalid (terminalOnly r) = markEvictionInvalid r"
    "markEvictionExecuted (terminalOnly r) = markEvictionExecuted r"
    "markEvictionNotExecuted (terminalOnly r) = markEvictionNotExecuted r"
    by (simp_all add: mark_defs)
qed

lemma terminalOnly_validate: "validateEviction (terminalOnly r) = validateEviction r"
proof -
  have v: "validateBindings (terminalOnly r) = validateBindings r"
    by (intro ext) (unfold validateBindings_def terminalOnly_mark, rule refl)
  show ?thesis
    by (intro ext) (unfold validateEviction_def terminalOnly_mark terminalOnly_fields v, rule refl)
qed

lemma terminalOnly_execute: "executeEviction (terminalOnly r) = executeEviction r"
proof -
  have a: "isEvictionAllowed (terminalOnly r) = isEvictionAllowed r"
    by (intro ext) (unfold isEvictionAllowed_def terminalOnly_fields, rule refl)
  have d: "deleteClusterResourceBinding (terminalOnly r) = deleteClusterResourceBinding r"
    by (intro ext) (unfold deleteClusterResourceBinding_def terminalOnly_fields, rule refl)
  have e: "evictWithBudget (terminalOnly r) = evictWithBudget r"
    by (intro ext) (unfold evictWithBudget_def terminalOnly_mark a d, rule refl)
  show ?thesis
    by (intro ext) (unfold executeEviction_def terminalOnly_mark terminalOnly_fields d e, rule refl)
qed

lemma markEviction_condition:
  assumes "setsCondition (setCondition r)"
  shows "\<exists>t. EvictionConditions (markEviction r ty st re msg ev) ty =
    Some \<lparr>cond_Type = ty, cond_Status = st, cond_ObservedGeneration = Generation ev,
          cond_LastTransitionTime = t, cond_Reason = re, cond_Message = msg\<rparr>"
proof -
  let ?c = "\<lparr>cond_Type = ty, cond_Status = st, cond_ObservedGeneration = Generation ev,
          cond_LastTransitionTime = 0, cond_Reason = re, cond_Message = msg\<rparr>"
  obtain t where "setCondition r (EvictionConditions ev) ?c =
      (EvictionConditions ev)(cond_Type ?c \<mapsto> ?c\<lparr>cond_LastTransitionTime := t\<rparr>)"
    using assms unfolding setsCondition_def by blast
  then show ?thesis by (simp add: markEviction_def)
qed

lemma mark_terminal:
  assumes "setsCondition (setCondition r)"
  shows "IsEvictionInTerminalState (markEvictionInvalid r msg ev)"
    and "IsEvictionInTerminalState (markEvictionExecuted r msg ev)"
    and "IsEvictionInTerminalState (markEvictionNotExecuted r msg ev)"
proof -
  have "Generation (markEviction r ty st re msg ev) = Generation ev" for ty st re by (simp add: markEviction_def)
  then show "IsEvictionInTerminalState (markEvictionInvalid r msg ev)"
    using markEviction_condition[OF assms, of EvictionTypeValid ConditionFalse "''ClusterResourcePlacementEvictionInvalid''" msg ev]
    by (auto simp: IsEvictionInTerminalState_def mark_defs IsConditionStatusFalse_def)
  show "IsEvictionInTerminalState (markEvictionExecuted r msg ev)"
    "IsEvictionInTerminalState (markEvictionNotExecuted r msg ev)"
    using markEviction_condition[OF assms, of EvictionTypeExecuted _ _ msg ev]
    by (simp_all add: IsEvictionInTerminalState_def mark_defs) blast+
qed

lemma validateEviction_terminal:
  assumes "setsCondition (setCondition r)" and "validateEviction r ev w = (Inr (v, ev'), w')" and "\<not> isValid v"
  shows "IsEvictionInTerminalState ev'"
  using assms(2,3) mark_terminal(1)[OF assms(1)]
  by (auto simp: validateEviction_def validateBindings_def Let_def invalidResult_def bindP_eq
      split: prod.splits sum.splits if_splits option.splits list.splits)

lemma executeEviction_terminal:
  assumes "setsCondition (setCondition r)" and "executeEviction r v ev w = (Inr ev', w')"
  shows "IsEvictionInTerminalState ev'"
  using assms(2) mark_terminal(2,3)[OF assms(1)]
  by (auto simp: executeEviction_def evictWithBudget_def bindP_eq
      split: prod.splits sum.splits if_splits option.splits)


section \<open>Examples\<close>

definition exampleEvictor :: "'w evictor" where
  "exampleEvictor =
     \<lparr>getEviction = \<lambda>n. failP (ErrAPI NotFound), getCRP = \<lambda>n. returnP (examplePlacement None),
      listCRBs = \<lambda>n. returnP [], getBudget = \<lambda>n. failP (ErrAPI NotFound), deleteCRB = \<lambda>b. returnP (),
      updateStatus = \<lambda>ev. returnP (), setCondition = \<lambda>cs c. cs(cond_Type c \<mapsto> c),
      GetScaledValue = \<lambda>v n. (case v of IntVal k \<Rightarrow> k | StringVal s \<Rightarrow> (n + 3) div 4),
      IntValue = \<lambda>v. (case v of IntVal k \<Rightarrow> k | StringVal s \<Rightarrow> 0)\<rparr>"

definition exampleAvailable :: "string \<Rightarrow> Binding" where
  "exampleAvailable c =
     (exampleBinding (''crb-'' @ c) c BindingStateBound ''p-1'')\<lparr>BindingConditions :=
        [ResourceBindingAvailable \<mapsto>
           \<lparr>cond_Type = ResourceBindingAvailable, cond_Status = ConditionTrue, cond_ObservedGeneration = 1,
            cond_LastTransitionTime = 0, cond_Reason = ''AllWorkAreAvailable'', cond_Message = ''''\<rparr>]\<rparr>"

lemma exampleAvailable_available: "IsBindingAvailable (exampleAvailable c)"
  by (simp add: IsBindingAvailable_def exampleAvailable_def exampleBinding_def GetCondition_def IsConditionStatusTrue_def)

definition exampleBudget :: "IntOrString option \<Rightarrow> IntOrString option \<Rightarrow> DisruptionBudget" where
  "exampleBudget mx mn = \<lparr>db_MaxUnavailable = mx, db_MinAvailable = mn\<rparr>"


theorem max_unavailable_ignores_missing_bindings_witness:
  "let bs = [exampleAvailable ''a'', exampleAvailable ''b'']; policy = (examplePolicySpec PickNPlacementType)\<lparr>NumberOfClusters := Some 3\<rparr>
   in isEvictionAllowed (exampleEvictor :: nat evictor) bs policy (exampleBudget (Some (IntVal 1)) None) = Inr (True, 2) \<and>
      3 - int (length (filter IsBindingAvailable (remove1 (exampleAvailable ''a'') bs))) > 1"
  using max_unavailable_ignores_missing_bindings[of "(examplePolicySpec PickNPlacementType)\<lparr>NumberOfClusters := Some 3\<rparr>" 3
      "exampleBudget (Some (IntVal 1)) None" "IntVal 1" "exampleEvictor :: nat evictor" 1
      "[exampleAvailable ''a'', exampleAvailable ''b'']" "exampleAvailable ''a''"]
  by (simp add: Let_def examplePolicySpec_def exampleBudget_def exampleAvailable_available exampleEvictor_def)


end
