(* ===== verification/Queue.thy ===== *)
theory Queue
  imports Prelude
begin

text \<open>
  The scheduling queues (\<open>pkg/scheduler/queue\<close>). The rate limiting work queue of client-go is
  library code: the record \<open>workqueue\<close> of the operations the queues call. The Go interface
  \<open>PlacementSchedulingQueue\<close> is the record of its methods; the simple and the batched queue each
  give one. The locale \<open>work_queue\<close> states what the documentation of client-go promises of a work
  queue, the locale \<open>placement_queue\<close> what the interface promises of the keys that wait to be
  scheduled.
\<close>

section \<open>Work queues\<close>

record 'q workqueue =
  wqAdd :: "string \<Rightarrow> 'q \<Rightarrow> 'q"
  wqAddRateLimited :: "string \<Rightarrow> 'q \<Rightarrow> 'q"
  wqAddAfter :: "string \<Rightarrow> int \<Rightarrow> 'q \<Rightarrow> 'q"
  wqLen :: "'q \<Rightarrow> nat"
  wqGet :: "'q \<Rightarrow> (string \<times> bool) \<times> 'q"
  wqDone :: "string \<Rightarrow> 'q \<Rightarrow> 'q"
  wqForget :: "string \<Rightarrow> 'q \<Rightarrow> 'q"
  wqShutDown :: "'q \<Rightarrow> 'q"
  wqShutDownWithDrain :: "'q \<Rightarrow> 'q"
  wqShuttingDown :: "'q \<Rightarrow> bool"

record 's PlacementSchedulingQueue =
  qAdd :: "string \<Rightarrow> 's \<Rightarrow> 's"
  qAddRateLimited :: "string \<Rightarrow> 's \<Rightarrow> 's"
  qAddAfter :: "string \<Rightarrow> int \<Rightarrow> 's \<Rightarrow> 's"
  qAddBatched :: "string \<Rightarrow> 's \<Rightarrow> 's"
  qClose :: "'s \<Rightarrow> 's"
  qCloseWithDrain :: "'s \<Rightarrow> 's"
  NextPlacementKey :: "'s \<Rightarrow> (string \<times> bool) \<times> 's"
  qDone :: "string \<Rightarrow> 's \<Rightarrow> 's"
  qForget :: "string \<Rightarrow> 's \<Rightarrow> 's"

definition nextKeyOf :: "(string \<times> bool) \<times> 'q \<Rightarrow> (string \<times> bool) \<times> 'q" where
  "nextKeyOf r = (case r of ((placementKey, shutdown), q) \<Rightarrow>
     (if shutdown then ('''', True) else (placementKey, False), q))"

section \<open>The simple queue\<close>

definition simplePlacementSchedulingQueue :: "'q workqueue \<Rightarrow> 'q PlacementSchedulingQueue" where
  "simplePlacementSchedulingQueue wq =
     \<lparr>qAdd = wqAdd wq, qAddRateLimited = wqAddRateLimited wq, qAddAfter = wqAddAfter wq,
      qAddBatched = wqAdd wq, qClose = wqShutDown wq, qCloseWithDrain = wqShutDownWithDrain wq,
      NextPlacementKey = (\<lambda>q. nextKeyOf (wqGet wq q)), qDone = wqDone wq, qForget = wqForget wq\<rparr>"

section \<open>The batched queue\<close>

definition maxNumberOfKeysToMoveFromBatchedToActiveQueuePerGo :: nat where
  "maxNumberOfKeysToMoveFromBatchedToActiveQueuePerGo = 20000"

record 'q batchedQueue =
  active :: 'q
  batched :: 'q
  moveNowClosed :: bool

definition onActive :: "('q \<Rightarrow> 'q) \<Rightarrow> 'q batchedQueue \<Rightarrow> 'q batchedQueue" where
  "onActive f bq = bq\<lparr>active := f (active bq)\<rparr>"

definition onBatched :: "('q \<Rightarrow> 'q) \<Rightarrow> 'q batchedQueue \<Rightarrow> 'q batchedQueue" where
  "onBatched f bq = bq\<lparr>batched := f (batched bq)\<rparr>"

definition batchedProcessingPlacementSchedulingQueue ::
  "'q workqueue \<Rightarrow> 'q batchedQueue PlacementSchedulingQueue" where
  "batchedProcessingPlacementSchedulingQueue wq =
     \<lparr>qAdd = (\<lambda>k. onActive (wqAdd wq k)), qAddRateLimited = (\<lambda>k. onActive (wqAddRateLimited wq k)),
      qAddAfter = (\<lambda>k d. onActive (wqAddAfter wq k d)), qAddBatched = (\<lambda>k. onBatched (wqAdd wq k)),
      qClose = (\<lambda>bq. onActive (wqShutDown wq) (onBatched (wqShutDown wq) (bq\<lparr>moveNowClosed := True\<rparr>))),
      qCloseWithDrain =
        (\<lambda>bq. onActive (wqShutDownWithDrain wq) (onBatched (wqShutDownWithDrain wq) (bq\<lparr>moveNowClosed := True\<rparr>))),
      NextPlacementKey =
        (\<lambda>bq. case nextKeyOf (wqGet wq (active bq)) of (r, q) \<Rightarrow> (r, bq\<lparr>active := q\<rparr>)),
      qDone = (\<lambda>k. onActive (wqDone wq k)), qForget = (\<lambda>k. onActive (wqForget wq k))\<rparr>"

text \<open>
  The loop that pops keys ends once it has popped one key more than the cap, so the number of
  keys it may still pop, \<open>Suc cap\<close> at the start, is the bound of the recursion.
\<close>

fun popBatched :: "'q workqueue \<Rightarrow> nat \<Rightarrow> 'q \<Rightarrow> string list \<Rightarrow> string list \<times> 'q" where
  "popBatched wq 0 q keysToMove = (keysToMove, q)"
| "popBatched wq (Suc n) q keysToMove =
     (if wqLen wq q > 0 then
        (case wqGet wq q of ((placementKey, shutdown), q') \<Rightarrow>
           if shutdown then (keysToMove, q') else popBatched wq n q' (keysToMove @ [placementKey]))
      else (keysToMove, q))"

definition moveKey :: "'q workqueue \<Rightarrow> 'q batchedQueue \<Rightarrow> string \<Rightarrow> 'q batchedQueue" where
  "moveKey wq bq key = onBatched (wqForget wq key) (onBatched (wqDone wq key) (onActive (wqAdd wq key) bq))"

definition moveAllBatchedItemsToActiveQueue :: "'q workqueue \<Rightarrow> 'q batchedQueue \<Rightarrow> 'q batchedQueue" where
  "moveAllBatchedItemsToActiveQueue wq bq =
     (case popBatched wq (Suc maxNumberOfKeysToMoveFromBatchedToActiveQueuePerGo) (batched bq) [] of
        (keysToMove, q) \<Rightarrow> foldl (moveKey wq) (bq\<lparr>batched := q\<rparr>) keysToMove)"

text \<open>
  One iteration of the mover goroutine. A receive from a channel yields a value and whether the
  value was sent: it is false when the channel is closed and empty, which the code takes for the
  channel being open. The first component tells whether the goroutine returns.
\<close>

datatype moverEvent = MoveNow | TimerFired

definition receiveMoveNow :: "'q batchedQueue \<Rightarrow> bool" where
  "receiveMoveNow bq = (\<not> moveNowClosed bq)"

definition moverIteration :: "'q workqueue \<Rightarrow> moverEvent \<Rightarrow> 'q batchedQueue \<Rightarrow> bool \<times> 'q batchedQueue" where
  "moverIteration wq ev bq =
     (case ev of
        MoveNow \<Rightarrow>
          (let closed = receiveMoveNow bq
           in (closed \<and> wqShuttingDown wq (batched bq), moveAllBatchedItemsToActiveQueue wq bq))
      | TimerFired \<Rightarrow> (False, moveAllBatchedItemsToActiveQueue wq bq))"

text \<open>
  Nothing is ever sent on the channel: the receive is only possible once it is closed. The steps
  of the mover goroutine, of writers and of the close calls.
\<close>

inductive moverStep :: "'q workqueue \<Rightarrow> bool \<times> 'q batchedQueue \<Rightarrow> bool \<times> 'q batchedQueue \<Rightarrow> bool" for wq where
  receive: "moveNowClosed bq \<Longrightarrow> moverStep wq (False, bq) (moverIteration wq MoveNow bq)"
| timer: "moverStep wq (False, bq) (moverIteration wq TimerFired bq)"
| add_batched: "moverStep wq (e, bq) (e, qAddBatched (batchedProcessingPlacementSchedulingQueue wq) k bq)"
| add: "moverStep wq (e, bq) (e, qAdd (batchedProcessingPlacementSchedulingQueue wq) k bq)"
| close: "\<not> moveNowClosed bq \<Longrightarrow> moverStep wq (e, bq) (e, qClose (batchedProcessingPlacementSchedulingQueue wq) bq)"
| close_drain: "\<not> moveNowClosed bq \<Longrightarrow>
    moverStep wq (e, bq) (e, qCloseWithDrain (batchedProcessingPlacementSchedulingQueue wq) bq)"

inductive_cases moverStepE: "moverStep wq s s'"

section \<open>The contract of a work queue\<close>

text \<open>
  \<open>pending\<close> are the keys that need processing, \<open>inProgress\<close> those handed out and not done yet. A
  key that is added while it is in progress stays pending and is handed out again once it is done;
  the length counts the pending keys that are not in progress.
\<close>

locale work_queue =
  fixes wq :: "'q workqueue" and pending :: "'q \<Rightarrow> string set" and inProgress :: "'q \<Rightarrow> string set"
  assumes finite_pending: "finite (pending q)"
    and len: "wqLen wq q = card (pending q - inProgress q)"
    and add: "\<not> wqShuttingDown wq q \<Longrightarrow> pending (wqAdd wq k q) = insert k (pending q)"
    and add_closed: "wqShuttingDown wq q \<Longrightarrow> pending (wqAdd wq k q) = pending q"
    and add_progress: "inProgress (wqAdd wq k q) = inProgress q"
    and add_shutting: "wqShuttingDown wq (wqAdd wq k q) = wqShuttingDown wq q"
    and get: "0 < wqLen wq q \<Longrightarrow> \<exists>k q'. wqGet wq q = ((k, False), q') \<and> k \<in> pending q - inProgress q \<and>
        pending q' = pending q - {k} \<and> inProgress q' = insert k (inProgress q) \<and>
        wqShuttingDown wq q' = wqShuttingDown wq q"
    and mark_done: "pending (wqDone wq k q) = pending q" "inProgress (wqDone wq k q) = inProgress q - {k}"
      "wqShuttingDown wq (wqDone wq k q) = wqShuttingDown wq q"
    and forget: "pending (wqForget wq k q) = pending q" "inProgress (wqForget wq k q) = inProgress q"
      "wqShuttingDown wq (wqForget wq k q) = wqShuttingDown wq q"

text \<open>
  What the interface promises: the keys that wait to be scheduled, and whether the queue still
  accepts keys.
\<close>

locale placement_queue =
  fixes pq :: "'s PlacementSchedulingQueue" and waiting :: "'s \<Rightarrow> string set" and isOpen :: "'s \<Rightarrow> bool"
  assumes q_add: "isOpen s \<Longrightarrow> waiting (qAdd pq k s) = insert k (waiting s)"
    and q_add_batched: "isOpen s \<Longrightarrow> waiting (qAddBatched pq k s) = insert k (waiting s)"
    and q_done: "waiting (qDone pq k s) = waiting s" "isOpen (qDone pq k s) = isOpen s"
    and q_forget: "waiting (qForget pq k s) = waiting s" "isOpen (qForget pq k s) = isOpen s"
begin

lemma requeued_key_waits: "isOpen s \<Longrightarrow> waiting (qDone pq k (qAdd pq k (qForget pq k s))) = insert k (waiting s)"
  by (simp add: q_add q_done q_forget)

lemma dropped_key: "waiting (qDone pq k (qForget pq k s)) = waiting s"
  by (simp add: q_done q_forget)

end

definition simpleOpen :: "'q workqueue \<Rightarrow> 'q \<Rightarrow> bool" where
  "simpleOpen wq q \<longleftrightarrow> \<not> wqShuttingDown wq q"

definition batchedWaiting :: "('q \<Rightarrow> string set) \<Rightarrow> 'q batchedQueue \<Rightarrow> string set" where
  "batchedWaiting pending bq = pending (active bq) \<union> pending (batched bq)"

definition batchedOpen :: "'q workqueue \<Rightarrow> 'q batchedQueue \<Rightarrow> bool" where
  "batchedOpen wq bq \<longleftrightarrow> \<not> wqShuttingDown wq (active bq) \<and> \<not> wqShuttingDown wq (batched bq)"

sublocale work_queue \<subseteq> simple: placement_queue "simplePlacementSchedulingQueue wq" pending "simpleOpen wq"
  by unfold_locales (simp_all add: simplePlacementSchedulingQueue_def simpleOpen_def add mark_done forget)

sublocale work_queue \<subseteq> both: placement_queue "batchedProcessingPlacementSchedulingQueue wq"
  "batchedWaiting pending" "batchedOpen wq"
  by unfold_locales
    (auto simp: batchedProcessingPlacementSchedulingQueue_def batchedWaiting_def batchedOpen_def onActive_def
      onBatched_def add mark_done forget)

context work_queue
begin

text \<open>Popping: every popped key was pending and is now in progress; the rest is untouched.\<close>

lemma popBatched_spec:
  assumes "popBatched wq n q ks = (ks', q')" and "distinct ks" and "set ks \<subseteq> inProgress q"
  shows "set ks \<subseteq> set ks' \<and> distinct ks' \<and> set ks' \<subseteq> inProgress q' \<and>
    pending q' \<union> (set ks' - set ks) = pending q \<and> inProgress q' - set ks' = inProgress q - set ks' \<and>
    (n \<ge> card (pending q - inProgress q) \<longrightarrow> pending q' \<subseteq> inProgress q) \<and>
    wqShuttingDown wq q' = wqShuttingDown wq q"
  using assms
proof (induction n arbitrary: q ks)
  case 0
  then show ?case using finite_pending[of q] by auto
next
  case (Suc n)
  show ?case
  proof (cases "wqLen wq q > 0")
    case True
    then obtain k q1 where g: "wqGet wq q = ((k, False), q1)" "k \<in> pending q - inProgress q"
      "pending q1 = pending q - {k}" "inProgress q1 = insert k (inProgress q)"
      "wqShuttingDown wq q1 = wqShuttingDown wq q" using get by blast
    have pop: "popBatched wq n q1 (ks @ [k]) = (ks', q')" using Suc.prems(1) True g(1) by simp
    have "distinct (ks @ [k])" "set (ks @ [k]) \<subseteq> inProgress q1" using Suc.prems(2,3) g by auto
    note ih = Suc.IH[OF pop this]
    have "pending q1 - inProgress q1 = (pending q - inProgress q) - {k}" using g by auto
    then have "card (pending q1 - inProgress q1) = card (pending q - inProgress q) - 1"
      using g(2) finite_pending[of q] by simp
    then have "Suc n \<ge> card (pending q - inProgress q) \<Longrightarrow> pending q' \<subseteq> inProgress q1" using ih by simp
    moreover have "k \<notin> pending q'"
    proof
      assume "k \<in> pending q'"
      then have "k \<in> pending q1" using ih by blast
      then show False using g(3) by simp
    qed
    ultimately show ?thesis using ih g Suc.prems(3) by auto
  next
    case False
    then have "pending q - inProgress q = {}" using len[of q] finite_pending[of q] by simp
    with False Suc.prems show ?thesis by auto
  qed
qed

lemma moveKeys_spec:
  assumes "\<not> wqShuttingDown wq (active bq)"
  shows "pending (active (foldl (moveKey wq) bq ks)) = pending (active bq) \<union> set ks \<and>
    pending (batched (foldl (moveKey wq) bq ks)) = pending (batched bq) \<and>
    inProgress (batched (foldl (moveKey wq) bq ks)) = inProgress (batched bq) - set ks"
  using assms
proof (induction ks arbitrary: bq)
  case (Cons k ks)
  let ?b = "moveKey wq bq k"
  have b: "pending (active ?b) = insert k (pending (active bq))" "pending (batched ?b) = pending (batched bq)"
    "inProgress (batched ?b) = inProgress (batched bq) - {k}" "\<not> wqShuttingDown wq (active ?b)"
    using Cons.prems by (simp_all add: moveKey_def onActive_def onBatched_def add mark_done forget add_shutting)
  from Cons.IH[OF b(4)] b(1-3) show ?case by auto
qed simp

lemma move_no_key_lost:
  assumes "\<not> wqShuttingDown wq (active bq)" and "inProgress (batched bq) = {}"
  shows "batchedWaiting pending (moveAllBatchedItemsToActiveQueue wq bq) = batchedWaiting pending bq \<and>
    inProgress (batched (moveAllBatchedItemsToActiveQueue wq bq)) = {} \<and>
    (card (pending (batched bq)) \<le> Suc maxNumberOfKeysToMoveFromBatchedToActiveQueuePerGo \<longrightarrow>
       pending (active (moveAllBatchedItemsToActiveQueue wq bq)) = batchedWaiting pending bq \<and>
       pending (batched (moveAllBatchedItemsToActiveQueue wq bq)) = {})"
proof -
  obtain ks q where pop: "popBatched wq (Suc maxNumberOfKeysToMoveFromBatchedToActiveQueuePerGo) (batched bq) [] = (ks, q)"
    by fastforce
  from popBatched_spec[OF this] assms(2) have s: "pending q \<union> set ks = pending (batched bq)"
    "inProgress q = set ks \<union> {}"
    "card (pending (batched bq)) \<le> Suc maxNumberOfKeysToMoveFromBatchedToActiveQueuePerGo \<longrightarrow> pending q = {}"
    by auto
  have "moveAllBatchedItemsToActiveQueue wq bq = foldl (moveKey wq) (bq\<lparr>batched := q\<rparr>) ks"
    by (simp add: moveAllBatchedItemsToActiveQueue_def pop del: popBatched.simps)
  with moveKeys_spec[of "bq\<lparr>batched := q\<rparr>" ks] assms(1) s show ?thesis
    by (auto simp: batchedWaiting_def)
qed

end

section \<open>Properties\<close>

text \<open>
  C15: Moving the batched keys to the active queue loses none: the keys waiting in either queue are
  the same before and after, also when the cap stops the move early, and up to the cap all of them
  end in the active queue with the batched queue empty.
\<close>

theorem batched_move_loses_no_key:
  assumes "work_queue wq pending inProgress"
    and "\<not> wqShuttingDown wq (active bq)" and "inProgress (batched bq) = {}"
    and "bq' = moveAllBatchedItemsToActiveQueue wq bq"
  shows "pending (active bq') \<union> pending (batched bq') = pending (active bq) \<union> pending (batched bq) \<and>
    inProgress (batched bq') = {} \<and>
    (card (pending (batched bq)) \<le> Suc maxNumberOfKeysToMoveFromBatchedToActiveQueuePerGo \<longrightarrow>
       pending (active bq') = pending (active bq) \<union> pending (batched bq) \<and> pending (batched bq') = {})"
  using work_queue.move_no_key_lost[OF assms(1-3)] by (simp add: assms(4) batchedWaiting_def)

lemma moverIteration_continues: "moveNowClosed bq \<or> ev = TimerFired \<Longrightarrow> \<not> fst (moverIteration wq ev bq)"
  by (cases ev) (auto simp: moverIteration_def receiveMoveNow_def)

text \<open>
  C32: The mover goroutine never returns, not even after the queue has been closed: the flag of the
  channel receive is read as "closed", but Go sets it when a value was sent, and nothing is sent.
\<close>

theorem mover_never_stops:
  assumes "(moverStep wq)\<^sup>*\<^sup>* (False, bq) (stopped, bq')"
  shows "\<not> stopped"
proof -
  have "\<not> fst s'" if "(moverStep wq)\<^sup>*\<^sup>* s s'" "\<not> fst s" for s s'
    using that
  proof (induction rule: rtranclp_induct)
    case (step y z)
    then show ?case by (auto elim!: moverStepE simp: moverIteration_continues)
  qed simp
  from this[OF assms] show ?thesis by simp
qed

section \<open>A reference work queue\<close>

text \<open>
  A work queue with the documented behaviour, for the witnesses: the pending keys in the order
  they were added, the keys in progress, and whether it is shutting down.
\<close>

type_synonym refQueue = "string list \<times> string set \<times> bool"

definition refReady :: "refQueue \<Rightarrow> string list" where
  "refReady q = (case q of (dirty, busy, _) \<Rightarrow> filter (\<lambda>k. k \<notin> busy) (remdups dirty))"

definition refAdd :: "string \<Rightarrow> refQueue \<Rightarrow> refQueue" where
  "refAdd k q = (case q of (dirty, busy, shut) \<Rightarrow>
     if shut \<or> k \<in> set dirty then q else (dirty @ [k], busy, shut))"

definition referenceQueue :: "refQueue workqueue" where
  "referenceQueue =
     \<lparr>wqAdd = refAdd, wqAddRateLimited = refAdd, wqAddAfter = (\<lambda>k _. refAdd k),
      wqLen = (\<lambda>q. length (refReady q)),
      wqGet = (\<lambda>q. case q of (dirty, busy, shut) \<Rightarrow>
        (case refReady q of
           [] \<Rightarrow> (('''', True), q)
         | k # _ \<Rightarrow> ((k, False), (removeAll k dirty, insert k busy, shut)))),
      wqDone = (\<lambda>k (dirty, busy, shut). (dirty, busy - {k}, shut)), wqForget = (\<lambda>_ q. q),
      wqShutDown = (\<lambda>(dirty, busy, _). (dirty, busy, True)),
      wqShutDownWithDrain = (\<lambda>(dirty, busy, _). (dirty, busy, True)),
      wqShuttingDown = (\<lambda>(_, _, shut). shut)\<rparr>"

definition refPending :: "refQueue \<Rightarrow> string set" where
  "refPending q = set (fst q)"

definition refInProgress :: "refQueue \<Rightarrow> string set" where
  "refInProgress q = fst (snd q)"

interpretation reference: work_queue referenceQueue refPending refInProgress
proof unfold_locales
  fix q :: refQueue and k
  obtain dirty busy shut where q: "q = (dirty, busy, shut)" by (cases q)
  have "length (filter (\<lambda>k. k \<notin> busy) (remdups dirty)) = card (set dirty - busy)"
    by (simp add: distinct_card[symmetric] set_diff_eq)
  then show "wqLen referenceQueue q = card (refPending q - refInProgress q)"
    by (simp add: q referenceQueue_def refReady_def refPending_def refInProgress_def)
  show "\<exists>k q'. wqGet referenceQueue q = ((k, False), q') \<and> k \<in> refPending q - refInProgress q \<and>
      refPending q' = refPending q - {k} \<and> refInProgress q' = insert k (refInProgress q) \<and>
      wqShuttingDown referenceQueue q' = wqShuttingDown referenceQueue q"
    if "0 < wqLen referenceQueue q"
  proof (cases "refReady q")
    case Nil
    with that show ?thesis by (simp add: referenceQueue_def)
  next
    case (Cons k ks)
    then have "k \<in> set (refReady q)" by simp
    then have "k \<in> set dirty" "k \<notin> busy" by (simp_all add: q refReady_def)
    with Cons show ?thesis by (auto simp: q referenceQueue_def refReady_def refPending_def refInProgress_def)
  qed
qed (auto simp: referenceQueue_def refAdd_def refPending_def refInProgress_def split: if_splits)

lemmas reference_defs =
  referenceQueue_def refAdd_def refReady_def refPending_def refInProgress_def

definition exampleBatched :: "refQueue batchedQueue" where
  "exampleBatched = \<lparr>active = ([''a''], {}, False), batched = ([''b'', ''a''], {}, False), moveNowClosed = False\<rparr>"

theorem batched_move_loses_no_key_witness:
  "refPending (active (moveAllBatchedItemsToActiveQueue referenceQueue exampleBatched)) = {''a'', ''b''} \<and>
   refPending (batched (moveAllBatchedItemsToActiveQueue referenceQueue exampleBatched)) = {}"
proof -
  have "\<not> wqShuttingDown referenceQueue (active exampleBatched)" "refInProgress (batched exampleBatched) = {}"
    "refPending (active exampleBatched) \<union> refPending (batched exampleBatched) = {''a'', ''b''}"
    "card (refPending (batched exampleBatched)) \<le> Suc maxNumberOfKeysToMoveFromBatchedToActiveQueuePerGo"
    by (auto simp: exampleBatched_def reference_defs maxNumberOfKeysToMoveFromBatchedToActiveQueuePerGo_def)
  then show ?thesis
    using batched_move_loses_no_key[OF reference.work_queue_axioms _ _ refl, of exampleBatched] by simp
qed

theorem mover_never_stops_witness:
  "\<exists>stopped bq'. (moverStep referenceQueue)\<^sup>*\<^sup>* (False, exampleBatched) (stopped, bq') \<and> moveNowClosed bq' \<and> \<not> stopped"
proof -
  let ?b = "qCloseWithDrain (batchedProcessingPlacementSchedulingQueue referenceQueue) exampleBatched"
  have "moverStep referenceQueue (False, exampleBatched) (False, ?b)"
    by (rule moverStep.close_drain) (simp add: exampleBatched_def)
  then have "(moverStep referenceQueue)\<^sup>*\<^sup>* (False, exampleBatched) (False, ?b)" by blast
  moreover have "moveNowClosed ?b"
    by (simp add: batchedProcessingPlacementSchedulingQueue_def onActive_def onBatched_def)
  ultimately show ?thesis using mover_never_stops[of referenceQueue exampleBatched False ?b] by blast
qed

end
