(* ===== verification/Scheduler.thy ===== *)
theory Scheduler
  imports Queue Framework_Props Policy_Snapshots
begin

text \<open>
  The scheduler loop (\<open>pkg/scheduler/scheduler.go\<close>) around the scheduling framework and the
  queue. The queue is a part of the world, so its
  methods act on worlds like the calls of the API server. Metrics and logging are left out; the
  worker goroutines are calls of \<open>scheduleOnce\<close> one after the other.
\<close>

section \<open>The scheduler\<close>

record 'w scheduler =
  schedFramework :: "'w framework"
  queue :: "'w PlacementSchedulingQueue"
  readPlacement :: "string \<Rightarrow> string \<Rightarrow> ('w, Placement) prog"
  updatePlacementObj :: "Placement \<Rightarrow> ('w, unit) prog"
  updateBindingObj :: "Binding \<Rightarrow> ('w, Binding) prog"
  deleteBindingObj :: "Binding \<Rightarrow> ('w, unit) prog"
  listLatestPolicySnapshots :: "string \<Rightarrow> string \<Rightarrow> ('w, PolicySnapshot list) prog"
  uncachedReader :: "'w hub"

text \<open>The update returns the stored binding, whose deletion timestamp decides about the deletion.\<close>

definition cleanUpBinding :: "'w scheduler \<Rightarrow> Binding \<Rightarrow> ('w, unit) prog" where
  "cleanUpBinding s b =
     bindP (wrapP updateIgnoreConflictError
              (updateBindingObj s (RemoveFinalizer SchedulerBindingCleanupFinalizer b))) (\<lambda>b'.
       if live b' then
         (\<lambda>w. case deleteBindingObj s b' w of
            (Inl e, w') \<Rightarrow> if e = ErrAPI NotFound then (Inr (), w') else (Inl (apiServerError False e), w')
          | (Inr _, w') \<Rightarrow> (Inr (), w'))
       else returnP ())"

fun cleanUpBindings :: "'w scheduler \<Rightarrow> Binding list \<Rightarrow> ('w, unit) prog" where
  "cleanUpBindings s [] = returnP ()"
| "cleanUpBindings s (b # bs) = bindP (cleanUpBinding s b) (\<lambda>_. cleanUpBindings s bs)"

definition cleanUpAllBindingsFor :: "'w scheduler \<Rightarrow> Placement \<Rightarrow> ('w, unit) prog" where
  "cleanUpAllBindingsFor s p =
     bindP (ListBindingsFromKey (uncachedReader s) (Namespace p) (Name p) False) (\<lambda>bindings.
     bindP (cleanUpBindings s bindings) (\<lambda>_.
     wrapP updateIgnoreConflictError (updatePlacementObj s (RemoveFinalizer SchedulerCleanupFinalizer p))))"

definition addSchedulerCleanUpFinalizer :: "'w scheduler \<Rightarrow> Placement \<Rightarrow> ('w, unit) prog" where
  "addSchedulerCleanUpFinalizer s p =
     (if SchedulerCleanupFinalizer \<notin> set (Finalizers p)
      then wrapP updateIgnoreConflictError (updatePlacementObj s (AddFinalizer SchedulerCleanupFinalizer p))
      else returnP ())"

definition onQueue :: "('w \<Rightarrow> 'w) \<Rightarrow> ('w, unit) prog" where
  "onQueue f = (\<lambda>w. (Inr (), f w))"

definition scheduleDeleting :: "'w scheduler \<Rightarrow> string \<Rightarrow> Placement \<Rightarrow> ('w, unit) prog" where
  "scheduleDeleting s key p =
     (if SchedulerCleanupFinalizer \<in> set (Finalizers p) then
        (\<lambda>w. case cleanUpAllBindingsFor s p w of
           (Inl e, w') \<Rightarrow>
             if e = ErrUnexpectedBehavior then (Inr (), w') else onQueue (qAddRateLimited (queue s) key) w'
         | (Inr _, w') \<Rightarrow> onQueue (qForget (queue s) key) w')
      else onQueue (qForget (queue s) key))"

definition finishCycle :: "'w scheduler \<Rightarrow> string \<Rightarrow> Result result \<Rightarrow> ('w, unit) prog" where
  "finishCycle s key r =
     (case r of
        Inl e \<Rightarrow>
          if e = Panic then failP Panic
          else if e = ErrUnexpectedBehavior then returnP ()
          else onQueue (qAddRateLimited (queue s) key)
      | Inr res \<Rightarrow>
          if Requeue res then
            (if RequeueAfter res > 0 then onQueue (qAddAfter (queue s) key (RequeueAfter res))
             else onQueue (\<lambda>w. qAdd (queue s) key (qForget (queue s) key w)))
          else onQueue (qForget (queue s) key))"

definition scheduleActive :: "'w scheduler \<Rightarrow> string \<Rightarrow> Placement \<Rightarrow> ('w, unit) prog" where
  "scheduleActive s key p =
     (\<lambda>w. case LookupLatestPolicySnapshot (listLatestPolicySnapshots s) (Namespace p) (Name p) w of
        (Inl e, w') \<Rightarrow> onQueue (qForget (queue s) key) w'
      | (Inr latestPolicySnapshot, w') \<Rightarrow>
          (case addSchedulerCleanUpFinalizer s p w' of
             (Inl e, w'') \<Rightarrow> onQueue (qAddRateLimited (queue s) key) w''
           | (Inr _, w'') \<Rightarrow>
               (case RunSchedulingCycleFor (schedFramework s) key latestPolicySnapshot w'' of
                  (r, w3) \<Rightarrow> finishCycle s key r w3)))"

definition scheduleKey :: "'w scheduler \<Rightarrow> string \<Rightarrow> ('w, unit) prog" where
  "scheduleKey s key =
     (\<lambda>w. case FetchPlacementFromKey (readPlacement s) key w of
        (Inl e, w') \<Rightarrow>
          if e = ErrAPI NotFound then (Inr (), w')
          else if e = ErrUnexpectedBehavior then (Inr (), w')
          else onQueue (qAddRateLimited (queue s) key) w'
      | (Inr p, w') \<Rightarrow> if \<not> live p then scheduleDeleting s key p w' else scheduleActive s key p w')"

text \<open>The deferred call marks the key as done on every path, a crash included.\<close>

definition scheduleOnce :: "'w scheduler \<Rightarrow> ('w, unit) prog" where
  "scheduleOnce s =
     (\<lambda>w. case NextPlacementKey (queue s) w of
        ((placementKey, isClosed), w') \<Rightarrow>
          if isClosed then (Inr (), w')
          else case scheduleKey s placementKey w' of (r, w'') \<Rightarrow> (r, qDone (queue s) placementKey w''))"

section \<open>Cleaning up a deleted placement\<close>

text \<open>
  What the API server promises about deletions: \<open>gone\<close> of a binding name holds once the binding is
  deleted or marked for deletion, and then it stays so.
\<close>

definition deletionContract :: "'w scheduler \<Rightarrow> ('w \<Rightarrow> string \<Rightarrow> bool) \<Rightarrow> bool" where
  "deletionContract s gone \<longleftrightarrow>
     (\<forall>b w b' w'. updateBindingObj s b w = (Inr b', w') \<longrightarrow>
        Name b' = Name b \<and> (\<not> live b' \<longrightarrow> gone w' (Name b)) \<and> (\<forall>n. gone w n \<longrightarrow> gone w' n)) \<and>
     (\<forall>b w r w'. deleteBindingObj s b w = (r, w') \<longrightarrow>
        (r = Inr () \<or> r = Inl (ErrAPI NotFound) \<longrightarrow> gone w' (Name b)) \<and> (\<forall>n. gone w n \<longrightarrow> gone w' n))"

lemma cleanUpBinding_gone:
  assumes "deletionContract s gone" and "cleanUpBinding s b w = (Inr (), w')"
  shows "gone w' (Name b) \<and> (\<forall>n. gone w n \<longrightarrow> gone w' n)"
proof -
  obtain b1 w1 where u: "updateBindingObj s (RemoveFinalizer SchedulerBindingCleanupFinalizer b) w = (Inr b1, w1)"
    and rest: "(if live b1 then (\<lambda>w. case deleteBindingObj s b1 w of
            (Inl e, w') \<Rightarrow> if e = ErrAPI NotFound then (Inr (), w') else (Inl (apiServerError False e), w')
          | (Inr _, w') \<Rightarrow> (Inr (), w')) else returnP ()) w1 = (Inr (), w')"
    using assms(2) by (auto simp: cleanUpBinding_def dest!: bindP_InrD)
  have c1: "Name b1 = Name b" "\<not> live b1 \<longrightarrow> gone w1 (Name b)" "\<forall>n. gone w n \<longrightarrow> gone w1 n"
    using assms(1) u by (force simp: deletionContract_def RemoveFinalizer_def)+
  show ?thesis
  proof (cases "live b1")
    case True
    obtain r where d: "deleteBindingObj s b1 w1 = (r, w')" "r = Inr () \<or> r = Inl (ErrAPI NotFound)"
      using rest True by (auto split: prod.splits sum.splits if_splits)
    then have "gone w' (Name b1) \<and> (\<forall>n. gone w1 n \<longrightarrow> gone w' n)"
      using assms(1) unfolding deletionContract_def by blast
    with c1 show ?thesis by simp
  next
    case False
    then show ?thesis using rest c1 by auto
  qed
qed

lemma cleanUpBindings_gone:
  assumes "deletionContract s gone" and "cleanUpBindings s bs w = (Inr (), w')"
  shows "(\<forall>b\<in>set bs. gone w' (Name b)) \<and> (\<forall>n. gone w n \<longrightarrow> gone w' n)"
  using assms(2)
proof (induction bs arbitrary: w)
  case (Cons b bs)
  then obtain w1 where "cleanUpBinding s b w = (Inr (), w1)" "cleanUpBindings s bs w1 = (Inr (), w')"
    by (auto dest!: bindP_InrD)
  with Cons.IH cleanUpBinding_gone[OF assms(1)] show ?case by fastforce
qed simp

lemma cleanUpBindings_update [simp]:
  "cleanUpBindings (s\<lparr>updatePlacementObj := f\<rparr>) bs = cleanUpBindings s bs"
  by (induction bs) (simp_all add: cleanUpBinding_def cong: if_cong)

text \<open>
  C16: A deleted placement is released only after its bindings: whenever the cleanup reaches the
  update that removes the placement's finalizer, every binding that was listed is deleted or
  marked for deletion. An update that refuses to run otherwise makes no difference.
\<close>

theorem placement_released_last:
  assumes "deletionContract s gone"
    and "ListBindingsFromKey (uncachedReader s) (Namespace p) (Name p) False w = (Inr bs, w1)"
  shows "cleanUpAllBindingsFor (s\<lparr>updatePlacementObj := \<lambda>q w.
      if \<forall>b\<in>set bs. gone w (Name b) then updatePlacementObj s q w else (Inl Panic, w)\<rparr>) p w =
    cleanUpAllBindingsFor s p w"
proof (cases "cleanUpBindings s bs w1")
  case (Pair r w2)
  show ?thesis
  proof (cases r)
    case (Inr u)
    with Pair cleanUpBindings_gone[OF assms(1), of bs w1 w2] show ?thesis
      by (simp add: cleanUpAllBindingsFor_def bindP_eq assms(2) wrapP_def)
  qed (simp add: cleanUpAllBindingsFor_def bindP_eq assms(2) Pair)
qed

section \<open>Keys\<close>

text \<open>
  C29: A placement whose cycle asks for an immediate further cycle waits in the queue again when
  the worker is done with it, whatever the queue implementation.
\<close>

theorem requeued_placement_waits:
  assumes "placement_queue (queue s) waiting isOpen"
    and "NextPlacementKey (queue s) w = ((key, False), w1)"
    and "FetchPlacementFromKey (readPlacement s) key w1 = (Inr p, w2)" and "live p"
    and "LookupLatestPolicySnapshot (listLatestPolicySnapshots s) (Namespace p) (Name p) w2 = (Inr snapshot, w3)"
    and "addSchedulerCleanUpFinalizer s p w3 = (Inr (), w4)"
    and "RunSchedulingCycleFor (schedFramework s) key snapshot w4 = (Inr res, w5)"
    and "Requeue res" and "RequeueAfter res \<le> 0" and "isOpen w5"
  shows "\<exists>w'. scheduleOnce s w = (Inr (), w') \<and> waiting w' = insert key (waiting w5)"
  using assms placement_queue.requeued_key_waits[OF assms(1,10), of key]
  by (simp add: scheduleOnce_def scheduleKey_def scheduleActive_def finishCycle_def onQueue_def)

text \<open>
  C35: When the lookup of the policy snapshot fails, whatever the error, the key is forgotten and
  not queued again: after a transient failure of the API server the placement is not scheduled
  until some other event enqueues it, although the failure is logged as one to be retried.
\<close>

theorem failed_lookup_drops_placement:
  assumes "placement_queue (queue s) waiting isOpen"
    and "NextPlacementKey (queue s) w = ((key, False), w1)"
    and "FetchPlacementFromKey (readPlacement s) key w1 = (Inr p, w2)" and "live p"
    and "listLatestPolicySnapshots s (Namespace p) (Name p) w2 = (Inl (ErrAPI ServerTimeout), w3)"
  shows "LookupLatestPolicySnapshot (listLatestPolicySnapshots s) (Namespace p) (Name p) w2 = (Inl ErrAPIServerError, w3) \<and>
    (\<exists>w'. scheduleOnce s w = (Inr (), w') \<and> waiting w' = waiting w3)"
proof -
  have "LookupLatestPolicySnapshot (listLatestPolicySnapshots s) (Namespace p) (Name p) w2 = (Inl ErrAPIServerError, w3)"
    using assms(5) by (simp add: LookupLatestPolicySnapshot_def bindP_eq wrapP_def apiServerError_def error_defs isUnexpectedCacheError_def)
  with assms(2-4) placement_queue.dropped_key[OF assms(1), of key w3] show ?thesis
    by (simp add: scheduleOnce_def scheduleKey_def scheduleActive_def onQueue_def)
qed

section \<open>Examples\<close>

text \<open>A scheduler whose world is a batched queue over the reference work queue.\<close>

definition exampleScheduler :: "PolicySnapshot list result \<Rightarrow> refQueue batchedQueue scheduler" where
  "exampleScheduler snapshots =
     \<lparr>schedFramework = exampleFramework exampleHub emptyProfile,
      queue = batchedProcessingPlacementSchedulingQueue referenceQueue,
      readPlacement = \<lambda>_ _. returnP (examplePlacement None),
      updatePlacementObj = \<lambda>_. returnP (), updateBindingObj = \<lambda>b. returnP (b\<lparr>DeletionTimestamp := Some 0\<rparr>),
      deleteBindingObj = \<lambda>_. returnP (), listLatestPolicySnapshots = \<lambda>_ _. liftP snapshots,
      uncachedReader = exampleHub\<lparr>hubListBindings := \<lambda>_ _ w. (Inr [exampleBinding ''b'' ''m'' BindingStateBound ''p''], w)\<rparr>\<rparr>"

lemma exampleScheduler_queue:
  "placement_queue (queue (exampleScheduler r)) (batchedWaiting refPending) (batchedOpen referenceQueue)"
  using reference.both.placement_queue_axioms by (simp add: exampleScheduler_def)

definition exampleWorld :: "refQueue batchedQueue" where
  "exampleWorld = \<lparr>active = ([''crp''], {}, False), batched = ([], {}, False), moveNowClosed = False\<rparr>"

definition exampleTaken :: "refQueue batchedQueue" where
  "exampleTaken = \<lparr>active = ([], {''crp''}, False), batched = ([], {}, False), moveNowClosed = False\<rparr>"

lemma exampleWorld_next: "NextPlacementKey (queue (exampleScheduler r)) exampleWorld = ((''crp'', False), exampleTaken)"
  by (simp add: exampleScheduler_def batchedProcessingPlacementSchedulingQueue_def exampleWorld_def exampleTaken_def
      nextKeyOf_def referenceQueue_def refReady_def)

lemma exampleFetch: "FetchPlacementFromKey (readPlacement (exampleScheduler r)) ''crp'' w = (Inr (examplePlacement None), w)"
proof -
  have "ExtractNamespaceNameFromKeyStr ''crp'' = Inr ('''', ''crp'')" by code_simp
  then show ?thesis by (simp add: FetchPlacementFromKey_def exampleScheduler_def bindP_eq)
qed

text \<open>A scheduler whose world is the set of the names of the deleted bindings.\<close>

definition exampleCleaner :: "string set scheduler" where
  "exampleCleaner =
     \<lparr>schedFramework = exampleFramework exampleHub emptyProfile,
      queue = \<lparr>qAdd = \<lambda>_ w. w, qAddRateLimited = \<lambda>_ w. w, qAddAfter = \<lambda>_ _ w. w, qAddBatched = \<lambda>_ w. w,
               qClose = id, qCloseWithDrain = id, NextPlacementKey = \<lambda>w. ((''crp'', False), w),
               qDone = \<lambda>_ w. w, qForget = \<lambda>_ w. w\<rparr>,
      readPlacement = \<lambda>_ _. returnP (examplePlacement None), updatePlacementObj = \<lambda>_. returnP (),
      updateBindingObj = \<lambda>b w. (Inr b, if live b then w else insert (Name b) w), deleteBindingObj = \<lambda>b w. (Inr (), insert (Name b) w),
      listLatestPolicySnapshots = \<lambda>_ _. returnP [],
      uncachedReader = exampleHub\<lparr>hubListBindings := \<lambda>_ _ w. (Inr [exampleBinding ''b'' ''m'' BindingStateBound ''p''], w)\<rparr>\<rparr>"

theorem placement_released_last_witness:
  "cleanUpAllBindingsFor (exampleCleaner\<lparr>updatePlacementObj := \<lambda>q w.
       if \<forall>b\<in>set [exampleBinding ''b'' ''m'' BindingStateBound ''p'']. Name b \<in> w
       then updatePlacementObj exampleCleaner q w else (Inl Panic, w)\<rparr>) (examplePlacement None) {} = (Inr (), {''b''})"
proof -
  have contract: "deletionContract exampleCleaner (\<lambda>w n. n \<in> w)"
    unfolding deletionContract_def by (simp add: exampleCleaner_def exampleBinding_def)
  have list: "ListBindingsFromKey (uncachedReader exampleCleaner) (Namespace (examplePlacement None))
      (Name (examplePlacement None)) False {} = (Inr [exampleBinding ''b'' ''m'' BindingStateBound ''p''], {})"
    by (simp add: exampleCleaner_def ListBindingsFromKey_def bindP_eq wrapP_def)
  have "cleanUpAllBindingsFor exampleCleaner (examplePlacement None) {} = (Inr (), {''b''})"
    by (simp add: cleanUpAllBindingsFor_def bindP_eq list cleanUpBinding_def wrapP_def)
      (simp add: exampleCleaner_def RemoveFinalizer_def exampleBinding_def)
  with placement_released_last[OF contract list] show ?thesis by simp
qed

definition examplePickOne :: PolicySnapshot where
  "examplePickOne =
     (examplePolicy (Some (examplePolicySpec PickNPlacementType)))\<lparr>Annotations := [NumberOfClustersAnnotation \<mapsto> ''1'']\<rparr>"

definition exampleBatching :: "refQueue batchedQueue scheduler" where
  "exampleBatching =
     (exampleScheduler (Inr [examplePickOne]))\<lparr>schedFramework :=
        exampleFramework exampleHub (emptyProfile\<lparr>postBatchPlugins := [(''B'', \<lambda>_ _. Inr (0, None))]\<rparr>)\<rparr>"

lemma exampleBatching_cycle:
  "RunSchedulingCycleFor (schedFramework exampleBatching) ''crp'' examplePickOne w = (Inr \<lparr>Requeue = True, RequeueAfter = 0\<rparr>, w)"
  by code_simp

theorem failed_lookup_drops_placement_witness:
  "\<exists>w'. scheduleOnce (exampleScheduler (Inl (ErrAPI ServerTimeout))) exampleWorld = (Inr (), w') \<and>
     batchedWaiting refPending w' = {}"
proof -
  let ?s = "exampleScheduler (Inl (ErrAPI ServerTimeout))"
  have "live (examplePlacement None)" by (simp add: examplePlacement_def)
  moreover have "listLatestPolicySnapshots ?s ns n w = (Inl (ErrAPI ServerTimeout), w)" for ns n w
    by (simp add: exampleScheduler_def)
  ultimately have "\<exists>w'. scheduleOnce ?s exampleWorld = (Inr (), w') \<and>
      batchedWaiting refPending w' = batchedWaiting refPending exampleTaken"
    using failed_lookup_drops_placement[OF exampleScheduler_queue exampleWorld_next exampleFetch] by blast
  then show ?thesis by (simp add: batchedWaiting_def exampleTaken_def refPending_def)
qed

theorem requeued_placement_waits_witness:
  "\<exists>w'. scheduleOnce exampleBatching exampleWorld = (Inr (), w') \<and> ''crp'' \<in> batchedWaiting refPending w'"
proof -
  let ?s = exampleBatching and ?p = "examplePlacement None"
  have q: "placement_queue (queue ?s) (batchedWaiting refPending) (batchedOpen referenceQueue)"
    "NextPlacementKey (queue ?s) exampleWorld = ((''crp'', False), exampleTaken)"
    "FetchPlacementFromKey (readPlacement ?s) ''crp'' exampleTaken = (Inr ?p, exampleTaken)"
    using exampleScheduler_queue[of "Inr [examplePickOne]"] exampleWorld_next[of "Inr [examplePickOne]"]
      exampleFetch[of "Inr [examplePickOne]" exampleTaken]
    by (simp_all add: exampleBatching_def)
  have "live ?p" "LookupLatestPolicySnapshot (listLatestPolicySnapshots ?s) (Namespace ?p) (Name ?p) exampleTaken =
      (Inr examplePickOne, exampleTaken)" "addSchedulerCleanUpFinalizer ?s ?p exampleTaken = (Inr (), exampleTaken)"
    "batchedOpen referenceQueue exampleTaken"
    by (simp_all add: examplePlacement_def LookupLatestPolicySnapshot_def bindP_eq wrapP_def exampleBatching_def
        exampleScheduler_def addSchedulerCleanUpFinalizer_def batchedOpen_def exampleTaken_def referenceQueue_def)
  from requeued_placement_waits[OF q this(1-3) exampleBatching_cycle] this(4) show ?thesis by auto
qed

end
