(* ===== verification/Default_Profile.thy ===== *)
theory Default_Profile
  imports Framework_Props Plugins_Basic Plugin_Affinity Plugin_Topology
begin

text \<open>
  The default scheduling profile (\<open>pkg/scheduler/profile/profile.go\<close>), and what a cycle under it
  does to the bindings of a placement: it creates bindings only for clusters that have none.
  The API server is described by the set of live bindings it holds for the placement, as pairs
  of a name and a target.
\<close>

section \<open>The profile\<close>

text \<open>
  \<open>Options\<close> may replace the cluster affinity plugin, of which the model has the name.
\<close>

definition NewProfile ::
  "string option \<Rightarrow> lib \<Rightarrow> (MemberCluster \<Rightarrow> bool \<times> string) \<Rightarrow> Profile" where
  "NewProfile clusterAffinityPlugin lib isEl =
     (let affinity = (case clusterAffinityPlugin of None \<Rightarrow> ''ClusterAffinity'' | Some n \<Rightarrow> n);
          eligibility = ''ClusterEligibility''; namespace = ''NamespaceAffinity'';
          samePlacement = ''SamePlacementAntiAffinity''; topology = ''TopologySpreadConstraints'';
          taint = ''TaintToleration''
      in \<lparr>postBatchPlugins = [(topology, topology_PostBatch topology)],
          preFilterPlugins =
            [(affinity, clusteraffinity_PreFilter affinity),
             (namespace, namespaceaffinity_PreFilter namespace),
             (topology, topology_PreFilter topology)],
          filterPlugins =
            [(affinity, clusteraffinity_Filter lib affinity),
             (eligibility, clustereligibility_Filter isEl eligibility),
             (namespace, namespaceaffinity_Filter namespace),
             (taint, tainttoleration_Filter taint),
             (samePlacement, sameplacementaffinity_Filter samePlacement),
             (topology, topology_Filter topology)],
          preScorePlugins =
            [(affinity, clusteraffinity_PreScore lib affinity),
             (topology, topology_PreScore topology)],
          scorePlugins =
            [(affinity, clusteraffinity_Score lib affinity),
             (samePlacement, sameplacementaffinity_Score),
             (topology, topology_Score topology)]\<rparr>)"

definition NewDefaultProfile :: "lib \<Rightarrow> (MemberCluster \<Rightarrow> bool \<times> string) \<Rightarrow> Profile" where
  "NewDefaultProfile = NewProfile None"

section \<open>What passes the Filter stage\<close>

text \<open>
  PreFilter plugins that keep their contract leave the view of the bindings alone and skip none
  but themselves.
\<close>

lemma runPreFilterPlugins_frame:
  assumes "runPreFilterPlugins pls st ps = Inr (st', s)" and "\<forall>(n, P)\<in>set pls. pre_contract P"
  shows "HasScheduledOrBoundBindingFor st' = HasScheduledOrBoundBindingFor st \<and>
    skippedFilterPlugins st' \<subseteq> skippedFilterPlugins st \<union> fst ` set pls"
  using assms
proof (induction pls arbitrary: st)
  case (Cons pl pls)
  obtain n P where pl: "pl = (n, P)" by fastforce
  from Cons.prems(1) pl obtain st1 s1 where p: "P st ps = Inr (st1, s1)" by (auto simp: bindR_eq_Inr)
  have contract: "pre_contract P" using Cons.prems(2) pl by simp
  note view = pre_contract.keeps_view(2,4)[OF contract p]
  let ?st = "st1\<lparr>skippedFilterPlugins := insert n (skippedFilterPlugins st1)\<rparr>"
  consider "runPreFilterPlugins pls st1 ps = Inr (st', s)" | "st' = st1"
    | "runPreFilterPlugins pls ?st ps = Inr (st', s)"
    using Cons.prems(1) pl p by (auto split: if_splits)
  then show ?case
  proof cases
    case 1
    from Cons.IH[OF this] Cons.prems(2) view pl show ?thesis by auto
  next
    case 2
    with view show ?thesis by auto
  next
    case 3
    have "HasScheduledOrBoundBindingFor ?st = HasScheduledOrBoundBindingFor st1"
      by (auto simp: HasScheduledOrBoundBindingFor_def)
    with Cons.IH[OF 3] Cons.prems(2) view pl show ?thesis by auto
  qed
qed simp

lemma default_prefilter_frame:
  assumes "runPreFilterPlugins (preFilterPlugins (NewDefaultProfile lib el)) st ps = Inr (st', s)"
  shows "HasScheduledOrBoundBindingFor st' = HasScheduledOrBoundBindingFor st"
    and "skippedFilterPlugins st = {} \<Longrightarrow>
      ''ClusterEligibility'' \<notin> skippedFilterPlugins st' \<and> ''SamePlacementAntiAffinity'' \<notin> skippedFilterPlugins st'"
proof -
  have "\<forall>(n, P)\<in>set (preFilterPlugins (NewDefaultProfile lib el)). pre_contract P"
    by (simp add: NewDefaultProfile_def NewProfile_def Let_def affinity_prefilter.pre_contract_axioms
        namespace_prefilter.pre_contract_axioms topology_prefilter.pre_contract_axioms)
  from runPreFilterPlugins_frame[OF assms this]
  show "HasScheduledOrBoundBindingFor st' = HasScheduledOrBoundBindingFor st"
    "skippedFilterPlugins st = {} \<Longrightarrow>
      ''ClusterEligibility'' \<notin> skippedFilterPlugins st' \<and> ''SamePlacementAntiAffinity'' \<notin> skippedFilterPlugins st'"
    by (auto simp: NewDefaultProfile_def NewProfile_def Let_def)
qed

text \<open>
  A cluster that passes is eligible and has no scheduled or bound binding.
\<close>

lemma default_filter_passes:
  assumes "runPreFilterPlugins (preFilterPlugins (NewDefaultProfile lib el)) st ps = Inr (st', s)"
    and "skippedFilterPlugins st = {}"
    and "passesAll (filterPlugins (NewDefaultProfile lib el)) st' ps c"
  shows "fst (el c) \<and> \<not> HasScheduledOrBoundBindingFor st (Name c)"
proof -
  note skip = default_prefilter_frame(2)[OF assms(1,2)]
  from assms(3) skip have
    "\<exists>s. clustereligibility_Filter el ''ClusterEligibility'' st' ps c = Inr s \<and> IsSuccess s"
    "\<exists>s. sameplacementaffinity_Filter ''SamePlacementAntiAffinity'' st' ps c = Inr s \<and> IsSuccess s"
    unfolding passesAll_def NewDefaultProfile_def NewProfile_def Let_def by simp_all
  then show ?thesis
    using default_prefilter_frame(1)[OF assms(1)]
    by (auto simp: clustereligibility_Filter_def sameplacementaffinity_Filter_def status_simps
        split: prod.splits if_splits)
qed

definition selectable ::
  "'w framework \<Rightarrow> CycleState \<Rightarrow> MemberCluster list \<Rightarrow> ScoredCluster list \<Rightarrow> bool" where
  "selectable f st cs scored \<longleftrightarrow> distinct (map scName scored) \<and>
     (\<forall>sc\<in>set scored. sc_Cluster sc \<in> set cs \<and> fst (isEligible f (sc_Cluster sc)) \<and>
        \<not> HasScheduledOrBoundBindingFor st (scName sc))"

lemma default_filter_selectable:
  assumes "profile f = NewDefaultProfile lib (isEligible f)" and "skippedFilterPlugins st = {}"
    and "\<And>cs. mset (interleave f cs) = mset cs" and "distinct (map Name cs)"
    and pre: "runPreFilterPlugins (preFilterPlugins (profile f)) st ps = Inr (st', s)"
    and fil: "runFilterPlugins f st' ps cs = Inr (passed, filtered)"
    and "mset (map sc_Cluster scored) = mset passed"
  shows "selectable f st cs scored"
proof -
  have passed: "passed = filter (passesAll (filterPlugins (profile f)) st' ps) (interleave f cs)"
    using runFilterLoop_Inr[OF fil[unfolded runFilterPlugins_def]] by simp
  have "distinct (map Name (interleave f cs))" by (rule distinct_map_mset[OF assms(4)]) (simp add: assms(3))
  then have "distinct (map Name passed)" unfolding passed by (rule distinct_map_filter)
  then have "distinct (map Name (map sc_Cluster scored))" by (rule distinct_map_mset) (simp only: assms(7))
  moreover have "set (interleave f cs) = set cs" using assms(3) by (metis set_mset_mset)
  moreover have "sc_Cluster sc \<in> set passed" if "sc \<in> set scored" for sc
    using that assms(7) by (metis imageI list.set_map set_mset_mset)
  ultimately show ?thesis
    using default_filter_passes[OF pre[unfolded assms(1)] assms(2)] passed assms(1)
    by (auto simp: selectable_def o_def)
qed

lemma default_pickAll_selectable:
  assumes "profile f = NewDefaultProfile lib (isEligible f)" and "skippedFilterPlugins st = {}"
    and "\<And>cs. mset (interleave f cs) = mset cs" and "distinct (map Name cs)"
    and "runAllPluginsForPickAllPlacementType f st ps cs = Inr (scored, filtered)"
  shows "selectable f st cs scored"
proof -
  from assms(5) obtain st' s passed where
    pre: "runPreFilterPlugins (preFilterPlugins (profile f)) st ps = Inr (st', s)" and
    fil: "runFilterPlugins f st' ps cs = Inr (passed, filtered)" and
    scored: "scored = map (\<lambda>c. \<lparr>sc_Cluster = c, sc_Score = zeroScore\<rparr>) passed"
    by (auto simp: runAllPluginsForPickAllPlacementType_def bindR_eq_Inr dest!: checkStatus_Inr)
  show ?thesis
    by (rule default_filter_selectable[OF assms(1-4) pre fil]) (simp add: scored o_def)
qed

lemma default_pickN_selectable:
  assumes "profile f = NewDefaultProfile lib (isEligible f)" and "skippedFilterPlugins st = {}"
    and "\<And>cs. mset (interleave f cs) = mset cs" and "distinct (map Name cs)"
    and "runAllPluginsForPickNPlacementType f st ps n k cs = Inr (st3, scored, filtered)"
  shows "selectable f st cs scored"
proof -
  from assms(5) obtain limit st' s passed where
    pre: "runPreFilterPlugins (preFilterPlugins (profile f))
            (st\<lparr>desiredBatchSize := n - k, batchSizeLimit := limit\<rparr>) ps = Inr (st', s)" and
    fil: "runFilterPlugins f st' ps cs = Inr (passed, filtered)" and
    sc: "runScorePlugins f st3 ps passed = Inr scored"
    by (auto simp: runAllPluginsForPickNPlacementType_def Let_def bindR_eq_Inr dest!: checkStatus_Inr
        split: if_splits)
  have "mset (map sc_Cluster scored) = mset passed"
    using sc assms(3)
    by (auto simp: runScorePlugins_def simp del: mset_map dest!: runScoreLoop_Clusters split: if_splits)
  then have "selectable f (st\<lparr>desiredBatchSize := n - k, batchSizeLimit := limit\<rparr>) cs scored"
    by (intro default_filter_selectable[OF assms(1) _ assms(3,4) pre fil]) (simp add: assms(2))
  then show ?thesis by (simp add: selectable_def HasScheduledOrBoundBindingFor_def)
qed

section \<open>The bindings on the API server\<close>

text \<open>
  \<open>L\<close> gives the names and targets of the live bindings of the placement, \<open>G\<close> the names and
  targets under which bindings are stored at any time. A list of the bindings is current, with
  one object per name. Reads, status updates, patches that leave the target alone and updates
  of a binding under its stored name and target add no live binding; a creation, whatever it
  returns, adds at most the binding it was called with.
\<close>

abbreviation pairOf :: "Binding \<Rightarrow> string \<times> string" where
  "pairOf b \<equiv> (Name b, target b)"

definition storesBindings ::
  "'w hub \<Rightarrow> string \<Rightarrow> string \<Rightarrow> ('w \<Rightarrow> (string \<times> string) set) \<Rightarrow> (string \<times> string) set \<Rightarrow> bool" where
  "storesBindings h ns name L G \<longleftrightarrow>
     (\<forall>w. L (snd (hubListClusters h w)) \<subseteq> L w) \<and>
     (\<forall>w. L (snd (hubListBindings h ns name w)) \<subseteq> L w) \<and>
     (\<forall>w bs w'. hubListBindings h ns name w = (Inr bs, w') \<longrightarrow>
        pairOf ` set (filter live bs) = L w' \<and> distinct (map Name bs) \<and> pairOf ` set bs \<subseteq> G) \<and>
     (\<forall>m n w. L (snd (hubGetBinding h m n w)) \<subseteq> L w) \<and>
     (\<forall>m n w b w'. hubGetBinding h m n w = (Inr b, w') \<longrightarrow> pairOf b \<in> G) \<and>
     (\<forall>b w. pairOf b \<in> G \<longrightarrow> L (snd (hubUpdateBinding h b w)) \<subseteq> L w) \<and>
     (\<forall>p w. target (updated p) = target (patchFrom p) \<longrightarrow> L (snd (hubPatchBinding h p w)) \<subseteq> L w) \<and>
     (\<forall>ps w. L (snd (hubUpdatePolicyStatus h ps w)) \<subseteq> L w) \<and>
     (\<forall>b w. L (snd (hubCreateBinding h b w)) \<subseteq> insert (pairOf b) (L w))"

lemma storesBindings_laws:
  assumes "storesBindings h ns name L G"
  shows "L (snd (hubListClusters h w)) \<subseteq> L w" and "L (snd (hubListBindings h ns name w)) \<subseteq> L w"
    and "hubListBindings h ns name w = (Inr bs, w') \<Longrightarrow>
        pairOf ` set (filter live bs) = L w' \<and> distinct (map Name bs) \<and> pairOf ` set bs \<subseteq> G"
    and "L (snd (hubGetBinding h m n w)) \<subseteq> L w"
    and "pairOf b \<in> G \<Longrightarrow> L (snd (hubUpdateBinding h b w)) \<subseteq> L w"
    and "target (updated p) = target (patchFrom p) \<Longrightarrow> L (snd (hubPatchBinding h p w)) \<subseteq> L w"
    and "L (snd (hubUpdatePolicyStatus h ps w)) \<subseteq> L w"
    and "L (snd (hubCreateBinding h b w)) \<subseteq> insert (pairOf b) (L w)"
  using assms by (simp_all add: storesBindings_def)

lemma storesBindings_get:
  "storesBindings h ns name L G \<Longrightarrow> hubGetBinding h m n w = (Inr b, w') \<Longrightarrow> pairOf b \<in> G"
  unfolding storesBindings_def by meson

text \<open>
  A program that leaves at most the live bindings there were, and one that adds bindings for
  different clusters outside \<open>D\<close>.
\<close>

definition shrinks :: "('w \<Rightarrow> (string \<times> string) set) \<Rightarrow> ('w, 'a) prog \<Rightarrow> bool" where
  "shrinks L p \<longleftrightarrow> (\<forall>w. L (snd (p w)) \<subseteq> L w)"

lemma shrinks_intros:
  "shrinks L (returnP x)" "shrinks L (failP e)" "shrinks L (liftP r)"
  "shrinks L p \<Longrightarrow> (\<And>x. shrinks L (k x)) \<Longrightarrow> shrinks L (bindP p k)"
  "(c \<Longrightarrow> shrinks L p) \<Longrightarrow> (\<not> c \<Longrightarrow> shrinks L q) \<Longrightarrow> shrinks L (if c then p else q)"
  unfolding shrinks_def by (auto simp: bindP_eq split: prod.splits sum.splits) (metis snd_conv subsetD)+

definition adds ::
  "('w \<Rightarrow> (string \<times> string) set) \<Rightarrow> string set \<Rightarrow> 'w \<Rightarrow> 'w \<Rightarrow> bool" where
  "adds L D w w' \<longleftrightarrow> (\<exists>cr. distinct (map target cr) \<and> target ` set cr \<inter> D = {} \<and>
     L w' \<subseteq> L w \<union> pairOf ` set cr)"

lemma adds_none: "L w' \<subseteq> L w \<Longrightarrow> adds L D w w'"
  unfolding adds_def by (intro exI[of _ "[]"]) simp

lemma adds_trans:
  "L w' \<subseteq> L w \<Longrightarrow> adds L D w' w'' \<Longrightarrow> adds L D w w''"
  "adds L D w w' \<Longrightarrow> L w'' \<subseteq> L w' \<Longrightarrow> adds L D w w''"
  unfolding adds_def by (meson Un_mono order_refl order_trans)+

lemma adds_bind_shrink:
  assumes "L (snd (p w)) \<subseteq> L w" and "\<And>x w'. p w = (Inr x, w') \<Longrightarrow> adds L D w' (snd (k x w'))"
  shows "adds L D w (snd (bindP p k w))"
proof (cases "p w")
  case (Pair r w')
  show ?thesis
  proof (cases r)
    case (Inl e)
    with Pair assms(1) show ?thesis by (simp add: bindP_eq adds_none)
  next
    case (Inr x)
    with Pair assms(2) have "adds L D w' (snd (k x w'))" by simp
    with Pair Inr assms(1) adds_trans(1)[of L w' w] show ?thesis by (simp add: bindP_eq)
  qed
qed

lemma adds_lift: "(\<And>x. r = Inr x \<Longrightarrow> adds L D w (snd (k x w))) \<Longrightarrow> adds L D w (snd (bindP (liftP r) k w))"
  by (rule adds_bind_shrink) auto

lemma adds_lift2:
  "(\<And>x y. r = Inr (x, y) \<Longrightarrow> adds L D w (snd (k x y w))) \<Longrightarrow>
   adds L D w (snd (bindP (liftP r) (\<lambda>(x, y). k x y) w))"
  by (rule adds_lift) (simp split: prod.split)

lemma adds_lift3:
  "(\<And>x y z. r = Inr (x, y, z) \<Longrightarrow> adds L D w (snd (k x y z w))) \<Longrightarrow>
   adds L D w (snd (bindP (liftP r) (\<lambda>(x, y, z). k x y z) w))"
  by (rule adds_lift) (simp split: prod.split)

lemma adds_then_shrink:
  assumes "adds L D w (snd (p w))" and "\<And>x. shrinks L (k x)"
  shows "adds L D w (snd (bindP p k w))"
proof (cases "p w")
  case (Pair r w')
  show ?thesis
  proof (cases r)
    case (Inl e)
    with Pair assms(1) show ?thesis by (simp add: bindP_eq)
  next
    case (Inr x)
    with Pair assms(1) adds_trans(2)[of L D w w' "snd (k x w')"] assms(2)[of x] show ?thesis
      by (simp add: bindP_eq shrinks_def)
  qed
qed

lemma updateBindings_shrinks:
  assumes "storesBindings h ns name L G" and "\<forall>b\<in>set bs. pairOf b \<in> G" and "\<And>b. pairOf (u b) = pairOf b"
  shows "shrinks L (updateBindings h bs u)"
  unfolding updateBindings_def shrinks_def
proof (rule allI, rule errgroup_rel[of "\<lambda>a b. L b \<subseteq> L a"])
  note laws = storesBindings_laws[OF assms(1)]
  fix b w assume "b \<in> set bs"
  then have b: "pairOf b \<in> G" using assms(2) by simp
  show "L (snd (retryOnError (retrySteps h) retryUpdate (updateAttempt h u) b w)) \<subseteq> L w"
  proof (rule retryOnError_rel[of "\<lambda>a b. L b \<subseteq> L a" "\<lambda>b. pairOf b \<in> G"])
    fix b w assume "pairOf b \<in> G"
    then have "pairOf (u b) \<in> G" by (simp only: assms(3))
    moreover obtain r w1 where upd: "hubUpdateBinding h (u b) w = (r, w1)" by fastforce
    moreover obtain g w2 where get: "hubGetBinding h (Namespace (u b)) (Name (u b)) w1 = (g, w2)" by fastforce
    ultimately have "L w1 \<subseteq> L w" "L w2 \<subseteq> L w1" "\<forall>x. g = Inr x \<longrightarrow> pairOf x \<in> G"
      using laws(5)[of "u b" w] laws(4)[of "Namespace (u b)" "Name (u b)" w1]
        storesBindings_get[OF assms(1), of "Namespace (u b)" "Name (u b)" w1] by auto
    then show "L (snd (updateAttempt h u b w)) \<subseteq> L w \<and> pairOf (snd (fst (updateAttempt h u b w))) \<in> G"
      using upd get \<open>pairOf (u b) \<in> G\<close> by (auto simp: updateAttempt_def Let_def split: sum.split)
  qed (use b in auto)
qed auto

lemma createBindings_adds:
  assumes "storesBindings h ns name L G"
  shows "L (snd (createBindings h cr w)) \<subseteq> L w \<union> pairOf ` set cr"
  unfolding createBindings_def wrapP_snd
proof (rule errgroup_rel[of "\<lambda>a b. L b \<subseteq> L a \<union> pairOf ` set cr"])
  fix b w assume b: "b \<in> set cr"
  show "L (snd (retryOnError (retrySteps h) retryWrite (createAttempt h) b w)) \<subseteq> L w \<union> pairOf ` set cr"
  proof (rule retryOnError_rel[of "\<lambda>a b. L b \<subseteq> L a \<union> pairOf ` set cr" "\<lambda>b. b \<in> set cr"])
    fix b w assume b: "b \<in> set cr"
    obtain r w' where c: "hubCreateBinding h b w = (r, w')" by fastforce
    have "L w' \<subseteq> insert (pairOf b) (L w)" using storesBindings_laws(8)[OF assms, of b w] c by simp
    with b c show "L (snd (createAttempt h b w)) \<subseteq> L w \<union> pairOf ` set cr \<and>
        snd (fst (createAttempt h b w)) \<in> set cr"
      by (auto simp: createAttempt_def split: sum.split)
  qed (use b in auto)
qed auto

lemma patchBindings_shrinks:
  assumes "storesBindings h ns name L G" and "\<forall>p\<in>set ps. target (updated p) = target (patchFrom p)"
  shows "shrinks L (patchBindings h ps)"
  unfolding patchBindings_def wrapP_snd shrinks_def
proof (rule allI, rule errgroup_rel[of "\<lambda>a b. L b \<subseteq> L a"])
  fix p w assume p: "p \<in> set ps"
  show "L (snd (retryOnError (retrySteps h) retryWrite (patchAttempt h) p w)) \<subseteq> L w"
  proof (rule retryOnError_rel[of "\<lambda>a b. L b \<subseteq> L a" "\<lambda>q. q = p"])
    fix q w assume "q = p"
    with p assms(2) storesBindings_laws(6)[OF assms(1), of p w]
    show "L (snd (patchAttempt h q w)) \<subseteq> L w \<and> snd (fst (patchAttempt h q w)) = p"
      by (cases "hubPatchBinding h p w") (simp add: patchAttempt_def)
  qed auto
qed auto

section \<open>A cycle adds bindings for uncovered clusters only\<close>

lemma pairOf_update [simp]:
  "pairOf (markUnscheduled b) = pairOf b" "pairOf (removeCleanupFinalizer b) = pairOf b"
  by (simp_all add: markUnscheduled_def removeCleanupFinalizer_def)

lemma manipulateBindings_adds:
  assumes "storesBindings h ns name L G" and "distinct (map target cr)" and "target ` set cr \<inter> D = {}"
    and "\<forall>b\<in>set de. pairOf b \<in> G" and "\<forall>p\<in>set pa. target (updated p) = target (patchFrom p)"
  shows "adds L D w (snd (manipulateBindings h (cr, de, pa) w))"
  unfolding manipulateBindings_def prod.case
proof (rule adds_then_shrink)
  show "adds L D w (snd (createBindings h cr w))"
    using createBindings_adds[OF assms(1), of cr w] assms(2,3) unfolding adds_def by blast
  show "shrinks L (bindP (patchBindings h pa) (\<lambda>_. updateBindings h de markUnscheduled))"
    by (intro shrinks_intros patchBindings_shrinks[OF assms(1,5)] updateBindings_shrinks[OF assms(1,4)]) simp
qed

lemma writePolicyStatus_shrinks:
  assumes "storesBindings (hub f) ns name L G"
  shows "shrinks L (writePolicyStatus f policy g ds c)"
  using storesBindings_laws(7)[OF assms] by (simp add: writePolicyStatus_def shrinks_def)

lemma status_updates_shrink:
  assumes "storesBindings (hub f) ns name L G"
  shows "shrinks L (updatePolicySnapshotStatusFromBindings f policy n np fi ex)"
    and "shrinks L (updatePolicySnapshotStatusForPickFixedPlacementType f policy va iv nf)"
  unfolding updatePolicySnapshotStatusFromBindings_def updatePolicySnapshotStatusForPickFixedPlacementType_def
  by (intro shrinks_intros writePolicyStatus_shrinks[OF assms])+

text \<open>
  The clusters of \<open>D\<close> have a binding that the cycle knows of, or cannot be picked.
\<close>

definition covered ::
  "'w framework \<Rightarrow> MemberCluster list \<Rightarrow> Binding list \<Rightarrow> Binding list \<Rightarrow> Binding list \<Rightarrow> Binding list \<Rightarrow>
   string set \<Rightarrow> bool" where
  "covered f cs bnd sched us obs D \<longleftrightarrow>
     (\<forall>t\<in>D. t \<in> target ` (set bnd \<union> set sched \<union> set us \<union> set obs) \<or>
        (\<forall>c\<in>set cs. Name c = t \<longrightarrow> \<not> fst (isEligible f c)))"

lemma picked_manipulation_adds:
  assumes "storesBindings (hub f) ns name L G" and "covered f cs bnd sched us obs D"
    and "\<forall>b\<in>set obs. pairOf b \<in> G"
    and "selectable f (NewCycleState cs obs [bnd, sched]) cs scored"
    and "mset picked \<subseteq># mset scored"
    and "crossReferencePickedClustersAndDeDupBindings (names f) key policy picked us obs = Inr (cr, de, pa)"
  shows "adds L D w (snd (manipulateBindings (hub f) (cr, de, pa) w))"
proof (rule manipulateBindings_adds[OF assms(1)])
  note spec = crossReferencePicked_spec[OF assms(6)]
  obtain rest where "mset scored = mset (picked @ rest)"
    using assms(5) by (metis mset_append mset_subset_eq_exists_conv ex_mset)
  then have "distinct (map scName (picked @ rest))" and sub: "set picked \<subseteq> set scored"
    using assms(4) distinct_map_mset unfolding selectable_def
    by (blast, metis set_append set_mset_mset sup_ge1)
  then have "distinct (map scName picked)" by simp
  then show "distinct (map target cr)" unfolding spec(1) by (rule distinct_filter)
  have "target b \<notin> D" if "b \<in> set cr" for b
  proof
    assume "target b \<in> D"
    from that have "target b \<in> set (map target cr)" by simp
    then obtain sc where sc: "sc \<in> set scored" "scName sc = target b"
      "target b \<notin> target ` set obs \<union> target ` set us" unfolding spec(1) using sub by auto
    with assms(4) have "sc_Cluster sc \<in> set cs" "fst (isEligible f (sc_Cluster sc))"
      "target b \<notin> target ` (set bnd \<union> set sched)" by (auto simp: selectable_def image_Un)
    with assms(2) sc \<open>target b \<in> D\<close> show False by (auto simp: covered_def image_Un)
  qed
  then show "target ` set cr \<inter> D = {}" by auto
  show "\<forall>b\<in>set de. pairOf b \<in> G" using assms(3) unfolding spec(2) by simp
  show "\<forall>p\<in>set pa. target (updated p) = target (patchFrom p)" using spec(5) by (simp add: refreshed_def)
qed

text \<open>What the framework of a cycle is assumed to be, in the lemmas below.\<close>

definition defaultFramework :: "lib \<Rightarrow> 'w framework \<Rightarrow> bool" where
  "defaultFramework lib f \<longleftrightarrow> profile f = NewDefaultProfile lib (isEligible f) \<and>
     (\<forall>cs. mset (interleave f cs) = mset cs) \<and> (\<forall>c. fst (isEligible f c) \<longrightarrow> live c)"

lemma pickAll_adds:
  assumes "storesBindings (hub f) ns name L G" and "covered f cs bnd sched us obs D"
    and "\<forall>b\<in>set obs. pairOf b \<in> G" and "defaultFramework lib f" and "distinct (map Name cs)"
  shows "adds L D w (snd (runSchedulingCycleForPickAllPlacementType f
    (NewCycleState cs obs [bnd, sched]) key policy cs bnd sched us obs w))"
  unfolding runSchedulingCycleForPickAllPlacementType_def Let_def
proof (rule adds_lift2, rule adds_lift3, rule adds_then_shrink)
  let ?st = "NewCycleState cs obs [bnd, sched]"
  fix scored filtered cr de pa
  assume r: "runAllPluginsForPickAllPlacementType f ?st policy cs = Inr (scored, filtered)"
    and x: "crossReferencePickedClustersAndDeDupBindings (names f) key policy
              (sort_by ScoredClustersLess scored) us obs = Inr (cr, de, pa)"
  have "selectable f ?st cs scored"
    using assms(4,5) r unfolding defaultFramework_def
    by (intro default_pickAll_selectable[of f lib ?st cs policy scored filtered]) (auto simp: NewCycleState_def)
  then show "adds L D w (snd (manipulateBindings (hub f) (cr, de, pa) w))"
    by (rule picked_manipulation_adds[OF assms(1-3) _ _ x]) simp
qed (intro shrinks_intros status_updates_shrink[OF assms(1)])

lemma pickTopN_subset:
  "pickTopNScoredClusters scs N = Inr (picked, rest) \<Longrightarrow> mset picked \<subseteq># mset scs"
  unfolding pickTopNScoredClusters_def Let_def
  by (auto split: if_splits) (metis mset_sort_by mset_subset_eq_add_left mset_take_drop)

lemma shrinks_lift: "(\<And>x. r = Inr x \<Longrightarrow> shrinks L (k x)) \<Longrightarrow> shrinks L (bindP (liftP r) k)"
  unfolding shrinks_def by (auto simp: bindP_eq split: sum.splits)

lemma downscale_shrinks:
  assumes "storesBindings (hub f) ns name L G" and "\<forall>b\<in>set sched \<union> set bnd. pairOf b \<in> G"
  shows "shrinks L (downscale f sched bnd n)"
proof -
  have sorted: "set srt = set bs" if "sortByClusterScoreAndName bs = Inr srt" for bs srt
    using that by (auto simp: sortByClusterScoreAndName_def split: if_splits)
  have upd: "shrinks L (updateBindings (hub f) bs markUnscheduled)" if "set bs \<subseteq> set sched \<union> set bnd" for bs
    using that assms(2) by (intro updateBindings_shrinks[OF assms(1)]) auto
  have sub: "set (take k srt) \<subseteq> set bs" if "sortByClusterScoreAndName bs = Inr srt" for k bs srt
    using sorted[OF that] set_take_subset[of k srt] by simp
  have cut: "shrinks L (bindP (liftP (sortByClusterScoreAndName sched)) (\<lambda>srt.
             if n < 0 then failP Panic
             else bindP (updateBindings (hub f) (take (nat n) srt) markUnscheduled) (\<lambda>_. returnP (drop (nat n) srt, bnd))))"
    by (rule shrinks_lift, intro shrinks_intros upd) (use sub in blast)
  have cut2: "shrinks L (bindP (liftP (sortByClusterScoreAndName bnd)) (\<lambda>srt.
             bindP (updateBindings (hub f) (sched @ take k srt) markUnscheduled) (\<lambda>_. returnP ([], drop k srt))))" for k
    by (rule shrinks_lift, intro shrinks_intros upd) (use sub in \<open>simp, blast\<close>)
  show ?thesis
    unfolding downscale_def Let_def
    by (intro shrinks_intros(1,2,5) cut cut2; intro shrinks_intros upd; simp)
qed

lemma adds_shrinks: "shrinks L p \<Longrightarrow> adds L D w (snd (p w))"
  unfolding shrinks_def by (simp add: adds_none)

lemma adds_if: "(c \<Longrightarrow> adds L D w (snd (p w))) \<Longrightarrow> (\<not> c \<Longrightarrow> adds L D w (snd (q w))) \<Longrightarrow>
  adds L D w (snd ((if c then p else q) w))"
  by simp

lemma pickN_adds:
  assumes "storesBindings (hub f) ns name L G" and "covered f cs bnd sched us obs D"
    and "\<forall>b\<in>set obs. pairOf b \<in> G" and "defaultFramework lib f" and "distinct (map Name cs)"
    and "\<forall>b\<in>set sched \<union> set bnd. pairOf b \<in> G"
  shows "adds L D w (snd (runSchedulingCycleForPickNPlacementType f
    (NewCycleState cs obs [bnd, sched]) key policy cs bnd sched us obs w))"
  unfolding runSchedulingCycleForPickNPlacementType_def Let_def
proof (rule adds_lift, rule adds_lift2, intro adds_if)
  note status = status_updates_shrink(1)[OF assms(1)]
  let ?st = "NewCycleState cs obs [bnd, sched]"
  fix n :: int and act :: bool and k :: int
  have rest: "shrinks L (case r of (sched', bnd') \<Rightarrow>
       bindP (updatePolicySnapshotStatusFromBindings f policy n [] [] [sched', bnd']) (\<lambda>_. returnP noRequeue))" for r
    by (cases r) (simp, intro shrinks_intros status)
  show "adds L D w (snd (bindP (updateBindings (hub f) obs markUnscheduled) (\<lambda>_.
       bindP (downscale f sched bnd k) (\<lambda>(sched', bnd').
       bindP (updatePolicySnapshotStatusFromBindings f policy n [] [] [sched', bnd']) (\<lambda>_.
       returnP noRequeue))) w))"
    by (intro adds_shrinks shrinks_intros updateBindings_shrinks[OF assms(1,3)]
        downscale_shrinks[OF assms(1,6)] rest) simp
  show "adds L D w (snd (bindP (updatePolicySnapshotStatusFromBindings f policy n [] [] [bnd, sched])
      (\<lambda>_. returnP noRequeue) w))"
    by (intro adds_shrinks shrinks_intros status)
  show "adds L D w (snd (bindP (liftP (runAllPluginsForPickNPlacementType f ?st policy n
                       (int (length bnd + length sched)) cs)) (\<lambda>(st', scored, filtered).
       if calcNumOfClustersToSelect (desiredBatchSize st') (batchSizeLimit st') (int (length scored)) > int (length scored)
       then failP ErrUnexpectedBehavior
       else bindP (liftP (pickTopNScoredClusters scored
              (calcNumOfClustersToSelect (desiredBatchSize st') (batchSizeLimit st') (int (length scored))))) (\<lambda>(picked, notPicked).
            bindP (liftP (crossReferencePickedClustersAndDeDupBindings (names f) key policy
                            picked us obs)) (\<lambda>(toCreate, toDelete, toPatch).
            bindP (manipulateBindings (hub f) (toCreate, toDelete, toPatch)) (\<lambda>_.
            if shouldRequeue (desiredBatchSize st') (batchSizeLimit st') (int (length toCreate + length toPatch))
            then returnP \<lparr>Requeue = True, RequeueAfter = 0\<rparr>
            else bindP (updatePolicySnapshotStatusFromBindings f policy n notPicked filtered
                       [toCreate, map updated toPatch, sched, bnd]) (\<lambda>_. returnP noRequeue))))) w))"
  proof (rule adds_lift3, intro adds_if, rule adds_shrinks, rule shrinks_intros, rule adds_lift2, rule adds_lift3,
      rule adds_then_shrink)
    fix st' scored filtered picked notPicked cr de pa
    assume r: "runAllPluginsForPickNPlacementType f ?st policy n (int (length bnd + length sched)) cs =
        Inr (st', scored, filtered)"
      and p: "pickTopNScoredClusters scored (calcNumOfClustersToSelect (desiredBatchSize st')
          (batchSizeLimit st') (int (length scored))) = Inr (picked, notPicked)"
      and x: "crossReferencePickedClustersAndDeDupBindings (names f) key policy picked us obs = Inr (cr, de, pa)"
    have "selectable f ?st cs scored"
      using assms(4,5) r unfolding defaultFramework_def
      by (intro default_pickN_selectable[of f lib ?st cs policy n]) (auto simp: NewCycleState_def)
    then show "adds L D w (snd (manipulateBindings (hub f) (cr, de, pa) w))"
      by (rule picked_manipulation_adds[OF assms(1-3) _ pickTopN_subset[OF p] x])
  qed (intro shrinks_intros status)
qed

lemma pickFixed_adds:
  assumes "storesBindings (hub f) ns name L G" and "covered f cs bnd sched us obs D"
    and "\<forall>b\<in>set obs. pairOf b \<in> G" and "distinct targets" and "distinct (map Name cs)"
  shows "adds L D w (snd (runSchedulingCycleForPickFixedPlacementType f key policy targets cs bnd sched us obs w))"
proof (cases "crossReferenceClustersWithTargetNames f cs targets")
  case (fields valid invalid notFound)
  let ?m = "build_map Name id cs"
  have "map Name (List.map_filter ?m ts) = filter (\<lambda>n. ?m n \<noteq> None) ts" for ts
    by (induction ts) (auto simp: List.map_filter_simps split: option.split dest!: build_map_SomeD)
  then have "distinct (map Name (List.map_filter ?m targets))" using assms(4) by simp
  then have dist: "distinct (map Name valid)" and valid: "\<forall>c\<in>set valid. c \<in> set cs \<and> fst (isEligible f c)"
    using fields by (auto simp: crossReferenceClustersWithTargetNames_def Let_def distinct_map_filter
        List.map_filter_def build_map_distinct[OF assms(5)] dest!: build_map_SomeD)
  show ?thesis
    unfolding runSchedulingCycleForPickFixedPlacementType_def fields prod.case
  proof (intro adds_if, rule adds_shrinks, rule shrinks_intros, rule adds_lift, rule adds_then_shrink)
    fix m assume x: "crossReferenceValidTargetsWithBindings (names f) key policy valid bnd sched us obs = Inr m"
    obtain cr de pa where m: "m = (cr, de, pa)" by (cases m)
    note spec = crossReferenceValid_spec[OF x[unfolded m]]
    have "target b \<notin> D" if "b \<in> set cr" for b
    proof
      assume D: "target b \<in> D"
      from that have "target b \<in> set (map target cr)" by simp
      then obtain c where "c \<in> set valid" "Name c = target b"
        "target b \<notin> target ` (set bnd \<union> set sched \<union> set us \<union> set obs)" unfolding spec(1) by (auto simp: image_Un)
      with valid assms(2) D show False unfolding covered_def by metis
    qed
    then show "adds L D w (snd (manipulateBindings (hub f) m w))"
      unfolding m
      by (intro manipulateBindings_adds[OF assms(1)])
         (use spec(4) assms(3) in \<open>auto simp: spec(1,5) refreshed_def intro!: distinct_filter dist\<close>)
  qed (intro shrinks_intros status_updates_shrink[OF assms(1)])
qed

text \<open>
  The live bindings of known state are covered by their classes.
\<close>

lemma classes_cover:
  assumes "s = classifyBindings policy bs cs" and "\<forall>b\<in>set bs. knownState b" and "distinct (map Name cs)"
    and "\<forall>c. fst (isEligible f c) \<longrightarrow> live c"
  shows "covered f cs (bound s) (scheduled s) (unscheduled s) (obsolete s) (target ` set (filter live bs))"
proof -
  let ?m = "build_map Name id cs"
  have "target b \<in> target ` (set (bound s) \<union> set (scheduled s) \<union> set (unscheduled s) \<union> set (obsolete s)) \<or>
        (\<forall>c\<in>set cs. Name c = target b \<longrightarrow> \<not> fst (isEligible f c))" if b: "b \<in> set bs" "live b" for b
  proof (cases "bindingClass policy ?m b")
    case None
    with bindingClass_None[OF None] assms(2) b show ?thesis by (auto simp: knownState_def)
  next
    case (Some k)
    then have in_k: "b \<in> set (filter (\<lambda>b. bindingClass policy ?m b = Some k) bs)" using b by simp
    show ?thesis
    proof (cases k)
      case Deleting
      with Some b show ?thesis by (auto simp: bindingClass_def split: if_splits)
    next
      case Dangling
      then have gone: "case ?m (target b) of None \<Rightarrow> True | Some c \<Rightarrow> DeletionTimestamp c \<noteq> None"
        using Some by (auto simp: bindingClass_def split: if_splits)
      have "\<not> fst (isEligible f c)" if "c \<in> set cs" "Name c = target b" for c
        using gone build_map_distinct[OF assms(3) that(1), of id] that(2) assms(4) by auto
      then show ?thesis by blast
    qed (use in_k in \<open>auto simp: assms(1) classifyBindings_def Let_def\<close>)
  qed
  then show ?thesis by (auto simp: covered_def)
qed

definition validTargets :: "PolicySnapshot \<Rightarrow> bool" where
  "validTargets policy \<longleftrightarrow> (case Policy policy of None \<Rightarrow> True | Some p \<Rightarrow> distinct (ClusterNames p))"

text \<open>The cycle from the point where clusters and bindings are listed.\<close>

definition cycleOn ::
  "'w framework \<Rightarrow> string \<Rightarrow> PolicySnapshot \<Rightarrow> MemberCluster list \<Rightarrow> Binding list \<Rightarrow> ('w, Result) prog" where
  "cycleOn f placementKey policy cs bs =
     (let s = classifyBindings policy bs cs in
     bindP (updateBindings (hub f) (deleting s) removeCleanupFinalizer) (\<lambda>_.
     bindP (updateBindings (hub f) (dangling s) markUnscheduled) (\<lambda>_.
     let st = NewCycleState cs (obsolete s) [bound s, scheduled s] in
     case Policy policy of
       None \<Rightarrow>
         runSchedulingCycleForPickAllPlacementType f st placementKey policy cs
           (bound s) (scheduled s) (unscheduled s) (obsolete s)
     | Some p \<Rightarrow>
         (case Type p of
            PickFixedPlacementType \<Rightarrow>
              runSchedulingCycleForPickFixedPlacementType f placementKey policy (ClusterNames p) cs
                (bound s) (scheduled s) (unscheduled s) (obsolete s)
          | PickAllPlacementType \<Rightarrow>
              runSchedulingCycleForPickAllPlacementType f st placementKey policy cs
                (bound s) (scheduled s) (unscheduled s) (obsolete s)
          | PickNPlacementType \<Rightarrow>
              runSchedulingCycleForPickNPlacementType f st placementKey policy cs
                (bound s) (scheduled s) (unscheduled s) (obsolete s)
          | OtherPlacementType _ \<Rightarrow>
              (case NewUnexpectedBehaviorError None of
                 None \<Rightarrow> returnP noRequeue | Some e \<Rightarrow> failP e)))))"

lemma RunSchedulingCycleFor_cycleOn:
  "RunSchedulingCycleFor f key policy =
     bindP (liftP (ExtractNamespaceNameFromKeyStr key)) (\<lambda>(ns, name).
     bindP (collectClusters f) (\<lambda>cs.
     bindP (ListBindingsFromKey (hub f) ns name False) (cycleOn f key policy cs)))"
  unfolding RunSchedulingCycleFor_def cycleOn_def ..

lemma cycleOn_adds:
  assumes "storesBindings (hub f) ns name L G" and "defaultFramework lib f" and "validTargets policy"
    and "distinct (map Name cs)" and "\<forall>b\<in>set bs. knownState b" and "pairOf ` set bs \<subseteq> G"
  shows "adds L (target ` set (filter live bs)) w (snd (cycleOn f key policy cs bs w))"
proof -
  let ?s = "classifyBindings policy bs cs"
  have stored: "\<forall>b\<in>A. pairOf b \<in> G" if "A \<subseteq> set bs" for A using that assms(6) by blast
  note parts = classifyBindings_sets(8)[OF refl, of policy bs cs]
  have G: "\<forall>b\<in>set (deleting ?s). pairOf b \<in> G" "\<forall>b\<in>set (dangling ?s). pairOf b \<in> G"
    "\<forall>b\<in>set (obsolete ?s). pairOf b \<in> G" "\<forall>b\<in>set (scheduled ?s) \<union> set (bound ?s). pairOf b \<in> G"
    by (rule stored, use parts in blast)+
  have cov: "covered f cs (bound ?s) (scheduled ?s) (unscheduled ?s) (obsolete ?s) (target ` set (filter live bs))"
    using assms(2) by (intro classes_cover[OF refl assms(5,4)]) (simp add: defaultFramework_def)
  note upd = updateBindings_shrinks[OF assms(1) G(1) pairOf_update(2), unfolded shrinks_def, rule_format]
    updateBindings_shrinks[OF assms(1) G(2) pairOf_update(1), unfolded shrinks_def, rule_format]
  note cycles = pickAll_adds[OF assms(1) cov G(3) assms(2,4)] pickN_adds[OF assms(1) cov G(3) assms(2,4) G(4)]
    pickFixed_adds[OF assms(1) cov G(3) _ assms(4)]
  show ?thesis
    unfolding cycleOn_def Let_def
    by (intro adds_bind_shrink upd)
       (use assms(3) cycles in \<open>auto simp: validTargets_def adds_none NewUnexpectedBehaviorError_def
          split: option.split PlacementType.split\<close>)
qed

text \<open>The lists hold clusters with different names and bindings in one of the API's states.\<close>

definition listsKnown :: "'w framework \<Rightarrow> string \<Rightarrow> string \<Rightarrow> bool" where
  "listsKnown f ns name \<longleftrightarrow>
     (\<forall>w cs w'. hubListClusters (hub f) w = (Inr cs, w') \<longrightarrow> distinct (map Name cs)) \<and>
     (\<forall>w bs w'. hubListBindings (hub f) ns name w = (Inr bs, w') \<longrightarrow> (\<forall>b\<in>set bs. knownState b))"

text \<open>
  After a cycle the live bindings are among those of a world \<open>w1\<close> that has no others than the
  initial one, and new ones for different targets that have none there.
\<close>

lemma RunSchedulingCycleFor_adds:
  assumes "storesBindings (hub f) ns name L G" and "defaultFramework lib f" and "validTargets policy"
    and "ExtractNamespaceNameFromKeyStr key = Inr (ns, name)"
    and "listsKnown f ns name"
  shows "\<exists>w1. L w1 \<subseteq> L w \<and> adds L (snd ` L w1) w1 (snd (RunSchedulingCycleFor f key policy w))"
proof -
  note laws = storesBindings_laws[OF assms(1)]
  obtain r1 w1 where c: "hubListClusters (hub f) w = (r1, w1)" by fastforce
  obtain r2 w2 where l: "hubListBindings (hub f) ns name w1 = (r2, w2)" by fastforce
  have sub: "L w1 \<subseteq> L w" "L w2 \<subseteq> L w" using laws(1)[of w] laws(2)[of w1] c l by auto
  note run = RunSchedulingCycleFor_cycleOn[of f key policy] assms(4) bindP_eq collectClusters_def
    ListBindingsFromKey_def wrapP_def c l
  show ?thesis
  proof (cases "\<exists>cs bs. r1 = Inr cs \<and> r2 = Inr bs")
    case False
    then have "snd (RunSchedulingCycleFor f key policy w) \<in> {w1, w2}"
      by (cases r1; cases r2) (auto simp: run)
    with sub show ?thesis by (auto intro: adds_none)
  next
    case True
    then obtain cs bs where r: "r1 = Inr cs" "r2 = Inr bs" by blast
    let ?bs = "sort_by bindingNameLess bs"
    have listed: "pairOf ` set (filter live bs) = L w2" "pairOf ` set ?bs \<subseteq> G"
      using laws(3)[of w1 bs w2] l r by auto
    have "adds L (target ` set (filter live ?bs)) w2 (snd (cycleOn f key policy cs ?bs w2))"
      using assms(5) c l r unfolding listsKnown_def
      by (intro cycleOn_adds[OF assms(1-3) _ _ listed(2)]) (auto, metis)
    moreover have "target ` set (filter live ?bs) = snd ` L w2"
      unfolding listed(1)[symmetric] by (simp add: image_image)
    moreover have "RunSchedulingCycleFor f key policy w = cycleOn f key policy cs ?bs w2"
      by (simp add: run r)
    ultimately show ?thesis using sub(2) by auto
  qed
qed

lemma RunSchedulingCycleFor_distinct:
  assumes "storesBindings (hub f) ns name L G" and "defaultFramework lib f" and "validTargets policy"
    and "ExtractNamespaceNameFromKeyStr key = Inr (ns, name)"
    and "listsKnown f ns name"
    and inj: "inj_on snd (L w)"
  shows "inj_on snd (L (snd (RunSchedulingCycleFor f key policy w)))"
proof -
  from RunSchedulingCycleFor_adds[OF assms(1-5)] obtain w1 cr where
    w1: "L w1 \<subseteq> L w" and cr: "distinct (map target cr)" "target ` set cr \<inter> snd ` L w1 = {}"
    "L (snd (RunSchedulingCycleFor f key policy w)) \<subseteq> L w1 \<union> pairOf ` set cr"
    unfolding adds_def by blast
  have "inj_on snd (pairOf ` set cr)" using cr(1) by (auto simp: inj_on_def distinct_map)
  moreover have "inj_on snd (L w1)" using inj w1 by (rule inj_on_subset)
  ultimately have "inj_on snd (L w1 \<union> pairOf ` set cr)"
    using cr(2) unfolding inj_on_Un by (auto simp: image_image disjoint_iff) (metis snd_conv imageI)
  then show ?thesis using cr(3) by (rule inj_on_subset)
qed

section \<open>An example store\<close>

text \<open>
  A hub whose world is a list of bindings, of which the first of each name counts: updates and
  patches are accepted without effect, and a creation adds the binding unless its name exists.
\<close>

fun firstByName :: "Binding list \<Rightarrow> Binding list" where
  "firstByName [] = []"
| "firstByName (b # bs) = b # filter (\<lambda>x. Name x \<noteq> Name b) (firstByName bs)"

definition exampleStored :: "Binding list \<Rightarrow> Binding list" where
  "exampleStored w = filter knownState (firstByName w)"

definition exampleStore :: "MemberCluster list \<Rightarrow> Binding list hub" where
  "exampleStore cs = exampleHub
     \<lparr>hubListClusters := \<lambda>w. (Inr cs, w), hubListBindings := \<lambda>_ _ w. (Inr (exampleStored w), w),
      hubCreateBinding := \<lambda>b w. if Name b \<in> Name ` set w then (Inl (ErrAPI AlreadyExists), w) else (Inr (), b # w)\<rparr>"

definition exampleLive :: "Binding list \<Rightarrow> (string \<times> string) set" where
  "exampleLive w = pairOf ` set (filter live (exampleStored w))"

lemma firstByName_distinct: "distinct (map Name (firstByName bs))"
  by (induction bs) (auto simp: distinct_map_filter)

lemma exampleStore_stores: "storesBindings (exampleStore cs) ns name exampleLive UNIV"
  unfolding storesBindings_def
  by (auto simp: exampleStore_def exampleHub_def exampleLive_def exampleStored_def distinct_map_filter
      firstByName_distinct)

end
