(* ===== verification/Spec2Isabelle.thy ===== *)
theory Spec2Isabelle
  imports Updaterun_Props Selection_Props Policy_Rotation Plugins_Basic Plugin_Affinity Plugin_Topology Framework_Decisions Framework_Props Rollout_Props Eviction Scheduler Default_Profile
begin

text \<open>
  KubeFleet places Kubernetes resources from a hub cluster on member clusters. A placement names
  resources by selectors and clusters by a policy. On the hub, the resource selection resolves
  the selectors to objects, the placement controller keeps a scheduling policy snapshot per
  placement, the scheduler takes placements from a queue and turns the active snapshot into one
  binding per chosen cluster, and the rollout controller, or a staged update run, moves the
  bindings to the latest resource snapshot. Evictions remove single bindings within a disruption
  budget. This development models these parts and proves what makes each of them correct. Paths
  below are relative to src/.

  \<^bold>\<open>How the code is modelled.\<close> A Go struct is a record and an enumeration a datatype; a pointer is
  an option, and reading through nil or out of range is the error \<open>Panic\<close>. A fallible function
  returns \<open>go_error + 'a\<close>, of an error only the category is kept that callers can test. A
  function that calls the API server is a program on an opaque world (\<open>Hub\<close>): the calls are
  fields of a record and may fail or interleave with other clients in any way. Functions of
  client-go, controller-runtime and apimachinery are fields as well; a property that relies on
  their documented behaviour has it as a named hypothesis, and its witness shows a concrete
  instance. Go's map iteration order and the completion order of parallel workers are arguments.

  \<^bold>\<open>Shared theories.\<close> \<open>Prelude\<close> has the Go-level helpers and the locale \<open>strict_order\<close>, through which
  all sorting is treated: a sorted permutation is unique where the comparison separates the
  elements, so the sorting algorithm does not matter. It is interpreted for every comparison of
  the code. \<open>Api_Types\<close> and \<open>Placement_Types\<close> hold the API objects (apis/placement/v1beta1,
  apis/cluster/v1beta1), the error constructors (pkg/utils/controller/controller.go) and the
  defaults (pkg/utils/defaulter), which are shown idempotent and complete. \<open>Hub\<close> has the programs,
  retries and error groups. \<open>Example_Objects\<close> has the objects of the witnesses.

  \<^bold>\<open>Scheduling framework\<close> (pkg/scheduler/framework). \<open>Framework_Base\<close>: statuses, scores, cycle state
  and the contracts of the extension points as the locales \<open>filter_contract\<close>, \<open>score_contract\<close> and
  \<open>pre_contract\<close>. \<open>Framework_Utils\<close>: classification of bindings, cross-referencing, decisions, binding
  names and placement keys. \<open>Framework\<close>: running the plugins, writing bindings, and the cycles for
  the three placement types. \<open>Framework_Decisions\<close> and \<open>Framework_Props\<close>: the classes partition the
  bindings, every picked cluster is referenced exactly once, the top-N selection and the downscale
  take the right clusters, the Filter stage is exact, and a PickN cycle does not depend on the
  order in which the workers finish. \<open>Plugins_Basic\<close>, \<open>Plugin_Affinity\<close> and \<open>Plugin_Topology\<close> model
  the plugins and interpret the contracts for each; affinity scores stay in range under float64
  rounding, and the constant-time skew prediction equals the recomputed skew. \<open>Default_Profile\<close>
  composes the plugins as pkg/scheduler/profile does.

  \<^bold>\<open>Scheduler and queue.\<close> \<open>Queue\<close> (pkg/scheduler/queue): the simple and the batched queue over a
  work queue, with the locales \<open>work_queue\<close> and \<open>placement_queue\<close> as interfaces; no key is lost by a
  move. The loop of a move pops at most one key more than the constant 20000 of the code, and the
  recursion of the model has that bound. \<open>Scheduler\<close> (pkg/scheduler/scheduler.go): a worker
  iteration; a deleted placement is released last and a requeued one waits again. The theorem of
  this theory spans scheduler and rollout: a cycle never creates a second live binding for a
  cluster, which the rollout controller relies on.

  \<^bold>\<open>Eligibility and selection.\<close> \<open>Eligibility\<close> (pkg/utils/resourceeligibility and the part of
  cmd/hubagent/workload/setup.go that composes the checkers): trie, parser and checkers; the
  composed checkers allow exactly what neither the built-in lists nor the administrator deny, and
  a printed list is read back. \<open>Selection\<close> and \<open>Selection_Props\<close>
  (pkg/utils/controller/resource_selector_resolver.go, pkg/utils/informer/informermanager.go): the
  selected objects are placeable and distinct, and the selection does not depend on enumeration
  order.

  \<^bold>\<open>Snapshots and overrides.\<close> \<open>Policy_Snapshots\<close> and \<open>Policy_Rotation\<close>
  (pkg/utils/controller/policy_snapshot_resolver.go, pkg/controllers/placement/controller.go): the
  rotation keeps the latest snapshot active and the history within its limit. \<open>Overrider\<close>
  (pkg/utils/overrider and the lookups of pkg/utils/controller/resource_snapshot_resolver.go): which
  overrides apply, independent of the listing order.

  \<^bold>\<open>Rollout, update runs and evictions.\<close> \<open>Binding_Status\<close>, \<open>Rollout\<close> and \<open>Rollout_Props\<close>
  (pkg/controllers/rollout, pkg/utils/binding): a round keeps the promised number of available
  bindings and the surge limit, accounts for every binding, and repeated rounds complete.
  \<open>Updaterun_Types\<close>, \<open>Updaterun_Execution\<close>, \<open>Updaterun_Init\<close> and \<open>Updaterun_Controller\<close>
  (pkg/controllers/updaterun) model staged update runs, \<open>Updaterun_Spec\<close> is the abstract
  specification, \<open>Updaterun_Refines\<close> and \<open>Updaterun_Reconcile\<close> prove that every reconciliation follows
  it, and \<open>Updaterun_Props\<close> states the refinement and what it means for histories of a run.
  \<open>Eviction\<close> (pkg/controllers/clusterresourceplacementeviction, pkg/utils/eviction): an allowed
  eviction keeps the disruption budget and an eviction is decided once.

  \<^bold>\<open>Bounds.\<close> Scores are 32-bit integers with wrap-around written out, quantities are rationals with
  the float64 rounding as a parameter, times and durations are integers and do not overflow.
  Retries take the number of attempts (\<open>retrySteps\<close>) from the client record and stop by structural
  recursion; the properties hold for every number, unless they state a bound. All other loops
  recurse over the list the code ranges over. Strings are lists of ASCII characters.

  \<^bold>\<open>Not modelled.\<close> The worker goroutines, leader election, metrics, events and logs around the
  controllers; the stripping and serialization of selected objects (\<open>generateRawContent\<close>), which
  rewrites untyped JSON through library calls and is a parameter; the creation of resource
  snapshots; the status aggregation of the placement controller; the work generator and the work
  applier, whose core is JSON patching and server-side apply through dynamic clients; the
  controllers of overrides, member clusters and cluster profiles; the event handlers that only
  enqueue keys; the webhooks and validators; the property providers and token refreshers, which
  are I/O; and the v1 API (pkg/v1), a second implementation beside the one modelled here.
\<close>

section \<open>The scheduler and the rollout controller\<close>

text \<open>
  C6: With the default profile a scheduling cycle for any policy, whatever the API calls return,
  keeps the targets of the live bindings of the placement distinct. So the rollout controller,
  which takes two live bindings for one cluster for a failure of the scheduler, never meets them.
\<close>

theorem scheduling_keeps_targets_distinct:
  assumes "storesBindings (hub f) ns name L G" and "defaultFramework lib f" and "validTargets policy"
    and "ExtractNamespaceNameFromKeyStr key = Inr (ns, name)" and "listsKnown f ns name"
    and "inj_on snd (L w)"
    and "hubListBindings (hub f) ns name (snd (RunSchedulingCycleFor f key policy w)) = (Inr bs, w')"
  shows "distinct (map target (filter live bs)) \<and>
    separateDeleting bs {} [] =
      Inr (target ` set (filter (\<lambda>b. \<not> live b) bs), map (\<lambda>b. (target b, b)) (filter live bs))"
proof -
  let ?w = "snd (RunSchedulingCycleFor f key policy w)"
  have "L w' \<subseteq> L ?w" using storesBindings_laws(2)[OF assms(1), of ?w] assms(7) by simp
  then have inj: "inj_on snd (L w')"
    using RunSchedulingCycleFor_distinct[OF assms(1-6)] by (rule inj_on_subset[rotated])
  have listed: "pairOf ` set (filter live bs) = L w'" "distinct (map Name bs)"
    using storesBindings_laws(3)[OF assms(1,7)] by simp_all
  have "distinct (map Name (filter live bs))" using listed(2) by (rule distinct_map_filter)
  then have "distinct (map pairOf (filter live bs))" by (auto simp: distinct_map inj_on_def)
  then have "distinct (map snd (map pairOf (filter live bs)))"
    unfolding distinct_map[of snd] using inj listed(1) by (simp only: list.set_map)
  then have "distinct (map target (filter live bs))" by (simp add: o_def)
  then show ?thesis using separateDeleting_eq[of "[]" bs "{}"] by simp
qed

definition exampleScheduling :: "Binding list framework" where
  "exampleScheduling =
     (let el = (\<lambda>c. (live c, ''''))
      in (exampleFramework (exampleStore [exampleCluster ''a'', exampleCluster ''b''])
            (NewDefaultProfile exampleLib el))\<lparr>isEligible := el\<rparr>)"

definition exampleScheduled :: "Binding list" where
  "exampleScheduled = exampleStored (snd (RunSchedulingCycleFor exampleScheduling ''crp'' (examplePolicy None)
     [exampleBinding ''crp-a'' ''a'' BindingStateBound ''p-1'']))"

theorem scheduling_keeps_targets_distinct_witness:
  "map target exampleScheduled = [''b'', ''a''] \<and> distinct (map target (filter live exampleScheduled))"
proof -
  have "distinct (map target (filter live exampleScheduled)) \<and>
    separateDeleting exampleScheduled {} [] =
      Inr (target ` set (filter (\<lambda>b. \<not> live b) exampleScheduled),
           map (\<lambda>b. (target b, b)) (filter live exampleScheduled))"
  proof (rule scheduling_keeps_targets_distinct)
    show "storesBindings (hub exampleScheduling) '''' ''crp'' exampleLive UNIV"
      by (simp add: exampleScheduling_def Let_def exampleFramework_def exampleStore_stores)
    show "defaultFramework exampleLib exampleScheduling"
      by (simp add: defaultFramework_def exampleScheduling_def Let_def exampleFramework_def)
    show "validTargets (examplePolicy None)" by (simp add: validTargets_def examplePolicy_def)
    show "ExtractNamespaceNameFromKeyStr ''crp'' = Inr ('''', ''crp'')"
      by (simp add: ExtractNamespaceNameFromKeyStr_def)
    show "listsKnown exampleScheduling '''' ''crp''"
      by (simp add: listsKnown_def exampleScheduling_def Let_def exampleFramework_def exampleStore_def
          exampleStored_def exampleCluster_def)
    show "inj_on snd (exampleLive [exampleBinding ''crp-a'' ''a'' BindingStateBound ''p-1''])"
      by (simp add: exampleLive_def exampleStored_def knownState_def exampleBinding_def)
    show "hubListBindings (hub exampleScheduling) '''' ''crp'' (snd (RunSchedulingCycleFor exampleScheduling
        ''crp'' (examplePolicy None) [exampleBinding ''crp-a'' ''a'' BindingStateBound ''p-1''])) =
        (Inr exampleScheduled, snd (RunSchedulingCycleFor exampleScheduling
        ''crp'' (examplePolicy None) [exampleBinding ''crp-a'' ''a'' BindingStateBound ''p-1'']))"
      by (simp add: exampleScheduling_def Let_def exampleFramework_def exampleStore_def exampleScheduled_def)
  qed
  moreover have "map target exampleScheduled = [''b'', ''a'']" by code_simp
  ultimately show ?thesis by simp
qed

end
